(* ===== verification/Prelude.thy ===== *)
theory Prelude
  imports Main "HOL-Library.Word" "HOL-Library.Multiset"
begin

text \<open>
  The prelude of the development: the names of the machine integers of the Rust
  sources, the failure values shared by the components, the sequencing of fallible
  results, and the generic lemmas on lists and words that several components use.

  \<^item> Rust's \<open>u8\<close>, \<open>u16\<close>, \<open>u32\<close>, \<open>i32\<close> are words of their width; \<open>usize\<close> lengths of
    vectors and strings are \<open>nat\<close>.
  \<^item> A Rust \<open>String\<close> is the list of its UTF-8 bytes, an Isabelle \<open>string\<close> (a list of
    8-bit characters): its length is \<open>String::len\<close>, its bytes are \<open>String::as_bytes\<close>.
  \<^item> A panic (a failed \<open>assert!\<close>, an \<open>unwrap\<close> or \<open>expect\<close> on \<open>None\<close>, an \<open>unreachable!\<close>
    or \<open>unimplemented!\<close>) is the value \<open>Inl (Panic _)\<close> of a sum, never an unspecified value.
  \<^item> \<open>Out_of_fuel\<close> is no failure of the program: a recursion that is bounded by fuel returns
    it when the fuel ends, and a theorem of the component says how much fuel is enough.
\<close>

section \<open>Types shared by the components\<close>

type_synonym u8 = "8 word"
type_synonym u16 = "16 word"
type_synonym u32 = "32 word"
type_synonym i32 = "32 word"
type_synonym bytes = "u8 list"

datatype fault = Panic string | Io_error string | Out_of_fuel

type_synonym 'a res = "fault + 'a"

section \<open>Theorem collections\<close>

named_theorems out_simps \<open>what a serialization action writes\<close>
named_theorems ser_intros \<open>actions that only append to the buffer\<close>

section \<open>Results\<close>

definition res_bind :: "'e + 'a \<Rightarrow> ('a \<Rightarrow> 'e + 'b) \<Rightarrow> 'e + 'b" where
  "res_bind r f = (case r of Inl e \<Rightarrow> Inl e | Inr x \<Rightarrow> f x)"

lemma res_bind_simps [simp]:
  "res_bind (Inl e) f = Inl e"
  "res_bind (Inr x) f = f x"
  by (simp_all add: res_bind_def)

lemma res_bind_Inr_iff:
  "res_bind r f = Inr y \<longleftrightarrow> (\<exists>x. r = Inr x \<and> f x = Inr y)"
  by (cases r) auto

lemma res_bind_assoc:
  "res_bind (res_bind r f) g = res_bind r (\<lambda>x. res_bind (f x) g)"
  by (cases r) auto

fun res_map :: "('a \<Rightarrow> 'e + 'b) \<Rightarrow> 'a list \<Rightarrow> 'e + 'b list" where
  "res_map f [] = Inr []"
| "res_map f (x # xs) = res_bind (f x) (\<lambda>y. res_bind (res_map f xs) (\<lambda>ys. Inr (y # ys)))"

lemma res_map_Inr_length: "res_map f xs = Inr ys \<Longrightarrow> length ys = length xs"
  by (induction xs arbitrary: ys) (auto simp: res_bind_Inr_iff)

section \<open>Lists\<close>

lemma append_eq_same_length:
  "length xs = length ys \<Longrightarrow> xs @ us = ys @ vs \<longleftrightarrow> xs = ys \<and> us = vs"
  by simp

text \<open>
  A list sorted by a key that is injective on its elements is determined by its
  elements: sorting two permutations gives the same list.
\<close>

lemma sort_key_determined:
  assumes "mset xs = mset ys" and "inj_on f (set xs)"
  shows "sort_key f xs = sort_key f ys"
proof (rule properties_for_sort_key)
  show "mset (sort_key f ys) = mset xs"
    using assms(1) by simp
  show "sorted (map f (sort_key f ys))"
    by simp
  fix k assume "k \<in> set (sort_key f ys)"
  have same: "set xs = set ys"
    using assms(1) by (metis set_mset_mset)
  with \<open>k \<in> set (sort_key f ys)\<close> have k: "k \<in> set xs"
    by simp
  have *: "filter (\<lambda>x. f k = f x) zs = filter (\<lambda>x. k = x) zs" if "set zs \<subseteq> set xs" for zs
    using that assms(2) k by (auto intro!: filter_cong dest: inj_onD)
  have filt: "filter (\<lambda>x. k = x) zs = replicate (count (mset zs) k) k" for zs
    by (induction zs) auto
  from same have "set (sort_key f ys) \<subseteq> set xs"
    by simp
  then show "filter (\<lambda>x. f k = f x) (sort_key f ys) = filter (\<lambda>x. f k = f x) xs"
    using assms(1) by (simp add: * filt)
qed

end
