(* ===== verification/Ser.thy ===== *)
theory Ser
  imports Prelude
begin

text \<open>
  The raw serializer, \<open>stainless_data/src/ser.rs\<close>: marker ids, the operations of the
  trait \<open>Serializer\<close> and its implementation \<open>BufferSerializer\<close>, whose state is the
  vector of the bytes written so far. An operation is an \<open>action\<close>: it takes the
  serializer and returns the updated one, or the failure (\<open>assert!\<close> in
  \<open>write_marker\<close> and \<open>write_length\<close>). \<open>Vec<u8>\<close> as a writer accepts every write, so
  \<open>write_bytes\<close> (\<open>Serializer::write\<close>) itself does not fail.

  The second half is the theory of actions that the rest of the serializer shares:
  \<open>out\<close> (the bytes an action writes), \<open>appending\<close> (the buffer is only extended, by bytes
  that do not depend on it) and \<open>sepa\<close> (the bytes written by two actions tell the two
  apart, whatever follows them), with the interface \<open>serializable\<close>.
\<close>

section \<open>Marker ids and primitive ids\<close>

datatype MarkerId = MarkerId (marker_id: u32)

definition marker_ids_PRODUCT :: MarkerId where "marker_ids_PRODUCT = MarkerId 0"
definition marker_ids_OPTION :: MarkerId where "marker_ids_OPTION = MarkerId 1"
definition marker_ids_SEQ :: MarkerId where "marker_ids_SEQ = MarkerId 2"
definition marker_ids_SET :: MarkerId where "marker_ids_SET = MarkerId 3"
definition marker_ids_MAP :: MarkerId where "marker_ids_MAP = MarkerId 4"
definition marker_ids_PRIMITIVE :: MarkerId where "marker_ids_PRIMITIVE = MarkerId 5"
definition marker_ids_TUPLE :: MarkerId where "marker_ids_TUPLE = MarkerId 6"
definition marker_ids_SERIALIZATION_BUFFER :: MarkerId where
  "marker_ids_SERIALIZATION_BUFFER = MarkerId 7"

lemmas marker_ids_defs =
  marker_ids_PRODUCT_def marker_ids_OPTION_def marker_ids_SEQ_def marker_ids_SET_def
  marker_ids_MAP_def marker_ids_PRIMITIVE_def marker_ids_TUPLE_def
  marker_ids_SERIALIZATION_BUFFER_def

definition primitive_ids_BOOLEAN :: u8 where "primitive_ids_BOOLEAN = 0"
definition primitive_ids_CHAR :: u8 where "primitive_ids_CHAR = 1"
definition primitive_ids_INTEGER :: u8 where "primitive_ids_INTEGER = 4"
definition primitive_ids_STRING :: u8 where "primitive_ids_STRING = 8"
definition primitive_ids_BIGINT :: u8 where "primitive_ids_BIGINT = 9"

lemmas primitive_ids_defs =
  primitive_ids_BOOLEAN_def primitive_ids_CHAR_def primitive_ids_INTEGER_def
  primitive_ids_STRING_def primitive_ids_BIGINT_def

section \<open>The buffer serializer and its raw operations\<close>

record BufferSerializer =
  buffer :: bytes

type_synonym action = "BufferSerializer \<Rightarrow> BufferSerializer res"

definition BufferSerializer_new :: BufferSerializer where
  "BufferSerializer_new = \<lparr>buffer = []\<rparr>"

definition as_slice :: "BufferSerializer \<Rightarrow> bytes" where
  "as_slice s = buffer s"

datatype SerializationBuffer = SerializationBuffer (buffer_bytes: bytes)

definition to_buffer :: "BufferSerializer \<Rightarrow> SerializationBuffer" where
  "to_buffer s = SerializationBuffer (buffer s)"

text \<open>
  Statements that end in the question-mark operator, one after the other: the first
  failure ends the sequence.
\<close>

definition then_do :: "action \<Rightarrow> action \<Rightarrow> action" where
  "then_do a b = (\<lambda>s. res_bind (a s) b)"

fun ser_do :: "action list \<Rightarrow> action" where
  "ser_do [] = Inr"
| "ser_do (a # as) = then_do a (ser_do as)"

definition write_bytes :: "bytes \<Rightarrow> action" where
  "write_bytes data s = Inr (s\<lparr>buffer := buffer s @ data\<rparr>)"

text \<open>\<open>to_be_bytes\<close> of the integer types: the bytes of the word, most significant first.\<close>

definition to_be_bytes :: "'a::len word \<Rightarrow> bytes" where
  "to_be_bytes w = map (\<lambda>i. ucast (drop_bit (8 * i) w)) (rev [0..<LENGTH('a) div 8])"

definition write_u8 :: "u8 \<Rightarrow> action" where
  "write_u8 v = write_bytes (to_be_bytes v)"

definition write_u16 :: "u16 \<Rightarrow> action" where
  "write_u16 v = write_bytes (to_be_bytes v)"

definition write_u32 :: "u32 \<Rightarrow> action" where
  "write_u32 v = write_bytes (to_be_bytes v)"

definition write_i32 :: "i32 \<Rightarrow> action" where
  "write_i32 v = write_bytes (to_be_bytes v)"

definition write_i8 :: "8 word \<Rightarrow> action" where
  "write_i8 v = write_bytes (to_be_bytes v)"

definition write_i16 :: "16 word \<Rightarrow> action" where
  "write_i16 v = write_bytes (to_be_bytes v)"

definition write_u64 :: "64 word \<Rightarrow> action" where
  "write_u64 v = write_bytes (to_be_bytes v)"

definition write_i64 :: "64 word \<Rightarrow> action" where
  "write_i64 v = write_bytes (to_be_bytes v)"

definition write_bool :: "bool \<Rightarrow> action" where
  "write_bool v = write_bytes [if v then 1 else 0]"

definition write_marker :: "MarkerId \<Rightarrow> action" where
  "write_marker marker =
     (let id = marker_id marker in
      if id < 255 then write_u8 (ucast id)
      else (\<lambda>_. Inl (Panic ''assertion failed: id < 255'')))"

text \<open>
  \<open>types::Int::serialize\<close> (\<open>ser/serializable.rs\<close>) comes before \<open>write_length\<close>, which
  calls it for lengths from 255 on.
\<close>

definition ser_Int :: "i32 \<Rightarrow> action" where
  "ser_Int v = ser_do [write_marker marker_ids_PRIMITIVE, write_u8 primitive_ids_INTEGER,
     write_i32 v]"

definition write_length :: "nat \<Rightarrow> action" where
  "write_length len =
     (if len \<le> 2147483647 then
        (if len < 255 then write_u8 (of_nat len)
         else ser_do [write_u8 255, ser_Int (of_nat len)])
      else (\<lambda>_. Inl (Panic ''assertion failed: len <= (std::i32::MAX as usize)'')))"

section \<open>What an action writes\<close>

definition out :: "action \<Rightarrow> bytes option" where
  "out a = (case a BufferSerializer_new of Inl _ \<Rightarrow> None | Inr s \<Rightarrow> Some (as_slice s))"

fun extend :: "fault + bytes \<Rightarrow> action" where
  "extend (Inl e) s = Inl e"
| "extend (Inr p) s = Inr (s\<lparr>buffer := buffer s @ p\<rparr>)"

definition appending :: "action \<Rightarrow> bool" where
  "appending a \<longleftrightarrow> (\<exists>r. a = extend r)"

lemma extend_Inr: "extend (Inr p) = write_bytes p"
  by (simp add: write_bytes_def fun_eq_iff)

lemma extend_Inl: "extend (Inl e) = (\<lambda>_. Inl e)"
  by (simp add: fun_eq_iff)

lemma then_do_extend:
  "then_do (extend r) (extend q) =
     extend (res_bind r (\<lambda>p. res_bind q (\<lambda>p'. Inr (p @ p'))))"
  by (cases r; cases q) (auto simp: then_do_def fun_eq_iff)

lemma appending_write [ser_intros]: "appending (write_bytes d)"
  unfolding appending_def by (metis extend_Inr)

lemma appending_fail [ser_intros]: "appending (\<lambda>_. Inl e)"
  unfolding appending_def by (rule exI [of _ "Inl e"]) (simp add: extend_Inl)

lemma appending_Inr [ser_intros]: "appending Inr"
proof -
  have "Inr = extend (Inr [])"
    by (simp add: fun_eq_iff)
  then show ?thesis
    unfolding appending_def by blast
qed

lemma appending_then [ser_intros]:
  "appending a \<Longrightarrow> appending b \<Longrightarrow> appending (then_do a b)"
  unfolding appending_def by (metis then_do_extend)

lemma appending_do [ser_intros]: "(\<And>a. a \<in> set as \<Longrightarrow> appending a) \<Longrightarrow> appending (ser_do as)"
  by (induction as) (auto intro: ser_intros)

lemma out_extend:
  "out (extend r) = (case r of Inl e \<Rightarrow> None | Inr p \<Rightarrow> Some p)"
  by (cases r) (simp_all add: out_def BufferSerializer_new_def as_slice_def)

lemma out_write [out_simps]: "out (write_bytes d) = Some d"
  by (simp add: out_extend flip: extend_Inr)

lemma out_Inr [out_simps]: "out Inr = Some []"
  by (simp add: out_def as_slice_def BufferSerializer_new_def)

lemma out_fail [out_simps]: "out (\<lambda>_. Inl e) = None"
  by (simp add: out_def)

lemma out_then:
  assumes "appending a" and "appending b"
  shows "out (then_do a b) =
    (case out a of None \<Rightarrow> None | Some p \<Rightarrow> map_option (\<lambda>q. p @ q) (out b))"
proof -
  from assms obtain r q where "a = extend r" and "b = extend q"
    by (auto simp: appending_def)
  then show ?thesis
    by (cases r; cases q) (simp_all add: then_do_extend out_extend)
qed

lemma out_then_Some:
  assumes "appending a" and "appending b"
  shows "out (then_do a b) = Some r \<longleftrightarrow>
    (\<exists>p q. out a = Some p \<and> out b = Some q \<and> r = p @ q)"
  using assms by (auto simp: out_then split: option.splits)

text \<open>On any serializer, a successful action leaves what was written before in place.\<close>

lemma appending_extends:
  assumes "appending a"
  shows "a s = Inr t \<longleftrightarrow> (\<exists>p. out a = Some p \<and> t = s\<lparr>buffer := buffer s @ p\<rparr>)"
proof -
  from assms obtain r where "a = extend r"
    by (auto simp: appending_def)
  then show ?thesis
    by (cases r) (auto simp: out_extend)
qed

lemma appending_new:
  "appending a \<Longrightarrow> out a = Some p \<Longrightarrow> a BufferSerializer_new = Inr \<lparr>buffer = p\<rparr>"
  by (auto simp: appending_extends BufferSerializer_new_def)

section \<open>Bytes of words\<close>

fun be_value :: "bytes \<Rightarrow> nat" where
  "be_value [] = 0"
| "be_value (b # bs) = unat b * 256 ^ length bs + be_value bs"

lemma be_value_digits:
  "be_value (map (\<lambda>i. of_nat (x div 256 ^ i)) (rev [0..<n])) = x mod 256 ^ n"
proof (induction n)
  case 0
  then show ?case by simp
next
  case (Suc n)
  have "x mod (256 ^ n * 256) = 256 ^ n * (x div 256 ^ n mod 256) + x mod 256 ^ n"
    by (rule mod_mult2_eq)
  then have "x mod 256 ^ Suc n = (x div 256 ^ n mod 256) * 256 ^ n + x mod 256 ^ n"
    by (simp add: mult.commute)
  with Suc show ?case
    by (simp add: unat_of_nat)
qed

lemma to_be_bytes_digits:
  "to_be_bytes (w :: 'a::len word) =
     map (\<lambda>i. of_nat (unat w div 256 ^ i)) (rev [0..<LENGTH('a) div 8])"
proof -
  have "ucast (drop_bit (8 * i) w) = (of_nat (unat w div 256 ^ i) :: u8)" for i
  proof -
    have "unat (drop_bit (8 * i) w) = unat w div 2 ^ (8 * i)"
      unfolding unat_drop_bit_eq by (rule drop_bit_eq_div)
    also have "(2 :: nat) ^ (8 * i) = 256 ^ i"
      by (simp add: power_mult)
    finally have "unat (drop_bit (8 * i) w) = unat w div 256 ^ i" .
    then show ?thesis
      by (metis of_nat_unat)
  qed
  then show ?thesis
    by (simp add: to_be_bytes_def)
qed

lemma length_to_be_bytes [simp]: "length (to_be_bytes (w :: 'a::len word)) = LENGTH('a) div 8"
  by (simp add: to_be_bytes_def)

lemma be_value_to_be_bytes:
  assumes "8 dvd LENGTH('a::len)"
  shows "be_value (to_be_bytes (w :: 'a word)) = unat w"
proof -
  have "(256 :: nat) ^ (LENGTH('a) div 8) = (2 ^ 8) ^ (LENGTH('a) div 8)"
    by simp
  also have "\<dots> = 2 ^ LENGTH('a)"
    using assms by (simp only: power_mult [symmetric] dvd_mult_div_cancel)
  finally show ?thesis
    by (simp add: to_be_bytes_digits be_value_digits)
qed

lemma to_be_bytes_inject:
  assumes "8 dvd LENGTH('a::len)"
  shows "to_be_bytes (v :: 'a word) = to_be_bytes w \<longleftrightarrow> v = w"
  using be_value_to_be_bytes [OF assms] by (metis word_unat_eq_iff)

lemma to_be_bytes_u8 [simp]: "to_be_bytes (v :: u8) = [v]"
  by (simp add: to_be_bytes_def)

end
