(* ===== verification/Wire.thy ===== *)
theory Wire
  imports Ser
begin

text \<open>
  When do two serializations tell the serialized values apart? \<open>sepa a b P\<close> says: if
  both actions succeed, and the bytes of \<open>a\<close> followed by anything are the bytes of \<open>b\<close>
  followed by anything, then \<open>P\<close> holds and what follows is the same. With \<open>P\<close> an
  equation of values this is what a reader of the stream needs: it knows where the value
  ends and which value it is. The outputs are bounded by 4 GiB (\<open>wire_limit\<close>), since the
  length prefix of strings and big integers is a \<open>u32\<close>.

  The interface \<open>serializable\<close> is the contract of the trait \<open>Serializable\<close>.
\<close>

definition wire_limit :: nat where
  "wire_limit = 4294967296"

definition sepa :: "action \<Rightarrow> action \<Rightarrow> bool \<Rightarrow> bool" where
  "sepa a b P \<longleftrightarrow> (\<forall>p q r t. out a = Some p \<longrightarrow> out b = Some q \<longrightarrow>
     length p < wire_limit \<longrightarrow> length q < wire_limit \<longrightarrow> p @ r = q @ t \<longrightarrow> P \<and> r = t)"

named_theorems sepa_intros \<open>actions whose outputs tell them apart\<close>

section \<open>Rules for sequences of actions\<close>

lemma sepaI:
  assumes "\<And>p q r t. out a = Some p \<Longrightarrow> out b = Some q \<Longrightarrow> length p < wire_limit \<Longrightarrow>
      length q < wire_limit \<Longrightarrow> p @ r = q @ t \<Longrightarrow> P \<and> r = t"
  shows "sepa a b P"
  using assms unfolding sepa_def by blast

lemma sepaD:
  assumes "sepa a b P" and "out a = Some p" and "out b = Some q"
    and "length p < wire_limit" and "length q < wire_limit" and "p @ r = q @ t"
  shows "P \<and> r = t"
  using assms unfolding sepa_def by blast

lemma sepa_mono: "sepa a b P \<Longrightarrow> (P \<Longrightarrow> Q) \<Longrightarrow> sepa a b Q"
  unfolding sepa_def by blast

lemma sepa_none: "out a = None \<Longrightarrow> sepa a b P"
  by (simp add: sepa_def)

lemma sepa_then:
  assumes ap: "appending a" "appending b" "appending c" "appending d"
    and ac: "sepa a c P" and bd: "P \<Longrightarrow> sepa b d Q"
  shows "sepa (then_do a b) (then_do c d) (P \<and> Q)"
proof (rule sepaI)
  fix p q r t
  assume "out (then_do a b) = Some p" "out (then_do c d) = Some q"
    and lim: "length p < wire_limit" "length q < wire_limit" and eq: "p @ r = q @ t"
  then obtain pa pb qc qd where
    out: "out a = Some pa" "out b = Some pb" "out c = Some qc" "out d = Some qd"
    and pq: "p = pa @ pb" "q = qc @ qd"
    using ap by (auto simp: out_then_Some)
  from eq pq have "pa @ (pb @ r) = qc @ (qd @ t)" by simp
  moreover have "length pa < wire_limit" "length qc < wire_limit"
    using lim pq by simp_all
  ultimately have "P \<and> pb @ r = qd @ t"
    by (intro sepaD [OF ac out(1,3)])
  with bd out(2,4) lim pq show "(P \<and> Q) \<and> r = t"
    using sepaD [of b d Q pb qd r t] by auto
qed

lemma sepa_Nil: "sepa (ser_do []) (ser_do []) True"
  by (rule sepaI) (simp add: out_simps)

lemma sepa_last [sepa_intros]:
  assumes "sepa a c P" and "appending a" and "appending c"
  shows "sepa (ser_do [a]) (ser_do [c]) P"
proof -
  have "sepa (then_do a (ser_do [])) (then_do c (ser_do [])) (P \<and> True)"
    using assms sepa_Nil by (intro sepa_then ser_intros) auto
  then show ?thesis by simp
qed

lemma sepa_Cons:
  assumes "sepa a c P" and "P \<Longrightarrow> sepa (ser_do (a' # as)) (ser_do (c' # cs)) Q"
    and "appending a" and "appending c"
    and "appending (ser_do (a' # as))" and "appending (ser_do (c' # cs))"
  shows "sepa (ser_do (a # a' # as)) (ser_do (c # c' # cs)) (P \<and> Q)"
  using sepa_then [OF assms(3,5,4,6,1,2)] by simp

lemma sepa_pair [sepa_intros]:
  assumes "sepa a c P" and "sepa (ser_do (a' # as)) (ser_do (c' # cs)) Q"
    and "appending a" and "appending c"
    and "appending (ser_do (a' # as))" and "appending (ser_do (c' # cs))"
  shows "sepa (ser_do (a # a' # as)) (ser_do (c # c' # cs)) (P \<and> Q)"
  using assms by (intro sepa_Cons)

section \<open>Raw writes\<close>

lemma sepa_write: "length d = length e \<Longrightarrow> sepa (write_bytes d) (write_bytes e) (d = e)"
  by (rule sepaI) (simp add: out_simps)

lemma sepa_write_u8 [sepa_intros]: "sepa (write_u8 v) (write_u8 w) (v = w)"
  using sepa_write [of "[v]" "[w]"] by (simp add: write_u8_def)

lemma sepa_write_u32 [sepa_intros]: "sepa (write_u32 v) (write_u32 w) (v = w)"
  using sepa_write [of "to_be_bytes v" "to_be_bytes w"]
  by (simp add: write_u32_def to_be_bytes_inject)

lemma sepa_write_i32 [sepa_intros]: "sepa (write_i32 v) (write_i32 w) (v = w)"
  using sepa_write [of "to_be_bytes v" "to_be_bytes w"]
  by (simp add: write_i32_def to_be_bytes_inject)

lemma sepa_write_bool [sepa_intros]: "sepa (write_bool v) (write_bool w) (v = w)"
  by (rule sepaI) (auto simp: out_simps write_bool_def split: if_splits)

lemmas raw_defs = write_u8_def write_u16_def write_u32_def write_i32_def write_bool_def

lemma appending_raw [ser_intros, simp]:
  "appending (write_u8 v)" "appending (write_u16 w)" "appending (write_u32 x)"
  "appending (write_i32 y)" "appending (write_bool b)" "appending (write_bytes d)"
  by (simp_all add: raw_defs ser_intros)

lemma appending_write_marker [ser_intros, simp]: "appending (write_marker m)"
  by (simp add: write_marker_def Let_def ser_intros)

lemma appending_ser_do [simp]:
  "appending (ser_do [])"
  "appending a \<Longrightarrow> appending (ser_do as) \<Longrightarrow> appending (ser_do (a # as))"
  by (simp_all add: ser_intros)

lemma appending_ser_Int [ser_intros, simp]: "appending (ser_Int v)"
  by (simp add: ser_Int_def ser_intros)

lemma appending_write_length [ser_intros, simp]: "appending (write_length n)"
  by (simp add: write_length_def ser_intros)

lemma out_raw [out_simps]:
  "out (write_u8 v) = Some [v]" "out (write_u32 x) = Some (to_be_bytes x)"
  "out (write_u16 w) = Some (to_be_bytes w)"
  "out (write_i32 y) = Some (to_be_bytes y)" "out (write_bool b) = Some [if b then 1 else 0]"
  by (simp_all add: raw_defs out_simps)

lemma out_write_marker [out_simps]:
  "out (write_marker (MarkerId m)) = (if m < 255 then Some [ucast m] else None)"
  by (simp add: write_marker_def out_simps)

lemma out_ser_do [out_simps]:
  "out (ser_do []) = Some []"
  "appending a \<Longrightarrow> appending (ser_do as) \<Longrightarrow> out (ser_do (a # as)) =
    (case out a of None \<Rightarrow> None | Some p \<Rightarrow> map_option (\<lambda>q. p @ q) (out (ser_do as)))"
  by (simp_all add: out_simps out_then)

section \<open>Markers\<close>

lemma ucast_marker_inject:
  assumes "(m :: u32) < 255" and "n < 255"
  shows "(ucast m :: u8) = ucast n \<longleftrightarrow> m = n"
proof -
  have "unat (ucast k :: u8) = unat k" if "k < 255" for k :: u32
  proof -
    from that have "unat k < 255" by (simp add: word_less_nat_alt)
    then show ?thesis by (simp add: unsigned_ucast_eq take_bit_nat_eq_self)
  qed
  with assms show ?thesis by (metis word_unat_eq_iff)
qed

lemma sepa_marker: "sepa (write_marker m) (write_marker n) (m = n)"
  by (cases m; cases n)
    (rule sepaI, auto simp: out_simps ucast_marker_inject split: if_splits)

lemma sepa_marked:
  assumes "sepa (ser_do as) (ser_do bs) P" and "appending (ser_do as)" and "appending (ser_do bs)"
  shows "sepa (ser_do (write_marker m # as)) (ser_do (write_marker m # bs)) P"
  using sepa_then [OF _ assms(2) _ assms(3) sepa_marker [of m m] assms(1)] by simp

lemma sepa_tagged:
  assumes "sepa (ser_do as) (ser_do bs) P" and "appending (ser_do as)" and "appending (ser_do bs)"
  shows "sepa (ser_do (write_marker m # write_u8 k # as)) (ser_do (write_marker m # write_u8 k # bs)) P"
proof -
  have "sepa (then_do (write_u8 k) (ser_do as)) (then_do (write_u8 k) (ser_do bs)) (k = k \<and> P)"
    using assms by (intro sepa_then sepa_write_u8) auto
  then show ?thesis
    using assms by (intro sepa_marked) (auto intro: ser_intros)
qed

declare ser_do.simps [simp del]

text \<open>Nodes with the same marker, field by field.\<close>

lemma sepa_fields0: "sepa (ser_do [write_marker m]) (ser_do [write_marker m]) True"
  by (rule sepa_marked [OF sepa_Nil]) simp_all

lemma sepa_fields1:
  "sepa a a' P \<Longrightarrow> appending a \<Longrightarrow> appending a' \<Longrightarrow>
    sepa (ser_do [write_marker m, a]) (ser_do [write_marker m, a']) P"
  by (intro sepa_marked sepa_last) simp_all

lemma sepa_fields2:
  "sepa a a' P \<Longrightarrow> sepa b b' Q \<Longrightarrow>
    appending a \<Longrightarrow> appending a' \<Longrightarrow> appending b \<Longrightarrow> appending b' \<Longrightarrow>
    sepa (ser_do [write_marker m, a, b]) (ser_do [write_marker m, a', b']) (P \<and> Q)"
  by (intro sepa_marked sepa_pair sepa_last) simp_all

lemma sepa_fields3:
  "sepa a a' P \<Longrightarrow> sepa b b' Q \<Longrightarrow> sepa c c' R \<Longrightarrow>
    appending a \<Longrightarrow> appending a' \<Longrightarrow> appending b \<Longrightarrow> appending b' \<Longrightarrow>
    appending c \<Longrightarrow> appending c' \<Longrightarrow>
    sepa (ser_do [write_marker m, a, b, c]) (ser_do [write_marker m, a', b', c']) (P \<and> Q \<and> R)"
  by (intro sepa_marked sepa_pair sepa_last) simp_all

lemma sepa_fields4:
  "sepa a a' P \<Longrightarrow> sepa b b' Q \<Longrightarrow> sepa c c' R \<Longrightarrow> sepa d d' T \<Longrightarrow>
    appending a \<Longrightarrow> appending a' \<Longrightarrow> appending b \<Longrightarrow> appending b' \<Longrightarrow>
    appending c \<Longrightarrow> appending c' \<Longrightarrow> appending d \<Longrightarrow> appending d' \<Longrightarrow>
    sepa (ser_do [write_marker m, a, b, c, d]) (ser_do [write_marker m, a', b', c', d'])
      (P \<and> Q \<and> R \<and> T)"
  by (intro sepa_marked sepa_pair sepa_last) simp_all

lemma sepa_fields6:
  "sepa a a' P \<Longrightarrow> sepa b b' Q \<Longrightarrow> sepa c c' R \<Longrightarrow> sepa d d' T \<Longrightarrow> sepa e e' U \<Longrightarrow>
    sepa f f' V \<Longrightarrow>
    appending a \<Longrightarrow> appending a' \<Longrightarrow> appending b \<Longrightarrow> appending b' \<Longrightarrow>
    appending c \<Longrightarrow> appending c' \<Longrightarrow> appending d \<Longrightarrow> appending d' \<Longrightarrow>
    appending e \<Longrightarrow> appending e' \<Longrightarrow> appending f \<Longrightarrow> appending f' \<Longrightarrow>
    sepa (ser_do [write_marker m, a, b, c, d, e, f]) (ser_do [write_marker m, a', b', c', d', e', f'])
      (P \<and> Q \<and> R \<and> T \<and> U \<and> V)"
  by (intro sepa_marked sepa_pair sepa_last) simp_all

text \<open>Two nodes with different markers are told apart by their first byte.\<close>

lemma sepa_clash:
  assumes "m \<noteq> n" and "appending (ser_do as)" and "appending (ser_do bs)"
  shows "sepa (ser_do (write_marker m # as)) (ser_do (write_marker n # bs)) P"
proof -
  have "sepa (then_do (write_marker m) (ser_do as)) (then_do (write_marker n) (ser_do bs))
      (m = n \<and> P)"
    using assms by (intro sepa_then sepa_marker) auto
  then have "sepa (then_do (write_marker m) (ser_do as)) (then_do (write_marker n) (ser_do bs)) P"
    by (rule sepa_mono) simp
  then show ?thesis
    by (simp add: ser_do.simps)
qed

lemmas sepa_fields = sepa_fields0 sepa_fields1 sepa_fields2 sepa_fields3 sepa_fields4 sepa_clash

end
