(* ===== verification/Serializable.thy ===== *)
theory Serializable
  imports Wire
begin

text \<open>
  \<open>stainless_data/src/ser/serializable.rs\<close>: the implementations of the trait
  \<open>Serializable\<close> for primitives, options, vectors, hash sets and maps, serialization
  buffers and tuples, and the contract that they all meet, the interface \<open>serializable\<close>:
  a serialization only appends, and its bytes determine the value and where it ends.

  A generic implementation takes the serialization of its components as an argument. A
  \<open>HashSet\<close> or \<open>HashMap\<close> is the list of its elements or entries in the order in which
  the standard library iterates over them. \<open>BigInt::to_signed_bytes_be\<close> belongs to the
  package \<open>num_bigint\<close>: it is the parameter \<open>tsb\<close>.
\<close>

section \<open>Implementations\<close>

definition string_bytes :: "string \<Rightarrow> bytes" where
  "string_bytes s = map (\<lambda>c. of_nat (of_char c)) s"

definition ser_Boolean :: "bool \<Rightarrow> action" where
  "ser_Boolean v = ser_do [write_marker marker_ids_PRIMITIVE, write_u8 primitive_ids_BOOLEAN,
     write_bool v]"

definition ser_Char :: "u32 \<Rightarrow> action" where
  "ser_Char v = ser_do [write_marker marker_ids_PRIMITIVE, write_u8 primitive_ids_CHAR,
     write_u16 (ucast v)]"

definition ser_String :: "string \<Rightarrow> action" where
  "ser_String v =
     (let bytes = string_bytes v in
      ser_do [write_marker marker_ids_PRIMITIVE, write_u8 primitive_ids_STRING,
        write_u32 (of_nat (length bytes)), write_bytes bytes])"

definition ser_BigInt :: "(int \<Rightarrow> bytes) \<Rightarrow> int \<Rightarrow> action" where
  "ser_BigInt tsb v =
     (let bytes = tsb v in
      ser_do [write_marker marker_ids_PRIMITIVE, write_u8 primitive_ids_BIGINT,
        write_u32 (of_nat (length bytes)), write_bytes bytes])"

definition ser_Option :: "('a \<Rightarrow> action) \<Rightarrow> 'a option \<Rightarrow> action" where
  "ser_Option ser v =
     ser_do [write_marker marker_ids_OPTION,
       (case v of None \<Rightarrow> write_u8 0 | Some value \<Rightarrow> ser_do [write_u8 1, ser value])]"

definition ser_Seq :: "('a \<Rightarrow> action) \<Rightarrow> 'a list \<Rightarrow> action" where
  "ser_Seq ser v =
     ser_do [write_marker marker_ids_SEQ, write_length (length v), ser_do (map ser v)]"

definition ser_Set :: "('a \<Rightarrow> action) \<Rightarrow> 'a list \<Rightarrow> action" where
  "ser_Set ser v =
     ser_do [write_marker marker_ids_SET, write_length (length v), ser_do (map ser v)]"

definition ser_Map :: "('k \<Rightarrow> action) \<Rightarrow> ('v \<Rightarrow> action) \<Rightarrow> ('k \<times> 'v) list \<Rightarrow> action" where
  "ser_Map serk serv m =
     ser_do [write_marker marker_ids_MAP, write_length (length m),
       ser_do (map (\<lambda>(k, v). ser_do [serk k, serv v]) m)]"

definition ser_SerializationBuffer :: "SerializationBuffer \<Rightarrow> action" where
  "ser_SerializationBuffer b =
     ser_do [write_marker marker_ids_SERIALIZATION_BUFFER,
       ser_Int (of_nat (length (buffer_bytes b))), write_bytes (buffer_bytes b)]"

definition ser_tuple2 :: "('a \<Rightarrow> action) \<Rightarrow> ('b \<Rightarrow> action) \<Rightarrow> 'a \<times> 'b \<Rightarrow> action" where
  "ser_tuple2 s1 s2 = (\<lambda>(v0, v1).
     ser_do [write_marker marker_ids_TUPLE, write_u8 2, s1 v0, s2 v1])"

definition ser_tuple3 ::
  "('a \<Rightarrow> action) \<Rightarrow> ('b \<Rightarrow> action) \<Rightarrow> ('c \<Rightarrow> action) \<Rightarrow> 'a \<times> 'b \<times> 'c \<Rightarrow> action" where
  "ser_tuple3 s1 s2 s3 = (\<lambda>(v0, v1, v2).
     ser_do [write_marker marker_ids_TUPLE, write_u8 3, s1 v0, s2 v1, s3 v2])"

definition ser_tuple4 ::
  "('a \<Rightarrow> action) \<Rightarrow> ('b \<Rightarrow> action) \<Rightarrow> ('c \<Rightarrow> action) \<Rightarrow> ('d \<Rightarrow> action) \<Rightarrow>
   'a \<times> 'b \<times> 'c \<times> 'd \<Rightarrow> action" where
  "ser_tuple4 s1 s2 s3 s4 = (\<lambda>(v0, v1, v2, v3).
     ser_do [write_marker marker_ids_TUPLE, write_u8 4, s1 v0, s2 v1, s3 v2, s4 v3])"

definition ser_tuple5 ::
  "('a \<Rightarrow> action) \<Rightarrow> ('b \<Rightarrow> action) \<Rightarrow> ('c \<Rightarrow> action) \<Rightarrow> ('d \<Rightarrow> action) \<Rightarrow> ('e \<Rightarrow> action) \<Rightarrow>
   'a \<times> 'b \<times> 'c \<times> 'd \<times> 'e \<Rightarrow> action" where
  "ser_tuple5 s1 s2 s3 s4 s5 = (\<lambda>(v0, v1, v2, v3, v4).
     ser_do [write_marker marker_ids_TUPLE, write_u8 5, s1 v0, s2 v1, s3 v2, s4 v3, s5 v4])"

section \<open>Only appending\<close>

lemma appending_serializable [ser_intros, simp]:
  "appending (ser_Boolean b)" "appending (ser_Char c)" "appending (ser_String s)"
  "appending (ser_BigInt tsb i)" "appending (ser_SerializationBuffer sb)"
  by (simp_all add: ser_Boolean_def ser_Char_def ser_String_def ser_BigInt_def
      ser_SerializationBuffer_def Let_def)

lemma appending_ser_Option [ser_intros, simp]:
  "(\<And>x. v = Some x \<Longrightarrow> appending (f x)) \<Longrightarrow> appending (ser_Option f v)"
  by (cases v) (simp_all add: ser_Option_def)

lemma appending_ser_map:
  "(\<And>x. x \<in> set v \<Longrightarrow> appending (f x)) \<Longrightarrow> appending (ser_do (map f v))"
  by (rule appending_do) auto

lemma appending_ser_Seq [ser_intros, simp]:
  "(\<And>x. x \<in> set v \<Longrightarrow> appending (f x)) \<Longrightarrow> appending (ser_Seq f v)"
  by (simp add: ser_Seq_def appending_ser_map)

lemma appending_ser_Set [ser_intros, simp]:
  "(\<And>x. x \<in> set v \<Longrightarrow> appending (f x)) \<Longrightarrow> appending (ser_Set f v)"
  by (simp add: ser_Set_def appending_ser_map)

lemma appending_ser_Map [ser_intros, simp]:
  "(\<And>k x. (k, x) \<in> set m \<Longrightarrow> appending (f k) \<and> appending (g x)) \<Longrightarrow> appending (ser_Map f g m)"
  by (auto simp add: ser_Map_def intro!: appending_do)

lemma appending_ser_tuples [ser_intros, simp]:
  "appending (s1 a) \<Longrightarrow> appending (s2 b) \<Longrightarrow> appending (ser_tuple2 s1 s2 (a, b))"
  "appending (s1 a) \<Longrightarrow> appending (s2 b) \<Longrightarrow> appending (s3 c) \<Longrightarrow>
    appending (ser_tuple3 s1 s2 s3 (a, b, c))"
  "appending (s1 a) \<Longrightarrow> appending (s2 b) \<Longrightarrow> appending (s3 c) \<Longrightarrow> appending (s4 d) \<Longrightarrow>
    appending (ser_tuple4 s1 s2 s3 s4 (a, b, c, d))"
  "appending (s1 a) \<Longrightarrow> appending (s2 b) \<Longrightarrow> appending (s3 c) \<Longrightarrow> appending (s4 d) \<Longrightarrow>
    appending (s5 e) \<Longrightarrow> appending (ser_tuple5 s1 s2 s3 s4 s5 (a, b, c, d, e))"
  by (simp_all add: ser_tuple2_def ser_tuple3_def ser_tuple4_def ser_tuple5_def)

section \<open>Telling values apart\<close>

lemma string_bytes_inject: "string_bytes s = string_bytes t \<longleftrightarrow> s = t"
proof -
  have "inj (\<lambda>c. of_nat (of_char c :: nat) :: u8)"
  proof (rule injI)
    fix c d :: char
    have small: "of_char e < (256 :: nat)" for e :: char
      by (rule nat_of_char_less_256)
    assume "(of_nat (of_char c :: nat) :: u8) = of_nat (of_char d)"
    then have "unat (of_nat (of_char c :: nat) :: u8) = unat (of_nat (of_char d :: nat) :: u8)"
      by simp
    then have "(of_char c :: nat) = of_char d"
      using small by (simp add: unat_of_nat)
    then show "c = d" by simp
  qed
  then show ?thesis
    unfolding string_bytes_def by (rule inj_map_eq_map)
qed

lemma of_nat_word32_inject:
  assumes "m < wire_limit" and "n < wire_limit"
  shows "(of_nat m :: 32 word) = of_nat n \<longleftrightarrow> m = n"
proof -
  have "unat (of_nat k :: 32 word) = k" if "k < wire_limit" for k
    using that by (simp add: unat_of_nat wire_limit_def)
  with assms show ?thesis by metis
qed

lemma out_length_then:
  "appending a \<Longrightarrow> out (ser_do [a, write_bytes d]) = Some p \<Longrightarrow> length d \<le> length p"
  by (auto simp: out_simps split: option.splits)

text \<open>A length written before the bytes it counts.\<close>

lemma sepa_counted:
  assumes "\<And>v. appending (len v)"
    and "\<And>v w. v < wire_limit \<Longrightarrow> w < wire_limit \<Longrightarrow> sepa (len v) (len w) (v = w)"
  shows "sepa (ser_do [len (length d), write_bytes d]) (ser_do [len (length e), write_bytes e]) (d = e)"
proof (rule sepaI)
  fix p q r t
  assume out: "out (ser_do [len (length d), write_bytes d]) = Some p"
      "out (ser_do [len (length e), write_bytes e]) = Some q"
    and lim: "length p < wire_limit" "length q < wire_limit" and eq: "p @ r = q @ t"
  have small: "length d < wire_limit" "length e < wire_limit"
    using out lim out_length_then assms(1) by (meson le_less_trans)+
  have "sepa (ser_do [len (length d), write_bytes d]) (ser_do [len (length e), write_bytes e])
      (length d = length e \<and> d = e)"
    using assms small by (intro sepa_Cons sepa_last sepa_write) auto
  from sepaD [OF this out lim eq] show "d = e \<and> r = t" by simp
qed

lemma sepa_ser_Boolean [sepa_intros]: "sepa (ser_Boolean v) (ser_Boolean w) (v = w)"
  unfolding ser_Boolean_def
  by (rule sepa_tagged) (intro sepa_intros, auto)

lemma sepa_ser_Int [sepa_intros]: "sepa (ser_Int v) (ser_Int w) (v = w)"
  unfolding ser_Int_def
  by (rule sepa_tagged) (intro sepa_intros, auto)

lemma sepa_ser_Char [sepa_intros]:
  "sepa (ser_Char v) (ser_Char w) ((ucast v :: u16) = ucast w)"
proof -
  have "sepa (write_u16 a) (write_u16 b) (a = b)" for a b
    using sepa_write [of "to_be_bytes a" "to_be_bytes b"]
    by (simp add: write_u16_def to_be_bytes_inject)
  then show ?thesis
    unfolding ser_Char_def by (intro sepa_tagged sepa_last) auto
qed

lemma sepa_ser_String [sepa_intros]: "sepa (ser_String v) (ser_String w) (v = w)"
proof -
  have "sepa (ser_do [write_u32 (of_nat (length (string_bytes v))), write_bytes (string_bytes v)])
      (ser_do [write_u32 (of_nat (length (string_bytes w))), write_bytes (string_bytes w)])
      (string_bytes v = string_bytes w)"
    by (rule sepa_counted [where len = "\<lambda>n. write_u32 (of_nat n)"])
      (auto intro: sepa_mono [OF sepa_write_u32] simp: of_nat_word32_inject)
  then have "sepa (ser_String v) (ser_String w) (string_bytes v = string_bytes w)"
    unfolding ser_String_def Let_def by (intro sepa_tagged) auto
  then show ?thesis
    by (simp add: string_bytes_inject)
qed

lemma sepa_ser_BigInt:
  assumes inj: "\<And>i j. tsb i = tsb j \<Longrightarrow> i = j"
  shows "sepa (ser_BigInt tsb v) (ser_BigInt tsb w) (v = w)"
proof -
  have "sepa (ser_do [write_u32 (of_nat (length (tsb v))), write_bytes (tsb v)])
      (ser_do [write_u32 (of_nat (length (tsb w))), write_bytes (tsb w)]) (tsb v = tsb w)"
    by (rule sepa_counted [where len = "\<lambda>n. write_u32 (of_nat n)"])
      (auto intro: sepa_mono [OF sepa_write_u32] simp: of_nat_word32_inject)
  then have "sepa (ser_BigInt tsb v) (ser_BigInt tsb w) (tsb v = tsb w)"
    unfolding ser_BigInt_def Let_def by (intro sepa_tagged) auto
  then show ?thesis
    by (rule sepa_mono) (use inj in auto)
qed

lemma sepa_ser_SerializationBuffer [sepa_intros]:
  "sepa (ser_SerializationBuffer v) (ser_SerializationBuffer w) (v = w)"
proof -
  have "sepa (ser_do [ser_Int (of_nat (length (buffer_bytes v))), write_bytes (buffer_bytes v)])
      (ser_do [ser_Int (of_nat (length (buffer_bytes w))), write_bytes (buffer_bytes w)])
      (buffer_bytes v = buffer_bytes w)"
    by (rule sepa_counted [where len = "\<lambda>n. ser_Int (of_nat n)"])
      (auto intro: sepa_mono [OF sepa_ser_Int] simp: of_nat_word32_inject)
  then have "sepa (ser_SerializationBuffer v) (ser_SerializationBuffer w)
      (buffer_bytes v = buffer_bytes w)"
    unfolding ser_SerializationBuffer_def by (intro sepa_marked) auto
  then show ?thesis
    by (rule sepa_mono) (metis SerializationBuffer.expand)
qed

section \<open>Lengths, options, sequences, tuples\<close>

lemma sepa_none_right: "out b = None \<Longrightarrow> sepa a b P"
  by (simp add: sepa_def)

lemma small_length_byte: "m < 255 \<Longrightarrow> n < 255 \<Longrightarrow> (of_nat m :: u8) = of_nat n \<longleftrightarrow> m = n"
proof -
  assume "m < 255" "n < 255"
  moreover have "unat (of_nat k :: u8) = k" if "k < 255" for k
    using that by (simp add: unat_of_nat)
  ultimately show ?thesis by metis
qed

lemma length_byte_not_255: "m < 255 \<Longrightarrow> (of_nat m :: u8) \<noteq> 255"
proof
  assume "m < 255" and "(of_nat m :: u8) = 255"
  then have "unat (of_nat m :: u8) = 255" by simp
  with \<open>m < 255\<close> show False by (simp add: unat_of_nat)
qed

lemma write_length_long:
  "255 \<le> m \<Longrightarrow> m \<le> 2147483647 \<Longrightarrow> write_length m = ser_do [write_u8 255, ser_Int (of_nat m)]"
  by (simp add: write_length_def)

lemma write_length_short: "m < 255 \<Longrightarrow> write_length m = write_u8 (of_nat m)"
  by (simp add: write_length_def)

lemma out_write_length_long:
  "255 \<le> m \<Longrightarrow> out (write_length m) = Some p \<Longrightarrow> \<exists>q. p = 255 # q"
  by (auto simp: write_length_def out_simps split: if_splits option.splits)

lemma sepa_write_length_cases:
  assumes "m < 255" and "255 \<le> n"
  shows "sepa (write_length m) (write_length n) P" and "sepa (write_length n) (write_length m) P"
  using assms length_byte_not_255 [of m]
  by (auto intro!: sepaI dest!: out_write_length_long simp: write_length_short out_simps)

lemma sepa_write_length: "sepa (write_length m) (write_length n) (m = n)"
proof (cases "m < 255 \<or> n < 255")
  case True
  then show ?thesis
    using sepa_write_length_cases [of m n] sepa_write_length_cases [of n m]
    by (cases "m < 255"; cases "n < 255")
      (auto simp: write_length_short small_length_byte intro: sepa_mono [OF sepa_write_u8])
next
  case False
  show ?thesis
  proof (cases "m \<le> 2147483647 \<and> n \<le> 2147483647")
    case True
    have long: "write_length m = ser_do [write_u8 255, ser_Int (of_nat m)]"
      "write_length n = ser_do [write_u8 255, ser_Int (of_nat n)]"
      using True False by (auto intro!: write_length_long)
    have "sepa (write_length m) (write_length n) ((255 :: u8) = 255 \<and> (of_nat m :: i32) = of_nat n)"
      unfolding long by (intro sepa_pair sepa_last sepa_write_u8 sepa_ser_Int) simp_all
    with True show ?thesis
      by (auto elim!: sepa_mono simp: of_nat_word32_inject wire_limit_def)
  next
    case False
    then show ?thesis
      by (auto intro: sepa_none sepa_none_right simp: write_length_def out_simps)
  qed
qed

lemma sepa_map:
  assumes "length v = length w" and "\<And>x. appending (f x)"
    and "\<And>x y. x \<in> set v \<Longrightarrow> sepa (f x) (f y) (g x = g y)"
  shows "sepa (ser_do (map f v)) (ser_do (map f w)) (map g v = map g w)"
  using assms(1,3)
proof (induction v w rule: list_induct2)
  case Nil
  show ?case using sepa_Nil by simp
next
  case (Cons x xs y ys)
  have "sepa (then_do (f x) (ser_do (map f xs))) (then_do (f y) (ser_do (map f ys)))
      (g x = g y \<and> map g xs = map g ys)"
    using Cons assms(2) by (intro sepa_then appending_ser_map) auto
  then show ?case by (simp add: ser_do.simps)
qed

lemma sepa_counted_elements:
  assumes "\<And>x. appending (f x)" and "\<And>x y. x \<in> set v \<Longrightarrow> sepa (f x) (f y) (g x = g y)"
  shows "sepa (ser_do [write_marker k, write_length (length v), ser_do (map f v)])
    (ser_do [write_marker k, write_length (length w), ser_do (map f w)]) (map g v = map g w)"
proof -
  have "sepa (ser_do [write_length (length v), ser_do (map f v)])
      (ser_do [write_length (length w), ser_do (map f w)])
      (length v = length w \<and> map g v = map g w)"
    using assms by (intro sepa_Cons sepa_write_length sepa_last sepa_map) (auto simp: appending_ser_map)
  then show ?thesis
    by (intro sepa_marked) (auto elim: sepa_mono simp: appending_ser_map assms(1))
qed

lemma sepa_ser_Seq:
  "(\<And>x. appending (f x)) \<Longrightarrow> (\<And>x y. x \<in> set v \<Longrightarrow> sepa (f x) (f y) (g x = g y)) \<Longrightarrow>
    sepa (ser_Seq f v) (ser_Seq f w) (map g v = map g w)"
  unfolding ser_Seq_def by (rule sepa_counted_elements)

lemma sepa_ser_Set:
  "(\<And>x. appending (f x)) \<Longrightarrow> (\<And>x y. x \<in> set v \<Longrightarrow> sepa (f x) (f y) (g x = g y)) \<Longrightarrow>
    sepa (ser_Set f v) (ser_Set f w) (map g v = map g w)"
  unfolding ser_Set_def by (rule sepa_counted_elements)

lemma sepa_ser_Map:
  fixes v w :: "('k \<times> 'v) list"
  assumes "\<And>k. appending (f k)" "\<And>x. appending (h x)"
    and "\<And>k k'. k \<in> fst ` set v \<Longrightarrow> sepa (f k) (f k') (g1 k = g1 k')"
    and "\<And>x x'. x \<in> snd ` set v \<Longrightarrow> sepa (h x) (h x') (g2 x = g2 x')"
  shows "sepa (ser_Map f h v) (ser_Map f h w) (map (map_prod g1 g2) v = map (map_prod g1 g2) w)"
  unfolding ser_Map_def
proof (rule sepa_counted_elements)
  show "appending (case e of (k, x) \<Rightarrow> ser_do [f k, h x])" for e
    using assms(1,2) by (cases e) simp
  fix e d :: "'k \<times> 'v" assume e: "e \<in> set v"
  obtain k x k' x' where "e = (k, x)" "d = (k', x')"
    by (cases e; cases d) auto
  moreover have "sepa (ser_do [f k, h x]) (ser_do [f k', h x']) (g1 k = g1 k' \<and> g2 x = g2 x')"
    if "(k, x) \<in> set v" for k x k' x'
    using that assms by (intro sepa_pair sepa_last) force+
  ultimately show "sepa (case e of (k, x) \<Rightarrow> ser_do [f k, h x])
      (case d of (k, x) \<Rightarrow> ser_do [f k, h x]) (map_prod g1 g2 e = map_prod g1 g2 d)"
    using e by simp
qed

lemma sepa_ser_Option:
  assumes "\<And>x. appending (f x)" and "\<And>x y. v = Some x \<Longrightarrow> sepa (f x) (f y) (g x = g y)"
  shows "sepa (ser_Option f v) (ser_Option f w) (map_option g v = map_option g w)"
proof -
  have clash: "sepa (write_u8 0) (ser_do [write_u8 1, a]) P"
    "sepa (ser_do [write_u8 1, a]) (write_u8 0) P" if "appending a" for a P
    using that by (auto intro!: sepaI simp: out_simps split: option.splits)
  have same: "sepa (ser_do [write_u8 1, f x]) (ser_do [write_u8 1, f y]) ((1 :: u8) = 1 \<and> g x = g y)"
    if "v = Some x" for x y
    using that assms by (intro sepa_pair sepa_last sepa_write_u8) simp_all
  have "sepa (case v of None \<Rightarrow> write_u8 0 | Some value \<Rightarrow> ser_do [write_u8 1, f value])
      (case w of None \<Rightarrow> write_u8 0 | Some value \<Rightarrow> ser_do [write_u8 1, f value])
      (map_option g v = map_option g w)"
    using clash same assms(1) sepa_write_u8 [of 0 0]
    by (cases v; cases w) (auto elim: sepa_mono)
  then show ?thesis
    unfolding ser_Option_def using assms(1)
    by (intro sepa_marked sepa_last) (auto split: option.split)
qed

lemma sepa_ser_tuple2:
  assumes "\<And>x. appending (s1 x)" "\<And>x. appending (s2 x)"
    and "sepa (s1 a) (s1 a') P" "sepa (s2 b) (s2 b') Q"
  shows "sepa (ser_tuple2 s1 s2 (a, b)) (ser_tuple2 s1 s2 (a', b')) (P \<and> Q)"
  unfolding ser_tuple2_def prod.case
  by (rule sepa_tagged) (intro sepa_intros assms | simp add: assms)+

lemma sepa_ser_tuple3:
  assumes "\<And>x. appending (s1 x)" "\<And>x. appending (s2 x)" "\<And>x. appending (s3 x)"
    and "sepa (s1 a) (s1 a') P" "sepa (s2 b) (s2 b') Q" and "sepa (s3 c) (s3 c') R"
  shows "sepa (ser_tuple3 s1 s2 s3 (a, b, c)) (ser_tuple3 s1 s2 s3 (a', b', c')) (P \<and> Q \<and> R)"
  unfolding ser_tuple3_def prod.case
  by (rule sepa_tagged) (intro sepa_intros assms | simp add: assms)+

lemma sepa_ser_tuple4:
  assumes "\<And>x. appending (s1 x)" "\<And>x. appending (s2 x)" "\<And>x. appending (s3 x)"
    "\<And>x. appending (s4 x)"
    and "sepa (s1 a) (s1 a') P" "sepa (s2 b) (s2 b') Q" and "sepa (s3 c) (s3 c') R"
    and "sepa (s4 d) (s4 d') T"
  shows "sepa (ser_tuple4 s1 s2 s3 s4 (a, b, c, d)) (ser_tuple4 s1 s2 s3 s4 (a', b', c', d'))
    (P \<and> Q \<and> R \<and> T)"
  unfolding ser_tuple4_def prod.case
  by (rule sepa_tagged) (intro sepa_intros assms | simp add: assms)+

section \<open>The contract of the trait\<close>

text \<open>
  \<open>view\<close> is what a reader recovers of a value: all of it for most types, the low 16 bits
  of a \<open>char\<close>, an identifier without its display name.
\<close>

locale serializable =
  fixes ser :: "'a \<Rightarrow> action" and view :: "'a \<Rightarrow> 'b"
  assumes appends: "appending (ser x)"
    and separates: "sepa (ser x) (ser y) (view x = view y)"
begin

text \<open>What was in the buffer stays in it, and the bytes added do not depend on it.\<close>

lemma extends_buffer:
  "ser x s = Inr t \<longleftrightarrow> (\<exists>p. out (ser x) = Some p \<and> t = s\<lparr>buffer := buffer s @ p\<rparr>)"
  by (rule appending_extends [OF appends])

text \<open>A reader of the stream finds the value and its end.\<close>

lemma unambiguous:
  assumes "out (ser x) = Some p" and "out (ser y) = Some q"
    and "length p < wire_limit" and "length q < wire_limit" and "p @ r = q @ t"
  shows "view x = view y \<and> r = t"
  using sepaD [OF separates assms] .

lemma recoverable:
  "out (ser x) = Some p \<Longrightarrow> out (ser y) = Some p \<Longrightarrow> length p < wire_limit \<Longrightarrow> view x = view y"
  using unambiguous [of x p y p "[]" "[]"] by simp

text \<open>The generic containers keep the contract.\<close>

lemma Seq_serializable: "serializable (ser_Seq ser) (map view)"
  by unfold_locales (auto intro: appending_ser_Seq sepa_ser_Seq appends separates)

lemma Set_serializable: "serializable (ser_Set ser) (map view)"
  by unfold_locales (auto intro: appending_ser_Set sepa_ser_Set appends separates)

lemma Option_serializable: "serializable (ser_Option ser) (map_option view)"
  by unfold_locales (auto intro: appending_ser_Option sepa_ser_Option appends separates)

end

text \<open>Nothing beyond the view is written.\<close>

locale serializable_exact = serializable +
  assumes written: "view x = view y \<Longrightarrow> ser x = ser y"
begin

lemma view_iff_bytes:
  assumes "out (ser x) = Some p" and "length p < wire_limit"
  shows "view x = view y \<longleftrightarrow> out (ser y) = Some p"
  using assms written [of x y] recoverable [of x p y] by auto

end

locale serializable2 = first: serializable ser1 view1 + second: serializable ser2 view2
  for ser1 :: "'a \<Rightarrow> action" and view1 :: "'a \<Rightarrow> 'c"
    and ser2 :: "'b \<Rightarrow> action" and view2 :: "'b \<Rightarrow> 'd"
begin

lemma tuple2_serializable: "serializable (ser_tuple2 ser1 ser2) (map_prod view1 view2)"
  by unfold_locales
    (auto intro!: appending_ser_tuples sepa_ser_tuple2 first.appends second.appends
      first.separates second.separates)

lemma Map_serializable: "serializable (ser_Map ser1 ser2) (map (map_prod view1 view2))"
  by unfold_locales
    (auto intro: appending_ser_Map sepa_ser_Map first.appends second.appends
      first.separates second.separates)

end

text \<open>
  The contract of \<open>BigInt::to_signed_bytes_be\<close> that the serializer relies on: the
  two's-complement bytes determine the number.
\<close>

locale big_integers =
  fixes tsb :: "int \<Rightarrow> bytes"
  assumes tsb_inject: "tsb i = tsb j \<Longrightarrow> i = j"

sublocale big_integers \<subseteq> big: serializable_exact "ser_BigInt tsb" "\<lambda>i. i"
  by unfold_locales (auto intro: sepa_ser_BigInt tsb_inject)

interpretation boolean: serializable_exact ser_Boolean "\<lambda>b. b"
  by unfold_locales (auto intro: sepa_ser_Boolean)

interpretation int32: serializable_exact ser_Int "\<lambda>i. i"
  by unfold_locales (auto intro: sepa_ser_Int)

interpretation rust_string: serializable_exact ser_String "\<lambda>s. s"
  by unfold_locales (auto intro: sepa_ser_String)

interpretation rust_char: serializable_exact ser_Char "\<lambda>c. (ucast c :: u16)"
  by unfold_locales (simp, rule sepa_ser_Char, simp add: ser_Char_def)

interpretation ser_buffer: serializable_exact ser_SerializationBuffer "\<lambda>b. b"
  by unfold_locales (auto intro: sepa_ser_SerializationBuffer)

interpretation strings: serializable "ser_Seq ser_String" "map (\<lambda>s. s)"
  by (rule rust_string.Seq_serializable)

interpretation string_int: serializable2 ser_String "\<lambda>s. s" ser_Int "\<lambda>i. i"
  by unfold_locales

subsection \<open>Big-endian two's complement, as num_bigint documents it\<close>

function twos_complement :: "int \<Rightarrow> bytes" where
  "twos_complement i =
     (if - 128 \<le> i \<and> i < 128 then [of_int i]
      else twos_complement (i div 256) @ [of_int i])"
  by pat_completeness auto
termination
  by (relation "measure (\<lambda>i. nat \<bar>i\<bar>)") auto

declare twos_complement.simps [simp del]

definition twos_value :: "bytes \<Rightarrow> int" where
  "twos_value bs = foldl (\<lambda>a b. a * 256 + uint b) (sint (hd bs)) (tl bs)"

lemma twos_complement_nonempty: "twos_complement i \<noteq> []"
  by (subst twos_complement.simps) simp

lemma twos_value_complement: "twos_value (twos_complement i) = i"
proof (induction i rule: twos_complement.induct)
  case (1 i)
  show ?case
  proof (cases "- 128 \<le> i \<and> i < 128")
    case True
    then have "signed_take_bit 7 i = i"
      by (intro signed_take_bit_int_eq_self) auto
    with True show ?thesis
      by (simp add: twos_complement.simps [of i] twos_value_def signed_of_int)
  next
    case False
    have "twos_value (twos_complement (i div 256) @ [of_int i]) =
        twos_value (twos_complement (i div 256)) * 256 + i mod 256"
      using twos_complement_nonempty [of "i div 256"]
      by (cases "twos_complement (i div 256)") (simp_all add: twos_value_def uint_word_of_int)
    also have "\<dots> = i"
      using 1 False by simp
    finally have "twos_value (twos_complement (i div 256) @ [of_int i]) = i" .
    moreover have "twos_complement i = twos_complement (i div 256) @ [of_int i]"
      using False by (subst twos_complement.simps) (simp only: if_False)
    ultimately show ?thesis
      by (simp only:)
  qed
qed

interpretation twos: big_integers twos_complement
  by unfold_locales (metis twos_value_complement)

end
