(* ===== verification/Ast.thy ===== *)
theory Ast
  imports Serializable
begin

text \<open>
  The abstract syntax of \<open>stainless_data/src/ast.rs\<close> and \<open>ast/generated.rs\<close>: identifiers
  with their equality and order, flags, types, expressions, patterns and definitions, with
  the helpers that mirror Inox. A struct that stands alone is a record; a struct that is
  only a variant of an enum is the constructor of that variant, with the struct's fields
  as arguments in their order; shared references are the values they point to.

  The enums hold the variants that the extraction constructs or the pretty printer
  shows. The other variants of the generated file are never built by the front end.
  Three constructors have a suffix because HOL has a constant of that name.
\<close>

section \<open>Identifiers\<close>

record Identifier =
  ident_name :: string
  ident_globalId :: i32
  ident_id :: i32

record SymbolIdentifier =
  sym_id :: Identifier
  symbol_path :: "string list"

datatype ordering = Less | Equal | Greater

definition cmp_i32 :: "i32 \<Rightarrow> i32 \<Rightarrow> ordering" where
  "cmp_i32 a b = (if sint a < sint b then Less else if a = b then Equal else Greater)"

text \<open>Identifiers are compared by their global id only.\<close>

definition Identifier_eq :: "Identifier \<Rightarrow> Identifier \<Rightarrow> bool" where
  "Identifier_eq a b \<longleftrightarrow> ident_globalId a = ident_globalId b"

definition Identifier_cmp :: "Identifier \<Rightarrow> Identifier \<Rightarrow> ordering" where
  "Identifier_cmp a b = cmp_i32 (ident_globalId a) (ident_globalId b)"

definition SymbolIdentifier_eq :: "SymbolIdentifier \<Rightarrow> SymbolIdentifier \<Rightarrow> bool" where
  "SymbolIdentifier_eq a b \<longleftrightarrow> ident_globalId (sym_id a) = ident_globalId (sym_id b)"

definition SymbolIdentifier_cmp :: "SymbolIdentifier \<Rightarrow> SymbolIdentifier \<Rightarrow> ordering" where
  "SymbolIdentifier_cmp a b =
     cmp_i32 (ident_globalId (sym_id a)) (ident_globalId (sym_id b))"

section \<open>Flags and types\<close>

datatype Flag = Extern | IsMutable | IsPure | IsVar | Law

record TypeParameter =
  tp_id :: SymbolIdentifier
  tp_flags :: "Flag list"

record BVType =
  bvt_signed :: bool
  bvt_size :: i32

datatype Type =
    ADTType SymbolIdentifier "Type list"
  | AnyType
  | BVType BVType
  | BooleanType
  | FunctionType "Type list" Type
  | IntegerType
  | SetType Type
  | TupleType "Type list"
  | TypeParameter TypeParameter
  | UnitType
  | Untyped

section \<open>Variables and literals\<close>

record Variable =
  var_id :: SymbolIdentifier
  var_tpe :: Type
  var_flags :: "Flag list"

datatype ValDef = ValDef (vd_v: Variable)

type_synonym BigInt = int

record BVLiteral =
  bvl_signed :: bool
  bvl_value :: BigInt
  bvl_size :: i32

section \<open>Expressions and patterns\<close>

datatype (plugins del: code "quickcheck" transfer lifting size)
  Expr =
    ADT SymbolIdentifier "Type list" "Expr list"
  | ADTSelector Expr SymbolIdentifier
  | And "Expr list"
  | BVAShiftRight Expr Expr
  | BVAnd Expr Expr
  | BVLShiftRight Expr Expr
  | BVLiteral BVLiteral
  | BVNot Expr
  | BVOr Expr Expr
  | BVShiftLeft Expr Expr
  | BVWideningCast Expr BVType
  | BVXor Expr Expr
  | Block "Expr list" Expr
  | BooleanLiteral bool
  | Decreases Expr Expr
  | Division Expr Expr
  | Ensuring Expr Lambda
  | Equals Expr Expr
  | Error Type string
  | FiniteSet "Expr list" Type
  | FunctionInvocation SymbolIdentifier "Type list" "Expr list"
  | GreaterEquals Expr Expr
  | GreaterThan Expr Expr
  | IfExpr Expr Expr Expr
  | IntegerLiteral BigInt
  | Lambda Lambda
  | LessEquals Expr Expr
  | LessThan Expr Expr
  | Let_e ValDef Expr Expr
  | LetVar ValDef Expr Expr
  | MatchExpr Expr "MatchCase list"
  | Minus Expr Expr
  | NoTree Type
  | Not_e Expr
  | Or "Expr list"
  | Plus_e Expr Expr
  | Remainder Expr Expr
  | Require Expr Expr
  | SetAdd Expr Expr
  | SetDifference Expr Expr
  | SetIntersection Expr Expr
  | SetUnion Expr Expr
  | StringLiteral string
  | SubsetOf Expr Expr
  | Times Expr Expr
  | Tuple "Expr list"
  | TupleSelect Expr i32
  | UMinus Expr
  | UnitLiteral
  | Variable Variable
and Pattern =
    ADTPattern "ValDef option" SymbolIdentifier "Type list" "Pattern list"
  | LiteralPattern "ValDef option" Expr
  | TuplePattern "ValDef option" "Pattern list"
  | WildcardPattern "ValDef option"
and Lambda = MkLambda (lam_params: "ValDef list") (lam_body: Expr)
and MatchCase = MkMatchCase (mc_pattern: Pattern) (mc_optGuard: "Expr option") (mc_rhs: Expr)

section \<open>Definitions\<close>

datatype TypeParameterDef = TypeParameterDef (tpd_tp: TypeParameter)

record FunDef =
  fd_id :: SymbolIdentifier
  fd_tparams :: "TypeParameterDef list"
  fd_params :: "ValDef list"
  fd_returnType :: Type
  fd_fullBody :: Expr
  fd_flags :: "Flag list"

record ADTConstructor =
  cons_id :: SymbolIdentifier
  cons_sort :: SymbolIdentifier
  cons_fields :: "ValDef list"

record ADTSort =
  sort_id :: SymbolIdentifier
  sort_tparams :: "TypeParameterDef list"
  sort_constructors :: "ADTConstructor list"
  sort_flags :: "Flag list"

text \<open>Definitions are compared by their identifiers.\<close>

definition FunDef_eq :: "FunDef \<Rightarrow> FunDef \<Rightarrow> bool" where
  "FunDef_eq a b \<longleftrightarrow> SymbolIdentifier_eq (fd_id a) (fd_id b)"

definition FunDef_cmp :: "FunDef \<Rightarrow> FunDef \<Rightarrow> ordering" where
  "FunDef_cmp a b = SymbolIdentifier_cmp (fd_id a) (fd_id b)"

definition ADTSort_eq :: "ADTSort \<Rightarrow> ADTSort \<Rightarrow> bool" where
  "ADTSort_eq a b \<longleftrightarrow> SymbolIdentifier_eq (sort_id a) (sort_id b)"

definition ADTSort_cmp :: "ADTSort \<Rightarrow> ADTSort \<Rightarrow> ordering" where
  "ADTSort_cmp a b = SymbolIdentifier_cmp (sort_id a) (sort_id b)"

section \<open>Helpers\<close>

definition Int32Literal :: "i32 \<Rightarrow> BVLiteral" where
  "Int32Literal value = \<lparr>bvl_signed = True, bvl_value = sint value, bvl_size = 32\<rparr>"

definition Int32Type :: BVType where
  "Int32Type = \<lparr>bvt_signed = True, bvt_size = 32\<rparr>"

definition Variable_of_ValDef :: "ValDef \<Rightarrow> Variable" where
  "Variable_of_ValDef vd = vd_v vd"

text \<open>Parameters are compared by the ids of what they define.\<close>

definition ValDef_eq :: "ValDef \<Rightarrow> ValDef \<Rightarrow> bool" where
  "ValDef_eq a b \<longleftrightarrow> SymbolIdentifier_eq (var_id (vd_v a)) (var_id (vd_v b))"

definition ValDef_cmp :: "ValDef \<Rightarrow> ValDef \<Rightarrow> ordering" where
  "ValDef_cmp a b = SymbolIdentifier_cmp (var_id (vd_v a)) (var_id (vd_v b))"

definition TypeParameterDef_eq :: "TypeParameterDef \<Rightarrow> TypeParameterDef \<Rightarrow> bool" where
  "TypeParameterDef_eq a b \<longleftrightarrow> SymbolIdentifier_eq (tp_id (tpd_tp a)) (tp_id (tpd_tp b))"

definition TypeParameterDef_cmp :: "TypeParameterDef \<Rightarrow> TypeParameterDef \<Rightarrow> ordering" where
  "TypeParameterDef_cmp a b = SymbolIdentifier_cmp (tp_id (tpd_tp a)) (tp_id (tpd_tp b))"

definition make_and :: "Expr list \<Rightarrow> Expr" where
  "make_and exprs = (case exprs of
      [] \<Rightarrow> NoTree Untyped
    | [expr] \<Rightarrow> expr
    | _ \<Rightarrow> And exprs)"

section \<open>The order of identifiers\<close>

lemma cmp_i32_simps:
  "cmp_i32 a b = Less \<longleftrightarrow> sint a < sint b"
  "cmp_i32 a b = Equal \<longleftrightarrow> a = b"
  "cmp_i32 a b = Greater \<longleftrightarrow> sint b < sint a"
proof -
  have "sint a = sint b \<Longrightarrow> a = b"
    by (rule signed_word_eqI)
  then show "cmp_i32 a b = Less \<longleftrightarrow> sint a < sint b" "cmp_i32 a b = Equal \<longleftrightarrow> a = b"
    "cmp_i32 a b = Greater \<longleftrightarrow> sint b < sint a"
    by (auto simp: cmp_i32_def not_less order_le_less)
qed

end
