(* ===== verification/Ast_Ser.thy ===== *)
theory Ast_Ser
  imports Ast
begin

text \<open>
  The serialization of the syntax tree: one definition per struct of \<open>ast/generated.rs\<close>
  (its marker, then its fields in order) and the enums' dispatch to the variant, with the
  implementations of \<open>ast.rs\<close> that differ from the rest (\<open>ValDef\<close>, \<open>TypeParameterDef\<close>,
  \<open>BVLiteral\<close>, \<open>Identifier\<close>, \<open>SymbolIdentifier\<close>). The definition of a struct that occurs in
  a recursive type takes the actions that serialize its fields; the recursion over the
  tree is in \<open>ser_Type\<close> and \<open>ser_Expr\<close>.

  Every kind of node meets the contract \<open>serializable\<close>: distinct variants have distinct
  markers below 255, and the fields can be told apart one after the other.
\<close>

section \<open>Identifiers and flags\<close>

definition ser_Identifier :: "Identifier \<Rightarrow> action" where
  "ser_Identifier x = ser_do [write_marker (MarkerId 90),
     ser_tuple3 ser_String ser_Int ser_Int (ident_name x, ident_globalId x, ident_id x)]"

definition ser_SymbolIdentifier :: "SymbolIdentifier \<Rightarrow> action" where
  "ser_SymbolIdentifier x = ser_do [write_marker (MarkerId 145),
     ser_tuple4 ser_Int ser_Int (ser_Seq ser_String) ser_Int
       (ident_globalId (sym_id x), ident_id (sym_id x), symbol_path x,
        ident_globalId (sym_id x))]"

definition ser_Extern :: "action" where
  "ser_Extern = ser_do [write_marker (MarkerId 139)]"

definition ser_IsMutable :: "action" where
  "ser_IsMutable = ser_do [write_marker (MarkerId 199)]"

definition ser_IsPure :: "action" where
  "ser_IsPure = ser_do [write_marker (MarkerId 230)]"

definition ser_IsVar :: "action" where
  "ser_IsVar = ser_do [write_marker (MarkerId 198)]"

definition ser_Law :: "action" where
  "ser_Law = ser_do [write_marker (MarkerId 150)]"

primrec ser_Flag :: "Flag \<Rightarrow> action" where
  "ser_Flag Extern = ser_Extern"
| "ser_Flag IsMutable = ser_IsMutable"
| "ser_Flag IsPure = ser_IsPure"
| "ser_Flag IsVar = ser_IsVar"
| "ser_Flag Law = ser_Law"

section \<open>Types\<close>

definition ser_TypeParameter :: "TypeParameter \<Rightarrow> action" where
  "ser_TypeParameter x = ser_do
    [write_marker (MarkerId 83),
     ser_SymbolIdentifier (tp_id x),
     ser_Seq ser_Flag (tp_flags x)]"

definition ser_BVType :: "BVType \<Rightarrow> action" where
  "ser_BVType x = ser_do
    [write_marker (MarkerId 82),
     ser_Boolean (bvt_signed x),
     ser_Int (bvt_size x)]"

definition ser_ADTType :: "action \<Rightarrow> action \<Rightarrow> action" where
  "ser_ADTType idn tps = ser_do [write_marker (MarkerId 89), idn, tps]"

definition ser_AnyType :: "action" where
  "ser_AnyType = ser_do [write_marker (MarkerId 207)]"

definition ser_BooleanType :: "action" where
  "ser_BooleanType = ser_do [write_marker (MarkerId 76)]"

definition ser_FunctionType :: "action \<Rightarrow> action \<Rightarrow> action" where
  "ser_FunctionType frm tto = ser_do [write_marker (MarkerId 88), frm, tto]"

definition ser_IntegerType :: "action" where
  "ser_IntegerType = ser_do [write_marker (MarkerId 79)]"

definition ser_SetType :: "action \<Rightarrow> action" where
  "ser_SetType base = ser_do [write_marker (MarkerId 85), base]"

definition ser_TupleType :: "action \<Rightarrow> action" where
  "ser_TupleType bases = ser_do [write_marker (MarkerId 84), bases]"

definition ser_UnitType :: "action" where
  "ser_UnitType = ser_do [write_marker (MarkerId 77)]"

definition ser_Untyped :: "action" where
  "ser_Untyped = ser_do [write_marker (MarkerId 75)]"

primrec ser_Type :: "Type \<Rightarrow> action" where
  "ser_Type (ADTType idn tps) =
     ser_ADTType (ser_SymbolIdentifier idn) (ser_Seq (\<lambda>a. a) (map ser_Type tps))"
| "ser_Type AnyType = ser_AnyType"
| "ser_Type (BVType x) = ser_BVType x"
| "ser_Type BooleanType = ser_BooleanType"
| "ser_Type (FunctionType frm tto) =
     ser_FunctionType (ser_Seq (\<lambda>a. a) (map ser_Type frm)) (ser_Type tto)"
| "ser_Type IntegerType = ser_IntegerType"
| "ser_Type (SetType base) = ser_SetType (ser_Type base)"
| "ser_Type (TupleType bases) = ser_TupleType (ser_Seq (\<lambda>a. a) (map ser_Type bases))"
| "ser_Type (TypeParameter x) = ser_TypeParameter x"
| "ser_Type UnitType = ser_UnitType"
| "ser_Type Untyped = ser_Untyped"

section \<open>Variables, literals and definitions without bodies\<close>

definition ser_Variable :: "Variable \<Rightarrow> action" where
  "ser_Variable x = ser_do
    [write_marker (MarkerId 11),
     ser_SymbolIdentifier (var_id x),
     ser_Type (var_tpe x),
     ser_Seq ser_Flag (var_flags x)]"

definition ser_ValDef :: "ValDef \<Rightarrow> action" where
  "ser_ValDef x = ser_do [write_marker (MarkerId 94), ser_Variable (vd_v x)]"

definition ser_TypeParameterDef :: "TypeParameterDef \<Rightarrow> action" where
  "ser_TypeParameterDef x = ser_do [write_marker (MarkerId 95), ser_TypeParameter (tpd_tp x)]"

definition ser_BVLiteral :: "(int \<Rightarrow> bytes) \<Rightarrow> BVLiteral \<Rightarrow> action" where
  "ser_BVLiteral tsb x = ser_do [write_marker (MarkerId 20),
     ser_tuple3 ser_Boolean (ser_BigInt tsb) ser_Int (bvl_signed x, bvl_value x, bvl_size x)]"

definition ser_ADTConstructor :: "ADTConstructor \<Rightarrow> action" where
  "ser_ADTConstructor x = ser_do
    [write_marker (MarkerId 97),
     ser_SymbolIdentifier (cons_id x),
     ser_SymbolIdentifier (cons_sort x),
     ser_Seq ser_ValDef (cons_fields x)]"

definition ser_ADTSort :: "ADTSort \<Rightarrow> action" where
  "ser_ADTSort x = ser_do
    [write_marker (MarkerId 96),
     ser_SymbolIdentifier (sort_id x),
     ser_Seq ser_TypeParameterDef (sort_tparams x),
     ser_Seq ser_ADTConstructor (sort_constructors x),
     ser_Seq ser_Flag (sort_flags x)]"

section \<open>Patterns\<close>

definition ser_ADTPattern :: "action \<Rightarrow> action \<Rightarrow> action \<Rightarrow> action \<Rightarrow> action" where
  "ser_ADTPattern binder idn tps subPatterns =
   ser_do [write_marker (MarkerId 129), binder, idn, tps, subPatterns]"

definition ser_LiteralPattern :: "action \<Rightarrow> action \<Rightarrow> action" where
  "ser_LiteralPattern binder lit = ser_do [write_marker (MarkerId 131), binder, lit]"

definition ser_TuplePattern :: "action \<Rightarrow> action \<Rightarrow> action" where
  "ser_TuplePattern binder subPatterns = ser_do [write_marker (MarkerId 130), binder, subPatterns]"

definition ser_WildcardPattern :: "action \<Rightarrow> action" where
  "ser_WildcardPattern binder = ser_do [write_marker (MarkerId 128), binder]"

section \<open>Expressions\<close>

definition ser_Lambda_fields :: "action \<Rightarrow> action \<Rightarrow> action" where
  "ser_Lambda_fields params body = ser_do [write_marker (MarkerId 14), params, body]"

definition ser_MatchCase_fields :: "action \<Rightarrow> action \<Rightarrow> action \<Rightarrow> action" where
  "ser_MatchCase_fields pattern optGuard rhs =
   ser_do [write_marker (MarkerId 127), pattern, optGuard, rhs]"

definition ser_ADT :: "action \<Rightarrow> action \<Rightarrow> action \<Rightarrow> action" where
  "ser_ADT idn tps args =
   ser_do [write_marker (MarkerId 27), idn, tps, args]"

definition ser_ADTSelector :: "action \<Rightarrow> action \<Rightarrow> action" where
  "ser_ADTSelector adt selector = ser_do [write_marker (MarkerId 29), adt, selector]"

definition ser_And :: "action \<Rightarrow> action" where
  "ser_And exprs = ser_do [write_marker (MarkerId 31), exprs]"

definition ser_BVAShiftRight :: "action \<Rightarrow> action \<Rightarrow> action" where
  "ser_BVAShiftRight lhs rhs = ser_do [write_marker (MarkerId 53), lhs, rhs]"

definition ser_BVAnd :: "action \<Rightarrow> action \<Rightarrow> action" where
  "ser_BVAnd lhs rhs = ser_do [write_marker (MarkerId 49), lhs, rhs]"

definition ser_BVLShiftRight :: "action \<Rightarrow> action \<Rightarrow> action" where
  "ser_BVLShiftRight lhs rhs = ser_do [write_marker (MarkerId 54), lhs, rhs]"

definition ser_BVNot :: "action \<Rightarrow> action" where
  "ser_BVNot e = ser_do [write_marker (MarkerId 48), e]"

definition ser_BVOr :: "action \<Rightarrow> action \<Rightarrow> action" where
  "ser_BVOr lhs rhs = ser_do [write_marker (MarkerId 50), lhs, rhs]"

definition ser_BVShiftLeft :: "action \<Rightarrow> action \<Rightarrow> action" where
  "ser_BVShiftLeft lhs rhs = ser_do [write_marker (MarkerId 52), lhs, rhs]"

definition ser_BVWideningCast :: "action \<Rightarrow> action \<Rightarrow> action" where
  "ser_BVWideningCast expr newType = ser_do [write_marker (MarkerId 56), expr, newType]"

definition ser_BVXor :: "action \<Rightarrow> action \<Rightarrow> action" where
  "ser_BVXor lhs rhs = ser_do [write_marker (MarkerId 51), lhs, rhs]"

definition ser_Block :: "action \<Rightarrow> action \<Rightarrow> action" where
  "ser_Block exprs lst = ser_do [write_marker (MarkerId 188), exprs, lst]"

definition ser_BooleanLiteral :: "action \<Rightarrow> action" where
  "ser_BooleanLiteral v = ser_do [write_marker (MarkerId 23), v]"

definition ser_Decreases :: "action \<Rightarrow> action \<Rightarrow> action" where
  "ser_Decreases msr body = ser_do [write_marker (MarkerId 180), msr, body]"

definition ser_Division :: "action \<Rightarrow> action \<Rightarrow> action" where
  "ser_Division lhs rhs = ser_do [write_marker (MarkerId 41), lhs, rhs]"

definition ser_Ensuring :: "action \<Rightarrow> action \<Rightarrow> action" where
  "ser_Ensuring body pred = ser_do [write_marker (MarkerId 124), body, pred]"

definition ser_Equals :: "action \<Rightarrow> action \<Rightarrow> action" where
  "ser_Equals lhs rhs = ser_do [write_marker (MarkerId 30), lhs, rhs]"

definition ser_Error :: "action \<Rightarrow> action \<Rightarrow> action" where
  "ser_Error tpe description = ser_do [write_marker (MarkerId 121), tpe, description]"

definition ser_FiniteSet :: "action \<Rightarrow> action \<Rightarrow> action" where
  "ser_FiniteSet elements base = ser_do [write_marker (MarkerId 59), elements, base]"

definition ser_FunctionInvocation :: "action \<Rightarrow> action \<Rightarrow> action \<Rightarrow> action" where
  "ser_FunctionInvocation idn tps args =
   ser_do [write_marker (MarkerId 17), idn, tps, args]"

definition ser_GreaterEquals :: "action \<Rightarrow> action \<Rightarrow> action" where
  "ser_GreaterEquals lhs rhs = ser_do [write_marker (MarkerId 47), lhs, rhs]"

definition ser_GreaterThan :: "action \<Rightarrow> action \<Rightarrow> action" where
  "ser_GreaterThan lhs rhs = ser_do [write_marker (MarkerId 45), lhs, rhs]"

definition ser_IfExpr :: "action \<Rightarrow> action \<Rightarrow> action \<Rightarrow> action" where
  "ser_IfExpr cond thenn elze =
   ser_do [write_marker (MarkerId 18), cond, thenn, elze]"

definition ser_IntegerLiteral :: "action \<Rightarrow> action" where
  "ser_IntegerLiteral v = ser_do [write_marker (MarkerId 21), v]"

definition ser_LessEquals :: "action \<Rightarrow> action \<Rightarrow> action" where
  "ser_LessEquals lhs rhs = ser_do [write_marker (MarkerId 46), lhs, rhs]"

definition ser_LessThan :: "action \<Rightarrow> action \<Rightarrow> action" where
  "ser_LessThan lhs rhs = ser_do [write_marker (MarkerId 44), lhs, rhs]"

definition ser_Let :: "action \<Rightarrow> action \<Rightarrow> action \<Rightarrow> action" where
  "ser_Let vd v body =
   ser_do [write_marker (MarkerId 12), vd, v, body]"

definition ser_LetVar :: "action \<Rightarrow> action \<Rightarrow> action \<Rightarrow> action" where
  "ser_LetVar vd v body =
   ser_do [write_marker (MarkerId 189), vd, v, body]"

definition ser_MatchExpr :: "action \<Rightarrow> action \<Rightarrow> action" where
  "ser_MatchExpr scrutinee cs = ser_do [write_marker (MarkerId 126), scrutinee, cs]"

definition ser_Minus :: "action \<Rightarrow> action \<Rightarrow> action" where
  "ser_Minus lhs rhs = ser_do [write_marker (MarkerId 38), lhs, rhs]"

definition ser_NoTree :: "action \<Rightarrow> action" where
  "ser_NoTree tpe = ser_do [write_marker (MarkerId 120), tpe]"

definition ser_Not :: "action \<Rightarrow> action" where
  "ser_Not expr = ser_do [write_marker (MarkerId 33), expr]"

definition ser_Or :: "action \<Rightarrow> action" where
  "ser_Or exprs = ser_do [write_marker (MarkerId 32), exprs]"

definition ser_Plus :: "action \<Rightarrow> action \<Rightarrow> action" where
  "ser_Plus lhs rhs = ser_do [write_marker (MarkerId 37), lhs, rhs]"

definition ser_Remainder :: "action \<Rightarrow> action \<Rightarrow> action" where
  "ser_Remainder lhs rhs = ser_do [write_marker (MarkerId 42), lhs, rhs]"

definition ser_Require :: "action \<Rightarrow> action \<Rightarrow> action" where
  "ser_Require pred body = ser_do [write_marker (MarkerId 122), pred, body]"

definition ser_SetAdd :: "action \<Rightarrow> action \<Rightarrow> action" where
  "ser_SetAdd st elem = ser_do [write_marker (MarkerId 60), st, elem]"

definition ser_SetDifference :: "action \<Rightarrow> action \<Rightarrow> action" where
  "ser_SetDifference lhs rhs = ser_do [write_marker (MarkerId 65), lhs, rhs]"

definition ser_SetIntersection :: "action \<Rightarrow> action \<Rightarrow> action" where
  "ser_SetIntersection lhs rhs = ser_do [write_marker (MarkerId 63), lhs, rhs]"

definition ser_SetUnion :: "action \<Rightarrow> action \<Rightarrow> action" where
  "ser_SetUnion lhs rhs = ser_do [write_marker (MarkerId 64), lhs, rhs]"

definition ser_StringLiteral :: "action \<Rightarrow> action" where
  "ser_StringLiteral v = ser_do [write_marker (MarkerId 24), v]"

definition ser_SubsetOf :: "action \<Rightarrow> action \<Rightarrow> action" where
  "ser_SubsetOf lhs rhs = ser_do [write_marker (MarkerId 62), lhs, rhs]"

definition ser_Times :: "action \<Rightarrow> action \<Rightarrow> action" where
  "ser_Times lhs rhs = ser_do [write_marker (MarkerId 40), lhs, rhs]"

definition ser_Tuple :: "action \<Rightarrow> action" where
  "ser_Tuple exprs = ser_do [write_marker (MarkerId 57), exprs]"

definition ser_TupleSelect :: "action \<Rightarrow> action \<Rightarrow> action" where
  "ser_TupleSelect tuple index = ser_do [write_marker (MarkerId 58), tuple, index]"

definition ser_UMinus :: "action \<Rightarrow> action" where
  "ser_UMinus expr = ser_do [write_marker (MarkerId 39), expr]"

definition ser_UnitLiteral :: "action" where
  "ser_UnitLiteral = ser_do [write_marker (MarkerId 25)]"

section \<open>The enums\<close>

primrec ser_Expr :: "(int \<Rightarrow> bytes) \<Rightarrow> Expr \<Rightarrow> action"
  and ser_Pattern :: "(int \<Rightarrow> bytes) \<Rightarrow> Pattern \<Rightarrow> action"
  and ser_Lambda :: "(int \<Rightarrow> bytes) \<Rightarrow> Lambda \<Rightarrow> action"
  and ser_MatchCase :: "(int \<Rightarrow> bytes) \<Rightarrow> MatchCase \<Rightarrow> action" where
  "ser_Expr tsb (ADT idn tps args) =
     ser_ADT
       (ser_SymbolIdentifier idn)
       (ser_Seq ser_Type tps)
       (ser_Seq (\<lambda>a. a) (map (ser_Expr tsb) args))"
| "ser_Expr tsb (ADTSelector adt selector) =
     ser_ADTSelector (ser_Expr tsb adt) (ser_SymbolIdentifier selector)"
| "ser_Expr tsb (And exprs) = ser_And (ser_Seq (\<lambda>a. a) (map (ser_Expr tsb) exprs))"
| "ser_Expr tsb (BVAShiftRight lhs rhs) =
     ser_BVAShiftRight (ser_Expr tsb lhs) (ser_Expr tsb rhs)"
| "ser_Expr tsb (BVAnd lhs rhs) = ser_BVAnd (ser_Expr tsb lhs) (ser_Expr tsb rhs)"
| "ser_Expr tsb (BVLShiftRight lhs rhs) =
     ser_BVLShiftRight (ser_Expr tsb lhs) (ser_Expr tsb rhs)"
| "ser_Expr tsb (BVLiteral x) = ser_BVLiteral tsb x"
| "ser_Expr tsb (BVNot e) = ser_BVNot (ser_Expr tsb e)"
| "ser_Expr tsb (BVOr lhs rhs) = ser_BVOr (ser_Expr tsb lhs) (ser_Expr tsb rhs)"
| "ser_Expr tsb (BVShiftLeft lhs rhs) =
     ser_BVShiftLeft (ser_Expr tsb lhs) (ser_Expr tsb rhs)"
| "ser_Expr tsb (BVWideningCast expr newType) =
     ser_BVWideningCast (ser_Expr tsb expr) (ser_BVType newType)"
| "ser_Expr tsb (BVXor lhs rhs) = ser_BVXor (ser_Expr tsb lhs) (ser_Expr tsb rhs)"
| "ser_Expr tsb (Block exprs lst) =
     ser_Block (ser_Seq (\<lambda>a. a) (map (ser_Expr tsb) exprs)) (ser_Expr tsb lst)"
| "ser_Expr tsb (BooleanLiteral v) = ser_BooleanLiteral (ser_Boolean v)"
| "ser_Expr tsb (Decreases msr body) = ser_Decreases (ser_Expr tsb msr) (ser_Expr tsb body)"
| "ser_Expr tsb (Division lhs rhs) = ser_Division (ser_Expr tsb lhs) (ser_Expr tsb rhs)"
| "ser_Expr tsb (Ensuring body pred) =
     ser_Ensuring (ser_Expr tsb body) (ser_Lambda tsb pred)"
| "ser_Expr tsb (Equals lhs rhs) = ser_Equals (ser_Expr tsb lhs) (ser_Expr tsb rhs)"
| "ser_Expr tsb (Error tpe description) = ser_Error (ser_Type tpe) (ser_String description)"
| "ser_Expr tsb (FiniteSet elements base) =
     ser_FiniteSet (ser_Seq (\<lambda>a. a) (map (ser_Expr tsb) elements)) (ser_Type base)"
| "ser_Expr tsb (FunctionInvocation idn tps args) =
     ser_FunctionInvocation
       (ser_SymbolIdentifier idn)
       (ser_Seq ser_Type tps)
       (ser_Seq (\<lambda>a. a) (map (ser_Expr tsb) args))"
| "ser_Expr tsb (GreaterEquals lhs rhs) =
     ser_GreaterEquals (ser_Expr tsb lhs) (ser_Expr tsb rhs)"
| "ser_Expr tsb (GreaterThan lhs rhs) =
     ser_GreaterThan (ser_Expr tsb lhs) (ser_Expr tsb rhs)"
| "ser_Expr tsb (IfExpr cond thenn elze) =
     ser_IfExpr (ser_Expr tsb cond) (ser_Expr tsb thenn) (ser_Expr tsb elze)"
| "ser_Expr tsb (IntegerLiteral v) = ser_IntegerLiteral (ser_BigInt tsb v)"
| "ser_Expr tsb (Lambda x) = ser_Lambda tsb x"
| "ser_Expr tsb (LessEquals lhs rhs) = ser_LessEquals (ser_Expr tsb lhs) (ser_Expr tsb rhs)"
| "ser_Expr tsb (LessThan lhs rhs) = ser_LessThan (ser_Expr tsb lhs) (ser_Expr tsb rhs)"
| "ser_Expr tsb (Let_e vd v body) =
     ser_Let (ser_ValDef vd) (ser_Expr tsb v) (ser_Expr tsb body)"
| "ser_Expr tsb (LetVar vd v body) =
     ser_LetVar (ser_ValDef vd) (ser_Expr tsb v) (ser_Expr tsb body)"
| "ser_Expr tsb (MatchExpr scrutinee cs) =
     ser_MatchExpr
       (ser_Expr tsb scrutinee)
       (ser_Seq (\<lambda>a. a) (map (ser_MatchCase tsb) cs))"
| "ser_Expr tsb (Minus lhs rhs) = ser_Minus (ser_Expr tsb lhs) (ser_Expr tsb rhs)"
| "ser_Expr tsb (NoTree tpe) = ser_NoTree (ser_Type tpe)"
| "ser_Expr tsb (Not_e expr) = ser_Not (ser_Expr tsb expr)"
| "ser_Expr tsb (Or exprs) = ser_Or (ser_Seq (\<lambda>a. a) (map (ser_Expr tsb) exprs))"
| "ser_Expr tsb (Plus_e lhs rhs) = ser_Plus (ser_Expr tsb lhs) (ser_Expr tsb rhs)"
| "ser_Expr tsb (Remainder lhs rhs) = ser_Remainder (ser_Expr tsb lhs) (ser_Expr tsb rhs)"
| "ser_Expr tsb (Require pred body) = ser_Require (ser_Expr tsb pred) (ser_Expr tsb body)"
| "ser_Expr tsb (SetAdd st elem) = ser_SetAdd (ser_Expr tsb st) (ser_Expr tsb elem)"
| "ser_Expr tsb (SetDifference lhs rhs) =
     ser_SetDifference (ser_Expr tsb lhs) (ser_Expr tsb rhs)"
| "ser_Expr tsb (SetIntersection lhs rhs) =
     ser_SetIntersection (ser_Expr tsb lhs) (ser_Expr tsb rhs)"
| "ser_Expr tsb (SetUnion lhs rhs) = ser_SetUnion (ser_Expr tsb lhs) (ser_Expr tsb rhs)"
| "ser_Expr tsb (StringLiteral v) = ser_StringLiteral (ser_String v)"
| "ser_Expr tsb (SubsetOf lhs rhs) = ser_SubsetOf (ser_Expr tsb lhs) (ser_Expr tsb rhs)"
| "ser_Expr tsb (Times lhs rhs) = ser_Times (ser_Expr tsb lhs) (ser_Expr tsb rhs)"
| "ser_Expr tsb (Tuple exprs) =
     ser_Tuple (ser_Seq (\<lambda>a. a) (map (ser_Expr tsb) exprs))"
| "ser_Expr tsb (TupleSelect tuple index) =
     ser_TupleSelect (ser_Expr tsb tuple) (ser_Int index)"
| "ser_Expr tsb (UMinus expr) = ser_UMinus (ser_Expr tsb expr)"
| "ser_Expr tsb UnitLiteral = ser_UnitLiteral"
| "ser_Expr tsb (Variable x) = ser_Variable x"
| "ser_Pattern tsb (ADTPattern binder idn tps subPatterns) =
     ser_ADTPattern
       (ser_Option ser_ValDef binder)
       (ser_SymbolIdentifier idn)
       (ser_Seq ser_Type tps)
       (ser_Seq (\<lambda>a. a) (map (ser_Pattern tsb) subPatterns))"
| "ser_Pattern tsb (LiteralPattern binder lit) =
     ser_LiteralPattern (ser_Option ser_ValDef binder) (ser_Expr tsb lit)"
| "ser_Pattern tsb (TuplePattern binder subPatterns) =
     ser_TuplePattern
       (ser_Option ser_ValDef binder)
       (ser_Seq (\<lambda>a. a) (map (ser_Pattern tsb) subPatterns))"
| "ser_Pattern tsb (WildcardPattern binder) =
     ser_WildcardPattern (ser_Option ser_ValDef binder)"
| "ser_Lambda tsb (MkLambda params body) =
     ser_Lambda_fields
       (ser_Seq ser_ValDef params)
       (ser_Expr tsb body)"
| "ser_MatchCase tsb (MkMatchCase pattern optGuard rhs) =
     ser_MatchCase_fields
       (ser_Pattern tsb pattern)
       (ser_Option (\<lambda>a. a) (map_option (ser_Expr tsb) optGuard))
       (ser_Expr tsb rhs)"

definition ser_FunDef :: "(int \<Rightarrow> bytes) \<Rightarrow> FunDef \<Rightarrow> action" where
  "ser_FunDef tsb x = ser_do
    [write_marker (MarkerId 98),
     ser_SymbolIdentifier (fd_id x),
     ser_Seq ser_TypeParameterDef (fd_tparams x),
     ser_Seq ser_ValDef (fd_params x),
     ser_Type (fd_returnType x),
     ser_Expr tsb (fd_fullBody x),
     ser_Seq ser_Flag (fd_flags x)]"

section \<open>Only appending\<close>

lemmas ser_flag_defs =
  ser_Extern_def ser_IsMutable_def ser_IsPure_def ser_IsVar_def ser_Law_def

lemmas ser_type_defs =
  ser_ADTType_def ser_AnyType_def ser_BooleanType_def ser_FunctionType_def ser_IntegerType_def
  ser_SetType_def ser_TupleType_def ser_UnitType_def ser_Untyped_def ser_TypeParameter_def
  ser_BVType_def

lemmas ser_expr_defs =
  ser_ADT_def ser_ADTSelector_def ser_And_def ser_BVAShiftRight_def ser_BVAnd_def
  ser_BVLShiftRight_def ser_BVNot_def ser_BVOr_def ser_BVShiftLeft_def ser_BVWideningCast_def
  ser_BVXor_def ser_Block_def ser_BooleanLiteral_def ser_Decreases_def ser_Division_def
  ser_Ensuring_def ser_Equals_def ser_Error_def ser_FiniteSet_def ser_FunctionInvocation_def
  ser_GreaterEquals_def ser_GreaterThan_def ser_IfExpr_def ser_IntegerLiteral_def
  ser_LessEquals_def ser_LessThan_def ser_Let_def ser_LetVar_def ser_MatchExpr_def ser_Minus_def
  ser_NoTree_def ser_Not_def ser_Or_def ser_Plus_def ser_Remainder_def ser_Require_def
  ser_SetAdd_def ser_SetDifference_def ser_SetIntersection_def ser_SetUnion_def
  ser_StringLiteral_def ser_SubsetOf_def ser_Times_def ser_Tuple_def ser_TupleSelect_def
  ser_UMinus_def ser_UnitLiteral_def ser_ADTPattern_def ser_LiteralPattern_def
  ser_TuplePattern_def ser_WildcardPattern_def ser_Lambda_fields_def ser_MatchCase_fields_def
  ser_BVLiteral_def ser_Variable_def

lemma ser_Seq_actions [simp]: "ser_Seq (\<lambda>a. a) (map f xs) = ser_Seq f xs"
  by (simp add: ser_Seq_def comp_def)

lemma ser_Option_actions [simp]: "ser_Option (\<lambda>a. a) (map_option f v) = ser_Option f v"
  by (cases v) (simp_all add: ser_Option_def)

lemma appending_ser_Identifier [ser_intros, simp]: "appending (ser_Identifier x)"
  by (simp add: ser_Identifier_def ser_intros)

lemma appending_ser_SymbolIdentifier [ser_intros, simp]: "appending (ser_SymbolIdentifier x)"
  by (simp add: ser_SymbolIdentifier_def ser_intros)

lemma appending_ser_Flag [ser_intros, simp]: "appending (ser_Flag x)"
  by (cases x) (simp_all add: ser_flag_defs)

lemma appending_ser_Type_leaves [ser_intros, simp]:
  "appending (ser_TypeParameter x)" "appending (ser_BVType y)"
  by (simp_all add: ser_type_defs ser_intros)

lemma appending_ser_Type [ser_intros, simp]: "appending (ser_Type x)"
  by (induction x) (simp_all add: ser_type_defs ser_intros)

lemma appending_ser_leaves [ser_intros, simp]:
  "appending (ser_Variable v)" "appending (ser_ValDef vd)" "appending (ser_TypeParameterDef t)"
  "appending (ser_BVLiteral tsb l)" "appending (ser_ADTConstructor c)"
  by (simp_all add: ser_Variable_def ser_ValDef_def ser_TypeParameterDef_def ser_BVLiteral_def
      ser_ADTConstructor_def ser_intros)

lemma appending_ser_ADTSort [ser_intros, simp]: "appending (ser_ADTSort x)"
  by (simp add: ser_ADTSort_def ser_intros)

lemma appending_ser_Expr [ser_intros, simp]:
  "appending (ser_Expr tsb e)" "appending (ser_Pattern tsb p)"
  "appending (ser_Lambda tsb l)" "appending (ser_MatchCase tsb c)"
  by (induction e and p and l and c) (simp_all add: ser_expr_defs ser_intros)

lemma appending_ser_FunDef [ser_intros, simp]: "appending (ser_FunDef tsb x)"
  by (simp add: ser_FunDef_def ser_intros)

section \<open>Telling nodes apart\<close>

lemma sepa_ser_Identifier: "sepa (ser_Identifier x) (ser_Identifier y) (x = y)"
proof -
  have "sepa (ser_Identifier x) (ser_Identifier y)
      (ident_name x = ident_name y \<and> ident_globalId x = ident_globalId y \<and> ident_id x = ident_id y)"
    unfolding ser_Identifier_def
    by (intro sepa_fields1 sepa_ser_tuple3 sepa_ser_Int sepa_ser_String) simp_all
  then show ?thesis
    by (rule sepa_mono) simp
qed

section \<open>What a reader recovers\<close>

text \<open>
  A \<open>SymbolIdentifier\<close> is written without the display name of its \<open>Identifier\<close>. Erasing
  these names from a tree gives what its bytes determine.
\<close>

definition strip_SymbolIdentifier :: "SymbolIdentifier \<Rightarrow> SymbolIdentifier" where
  "strip_SymbolIdentifier x = x\<lparr>sym_id := (sym_id x)\<lparr>ident_name := []\<rparr>\<rparr>"

definition strip_TypeParameter :: "TypeParameter \<Rightarrow> TypeParameter" where
  "strip_TypeParameter x = x\<lparr>tp_id := strip_SymbolIdentifier (tp_id x)\<rparr>"

primrec strip_Type :: "Type \<Rightarrow> Type" where
  "strip_Type (ADTType idn tps) =
     ADTType (strip_SymbolIdentifier idn) (map strip_Type tps)"
| "strip_Type AnyType = AnyType"
| "strip_Type (BVType x) = BVType x"
| "strip_Type BooleanType = BooleanType"
| "strip_Type (FunctionType frm tto) = FunctionType (map strip_Type frm) (strip_Type tto)"
| "strip_Type IntegerType = IntegerType"
| "strip_Type (SetType base) = SetType (strip_Type base)"
| "strip_Type (TupleType bases) = TupleType (map strip_Type bases)"
| "strip_Type (TypeParameter x) = TypeParameter (strip_TypeParameter x)"
| "strip_Type UnitType = UnitType"
| "strip_Type Untyped = Untyped"

definition strip_Variable :: "Variable \<Rightarrow> Variable" where
  "strip_Variable x = x\<lparr>var_id := strip_SymbolIdentifier (var_id x), var_tpe := strip_Type (var_tpe x)\<rparr>"

definition strip_ValDef :: "ValDef \<Rightarrow> ValDef" where
  "strip_ValDef x = ValDef (strip_Variable (vd_v x))"

definition strip_TypeParameterDef :: "TypeParameterDef \<Rightarrow> TypeParameterDef" where
  "strip_TypeParameterDef x = TypeParameterDef (strip_TypeParameter (tpd_tp x))"

definition strip_ADTConstructor :: "ADTConstructor \<Rightarrow> ADTConstructor" where
  "strip_ADTConstructor x = \<lparr>cons_id = strip_SymbolIdentifier (cons_id x),
     cons_sort = strip_SymbolIdentifier (cons_sort x), cons_fields = map strip_ValDef (cons_fields x)\<rparr>"

definition strip_ADTSort :: "ADTSort \<Rightarrow> ADTSort" where
  "strip_ADTSort x = \<lparr>sort_id = strip_SymbolIdentifier (sort_id x),
     sort_tparams = map strip_TypeParameterDef (sort_tparams x),
     sort_constructors = map strip_ADTConstructor (sort_constructors x), sort_flags = sort_flags x\<rparr>"

primrec strip_Expr :: "Expr \<Rightarrow> Expr"
  and strip_Pattern :: "Pattern \<Rightarrow> Pattern"
  and strip_Lambda :: "Lambda \<Rightarrow> Lambda"
  and strip_MatchCase :: "MatchCase \<Rightarrow> MatchCase" where
  "strip_Expr (ADT idn tps args) =
     ADT (strip_SymbolIdentifier idn) (map strip_Type tps) (map strip_Expr args)"
| "strip_Expr (ADTSelector adt selector) =
     ADTSelector (strip_Expr adt) (strip_SymbolIdentifier selector)"
| "strip_Expr (And exprs) = And (map strip_Expr exprs)"
| "strip_Expr (BVAShiftRight lhs rhs) = BVAShiftRight (strip_Expr lhs) (strip_Expr rhs)"
| "strip_Expr (BVAnd lhs rhs) = BVAnd (strip_Expr lhs) (strip_Expr rhs)"
| "strip_Expr (BVLShiftRight lhs rhs) = BVLShiftRight (strip_Expr lhs) (strip_Expr rhs)"
| "strip_Expr (BVLiteral x) = BVLiteral x"
| "strip_Expr (BVNot e) = BVNot (strip_Expr e)"
| "strip_Expr (BVOr lhs rhs) = BVOr (strip_Expr lhs) (strip_Expr rhs)"
| "strip_Expr (BVShiftLeft lhs rhs) = BVShiftLeft (strip_Expr lhs) (strip_Expr rhs)"
| "strip_Expr (BVWideningCast expr newType) = BVWideningCast (strip_Expr expr) newType"
| "strip_Expr (BVXor lhs rhs) = BVXor (strip_Expr lhs) (strip_Expr rhs)"
| "strip_Expr (Block exprs lst) = Block (map strip_Expr exprs) (strip_Expr lst)"
| "strip_Expr (BooleanLiteral v) = BooleanLiteral v"
| "strip_Expr (Decreases msr body) = Decreases (strip_Expr msr) (strip_Expr body)"
| "strip_Expr (Division lhs rhs) = Division (strip_Expr lhs) (strip_Expr rhs)"
| "strip_Expr (Ensuring body pred) = Ensuring (strip_Expr body) (strip_Lambda pred)"
| "strip_Expr (Equals lhs rhs) = Equals (strip_Expr lhs) (strip_Expr rhs)"
| "strip_Expr (Error tpe description) = Error (strip_Type tpe) description"
| "strip_Expr (FiniteSet elements base) =
     FiniteSet (map strip_Expr elements) (strip_Type base)"
| "strip_Expr (FunctionInvocation idn tps args) =
     FunctionInvocation (strip_SymbolIdentifier idn) (map strip_Type tps) (map strip_Expr args)"
| "strip_Expr (GreaterEquals lhs rhs) = GreaterEquals (strip_Expr lhs) (strip_Expr rhs)"
| "strip_Expr (GreaterThan lhs rhs) = GreaterThan (strip_Expr lhs) (strip_Expr rhs)"
| "strip_Expr (IfExpr cond thenn elze) =
     IfExpr (strip_Expr cond) (strip_Expr thenn) (strip_Expr elze)"
| "strip_Expr (IntegerLiteral v) = IntegerLiteral v"
| "strip_Expr (Lambda x) = Lambda (strip_Lambda x)"
| "strip_Expr (LessEquals lhs rhs) = LessEquals (strip_Expr lhs) (strip_Expr rhs)"
| "strip_Expr (LessThan lhs rhs) = LessThan (strip_Expr lhs) (strip_Expr rhs)"
| "strip_Expr (Let_e vd v body) = Let_e (strip_ValDef vd) (strip_Expr v) (strip_Expr body)"
| "strip_Expr (LetVar vd v body) =
     LetVar (strip_ValDef vd) (strip_Expr v) (strip_Expr body)"
| "strip_Expr (MatchExpr scrutinee cs) =
     MatchExpr (strip_Expr scrutinee) (map strip_MatchCase cs)"
| "strip_Expr (Minus lhs rhs) = Minus (strip_Expr lhs) (strip_Expr rhs)"
| "strip_Expr (NoTree tpe) = NoTree (strip_Type tpe)"
| "strip_Expr (Not_e expr) = Not_e (strip_Expr expr)"
| "strip_Expr (Or exprs) = Or (map strip_Expr exprs)"
| "strip_Expr (Plus_e lhs rhs) = Plus_e (strip_Expr lhs) (strip_Expr rhs)"
| "strip_Expr (Remainder lhs rhs) = Remainder (strip_Expr lhs) (strip_Expr rhs)"
| "strip_Expr (Require pred body) = Require (strip_Expr pred) (strip_Expr body)"
| "strip_Expr (SetAdd st elem) = SetAdd (strip_Expr st) (strip_Expr elem)"
| "strip_Expr (SetDifference lhs rhs) = SetDifference (strip_Expr lhs) (strip_Expr rhs)"
| "strip_Expr (SetIntersection lhs rhs) =
     SetIntersection (strip_Expr lhs) (strip_Expr rhs)"
| "strip_Expr (SetUnion lhs rhs) = SetUnion (strip_Expr lhs) (strip_Expr rhs)"
| "strip_Expr (StringLiteral v) = StringLiteral v"
| "strip_Expr (SubsetOf lhs rhs) = SubsetOf (strip_Expr lhs) (strip_Expr rhs)"
| "strip_Expr (Times lhs rhs) = Times (strip_Expr lhs) (strip_Expr rhs)"
| "strip_Expr (Tuple exprs) = Tuple (map strip_Expr exprs)"
| "strip_Expr (TupleSelect tuple index) = TupleSelect (strip_Expr tuple) index"
| "strip_Expr (UMinus expr) = UMinus (strip_Expr expr)"
| "strip_Expr UnitLiteral = UnitLiteral"
| "strip_Expr (Variable x) = Variable (strip_Variable x)"
| "strip_Pattern (ADTPattern binder idn tps subPatterns) =
     ADTPattern (map_option strip_ValDef binder) (strip_SymbolIdentifier idn) (map strip_Type tps) (map strip_Pattern subPatterns)"
| "strip_Pattern (LiteralPattern binder lit) =
     LiteralPattern (map_option strip_ValDef binder) (strip_Expr lit)"
| "strip_Pattern (TuplePattern binder subPatterns) =
     TuplePattern (map_option strip_ValDef binder) (map strip_Pattern subPatterns)"
| "strip_Pattern (WildcardPattern binder) =
     WildcardPattern (map_option strip_ValDef binder)"
| "strip_Lambda (MkLambda params body) =
     MkLambda (map strip_ValDef params) (strip_Expr body)"
| "strip_MatchCase (MkMatchCase pattern optGuard rhs) =
     MkMatchCase (strip_Pattern pattern) (map_option strip_Expr optGuard) (strip_Expr rhs)"

definition strip_FunDef :: "FunDef \<Rightarrow> FunDef" where
  "strip_FunDef x = \<lparr>fd_id = strip_SymbolIdentifier (fd_id x),
     fd_tparams = map strip_TypeParameterDef (fd_tparams x), fd_params = map strip_ValDef (fd_params x),
     fd_returnType = strip_Type (fd_returnType x), fd_fullBody = strip_Expr (fd_fullBody x),
     fd_flags = fd_flags x\<rparr>"

section \<open>The contract for every kind of node\<close>

lemmas sepa_values =
  sepa_ser_Int sepa_ser_String sepa_ser_Boolean sepa_ser_Seq sepa_ser_Option

lemma sepa_ser_SymbolIdentifier:
  "sepa (ser_SymbolIdentifier x) (ser_SymbolIdentifier y)
     (strip_SymbolIdentifier x = strip_SymbolIdentifier y)"
proof -
  have "sepa (ser_SymbolIdentifier x) (ser_SymbolIdentifier y)
    (ident_globalId (sym_id x) = ident_globalId (sym_id y) \<and> ident_id (sym_id x) = ident_id (sym_id y) \<and>
     map (\<lambda>s. s) (symbol_path x) = map (\<lambda>s. s) (symbol_path y) \<and>
     ident_globalId (sym_id x) = ident_globalId (sym_id y))"
    unfolding ser_SymbolIdentifier_def
    by (intro sepa_fields1 sepa_ser_tuple4 sepa_values) simp_all
  then show ?thesis
    by (rule sepa_mono) (simp add: strip_SymbolIdentifier_def)
qed

lemma sepa_ser_Flag: "sepa (ser_Flag x) (ser_Flag y) (x = y)"
  by (cases x; cases y) (simp_all add: ser_flag_defs sepa_fields)

lemma sepa_ser_Flags: "sepa (ser_Seq ser_Flag v) (ser_Seq ser_Flag w) (v = w)"
  using sepa_ser_Seq [of ser_Flag v "\<lambda>x. x" w] by (simp add: sepa_ser_Flag)

lemma sepa_ser_TypeParameter:
  "sepa (ser_TypeParameter x) (ser_TypeParameter y) (strip_TypeParameter x = strip_TypeParameter y)"
proof -
  have "sepa (ser_TypeParameter x) (ser_TypeParameter y)
      (strip_SymbolIdentifier (tp_id x) = strip_SymbolIdentifier (tp_id y) \<and> tp_flags x = tp_flags y)"
    unfolding ser_TypeParameter_def
    by (intro sepa_fields sepa_ser_SymbolIdentifier sepa_ser_Flags) simp_all
  then show ?thesis
    by (rule sepa_mono) (simp add: strip_TypeParameter_def)
qed

lemma sepa_ser_BVType: "sepa (ser_BVType x) (ser_BVType y) (x = y)"
proof -
  have "sepa (ser_BVType x) (ser_BVType y) (bvt_signed x = bvt_signed y \<and> bvt_size x = bvt_size y)"
    unfolding ser_BVType_def by (intro sepa_fields sepa_values) simp_all
  then show ?thesis
    by (rule sepa_mono) simp
qed

lemmas sepa_leaves = sepa_ser_SymbolIdentifier sepa_ser_Flags sepa_ser_TypeParameter sepa_ser_BVType

lemma sepa_ser_TypeParameter_marker:
  "sepa (ser_TypeParameter x) (ser_do (write_marker m # as)) P" if "m \<noteq> MarkerId 83" "appending (ser_do as)"
  unfolding ser_TypeParameter_def using that by (intro sepa_clash) auto

lemma sepa_ser_Type: "sepa (ser_Type x) (ser_Type y) (strip_Type x = strip_Type y)"
proof (induction x arbitrary: y)
  case (BVType x y)
  then show ?case
    by (cases y) (simp_all add: sepa_ser_BVType, simp_all add: ser_type_defs sepa_fields)
next
  case (TypeParameter x y)
  then show ?case
    by (cases y) (simp_all add: sepa_ser_TypeParameter, simp_all add: ser_type_defs sepa_fields)
qed (case_tac y; simp add: ser_type_defs sepa_fields sepa_leaves sepa_values)+

lemma sepa_ser_Variable: "sepa (ser_Variable x) (ser_Variable y) (strip_Variable x = strip_Variable y)"
proof -
  have "sepa (ser_Variable x) (ser_Variable y)
      (strip_SymbolIdentifier (var_id x) = strip_SymbolIdentifier (var_id y) \<and>
       strip_Type (var_tpe x) = strip_Type (var_tpe y) \<and> var_flags x = var_flags y)"
    unfolding ser_Variable_def by (simp add: sepa_fields sepa_leaves sepa_ser_Type)
  then show ?thesis
    by (rule sepa_mono) (simp add: strip_Variable_def)
qed

lemma sepa_ser_ValDef: "sepa (ser_ValDef x) (ser_ValDef y) (strip_ValDef x = strip_ValDef y)"
  by (simp add: ser_ValDef_def strip_ValDef_def sepa_fields sepa_ser_Variable)

lemma sepa_ser_TypeParameterDef:
  "sepa (ser_TypeParameterDef x) (ser_TypeParameterDef y)
     (strip_TypeParameterDef x = strip_TypeParameterDef y)"
  by (simp add: ser_TypeParameterDef_def strip_TypeParameterDef_def sepa_fields sepa_leaves)

lemma sepa_ser_ADTConstructor:
  "sepa (ser_ADTConstructor x) (ser_ADTConstructor y) (strip_ADTConstructor x = strip_ADTConstructor y)"
  by (simp add: ser_ADTConstructor_def strip_ADTConstructor_def sepa_fields sepa_leaves
      sepa_ser_ValDef sepa_values)

lemma sepa_ser_ADTSort:
  "sepa (ser_ADTSort x) (ser_ADTSort y) (strip_ADTSort x = strip_ADTSort y)"
  by (simp add: ser_ADTSort_def strip_ADTSort_def sepa_fields sepa_leaves
      sepa_ser_TypeParameterDef sepa_ser_ADTConstructor sepa_values)

lemma ser_Lambda_head:
  "ser_Lambda tsb l = ser_do [write_marker (MarkerId 14), ser_Seq ser_ValDef (lam_params l),
     ser_Expr tsb (lam_body l)]"
  by (cases l) (simp add: ser_Lambda_fields_def)

context big_integers
begin

lemma sepa_ser_BVLiteral: "sepa (ser_BVLiteral tsb x) (ser_BVLiteral tsb y) (x = y)"
proof -
  have "sepa (ser_BVLiteral tsb x) (ser_BVLiteral tsb y)
      (bvl_signed x = bvl_signed y \<and> bvl_value x = bvl_value y \<and> bvl_size x = bvl_size y)"
    unfolding ser_BVLiteral_def
    by (intro sepa_fields1 sepa_ser_tuple3 sepa_values big.separates) simp_all
  then show ?thesis
    by (rule sepa_mono) simp
qed

lemmas sepa_expr_leaves =
  sepa_ser_SymbolIdentifier sepa_ser_BVType sepa_ser_Type sepa_ser_ValDef big.separates

lemma sepa_ser_Expr:
  "sepa (ser_Expr tsb e) (ser_Expr tsb e') (strip_Expr e = strip_Expr e')"
  "sepa (ser_Pattern tsb p) (ser_Pattern tsb p') (strip_Pattern p = strip_Pattern p')"
  "sepa (ser_Lambda tsb l) (ser_Lambda tsb l') (strip_Lambda l = strip_Lambda l')"
  "sepa (ser_MatchCase tsb c) (ser_MatchCase tsb c') (strip_MatchCase c = strip_MatchCase c')"
proof (induction e and p and l and c arbitrary: e' and p' and l' and c')
  case (BVLiteral x e')
  then show ?case
    by (cases e') (simp_all add: sepa_ser_BVLiteral, simp_all add: ser_expr_defs ser_Lambda_head sepa_fields)
next
  case (Variable x e')
  then show ?case
    by (cases e') (simp_all add: sepa_ser_Variable, simp_all add: ser_expr_defs ser_Lambda_head sepa_fields)
next
  case (Lambda x e')
  then show ?case
    by (cases e') (simp_all, simp_all add: ser_expr_defs ser_Lambda_head sepa_fields)
next
  case (MkLambda params body l')
  then show ?case
    by (cases l') (simp add: ser_expr_defs sepa_fields sepa_expr_leaves sepa_values)
next
  case (MkMatchCase pat g rhs c')
  then show ?case
    by (cases c') (simp add: ser_expr_defs sepa_fields sepa_expr_leaves sepa_values)
next
  case (ADTPattern b i tps ps p')
  then show ?case
    by (cases p') (simp_all add: ser_expr_defs sepa_fields sepa_expr_leaves sepa_values)
next
  case (LiteralPattern b l p')
  then show ?case
    by (cases p') (simp_all add: ser_expr_defs sepa_fields sepa_expr_leaves sepa_values)
next
  case (TuplePattern b ps p')
  then show ?case
    by (cases p') (simp_all add: ser_expr_defs sepa_fields sepa_expr_leaves sepa_values)
next
  case (WildcardPattern b p')
  then show ?case
    by (cases p') (simp_all add: ser_expr_defs sepa_fields sepa_expr_leaves sepa_values)
qed (case_tac e'; simp add: ser_expr_defs ser_Lambda_head sepa_fields sepa_expr_leaves sepa_values)+

end
context big_integers
begin

lemma sepa_ser_FunDef: "sepa (ser_FunDef tsb x) (ser_FunDef tsb y) (strip_FunDef x = strip_FunDef y)"
  by (simp add: ser_FunDef_def strip_FunDef_def sepa_fields sepa_fields6 sepa_leaves sepa_expr_leaves
      sepa_ser_TypeParameterDef sepa_ser_Expr sepa_values)

end

section \<open>Nothing else is written\<close>

text \<open>A tree and the tree without display names have the same serialization.\<close>

lemma ser_strip_SymbolIdentifier [simp]:
  "ser_SymbolIdentifier (strip_SymbolIdentifier x) = ser_SymbolIdentifier x"
  by (simp add: ser_SymbolIdentifier_def strip_SymbolIdentifier_def)

lemma ser_Seq_same: "(\<And>x. x \<in> set xs \<Longrightarrow> f (g x) = f x) \<Longrightarrow> ser_Seq f (map g xs) = ser_Seq f xs"
  by (simp add: ser_Seq_def comp_def cong: map_cong)

lemma ser_Option_same: "(\<And>x. v = Some x \<Longrightarrow> f (g x) = f x) \<Longrightarrow> ser_Option f (map_option g v) = ser_Option f v"
  by (cases v) (simp_all add: ser_Option_def)

lemma ser_Seq_comp: "(\<And>x. x \<in> set xs \<Longrightarrow> f (g x) = f x) \<Longrightarrow> ser_Seq (f \<circ> g) xs = ser_Seq f xs"
  by (simp add: ser_Seq_def cong: map_cong)

lemma ser_Option_comp: "(\<And>x. v = Some x \<Longrightarrow> f (g x) = f x) \<Longrightarrow> ser_Option (f \<circ> g) v = ser_Option f v"
  by (cases v) (simp_all add: ser_Option_def)

lemmas ser_same = ser_Seq_same ser_Option_same ser_Seq_comp ser_Option_comp

lemma ser_strip_Type [simp]:
  "ser_TypeParameter (strip_TypeParameter p) = ser_TypeParameter p"
  "ser_Type (strip_Type x) = ser_Type x"
proof -
  show p: "ser_TypeParameter (strip_TypeParameter p) = ser_TypeParameter p" for p
    by (simp add: ser_TypeParameter_def strip_TypeParameter_def)
  show "ser_Type (strip_Type x) = ser_Type x"
    by (induction x) (simp_all add: ser_same p)
qed

lemma ser_strip_leaves [simp]:
  "ser_Variable (strip_Variable v) = ser_Variable v"
  "ser_ValDef (strip_ValDef vd) = ser_ValDef vd"
  "ser_TypeParameterDef (strip_TypeParameterDef t) = ser_TypeParameterDef t"
proof -
  show v: "ser_Variable (strip_Variable v) = ser_Variable v" for v
    by (simp add: ser_Variable_def strip_Variable_def)
  show "ser_ValDef (strip_ValDef vd) = ser_ValDef vd"
    by (simp add: ser_ValDef_def strip_ValDef_def v)
  show "ser_TypeParameterDef (strip_TypeParameterDef t) = ser_TypeParameterDef t"
    by (simp add: ser_TypeParameterDef_def strip_TypeParameterDef_def)
qed

lemma ser_strip_ADT [simp]:
  "ser_ADTConstructor (strip_ADTConstructor c) = ser_ADTConstructor c"
  "ser_ADTSort (strip_ADTSort s) = ser_ADTSort s"
proof -
  show c: "ser_ADTConstructor (strip_ADTConstructor c) = ser_ADTConstructor c" for c
    by (simp add: ser_ADTConstructor_def strip_ADTConstructor_def ser_same)
  show "ser_ADTSort (strip_ADTSort s) = ser_ADTSort s"
    by (simp add: ser_ADTSort_def strip_ADTSort_def ser_same c)
qed

lemma ser_strip_Expr [simp]:
  "ser_Expr tsb (strip_Expr e) = ser_Expr tsb e"
  "ser_Pattern tsb (strip_Pattern p) = ser_Pattern tsb p"
  "ser_Lambda tsb (strip_Lambda l) = ser_Lambda tsb l"
  "ser_MatchCase tsb (strip_MatchCase c) = ser_MatchCase tsb c"
  by (induction e and p and l and c) (simp_all add: ser_same)

lemma ser_strip_FunDef [simp]: "ser_FunDef tsb (strip_FunDef x) = ser_FunDef tsb x"
  by (simp add: ser_FunDef_def strip_FunDef_def ser_same)

section \<open>The nodes meet the contract of the trait\<close>

interpretation ident_node: serializable_exact ser_Identifier "\<lambda>x. x"
  by unfold_locales (simp_all add: sepa_ser_Identifier)

interpretation symbol_identifier: serializable_exact ser_SymbolIdentifier strip_SymbolIdentifier
  by unfold_locales
    (simp, rule sepa_ser_SymbolIdentifier, metis ser_strip_SymbolIdentifier)

interpretation flag: serializable_exact ser_Flag "\<lambda>x. x"
  by unfold_locales (simp_all add: sepa_ser_Flag)

interpretation type_tree: serializable_exact ser_Type strip_Type
  by unfold_locales (simp, rule sepa_ser_Type, metis ser_strip_Type(2))

interpretation val_def: serializable_exact ser_ValDef strip_ValDef
  by unfold_locales (simp, rule sepa_ser_ValDef, metis ser_strip_leaves(2))

interpretation adt_sort: serializable_exact ser_ADTSort strip_ADTSort
  by unfold_locales (simp, rule sepa_ser_ADTSort, metis ser_strip_ADT(2))

sublocale big_integers \<subseteq> expr: serializable_exact "ser_Expr tsb" strip_Expr
  by unfold_locales (simp, rule sepa_ser_Expr, metis ser_strip_Expr(1))

sublocale big_integers \<subseteq> pattern_tree: serializable_exact "ser_Pattern tsb" strip_Pattern
  by unfold_locales (simp, rule sepa_ser_Expr, metis ser_strip_Expr(2))

sublocale big_integers \<subseteq> fun_def: serializable_exact "ser_FunDef tsb" strip_FunDef
  by unfold_locales (simp, rule sepa_ser_FunDef, metis ser_strip_FunDef)

context big_integers
begin

lemmas fun_def_bytes_iff = fun_def.view_iff_bytes

end

section \<open>A function, in bytes\<close>

text \<open>The definition of \<open>fn f() {}\<close> and what the front end writes for it.\<close>

definition unit_fun :: FunDef where
  "unit_fun = \<lparr>fd_id = \<lparr>sym_id = \<lparr>ident_name = ''f'', ident_globalId = 258, ident_id = 1\<rparr>,
       symbol_path = [''m'', ''f'']\<rparr>,
     fd_tparams = [], fd_params = [], fd_returnType = UnitType, fd_fullBody = UnitLiteral,
     fd_flags = [IsPure]\<rparr>"

definition unit_fun_bytes :: bytes where
  "unit_fun_bytes =
    [98,
     145, 6, 4, 5, 4, 0, 0, 1, 2, 5, 4, 0, 0, 0, 1,
       2, 2, 5, 8, 0, 0, 0, 1, 109, 5, 8, 0, 0, 0, 1, 102, 5, 4, 0, 0, 1, 2,
     2, 0, 2, 0, 77, 25, 2, 1, 230]"

lemma to_be_bytes_32:
  "to_be_bytes (w :: 32 word) =
    [ucast (drop_bit 24 w), ucast (drop_bit 16 w), ucast (drop_bit 8 w), ucast w]"
  by (simp add: to_be_bytes_def upt_rec)

lemma out_ser_String [out_simps]:
  "out (ser_String s) = Some (5 # 8 # to_be_bytes (of_nat (length s) :: 32 word) @ string_bytes s)"
  by (simp add: ser_String_def out_simps marker_ids_defs primitive_ids_defs string_bytes_def)

lemma out_ser_Int [out_simps]: "out (ser_Int v) = Some (5 # 4 # to_be_bytes v)"
  by (simp add: ser_Int_def out_simps marker_ids_defs primitive_ids_defs)

lemma out_unit_fun: "out (ser_FunDef tsb unit_fun) = Some unit_fun_bytes"
  by (simp add: unit_fun_def unit_fun_bytes_def to_be_bytes_32 ser_FunDef_def ser_SymbolIdentifier_def ser_tuple4_def ser_Seq_def
      write_length_short out_simps marker_ids_defs primitive_ids_defs string_bytes_def
      ser_UnitType_def ser_UnitLiteral_def ser_IsPure_def)

section \<open>Properties\<close>

text \<open>
  C3: The bytes of a function definition determine it: with an injective encoding of big
  integers, two definitions have the same bytes exactly when they agree in everything
  but the display names of their identifiers.
\<close>

theorem fun_def_bytes_determine:
  assumes "big_integers tsb" and "out (ser_FunDef tsb x) = Some p" and "length p < wire_limit"
  shows "out (ser_FunDef tsb y) = Some p \<longleftrightarrow> strip_FunDef x = strip_FunDef y"
  using big_integers.fun_def_bytes_iff [OF assms] by simp

lemma fun_def_bytes_determine_witness:
  "out (ser_FunDef twos_complement unit_fun) = Some unit_fun_bytes \<and>
   strip_FunDef unit_fun = strip_FunDef (unit_fun\<lparr>fd_id := strip_SymbolIdentifier (fd_id unit_fun)\<rparr>)"
proof
  show out: "out (ser_FunDef twos_complement unit_fun) = Some unit_fun_bytes"
    by (rule out_unit_fun)
  have "out (ser_FunDef twos_complement (unit_fun\<lparr>fd_id := strip_SymbolIdentifier (fd_id unit_fun)\<rparr>)) =
      Some unit_fun_bytes"
    using out by (simp add: ser_FunDef_def)
  then show "strip_FunDef unit_fun =
      strip_FunDef (unit_fun\<lparr>fd_id := strip_SymbolIdentifier (fd_id unit_fun)\<rparr>)"
    using fun_def_bytes_determine [OF twos.big_integers_axioms out] by (simp add: unit_fun_bytes_def wire_limit_def)
qed

text \<open>
  Expressions are written without ambiguity: no expression's bytes are a proper prefix
  of another's, whatever follows them in the stream.
\<close>

lemma expr_bytes_prefix_free:
  assumes "big_integers tsb"
    and "out (ser_Expr tsb e) = Some p" and "out (ser_Expr tsb e') = Some q"
    and "length p < wire_limit" and "length q < wire_limit" and "p @ r = q @ t"
  shows "strip_Expr e = strip_Expr e' \<and> r = t"
  using big_integers.sepa_ser_Expr(1) [OF assms(1)] assms(2-) by (rule sepaD)

definition named_var :: "string \<Rightarrow> Expr" where
  "named_var n = Variable \<lparr>var_id = \<lparr>sym_id = \<lparr>ident_name = n, ident_globalId = 7, ident_id = 1\<rparr>,
     symbol_path = []\<rparr>, var_tpe = BooleanType, var_flags = []\<rparr>"

lemma out_named_var: "out (ser_Expr tsb (named_var n)) =
    Some [11, 145, 6, 4, 5, 4, 0, 0, 0, 7, 5, 4, 0, 0, 0, 1, 2, 0, 5, 4, 0, 0, 0, 7, 76, 2, 0]"
  by (simp add: named_var_def ser_Variable_def ser_SymbolIdentifier_def ser_tuple4_def ser_Seq_def
      write_length_short out_simps marker_ids_defs primitive_ids_defs to_be_bytes_32 ser_BooleanType_def)

lemma expr_bytes_prefix_free_witness:
  "strip_Expr (named_var ''x'') = strip_Expr (named_var ''y'') \<and> [7 :: u8] = [7]"
  by (rule expr_bytes_prefix_free [OF twos.big_integers_axioms out_named_var out_named_var])
    (simp_all add: wire_limit_def)

end
