(* ===== verification/Symbols.thy ===== *)
theory Symbols
  imports Ast_Ser
begin

text \<open>
  The symbol table \<open>Symbols\<close> of \<open>stainless_data/src/ast.rs\<close>: its construction from the
  definitions of a crate and its serialization, which sorts the definitions so that the
  bytes do not depend on the iteration order of the hash maps.

  A \<open>HashMap\<close> keyed by symbol identifiers is the list of its entries in iteration order;
  the standard library promises nothing about this order, so the theorems hold for
  every permutation of the entries. Keys are equal when their global ids are.
\<close>

section \<open>Maps keyed by symbol identifiers\<close>

type_synonym 'v Symbol_Map = "(SymbolIdentifier \<times> 'v) list"

abbreviation global_id :: "SymbolIdentifier \<Rightarrow> i32" where
  "global_id k \<equiv> ident_globalId (sym_id k)"

text \<open>An insertion under an equal key replaces the value and keeps the key.\<close>

fun Map_insert :: "SymbolIdentifier \<Rightarrow> 'v \<Rightarrow> 'v Symbol_Map \<Rightarrow> 'v Symbol_Map" where
  "Map_insert k v [] = [(k, v)]"
| "Map_insert k v ((k', v') # m) =
     (if SymbolIdentifier_eq k k' then (k', v) # m else (k', v') # Map_insert k v m)"

fun Map_get :: "'v Symbol_Map \<Rightarrow> SymbolIdentifier \<Rightarrow> 'v option" where
  "Map_get [] k = None"
| "Map_get ((k', v') # m) k = (if SymbolIdentifier_eq k k' then Some v' else Map_get m k)"

section \<open>The symbol table\<close>

record Symbols =
  syms_sorts :: "ADTSort Symbol_Map"
  syms_functions :: "FunDef Symbol_Map"

definition Symbols_new :: "ADTSort list \<Rightarrow> FunDef list \<Rightarrow> Symbols" where
  "Symbols_new sorts functions =
     \<lparr>syms_sorts = foldl (\<lambda>m s. Map_insert (sort_id s) s m) [] sorts,
      syms_functions = foldl (\<lambda>m fd. Map_insert (fd_id fd) fd m) [] functions\<rparr>"

text \<open>\<open>Vec::sort\<close> is a stable sort for \<open>Ord\<close>, the order of the global ids.\<close>

definition sort_sorts :: "ADTSort list \<Rightarrow> ADTSort list" where
  "sort_sorts = sort_key (\<lambda>s. sint (global_id (sort_id s)))"

definition sort_functions :: "FunDef list \<Rightarrow> FunDef list" where
  "sort_functions = sort_key (\<lambda>fd. sint (global_id (fd_id fd)))"

definition ser_Symbols :: "(int \<Rightarrow> bytes) \<Rightarrow> Symbols \<Rightarrow> action" where
  "ser_Symbols tsb x s =
     (let sorts = sort_sorts (map snd (syms_sorts x));
          functions = sort_functions (map snd (syms_functions x)) in
      res_bind (ser_tuple2 (ser_Seq (ser_FunDef tsb)) (ser_Seq ser_ADTSort) (functions, sorts)
          BufferSerializer_new) (\<lambda>inner_s.
      ser_SerializationBuffer (to_buffer inner_s) s))"

section \<open>The interface of a map\<close>

text \<open>
  What the clients of a map rely on: a lookup finds the value of the last insertion under
  an equal key. The keys are compared through \<open>key\<close>.
\<close>

locale keyed_map =
  fixes key :: "'k \<Rightarrow> 'i" and empty :: 'm and insert :: "'k \<Rightarrow> 'v \<Rightarrow> 'm \<Rightarrow> 'm"
    and get :: "'m \<Rightarrow> 'k \<Rightarrow> 'v option"
  assumes get_empty: "get empty k = None"
    and get_insert: "get (insert k v m) k' = (if key k = key k' then Some v else get m k')"
begin

lemma get_key: "get (foldl (\<lambda>m x. insert (f x) x m) empty xs) k = find (\<lambda>x. key (f x) = key k) (rev xs)"
proof (induction xs rule: rev_induct)
  case Nil
  then show ?case by (simp add: get_empty)
next
  case (snoc x xs)
  then show ?case by (simp add: get_insert)
qed

text \<open>Without two equal keys, every inserted value is found.\<close>

lemma get_inserted:
  assumes "distinct (map (\<lambda>x. key (f x)) xs)" and "x \<in> set xs"
  shows "get (foldl (\<lambda>m x. insert (f x) x m) empty xs) (f x) = Some x"
proof -
  have "find (\<lambda>y. key (f y) = key (f x)) zs = Some x"
    if "distinct (map (\<lambda>x. key (f x)) zs)" "x \<in> set zs" for zs
    using that by (induction zs) (auto simp: image_iff)
  from this [of "rev xs"] assms show ?thesis
    by (simp add: get_key rev_map [symmetric])
qed

end

lemma Map_get_insert:
  "Map_get (Map_insert k v m) k' = (if global_id k = global_id k' then Some v else Map_get m k')"
  by (induction m) (auto simp: SymbolIdentifier_eq_def)

interpretation sort_map: keyed_map global_id "[]" Map_insert "Map_get :: ADTSort Symbol_Map \<Rightarrow> _"
  by unfold_locales (simp_all add: Map_get_insert)

interpretation function_map: keyed_map global_id "[]" Map_insert "Map_get :: FunDef Symbol_Map \<Rightarrow> _"
  by unfold_locales (simp_all add: Map_get_insert)

section \<open>The invariant of the tables\<close>

text \<open>Keys are distinct, and each definition is filed under its own id.\<close>

fun keys :: "'v Symbol_Map \<Rightarrow> i32 set" where
  "keys [] = {}"
| "keys ((k, v) # m) = insert (global_id k) (keys m)"

fun map_ok :: "('v \<Rightarrow> SymbolIdentifier) \<Rightarrow> 'v Symbol_Map \<Rightarrow> bool" where
  "map_ok idf [] \<longleftrightarrow> True"
| "map_ok idf ((k, v) # m) \<longleftrightarrow>
     global_id k \<notin> keys m \<and> global_id k = global_id (idf v) \<and> map_ok idf m"

definition Symbols_ok :: "Symbols \<Rightarrow> bool" where
  "Symbols_ok x \<longleftrightarrow> map_ok sort_id (syms_sorts x) \<and> map_ok fd_id (syms_functions x)"

lemma keys_Map_insert: "keys (Map_insert k v m) = insert (global_id k) (keys m)"
  by (induction k v m rule: Map_insert.induct) (auto simp: SymbolIdentifier_eq_def)

lemma map_ok_Map_insert: "map_ok idf m \<Longrightarrow> map_ok idf (Map_insert (idf v) v m)"
  by (induction idf m rule: map_ok.induct) (auto simp: SymbolIdentifier_eq_def keys_Map_insert)

lemma map_ok_foldl: "map_ok idf m \<Longrightarrow> map_ok idf (foldl (\<lambda>m x. Map_insert (idf x) x m) m xs)"
  by (induction xs arbitrary: m) (auto intro: map_ok_Map_insert)

lemma Symbols_ok_new: "Symbols_ok (Symbols_new sorts functions)"
  by (simp add: Symbols_ok_def Symbols_new_def map_ok_foldl)

text \<open>The values of a table are what its lookups return, each once.\<close>

lemma value_key: "map_ok idf m \<Longrightarrow> (k, v) \<in> set m \<Longrightarrow> global_id (idf v) \<in> keys m"
  by (induction idf m rule: map_ok.induct) auto

lemma Map_get_in: "Map_get m k = Some v \<Longrightarrow> v \<in> snd ` set m"
  by (induction m k rule: Map_get.induct) (auto split: if_splits)

lemma map_ok_get: "map_ok idf m \<Longrightarrow> v \<in> snd ` set m \<Longrightarrow> Map_get m (idf v) = Some v"
  by (induction idf m rule: map_ok.induct) (auto simp: SymbolIdentifier_eq_def dest: value_key)

lemma map_ok_distinct:
  "map_ok idf m \<Longrightarrow> distinct (map snd m) \<and> inj_on (\<lambda>v. sint (global_id (idf v))) (set (map snd m))"
proof (induction idf m rule: map_ok.induct)
  case (1 idf)
  then show ?case by simp
next
  case (2 idf k v m)
  have "sint (global_id (idf v)) \<noteq> sint (global_id (idf w))" if "(k', w) \<in> set m" for k' w
    using 2 that by (auto dest!: signed_word_eqI dest: value_key)
  with 2 show ?case
    by (force simp: inj_on_insert)
qed

lemma map_ok_distinct_ids: "map_ok idf m \<Longrightarrow> distinct (map (\<lambda>v. global_id (idf v)) (map snd m))"
  using map_ok_distinct [of idf m] by (auto simp: distinct_map inj_on_def)

lemma same_lookups_same_values:
  assumes ok: "map_ok idf m" "map_ok idf m'" and same: "\<And>k. Map_get m k = Map_get m' k"
  shows "mset (map snd m) = mset (map snd m')"
proof -
  have "v \<in> snd ` set m \<longleftrightarrow> v \<in> snd ` set m'" for v
    using ok map_ok_get Map_get_in same by metis
  then have "set (map snd m) = set (map snd m')"
    by auto
  then show ?thesis
    using ok [THEN map_ok_distinct] by (blast intro: set_eq_iff_mset_eq_distinct [THEN iffD1])
qed

section \<open>The order of the definitions\<close>

lemma same_lookups_same_sort:
  assumes "map_ok idf m" and "map_ok idf m'" and "\<And>k. Map_get m k = Map_get m' k"
  shows "sort_key (\<lambda>v. sint (global_id (idf v))) (map snd m) =
    sort_key (\<lambda>v. sint (global_id (idf v))) (map snd m')"
  by (intro sort_key_determined same_lookups_same_values [OF assms] conjunct2 [OF map_ok_distinct]
      assms)

lemma sort_functions_same:
  assumes "Symbols_ok x" and "Symbols_ok y"
    and "\<And>k. Map_get (syms_functions x) k = Map_get (syms_functions y) k"
  shows "sort_functions (map snd (syms_functions x)) = sort_functions (map snd (syms_functions y))"
  unfolding sort_functions_def
  using assms by (intro same_lookups_same_sort) (simp_all add: Symbols_ok_def)

lemma sort_sorts_same:
  assumes "Symbols_ok x" and "Symbols_ok y"
    and "\<And>k. Map_get (syms_sorts x) k = Map_get (syms_sorts y) k"
  shows "sort_sorts (map snd (syms_sorts x)) = sort_sorts (map snd (syms_sorts y))"
  unfolding sort_sorts_def
  using assms by (intro same_lookups_same_sort) (simp_all add: Symbols_ok_def)

text \<open>Definitions with distinct ids are all found, whatever their order.\<close>

lemma find_distinct:
  "distinct (map h xs) \<Longrightarrow> find (\<lambda>x. h x = k) xs = Some x \<longleftrightarrow> x \<in> set xs \<and> h x = k"
  by (induction xs) (auto simp: image_iff)

lemma find_permuted:
  assumes "distinct (map h xs)" and "mset xs = mset ys"
  shows "find (\<lambda>x. h x = k) xs = find (\<lambda>x. h x = k) ys"
proof -
  have "distinct (map h ys)"
    using assms by (metis mset_eq_imp_distinct_iff mset_map)
  moreover have "set xs = set ys"
    using assms(2) by (metis set_mset_mset)
  ultimately have "find (\<lambda>x. h x = k) xs = Some v \<longleftrightarrow> find (\<lambda>x. h x = k) ys = Some v" for v
    using assms(1) by (simp add: find_distinct)
  then show ?thesis
    by (metis option.exhaust)
qed

lemma Symbols_new_permuted:
  assumes "distinct (map (\<lambda>s. global_id (sort_id s)) sorts)" and "mset sorts = mset sorts'"
    and "distinct (map (\<lambda>f. global_id (fd_id f)) funs)" and "mset funs = mset funs'"
  shows "Map_get (syms_sorts (Symbols_new sorts funs)) k = Map_get (syms_sorts (Symbols_new sorts' funs')) k"
    and "Map_get (syms_functions (Symbols_new sorts funs)) k =
      Map_get (syms_functions (Symbols_new sorts' funs')) k"
  unfolding Symbols_new_def
  using find_permuted [of _ "rev sorts" "rev sorts'"] find_permuted [of _ "rev funs" "rev funs'"] assms
  by (simp_all add: sort_map.get_key function_map.get_key flip: rev_map)

section \<open>Telling symbol tables apart\<close>

type_synonym symbols_view = "FunDef list \<times> ADTSort list"

definition symbols_view :: "Symbols \<Rightarrow> symbols_view" where
  "symbols_view x = map_prod (map strip_FunDef) (map strip_ADTSort)
     (sort_functions (map snd (syms_functions x)), sort_sorts (map snd (syms_sorts x)))"

lemma ser_Symbols_out:
  "ser_Symbols tsb x =
    (case ser_tuple2 (ser_Seq (ser_FunDef tsb)) (ser_Seq ser_ADTSort)
        (sort_functions (map snd (syms_functions x)), sort_sorts (map snd (syms_sorts x)))
        BufferSerializer_new of
      Inl e \<Rightarrow> (\<lambda>_. Inl e)
    | Inr inner \<Rightarrow> ser_SerializationBuffer (to_buffer inner))"
  by (simp add: ser_Symbols_def Let_def res_bind_def fun_eq_iff split: sum.split)

lemma appending_ser_Symbols [ser_intros, simp]: "appending (ser_Symbols tsb x)"
  by (simp add: ser_Symbols_out ser_intros split: sum.split)

lemma buffer_shorter:
  "out (ser_SerializationBuffer (to_buffer b)) = Some p \<Longrightarrow> length (buffer b) \<le> length p"
  by (auto simp: ser_SerializationBuffer_def to_buffer_def out_simps split: option.splits)

lemma ser_tuple_strip:
  "ser_tuple2 (ser_Seq (ser_FunDef tsb)) (ser_Seq ser_ADTSort)
     (map_prod (map strip_FunDef) (map strip_ADTSort) v) =
   ser_tuple2 (ser_Seq (ser_FunDef tsb)) (ser_Seq ser_ADTSort) v"
  by (cases v) (simp add: ser_tuple2_def ser_Seq_same)

context big_integers
begin

lemma sepa_inner:
  "sepa (ser_tuple2 (ser_Seq (ser_FunDef tsb)) (ser_Seq ser_ADTSort) v)
     (ser_tuple2 (ser_Seq (ser_FunDef tsb)) (ser_Seq ser_ADTSort) w)
     (map_prod (map strip_FunDef) (map strip_ADTSort) v = map_prod (map strip_FunDef) (map strip_ADTSort) w)"
proof -
  have "serializable2 (ser_Seq (ser_FunDef tsb)) (map strip_FunDef) (ser_Seq ser_ADTSort) (map strip_ADTSort)"
    by (intro serializable2.intro fun_def.Seq_serializable adt_sort.Seq_serializable)
  from serializable.separates [OF serializable2.tuple2_serializable [OF this]] show ?thesis .
qed

lemma sepa_ser_Symbols:
  "sepa (ser_Symbols tsb x) (ser_Symbols tsb y) (symbols_view x = symbols_view y)"
proof -
  define inner where "inner v = ser_tuple2 (ser_Seq (ser_FunDef tsb)) (ser_Seq ser_ADTSort) v
      BufferSerializer_new" for v
  define vals where "vals x = (sort_functions (map snd (syms_functions x)),
      sort_sorts (map snd (syms_sorts x)))" for x :: Symbols
  have case_x: "ser_Symbols tsb x = (case inner (vals x) of Inl e \<Rightarrow> (\<lambda>_. Inl e)
      | Inr b \<Rightarrow> ser_SerializationBuffer (to_buffer b))" for x
    by (simp add: ser_Symbols_out inner_def vals_def)
  show ?thesis
  proof (cases "inner (vals x)"; cases "inner (vals y)")
    fix b c assume b: "inner (vals x) = Inr b" and c: "inner (vals y) = Inr c"
    show ?thesis
    proof (rule sepaI)
      fix p q r t
      assume out: "out (ser_Symbols tsb x) = Some p" "out (ser_Symbols tsb y) = Some q"
        and lim: "length p < wire_limit" "length q < wire_limit" and eq: "p @ r = q @ t"
      then have same: "to_buffer b = to_buffer c" "r = t"
        using sepaD [OF sepa_ser_SerializationBuffer _ _ lim eq] b c by (auto simp: case_x)
      have "out (ser_tuple2 (ser_Seq (ser_FunDef tsb)) (ser_Seq ser_ADTSort) (vals x)) = Some (buffer b)"
        "out (ser_tuple2 (ser_Seq (ser_FunDef tsb)) (ser_Seq ser_ADTSort) (vals y)) = Some (buffer b)"
        using b c same by (simp_all add: out_def inner_def as_slice_def to_buffer_def)
      moreover have "length (buffer b) < wire_limit"
        using out lim b by (auto simp: case_x dest!: buffer_shorter)
      ultimately show "symbols_view x = symbols_view y \<and> r = t"
        using sepaD [OF sepa_inner [of "vals x" "vals y"], of "buffer b" "buffer b" "[]" "[]"] same
        by (simp add: symbols_view_def vals_def)
    qed
  qed (auto simp: case_x out_simps intro: sepa_none sepa_none_right)
qed

lemma written_ser_Symbols:
  "symbols_view x = symbols_view y \<Longrightarrow> ser_Symbols tsb x = ser_Symbols tsb y"
  unfolding ser_Symbols_out symbols_view_def by (metis ser_tuple_strip)

end

sublocale big_integers \<subseteq> symbols: serializable_exact "ser_Symbols tsb" symbols_view
  by unfold_locales (simp, rule sepa_ser_Symbols, rule written_ser_Symbols)

section \<open>Properties\<close>

text \<open>
  C1: The bytes of a symbol table depend only on what its lookups return, not on the
  iteration order of the hash maps that hold the definitions: two tables that file each
  definition under its own id and agree on every lookup serialize to the same bytes.
\<close>

theorem symbols_bytes_by_lookup:
  assumes "Symbols_ok x" and "Symbols_ok y"
    and "\<And>k. Map_get (syms_sorts x) k = Map_get (syms_sorts y) k"
    and "\<And>k. Map_get (syms_functions x) k = Map_get (syms_functions y) k"
  shows "ser_Symbols tsb x = ser_Symbols tsb y"
  using sort_functions_same [OF assms(1,2,4)] sort_sorts_same [OF assms(1,2,3)]
  by (simp add: ser_Symbols_out)

definition sample_id :: "i32 \<Rightarrow> SymbolIdentifier" where
  "sample_id n = \<lparr>sym_id = \<lparr>ident_name = ''f'', ident_globalId = n, ident_id = 1\<rparr>, symbol_path = [''f'']\<rparr>"

definition sample_sort :: "i32 \<Rightarrow> ADTSort" where
  "sample_sort n = \<lparr>sort_id = sample_id n, sort_tparams = [], sort_constructors = [], sort_flags = []\<rparr>"

definition sample_fun :: "i32 \<Rightarrow> FunDef" where
  "sample_fun n = \<lparr>fd_id = sample_id n, fd_tparams = [], fd_params = [], fd_returnType = UnitType,
     fd_fullBody = UnitLiteral, fd_flags = []\<rparr>"

lemmas sample_defs = sample_id_def sample_sort_def sample_fun_def

lemma symbols_bytes_by_lookup_witness:
  "ser_Symbols twos_complement (Symbols_new [sample_sort 2, sample_sort 1] [sample_fun 3]) =
   ser_Symbols twos_complement (Symbols_new [sample_sort 1, sample_sort 2] [sample_fun 3])"
  by (rule symbols_bytes_by_lookup)
    (simp_all add: Symbols_ok_new, simp_all add: Symbols_new_def sample_defs SymbolIdentifier_eq_def)

lemma Symbols_new_same_bytes:
  assumes "distinct (map (\<lambda>s. global_id (sort_id s)) sorts)" and "mset sorts = mset sorts'"
    and "distinct (map (\<lambda>f. global_id (fd_id f)) funs)" and "mset funs = mset funs'"
  shows "ser_Symbols tsb (Symbols_new sorts funs) = ser_Symbols tsb (Symbols_new sorts' funs')"
proof -
  have "sort_sorts (map snd (syms_sorts (Symbols_new sorts funs))) =
      sort_sorts (map snd (syms_sorts (Symbols_new sorts' funs')))"
    by (intro sort_sorts_same Symbols_ok_new Symbols_new_permuted(1) assms)
  moreover have "sort_functions (map snd (syms_functions (Symbols_new sorts funs))) =
      sort_functions (map snd (syms_functions (Symbols_new sorts' funs')))"
    by (intro sort_functions_same Symbols_ok_new Symbols_new_permuted(2) assms)
  ultimately show ?thesis
    by (simp add: ser_Symbols_out)
qed

text \<open>
  The order in which the front end collected the definitions does not matter: for
  definitions with distinct global ids, every permutation of the two vectors gives the
  same bytes.
\<close>

lemma symbols_new_any_order:
  assumes "distinct (map (\<lambda>s. global_id (sort_id s)) sorts)" and "mset sorts = mset sorts'"
    and "distinct (map (\<lambda>f. global_id (fd_id f)) funs)" and "mset funs = mset funs'"
  shows "ser_Symbols tsb (Symbols_new sorts funs) = ser_Symbols tsb (Symbols_new sorts' funs')"
  by (rule Symbols_new_same_bytes [OF assms])

lemma symbols_new_any_order_witness:
  "ser_Symbols twos_complement (Symbols_new [] [sample_fun 3, sample_fun 7, sample_fun 5]) =
   ser_Symbols twos_complement (Symbols_new [] [sample_fun 7, sample_fun 5, sample_fun 3])"
  by (rule symbols_new_any_order) (simp_all add: sample_defs)

text \<open>
  C2: What Stainless receives identifies the program: if the message of one symbol table
  is a prefix of a stream that starts with the message of another, both tables have the
  same functions and sorts, up to the display names that are not transmitted, and the
  same bytes follow the two messages.
\<close>

theorem symbols_bytes_unambiguous:
  assumes "big_integers tsb"
    and "out (ser_Symbols tsb x) = Some p" and "out (ser_Symbols tsb y) = Some q"
    and "length p < wire_limit" and "length q < wire_limit" and "p @ r = q @ t"
  shows "symbols_view x = symbols_view y \<and> r = t"
  using big_integers.sepa_ser_Symbols [OF assms(1)] assms(2-) by (rule sepaD)

definition sample_bytes :: bytes where
  "sample_bytes =
    [7, 5, 4, 0, 0, 0, 43, 6, 2, 2, 0, 2, 1,
     96, 145, 6, 4, 5, 4, 0, 0, 0, 2, 5, 4, 0, 0, 0, 1,
       2, 1, 5, 8, 0, 0, 0, 1, 102, 5, 4, 0, 0, 0, 2,
     2, 0, 2, 0, 2, 0]"

lemma out_sample: "out (ser_Symbols tsb (Symbols_new [sample_sort 2] [])) = Some sample_bytes"
proof -
  have "out (ser_tuple2 (ser_Seq (ser_FunDef tsb)) (ser_Seq ser_ADTSort) ([], [sample_sort 2])) =
      Some (drop 7 sample_bytes)"
    by (simp add: ser_tuple2_def ser_Seq_def ser_ADTSort_def sample_sort_def sample_id_def sample_bytes_def
        ser_SymbolIdentifier_def ser_tuple4_def write_length_short out_simps marker_ids_defs
        to_be_bytes_32 string_bytes_def)
  from appending_new [OF _ this] show ?thesis
    by (simp add: ser_Symbols_out Symbols_new_def sort_sorts_def sort_functions_def
        ser_SerializationBuffer_def to_buffer_def sample_bytes_def out_simps marker_ids_defs to_be_bytes_32)
qed

lemma symbols_bytes_unambiguous_witness:
  "symbols_view (Symbols_new [sample_sort 2] []) = symbols_view (Symbols_new [sample_sort 2] []) \<and>
    [9 :: u8] = [9]"
  by (rule symbols_bytes_unambiguous [OF twos.big_integers_axioms out_sample out_sample])
    (simp_all add: sample_bytes_def wire_limit_def)

end
