(* ===== verification/Ast_Limits.thy ===== *)
theory Ast_Limits
  imports Symbols
begin

text \<open>
  When does serialization succeed? The only failures are the assertions of \<open>write_marker\<close>
  and \<open>write_length\<close>. No marker of the syntax tree is 255 or more, so a tree is serialized
  exactly when none of its vectors is longer than \<open>i32::MAX\<close> (\<open>fits\<close>).
\<close>

section \<open>Actions that succeed\<close>

definition succeeds :: "action \<Rightarrow> bool" where
  "succeeds a \<longleftrightarrow> out a \<noteq> None"

lemma succeeds_ser_do [simp]:
  "succeeds (ser_do [])"
  "appending a \<Longrightarrow> appending (ser_do as) \<Longrightarrow>
    succeeds (ser_do (a # as)) \<longleftrightarrow> succeeds a \<and> succeeds (ser_do as)"
  by (auto simp: succeeds_def out_simps split: option.splits)

lemma succeeds_raw [simp]:
  "succeeds (write_bytes d)" "succeeds (write_u8 v)" "succeeds (write_u16 w)" "succeeds (write_u32 x)"
  "succeeds (write_i32 y)" "succeeds (write_bool b)"
  by (simp_all add: succeeds_def out_simps)

lemma succeeds_write_marker [simp]: "succeeds (write_marker (MarkerId m)) \<longleftrightarrow> m < 255"
  by (simp add: succeeds_def out_simps)

lemma succeeds_standard_markers [simp]:
  "succeeds (write_marker marker_ids_OPTION)" "succeeds (write_marker marker_ids_SEQ)"
  "succeeds (write_marker marker_ids_PRIMITIVE)" "succeeds (write_marker marker_ids_TUPLE)"
  "succeeds (write_marker marker_ids_SERIALIZATION_BUFFER)"
  by (simp_all add: marker_ids_defs)

lemma succeeds_primitives [simp]:
  "succeeds (ser_Int i)" "succeeds (ser_Boolean b)" "succeeds (ser_String s)"
  "succeeds (ser_BigInt tsb k)" "succeeds (ser_SerializationBuffer sb)"
  by (simp_all add: ser_Int_def ser_Boolean_def ser_String_def ser_BigInt_def Let_def
      ser_SerializationBuffer_def)

lemma succeeds_write_length: "succeeds (write_length n) \<longleftrightarrow> n \<le> 2147483647"
proof -
  have "succeeds (ser_do [write_u8 255, ser_Int i])" for i
    by simp
  then show ?thesis
    by (auto simp: write_length_def succeeds_def out_simps)
qed

section \<open>Vectors that fit\<close>

definition fits_Seq :: "('a \<Rightarrow> bool) \<Rightarrow> 'a list \<Rightarrow> bool" where
  "fits_Seq f xs \<longleftrightarrow> length xs \<le> 2147483647 \<and> (\<forall>x \<in> set xs. f x)"

definition fits_Option :: "('a \<Rightarrow> bool) \<Rightarrow> 'a option \<Rightarrow> bool" where
  "fits_Option f v \<longleftrightarrow> (\<forall>x \<in> set_option v. f x)"

lemma fits_Seq_map [simp]: "fits_Seq (\<lambda>b. b) (map f xs) \<longleftrightarrow> fits_Seq f xs"
  by (simp add: fits_Seq_def)

lemma fits_Option_map [simp]: "fits_Option (\<lambda>b. b) (map_option f v) \<longleftrightarrow> fits_Option f v"
  by (simp add: fits_Option_def option.set_map)

lemma succeeds_elements:
  "(\<And>x. appending (f x)) \<Longrightarrow> succeeds (ser_do (map f xs)) \<longleftrightarrow> (\<forall>x \<in> set xs. succeeds (f x))"
  by (induction xs) (simp_all add: appending_ser_map)

lemma succeeds_ser_Seq:
  assumes "\<And>x. appending (f x)" and "\<And>x. x \<in> set xs \<Longrightarrow> succeeds (f x) \<longleftrightarrow> ok x"
  shows "succeeds (ser_Seq f xs) \<longleftrightarrow> fits_Seq ok xs"
  using assms by (simp add: ser_Seq_def fits_Seq_def succeeds_elements succeeds_write_length appending_ser_map)

lemma succeeds_ser_Option:
  assumes "\<And>x. appending (f x)" and "\<And>x. v = Some x \<Longrightarrow> succeeds (f x) \<longleftrightarrow> ok x"
  shows "succeeds (ser_Option f v) \<longleftrightarrow> fits_Option ok v"
  using assms by (cases v) (simp_all add: ser_Option_def fits_Option_def)

lemma succeeds_ser_tuples [simp]:
  "appending (s1 a) \<Longrightarrow> appending (s2 b) \<Longrightarrow>
    succeeds (ser_tuple2 s1 s2 (a, b)) \<longleftrightarrow> succeeds (s1 a) \<and> succeeds (s2 b)"
  "appending (s1 a) \<Longrightarrow> appending (s2 b) \<Longrightarrow> appending (s3 c) \<Longrightarrow>
    succeeds (ser_tuple3 s1 s2 s3 (a, b, c)) \<longleftrightarrow> succeeds (s1 a) \<and> succeeds (s2 b) \<and> succeeds (s3 c)"
  "appending (s1 a) \<Longrightarrow> appending (s2 b) \<Longrightarrow> appending (s3 c) \<Longrightarrow> appending (s4 d) \<Longrightarrow>
    succeeds (ser_tuple4 s1 s2 s3 s4 (a, b, c, d)) \<longleftrightarrow>
      succeeds (s1 a) \<and> succeeds (s2 b) \<and> succeeds (s3 c) \<and> succeeds (s4 d)"
  by (simp_all add: ser_tuple2_def ser_tuple3_def ser_tuple4_def)

section \<open>Trees that fit\<close>

definition fits_SymbolIdentifier :: "SymbolIdentifier \<Rightarrow> bool" where
  "fits_SymbolIdentifier x \<longleftrightarrow> fits_Seq (\<lambda>_. True) (symbol_path x)"

definition fits_TypeParameter :: "TypeParameter \<Rightarrow> bool" where
  "fits_TypeParameter x \<longleftrightarrow> fits_SymbolIdentifier (tp_id x) \<and> fits_Seq (\<lambda>_. True) (tp_flags x)"

primrec fits_Type :: "Type \<Rightarrow> bool" where
  "fits_Type (ADTType idn tps) \<longleftrightarrow>
     fits_SymbolIdentifier idn \<and>
     fits_Seq (\<lambda>b. b) (map fits_Type tps)"
| "fits_Type AnyType \<longleftrightarrow> True"
| "fits_Type (BVType x) \<longleftrightarrow> True"
| "fits_Type BooleanType \<longleftrightarrow> True"
| "fits_Type (FunctionType frm tto) \<longleftrightarrow>
     fits_Seq (\<lambda>b. b) (map fits_Type frm) \<and>
     fits_Type tto"
| "fits_Type IntegerType \<longleftrightarrow> True"
| "fits_Type (SetType base) \<longleftrightarrow> fits_Type base"
| "fits_Type (TupleType bases) \<longleftrightarrow> fits_Seq (\<lambda>b. b) (map fits_Type bases)"
| "fits_Type (TypeParameter x) \<longleftrightarrow> fits_TypeParameter x"
| "fits_Type UnitType \<longleftrightarrow> True"
| "fits_Type Untyped \<longleftrightarrow> True"

definition fits_Variable :: "Variable \<Rightarrow> bool" where
  "fits_Variable x \<longleftrightarrow> fits_SymbolIdentifier (var_id x) \<and> fits_Type (var_tpe x) \<and>
     fits_Seq (\<lambda>_. True) (var_flags x)"

definition fits_ValDef :: "ValDef \<Rightarrow> bool" where
  "fits_ValDef x \<longleftrightarrow> fits_Variable (vd_v x)"

definition fits_TypeParameterDef :: "TypeParameterDef \<Rightarrow> bool" where
  "fits_TypeParameterDef x \<longleftrightarrow> fits_TypeParameter (tpd_tp x)"

definition fits_ADTConstructor :: "ADTConstructor \<Rightarrow> bool" where
  "fits_ADTConstructor x \<longleftrightarrow> fits_SymbolIdentifier (cons_id x) \<and>
     fits_SymbolIdentifier (cons_sort x) \<and> fits_Seq fits_ValDef (cons_fields x)"

definition fits_ADTSort :: "ADTSort \<Rightarrow> bool" where
  "fits_ADTSort x \<longleftrightarrow> fits_SymbolIdentifier (sort_id x) \<and>
     fits_Seq fits_TypeParameterDef (sort_tparams x) \<and>
     fits_Seq fits_ADTConstructor (sort_constructors x) \<and> fits_Seq (\<lambda>_. True) (sort_flags x)"

primrec fits_Expr :: "Expr \<Rightarrow> bool"
  and fits_Pattern :: "Pattern \<Rightarrow> bool"
  and fits_Lambda :: "Lambda \<Rightarrow> bool"
  and fits_MatchCase :: "MatchCase \<Rightarrow> bool" where
  "fits_Expr (ADT idn tps args) \<longleftrightarrow>
     fits_SymbolIdentifier idn \<and>
     fits_Seq fits_Type tps \<and>
     fits_Seq (\<lambda>b. b) (map fits_Expr args)"
| "fits_Expr (ADTSelector adt selector) \<longleftrightarrow>
     fits_Expr adt \<and>
     fits_SymbolIdentifier selector"
| "fits_Expr (And exprs) \<longleftrightarrow> fits_Seq (\<lambda>b. b) (map fits_Expr exprs)"
| "fits_Expr (BVAShiftRight lhs rhs) \<longleftrightarrow> fits_Expr lhs \<and> fits_Expr rhs"
| "fits_Expr (BVAnd lhs rhs) \<longleftrightarrow> fits_Expr lhs \<and> fits_Expr rhs"
| "fits_Expr (BVLShiftRight lhs rhs) \<longleftrightarrow> fits_Expr lhs \<and> fits_Expr rhs"
| "fits_Expr (BVLiteral x) \<longleftrightarrow> True"
| "fits_Expr (BVNot e) \<longleftrightarrow> fits_Expr e"
| "fits_Expr (BVOr lhs rhs) \<longleftrightarrow> fits_Expr lhs \<and> fits_Expr rhs"
| "fits_Expr (BVShiftLeft lhs rhs) \<longleftrightarrow> fits_Expr lhs \<and> fits_Expr rhs"
| "fits_Expr (BVWideningCast expr newType) \<longleftrightarrow> fits_Expr expr"
| "fits_Expr (BVXor lhs rhs) \<longleftrightarrow> fits_Expr lhs \<and> fits_Expr rhs"
| "fits_Expr (Block exprs lst) \<longleftrightarrow>
     fits_Seq (\<lambda>b. b) (map fits_Expr exprs) \<and>
     fits_Expr lst"
| "fits_Expr (BooleanLiteral v) \<longleftrightarrow> True"
| "fits_Expr (Decreases msr body) \<longleftrightarrow> fits_Expr msr \<and> fits_Expr body"
| "fits_Expr (Division lhs rhs) \<longleftrightarrow> fits_Expr lhs \<and> fits_Expr rhs"
| "fits_Expr (Ensuring body pred) \<longleftrightarrow> fits_Expr body \<and> fits_Lambda pred"
| "fits_Expr (Equals lhs rhs) \<longleftrightarrow> fits_Expr lhs \<and> fits_Expr rhs"
| "fits_Expr (Error tpe description) \<longleftrightarrow> fits_Type tpe"
| "fits_Expr (FiniteSet elements base) \<longleftrightarrow>
     fits_Seq (\<lambda>b. b) (map fits_Expr elements) \<and>
     fits_Type base"
| "fits_Expr (FunctionInvocation idn tps args) \<longleftrightarrow>
     fits_SymbolIdentifier idn \<and>
     fits_Seq fits_Type tps \<and>
     fits_Seq (\<lambda>b. b) (map fits_Expr args)"
| "fits_Expr (GreaterEquals lhs rhs) \<longleftrightarrow> fits_Expr lhs \<and> fits_Expr rhs"
| "fits_Expr (GreaterThan lhs rhs) \<longleftrightarrow> fits_Expr lhs \<and> fits_Expr rhs"
| "fits_Expr (IfExpr cond thenn elze) \<longleftrightarrow>
     fits_Expr cond \<and>
     fits_Expr thenn \<and>
     fits_Expr elze"
| "fits_Expr (IntegerLiteral v) \<longleftrightarrow> True"
| "fits_Expr (Lambda x) \<longleftrightarrow> fits_Lambda x"
| "fits_Expr (LessEquals lhs rhs) \<longleftrightarrow> fits_Expr lhs \<and> fits_Expr rhs"
| "fits_Expr (LessThan lhs rhs) \<longleftrightarrow> fits_Expr lhs \<and> fits_Expr rhs"
| "fits_Expr (Let_e vd v body) \<longleftrightarrow>
     fits_ValDef vd \<and>
     fits_Expr v \<and>
     fits_Expr body"
| "fits_Expr (LetVar vd v body) \<longleftrightarrow>
     fits_ValDef vd \<and>
     fits_Expr v \<and>
     fits_Expr body"
| "fits_Expr (MatchExpr scrutinee cs) \<longleftrightarrow>
     fits_Expr scrutinee \<and>
     fits_Seq (\<lambda>b. b) (map fits_MatchCase cs)"
| "fits_Expr (Minus lhs rhs) \<longleftrightarrow> fits_Expr lhs \<and> fits_Expr rhs"
| "fits_Expr (NoTree tpe) \<longleftrightarrow> fits_Type tpe"
| "fits_Expr (Not_e expr) \<longleftrightarrow> fits_Expr expr"
| "fits_Expr (Or exprs) \<longleftrightarrow> fits_Seq (\<lambda>b. b) (map fits_Expr exprs)"
| "fits_Expr (Plus_e lhs rhs) \<longleftrightarrow> fits_Expr lhs \<and> fits_Expr rhs"
| "fits_Expr (Remainder lhs rhs) \<longleftrightarrow> fits_Expr lhs \<and> fits_Expr rhs"
| "fits_Expr (Require pred body) \<longleftrightarrow> fits_Expr pred \<and> fits_Expr body"
| "fits_Expr (SetAdd st elem) \<longleftrightarrow> fits_Expr st \<and> fits_Expr elem"
| "fits_Expr (SetDifference lhs rhs) \<longleftrightarrow> fits_Expr lhs \<and> fits_Expr rhs"
| "fits_Expr (SetIntersection lhs rhs) \<longleftrightarrow> fits_Expr lhs \<and> fits_Expr rhs"
| "fits_Expr (SetUnion lhs rhs) \<longleftrightarrow> fits_Expr lhs \<and> fits_Expr rhs"
| "fits_Expr (StringLiteral v) \<longleftrightarrow> True"
| "fits_Expr (SubsetOf lhs rhs) \<longleftrightarrow> fits_Expr lhs \<and> fits_Expr rhs"
| "fits_Expr (Times lhs rhs) \<longleftrightarrow> fits_Expr lhs \<and> fits_Expr rhs"
| "fits_Expr (Tuple exprs) \<longleftrightarrow> fits_Seq (\<lambda>b. b) (map fits_Expr exprs)"
| "fits_Expr (TupleSelect tuple index) \<longleftrightarrow> fits_Expr tuple"
| "fits_Expr (UMinus expr) \<longleftrightarrow> fits_Expr expr"
| "fits_Expr UnitLiteral \<longleftrightarrow> True"
| "fits_Expr (Variable x) \<longleftrightarrow> fits_Variable x"
| "fits_Pattern (ADTPattern binder idn tps subPatterns) \<longleftrightarrow>
     fits_Option fits_ValDef binder \<and>
     fits_SymbolIdentifier idn \<and>
     fits_Seq fits_Type tps \<and>
     fits_Seq (\<lambda>b. b) (map fits_Pattern subPatterns)"
| "fits_Pattern (LiteralPattern binder lit) \<longleftrightarrow>
     fits_Option fits_ValDef binder \<and>
     fits_Expr lit"
| "fits_Pattern (TuplePattern binder subPatterns) \<longleftrightarrow>
     fits_Option fits_ValDef binder \<and>
     fits_Seq (\<lambda>b. b) (map fits_Pattern subPatterns)"
| "fits_Pattern (WildcardPattern binder) \<longleftrightarrow> fits_Option fits_ValDef binder"
| "fits_Lambda (MkLambda params body) \<longleftrightarrow>
     fits_Seq fits_ValDef params \<and>
     fits_Expr body"
| "fits_MatchCase (MkMatchCase pattern optGuard rhs) \<longleftrightarrow>
     fits_Pattern pattern \<and>
     fits_Option (\<lambda>b. b) (map_option fits_Expr optGuard) \<and>
     fits_Expr rhs"

definition fits_FunDef :: "FunDef \<Rightarrow> bool" where
  "fits_FunDef x \<longleftrightarrow> fits_SymbolIdentifier (fd_id x) \<and>
     fits_Seq fits_TypeParameterDef (fd_tparams x) \<and> fits_Seq fits_ValDef (fd_params x) \<and>
     fits_Type (fd_returnType x) \<and> fits_Expr (fd_fullBody x) \<and> fits_Seq (\<lambda>_. True) (fd_flags x)"

definition fits_Symbols :: "Symbols \<Rightarrow> bool" where
  "fits_Symbols x \<longleftrightarrow> fits_Seq fits_FunDef (map snd (syms_functions x)) \<and>
     fits_Seq fits_ADTSort (map snd (syms_sorts x))"

section \<open>Success is fitting\<close>

lemma succeeds_ser_Flags [simp]: "succeeds (ser_Seq ser_Flag fs) \<longleftrightarrow> fits_Seq (\<lambda>_. True) fs"
proof (rule succeeds_ser_Seq)
  show "succeeds (ser_Flag x) \<longleftrightarrow> True" for x
    by (cases x) (simp_all add: ser_flag_defs)
qed simp

lemma succeeds_ser_SymbolIdentifier [simp]:
  "succeeds (ser_SymbolIdentifier x) \<longleftrightarrow> fits_SymbolIdentifier x"
  by (simp add: ser_SymbolIdentifier_def fits_SymbolIdentifier_def
      succeeds_ser_Seq [where ok = "\<lambda>_. True"])

lemma succeeds_ser_TypeParameter [simp]: "succeeds (ser_TypeParameter x) \<longleftrightarrow> fits_TypeParameter x"
  by (simp add: ser_TypeParameter_def fits_TypeParameter_def)

lemma succeeds_ser_BVType [simp]: "succeeds (ser_BVType x)"
  by (simp add: ser_BVType_def)

lemma succeeds_ser_BVLiteral [simp]: "succeeds (ser_BVLiteral tsb x)"
  by (simp add: ser_BVLiteral_def)

lemma succeeds_ser_Type [simp]: "succeeds (ser_Type x) \<longleftrightarrow> fits_Type x"
  by (induction x) (simp_all add: ser_type_defs fits_TypeParameter_def succeeds_ser_Seq [where ok = fits_Type])

lemma succeeds_ser_leaves [simp]:
  "succeeds (ser_Variable v) \<longleftrightarrow> fits_Variable v"
  "succeeds (ser_ValDef d) \<longleftrightarrow> fits_ValDef d"
  "succeeds (ser_TypeParameterDef p) \<longleftrightarrow> fits_TypeParameterDef p"
  by (simp_all add: ser_Variable_def ser_ValDef_def ser_TypeParameterDef_def
      fits_Variable_def fits_ValDef_def fits_TypeParameterDef_def)

lemma succeeds_ser_ADTConstructor [simp]:
  "succeeds (ser_ADTConstructor c) \<longleftrightarrow> fits_ADTConstructor c"
  by (simp add: ser_ADTConstructor_def fits_ADTConstructor_def succeeds_ser_Seq [where ok = fits_ValDef])

lemma succeeds_ser_ADTSort: "succeeds (ser_ADTSort s) \<longleftrightarrow> fits_ADTSort s"
  by (simp add: ser_ADTSort_def fits_ADTSort_def succeeds_ser_Seq [where ok = fits_TypeParameterDef]
      succeeds_ser_Seq [where ok = fits_ADTConstructor])

lemmas succeeds_containers =
  succeeds_ser_Seq [where ok = fits_Type] succeeds_ser_Seq [where ok = fits_ValDef]
  succeeds_ser_Seq [where ok = fits_Expr] succeeds_ser_Seq [where ok = fits_Pattern]
  succeeds_ser_Seq [where ok = fits_MatchCase]
  succeeds_ser_Option [where ok = fits_ValDef] succeeds_ser_Option [where ok = fits_Expr]

lemma succeeds_ser_Expr:
  "succeeds (ser_Expr tsb e) \<longleftrightarrow> fits_Expr e"
  "succeeds (ser_Pattern tsb p) \<longleftrightarrow> fits_Pattern p"
  "succeeds (ser_Lambda tsb l) \<longleftrightarrow> fits_Lambda l"
  "succeeds (ser_MatchCase tsb c) \<longleftrightarrow> fits_MatchCase c"
  by (induction e and p and l and c) (simp_all add: ser_expr_defs fits_Variable_def succeeds_containers)

lemma succeeds_ser_FunDef: "succeeds (ser_FunDef tsb f) \<longleftrightarrow> fits_FunDef f"
  by (simp add: ser_FunDef_def fits_FunDef_def succeeds_ser_Seq [where ok = fits_TypeParameterDef]
      succeeds_containers succeeds_ser_Expr)

lemma fits_Seq_sort_key [simp]: "fits_Seq f (sort_key k xs) \<longleftrightarrow> fits_Seq f xs"
  by (simp add: fits_Seq_def)

lemma succeeds_ser_Symbols: "succeeds (ser_Symbols tsb x) \<longleftrightarrow> fits_Symbols x"
proof -
  let ?inner = "ser_tuple2 (ser_Seq (ser_FunDef tsb)) (ser_Seq ser_ADTSort)
    (sort_functions (map snd (syms_functions x)), sort_sorts (map snd (syms_sorts x)))"
  have "succeeds ?inner \<longleftrightarrow> fits_Symbols x"
    by (simp add: succeeds_ser_Seq [where ok = fits_FunDef] succeeds_ser_Seq [where ok = fits_ADTSort]
        succeeds_ser_FunDef succeeds_ser_ADTSort fits_Symbols_def sort_functions_def sort_sorts_def)
  moreover have "succeeds (ser_Symbols tsb x) \<longleftrightarrow> succeeds ?inner"
    using succeeds_primitives(5)
    by (auto simp: ser_Symbols_out succeeds_def out_def [of ?inner] out_fail split: sum.split)
  ultimately show ?thesis by simp
qed

section \<open>Properties\<close>

text \<open>
  C5: Serialization of a symbol table panics exactly when some vector in it (functions,
  sorts, parameters, types, arguments, flags, symbol paths, ...) has more than \<open>i32::MAX\<close>
  elements. Otherwise it returns, whatever was written before.
\<close>

theorem symbols_serialize_total:
  "(\<exists>t. ser_Symbols tsb x s = Inr t) \<longleftrightarrow> fits_Symbols x"
  using succeeds_ser_Symbols [of tsb x] appending_extends [OF appending_ser_Symbols, of tsb x s]
  by (auto simp: succeeds_def)

end
