(* ===== verification/Strings.thy ===== *)
theory Strings
  imports Prelude
begin

text \<open>
  The operations of Rust's \<open>str\<close> that the front end uses: \<open>split\<close> on a character and on
  \<open>::\<close>, \<open>join\<close>, \<open>starts_with\<close>, \<open>contains\<close>, decimal formatting, and the test
  \<open>chars().all(char::is_numeric)\<close>. Strings are lists of bytes. The Unicode tables behind
  \<open>is_numeric\<close> are the parameter \<open>num\<close>, of which only the ASCII part is relied on
  (\<open>numeric_strings\<close>).
\<close>

section \<open>Splitting and joining\<close>

fun split_char :: "char \<Rightarrow> string \<Rightarrow> string list" where
  "split_char c [] = [[]]"
| "split_char c (x # xs) =
     (if x = c then [] # split_char c xs
      else (case split_char c xs of [] \<Rightarrow> [[x]] | y # ys \<Rightarrow> (x # y) # ys))"

fun join :: "string \<Rightarrow> string list \<Rightarrow> string" where
  "join sep [] = []"
| "join sep [s] = s"
| "join sep (s # t # ss) = s @ sep @ join sep (t # ss)"

text \<open>\<open>split("::")\<close>: matches are found from the left and do not overlap.\<close>

fun split_colons :: "string \<Rightarrow> string list" where
  "split_colons (x # y # xs) =
     (if x = CHR '':'' \<and> y = CHR '':'' then [] # split_colons xs
      else (case split_colons (y # xs) of [] \<Rightarrow> [[x]] | z # zs \<Rightarrow> (x # z) # zs))"
| "split_colons xs = [xs]"

fun starts_with :: "string \<Rightarrow> string \<Rightarrow> bool" where
  "starts_with xs [] = True"
| "starts_with [] (y # ys) = False"
| "starts_with (x # xs) (y # ys) \<longleftrightarrow> x = y \<and> starts_with xs ys"

fun contains_str :: "string \<Rightarrow> string \<Rightarrow> bool" where
  "contains_str [] p \<longleftrightarrow> p = []"
| "contains_str (x # xs) p \<longleftrightarrow> starts_with (x # xs) p \<or> contains_str xs p"

lemma starts_with_iff: "starts_with s p \<longleftrightarrow> (\<exists>t. s = p @ t)"
  by (induction s p rule: starts_with.induct) auto

lemma contains_str_iff: "contains_str s p \<longleftrightarrow> (\<exists>u t. s = u @ p @ t)"
proof (induction s p rule: contains_str.induct)
  case (1 p)
  then show ?case by auto
next
  case (2 x xs p)
  have "(\<exists>u t. x # xs = u @ p @ t) \<longleftrightarrow> (\<exists>t. x # xs = p @ t) \<or> (\<exists>u t. xs = u @ p @ t)"
    by (metis append_Cons append_Nil list.exhaust list.inject)
  with 2 show ?case
    by (simp add: starts_with_iff)
qed

lemma split_char_nonempty [simp]: "split_char c s \<noteq> []"
  by (induction s) (auto split: list.splits)

lemma split_char_append:
  "c \<notin> set a \<Longrightarrow> split_char c (a @ c # b) = a # split_char c b"
  by (induction a) auto

lemma join_Cons: "ss \<noteq> [] \<Longrightarrow> join sep (s # ss) = s @ sep @ join sep ss"
  by (cases ss) auto

lemma join_split_char: "join [c] (split_char c s) = s"
proof (induction s)
  case Nil
  then show ?case by simp
next
  case (Cons x s)
  then show ?case
    by (cases "split_char c s"; cases "tl (split_char c s)")
      (auto simp: join_Cons split: list.splits)
qed

lemma split_colons_nonempty [simp]: "split_colons s \<noteq> []"
  by (induction s rule: split_colons.induct) (auto split: list.splits)

lemma join_split_colons: "join ''::'' (split_colons s) = s"
proof (induction s rule: split_colons.induct)
  case (1 x y xs)
  have "join ''::'' ((x # z) # zs) = x # join ''::'' (z # zs)" for z zs
    by (cases zs) auto
  with 1 show ?case
    by (auto simp: join_Cons split: list.splits)
qed auto

section \<open>Decimal numbers\<close>

definition digit :: "nat \<Rightarrow> char" where
  "digit n = char_of (48 + n)"

function dec :: "nat \<Rightarrow> string" where
  "dec n = (if n < 10 then [digit n] else dec (n div 10) @ [digit (n mod 10)])"
  by auto
termination
  by (relation "measure (\<lambda>n. n)") auto

declare dec.simps [simp del]

definition is_digit :: "char \<Rightarrow> bool" where
  "is_digit c \<longleftrightarrow> 48 \<le> (of_char c :: nat) \<and> (of_char c :: nat) \<le> 57"

lemma of_char_digit: "n < 10 \<Longrightarrow> of_char (digit n) = (48 + n :: nat)"
  by (simp add: digit_def)

lemma dec_digits: "c \<in> set (dec n) \<Longrightarrow> is_digit c"
proof (induction n rule: dec.induct)
  case (1 n)
  then show ?case
    by (subst (asm) (2) dec.simps) (auto simp: is_digit_def of_char_digit split: if_splits)
qed

text \<open>The number written by a string of digits; \<open>dec\<close> is injective.\<close>

definition undec :: "string \<Rightarrow> nat" where
  "undec s = foldl (\<lambda>a c. a * 10 + (of_char c - 48)) 0 s"

lemma undec_dec: "undec (dec n) = n"
proof (induction n rule: dec.induct)
  case (1 n)
  show ?case
  proof (cases "n < 10")
    case True
    then show ?thesis
      by (simp add: dec.simps [of n] undec_def of_char_digit)
  next
    case False
    with 1 have "undec (dec (n div 10)) = n div 10" by simp
    with False show ?thesis
      by (subst dec.simps) (simp add: undec_def of_char_digit)
  qed
qed

lemma dec_inject: "dec m = dec n \<longleftrightarrow> m = n"
  by (metis undec_dec)

lemma dec_nonempty [simp]: "dec n \<noteq> []"
  by (subst dec.simps) simp

section \<open>Numeric strings\<close>

text \<open>
  A byte below 128 is a character of its own, so one that is not a digit makes the string
  not numeric; ASCII digits are numeric.
\<close>

locale numeric_strings =
  fixes num :: "string \<Rightarrow> bool"
  assumes num_digits: "(\<And>c. c \<in> set s \<Longrightarrow> is_digit c) \<Longrightarrow> num s"
    and num_other: "c \<in> set s \<Longrightarrow> (of_char c :: nat) < 128 \<Longrightarrow> \<not> is_digit c \<Longrightarrow> \<not> num s"
begin

lemma num_dec: "num (dec n)"
  by (rule num_digits) (rule dec_digits)

lemma num_underscore: "CHR ''_'' \<in> set s \<Longrightarrow> \<not> num s"
  by (rule num_other [of "CHR ''_''"]) (simp_all add: is_digit_def)

end

definition ascii_numeric :: "string \<Rightarrow> bool" where
  "ascii_numeric s \<longleftrightarrow> list_all is_digit s"

interpretation ascii: numeric_strings ascii_numeric
  by unfold_locales (auto simp: ascii_numeric_def list_all_iff)

end
