(* ===== verification/Pretty.thy ===== *)
theory Pretty
  imports Symbols Strings
begin

text \<open>
  The pretty printer, \<open>stainless_data/src/ast/pretty.rs\<close>: the \<open>Display\<close> implementations of
  the syntax tree. Printing returns the text or the panic of \<open>unimplemented!\<close>. One
  definition per struct assembles the text of the parts; the recursion over the tree is in
  \<open>fmt_Type\<close> and \<open>fmt_Expr\<close>. The decimal form of \<open>num_bigint::BigInt\<close> is the parameter
  \<open>big\<close>.
\<close>

section \<open>Text\<close>

fun cat :: "string res list \<Rightarrow> string res" where
  "cat [] = Inr []"
| "cat (r # rs) = res_bind r (\<lambda>s. res_bind (cat rs) (\<lambda>t. Inr (s @ t)))"

definition nl :: string where
  "nl = [CHR 0x0A]"

definition unimplemented :: "string res" where
  "unimplemented = Inl (Panic ''No formatter'')"

fun writeSeq :: "string res list \<Rightarrow> string \<Rightarrow> string res" where
  "writeSeq [] sep = Inr []"
| "writeSeq (x # xs) sep = cat (x # concat (map (\<lambda>y. [Inr sep, y]) xs))"

definition show_int :: "int \<Rightarrow> string" where
  "show_int i = (if i < 0 then ''-'' @ dec (nat (- i)) else dec (nat i))"

definition show_i32 :: "i32 \<Rightarrow> string" where
  "show_i32 i = show_int (sint i)"

section \<open>Identifiers, flags, parameters\<close>

definition fmt_Identifier :: "Identifier \<Rightarrow> string" where
  "fmt_Identifier x = ident_name x @ ''$'' @ show_i32 (ident_globalId x)"

definition fmt_SymbolIdentifier :: "SymbolIdentifier \<Rightarrow> string" where
  "fmt_SymbolIdentifier x = fmt_Identifier (sym_id x)"

definition fmt_Flag :: "Flag \<Rightarrow> string res" where
  "fmt_Flag x = unimplemented"

definition fmt_TypeParameter :: "TypeParameter \<Rightarrow> string res" where
  "fmt_TypeParameter x =
     cat (concat (map (\<lambda>fl. [fmt_Flag fl, Inr '' '']) (tp_flags x)) @ [Inr (fmt_SymbolIdentifier (tp_id x))])"

section \<open>Types\<close>

definition fmt_BVType :: "BVType \<Rightarrow> string" where
  "fmt_BVType x = (if bvt_signed x then ''i'' else ''u'') @ show_i32 (bvt_size x)"

definition fmt_Untyped :: string where "fmt_Untyped = ''???''"
definition fmt_UnitType :: string where "fmt_UnitType = ''()''"
definition fmt_BooleanType :: string where "fmt_BooleanType = ''bool''"
definition fmt_IntegerType :: string where "fmt_IntegerType = ''BigInt''"
definition fmt_AnyType :: string where "fmt_AnyType = ''Any''"

definition fmt_TupleType :: "string res list \<Rightarrow> string res" where
  "fmt_TupleType bases = cat [Inr ''('', writeSeq bases '', '', Inr '')'']"

definition fmt_FunctionType :: "string res list \<Rightarrow> string res \<Rightarrow> string res" where
  "fmt_FunctionType frm tto = cat [Inr ''('', writeSeq frm '', '', Inr '') -> '', tto]"

definition fmt_ADTType :: "SymbolIdentifier \<Rightarrow> string res" where
  "fmt_ADTType idn = Inr (fmt_SymbolIdentifier idn)"

primrec fmt_Type :: "Type \<Rightarrow> string res" where
  "fmt_Type (ADTType idn tps) = fmt_ADTType idn"
| "fmt_Type AnyType = Inr fmt_AnyType"
| "fmt_Type (BVType x) = Inr (fmt_BVType x)"
| "fmt_Type BooleanType = Inr fmt_BooleanType"
| "fmt_Type (FunctionType frm tto) = fmt_FunctionType (map fmt_Type frm) (fmt_Type tto)"
| "fmt_Type IntegerType = Inr fmt_IntegerType"
| "fmt_Type (SetType b) = unimplemented"
| "fmt_Type (TupleType bases) = fmt_TupleType (map fmt_Type bases)"
| "fmt_Type (TypeParameter x) = unimplemented"
| "fmt_Type UnitType = Inr fmt_UnitType"
| "fmt_Type Untyped = Inr fmt_Untyped"

section \<open>Expressions and patterns\<close>

definition fmt_ValDef :: "ValDef \<Rightarrow> string res" where
  "fmt_ValDef x =
     cat (concat (map (\<lambda>fl. [fmt_Flag fl, Inr '' '']) (var_flags (vd_v x))) @
       [Inr (fmt_SymbolIdentifier (var_id (vd_v x))), Inr '': '', fmt_Type (var_tpe (vd_v x))])"

definition fmt_Variable :: "Variable \<Rightarrow> string" where
  "fmt_Variable x = fmt_SymbolIdentifier (var_id x)"

definition fmt_UnitLiteral :: string where "fmt_UnitLiteral = ''()''"

definition fmt_BooleanLiteral :: "bool \<Rightarrow> string" where
  "fmt_BooleanLiteral v = (if v then ''true'' else ''false'')"

definition fmt_IntegerLiteral :: "(int \<Rightarrow> string) \<Rightarrow> int \<Rightarrow> string" where
  "fmt_IntegerLiteral big v = big v"

definition fmt_BVLiteral :: "(int \<Rightarrow> string) \<Rightarrow> BVLiteral \<Rightarrow> string" where
  "fmt_BVLiteral big x =
     big (bvl_value x) @ (if bvl_signed x then ''i'' else ''u'') @ show_i32 (bvl_size x)"

definition type_args :: "string res list \<Rightarrow> string res list" where
  "type_args tps = (if tps \<noteq> [] then [Inr ''<'', writeSeq tps '', '', Inr ''>''] else [])"

definition fmt_ADT :: "SymbolIdentifier \<Rightarrow> string res list \<Rightarrow> string res list \<Rightarrow> string res" where
  "fmt_ADT idn tps args = cat ([Inr (fmt_SymbolIdentifier idn)] @ type_args tps @
     [Inr ''('', writeSeq args '', '', Inr '')''])"

definition fmt_FunctionInvocation :: "SymbolIdentifier \<Rightarrow> string res list \<Rightarrow> string res list \<Rightarrow> string res" where
  "fmt_FunctionInvocation idn tps args = cat ([Inr (fmt_SymbolIdentifier idn)] @ type_args tps @
     [Inr ''('', writeSeq args '', '', Inr '')''])"

definition fmt_UMinus :: "string res \<Rightarrow> string res" where
  "fmt_UMinus e = cat [Inr ''(-'', e, Inr '')'']"

definition fmt_BVNot :: "string res \<Rightarrow> string res" where
  "fmt_BVNot e = cat [Inr ''(~'', e, Inr '')'']"

definition fmt_Not :: "string res \<Rightarrow> string res" where
  "fmt_Not e = cat [Inr ''(!'', e, Inr '')'']"

definition fmt_Plus :: "string res \<Rightarrow> string res \<Rightarrow> string res" where
  "fmt_Plus lhs rhs = cat [Inr ''('', lhs, Inr '' + '', rhs, Inr '')'']"

definition fmt_Minus :: "string res \<Rightarrow> string res \<Rightarrow> string res" where
  "fmt_Minus lhs rhs = cat [Inr ''('', lhs, Inr '' - '', rhs, Inr '')'']"

definition fmt_Times :: "string res \<Rightarrow> string res \<Rightarrow> string res" where
  "fmt_Times lhs rhs = cat [Inr ''('', lhs, Inr '' * '', rhs, Inr '')'']"

definition fmt_Division :: "string res \<Rightarrow> string res \<Rightarrow> string res" where
  "fmt_Division lhs rhs = cat [Inr ''('', lhs, Inr '' / '', rhs, Inr '')'']"

definition fmt_Equals :: "string res \<Rightarrow> string res \<Rightarrow> string res" where
  "fmt_Equals lhs rhs = cat [Inr ''('', lhs, Inr '' == '', rhs, Inr '')'']"

definition fmt_LessThan :: "string res \<Rightarrow> string res \<Rightarrow> string res" where
  "fmt_LessThan lhs rhs = cat [Inr ''('', lhs, Inr '' < '', rhs, Inr '')'']"

definition fmt_LessEquals :: "string res \<Rightarrow> string res \<Rightarrow> string res" where
  "fmt_LessEquals lhs rhs = cat [Inr ''('', lhs, Inr '' <= '', rhs, Inr '')'']"

definition fmt_GreaterThan :: "string res \<Rightarrow> string res \<Rightarrow> string res" where
  "fmt_GreaterThan lhs rhs = cat [Inr ''('', lhs, Inr '' > '', rhs, Inr '')'']"

definition fmt_GreaterEquals :: "string res \<Rightarrow> string res \<Rightarrow> string res" where
  "fmt_GreaterEquals lhs rhs = cat [Inr ''('', lhs, Inr '' >= '', rhs, Inr '')'']"

definition fmt_And :: "string res list \<Rightarrow> string res" where
  "fmt_And exprs = cat [Inr ''('', writeSeq exprs '' && '', Inr '')'']"

definition fmt_Or :: "string res list \<Rightarrow> string res" where
  "fmt_Or exprs = cat [Inr ''('', writeSeq exprs '' || '', Inr '')'']"

definition fmt_Tuple :: "string res list \<Rightarrow> string res" where
  "fmt_Tuple exprs = cat [Inr ''('', writeSeq exprs '', '', Inr '')'']"

definition fmt_NoTree :: string where "fmt_NoTree = ''???''"

definition fmt_Lambda_parts :: "string res list \<Rightarrow> string res \<Rightarrow> string res" where
  "fmt_Lambda_parts params body = cat [Inr ''|'', writeSeq params '', '', Inr ''| '', body]"

definition fmt_Ensuring :: "string res \<Rightarrow> string res" where
  "fmt_Ensuring body = cat [body]"

definition fmt_TupleSelect :: "string res \<Rightarrow> i32 \<Rightarrow> string res" where
  "fmt_TupleSelect tuple index = cat [tuple, Inr ''.'', Inr (show_i32 index)]"

definition fmt_IfExpr :: "string res \<Rightarrow> string res \<Rightarrow> string res \<Rightarrow> string res" where
  "fmt_IfExpr cond thenn elze =
     cat [Inr ''if '', cond, Inr ('' {'' @ nl @ ''    ''), thenn,
       Inr (nl @ ''} else {'' @ nl @ ''    ''), elze, Inr (nl @ ''}''), Inr nl]"

definition fmt_MatchExpr :: "string res \<Rightarrow> string res list \<Rightarrow> string res" where
  "fmt_MatchExpr scrutinee cs =
     cat ([Inr ''match '', scrutinee, Inr '' {'', Inr nl] @
       concat (map (\<lambda>c. [Inr ''    '', c, Inr nl]) cs) @ [Inr ''}''])"

definition fmt_MatchCase_parts :: "string res \<Rightarrow> string res \<Rightarrow> string res" where
  "fmt_MatchCase_parts pattern rhs = cat [pattern, Inr '' => '', rhs]"

definition fmt_Let :: "string res \<Rightarrow> string res \<Rightarrow> string res \<Rightarrow> string res" where
  "fmt_Let vd v body = cat [Inr ''let '', vd, Inr '' = '', v, Inr ('';'' @ nl @ ''    ''), body]"

definition fmt_LetVar :: "string res \<Rightarrow> string res \<Rightarrow> string res \<Rightarrow> string res" where
  "fmt_LetVar vd v body = cat [Inr ''let mut '', vd, Inr '' = '', v, Inr ('';'' @ nl @ ''    ''), body]"

definition fmt_Block :: "string res list \<Rightarrow> string res \<Rightarrow> string res" where
  "fmt_Block exprs lst =
     cat ([Inr (''{'' @ nl), Inr nl] @ concat (map (\<lambda>e. [Inr ''    '', e, Inr '';'', Inr nl]) exprs) @
       [Inr ''    '', lst, Inr nl, Inr ''}''])"

definition fmt_ADTPattern :: "string res option \<Rightarrow> SymbolIdentifier \<Rightarrow> string res list \<Rightarrow> string res" where
  "fmt_ADTPattern binder idn subPatterns =
     cat ((case binder of Some b \<Rightarrow> [b, Inr '' @ ''] | None \<Rightarrow> []) @ [Inr (fmt_SymbolIdentifier idn)] @
       (if subPatterns \<noteq> [] then [Inr ''('', writeSeq subPatterns '', '', Inr '')''] else []))"

definition fmt_WildcardPattern :: "ValDef option \<Rightarrow> string" where
  "fmt_WildcardPattern binder =
     (case binder of Some b \<Rightarrow> fmt_SymbolIdentifier (var_id (vd_v b)) | None \<Rightarrow> ''_'')"

primrec fmt_Expr :: "(int \<Rightarrow> string) \<Rightarrow> Expr \<Rightarrow> string res"
  and fmt_Pattern :: "(int \<Rightarrow> string) \<Rightarrow> Pattern \<Rightarrow> string res"
  and fmt_Lambda :: "(int \<Rightarrow> string) \<Rightarrow> Lambda \<Rightarrow> string res"
  and fmt_MatchCase :: "(int \<Rightarrow> string) \<Rightarrow> MatchCase \<Rightarrow> string res" where
  "fmt_Expr big (ADT idn tps args) = fmt_ADT idn (map fmt_Type tps) (map (fmt_Expr big) args)"
| "fmt_Expr big (ADTSelector adt selector) = unimplemented"
| "fmt_Expr big (And exprs) = fmt_And (map (fmt_Expr big) exprs)"
| "fmt_Expr big (BVAShiftRight lhs rhs) = unimplemented"
| "fmt_Expr big (BVAnd lhs rhs) = unimplemented"
| "fmt_Expr big (BVLShiftRight lhs rhs) = unimplemented"
| "fmt_Expr big (BVLiteral x) = Inr (fmt_BVLiteral big x)"
| "fmt_Expr big (BVNot e) = fmt_BVNot (fmt_Expr big e)"
| "fmt_Expr big (BVOr lhs rhs) = unimplemented"
| "fmt_Expr big (BVShiftLeft lhs rhs) = unimplemented"
| "fmt_Expr big (BVWideningCast expr newType) = unimplemented"
| "fmt_Expr big (BVXor lhs rhs) = unimplemented"
| "fmt_Expr big (Block exprs lst) = fmt_Block (map (fmt_Expr big) exprs) (fmt_Expr big lst)"
| "fmt_Expr big (BooleanLiteral v) = Inr (fmt_BooleanLiteral v)"
| "fmt_Expr big (Decreases msr body) = unimplemented"
| "fmt_Expr big (Division lhs rhs) = fmt_Division (fmt_Expr big lhs) (fmt_Expr big rhs)"
| "fmt_Expr big (Ensuring body pred) = fmt_Ensuring (fmt_Expr big body)"
| "fmt_Expr big (Equals lhs rhs) = fmt_Equals (fmt_Expr big lhs) (fmt_Expr big rhs)"
| "fmt_Expr big (Error tpe description) = unimplemented"
| "fmt_Expr big (FiniteSet elements base) = unimplemented"
| "fmt_Expr big (FunctionInvocation idn tps args) = fmt_FunctionInvocation idn (map fmt_Type tps) (map (fmt_Expr big) args)"
| "fmt_Expr big (GreaterEquals lhs rhs) = fmt_GreaterEquals (fmt_Expr big lhs) (fmt_Expr big rhs)"
| "fmt_Expr big (GreaterThan lhs rhs) = fmt_GreaterThan (fmt_Expr big lhs) (fmt_Expr big rhs)"
| "fmt_Expr big (IfExpr c t e) = fmt_IfExpr (fmt_Expr big c) (fmt_Expr big t) (fmt_Expr big e)"
| "fmt_Expr big (IntegerLiteral v) = Inr (fmt_IntegerLiteral big v)"
| "fmt_Expr big (Lambda x) = fmt_Lambda big x"
| "fmt_Expr big (LessEquals lhs rhs) = fmt_LessEquals (fmt_Expr big lhs) (fmt_Expr big rhs)"
| "fmt_Expr big (LessThan lhs rhs) = fmt_LessThan (fmt_Expr big lhs) (fmt_Expr big rhs)"
| "fmt_Expr big (Let_e vd v body) = fmt_Let (fmt_ValDef vd) (fmt_Expr big v) (fmt_Expr big body)"
| "fmt_Expr big (LetVar vd v body) = fmt_LetVar (fmt_ValDef vd) (fmt_Expr big v) (fmt_Expr big body)"
| "fmt_Expr big (MatchExpr scrutinee cs) = fmt_MatchExpr (fmt_Expr big scrutinee) (map (fmt_MatchCase big) cs)"
| "fmt_Expr big (Minus lhs rhs) = fmt_Minus (fmt_Expr big lhs) (fmt_Expr big rhs)"
| "fmt_Expr big (NoTree t) = Inr fmt_NoTree"
| "fmt_Expr big (Not_e e) = fmt_Not (fmt_Expr big e)"
| "fmt_Expr big (Or exprs) = fmt_Or (map (fmt_Expr big) exprs)"
| "fmt_Expr big (Plus_e lhs rhs) = fmt_Plus (fmt_Expr big lhs) (fmt_Expr big rhs)"
| "fmt_Expr big (Remainder lhs rhs) = unimplemented"
| "fmt_Expr big (Require pred body) = unimplemented"
| "fmt_Expr big (SetAdd st elem) = unimplemented"
| "fmt_Expr big (SetDifference lhs rhs) = unimplemented"
| "fmt_Expr big (SetIntersection lhs rhs) = unimplemented"
| "fmt_Expr big (SetUnion lhs rhs) = unimplemented"
| "fmt_Expr big (StringLiteral v) = unimplemented"
| "fmt_Expr big (SubsetOf lhs rhs) = unimplemented"
| "fmt_Expr big (Times lhs rhs) = fmt_Times (fmt_Expr big lhs) (fmt_Expr big rhs)"
| "fmt_Expr big (Tuple exprs) = fmt_Tuple (map (fmt_Expr big) exprs)"
| "fmt_Expr big (TupleSelect tuple index) = fmt_TupleSelect (fmt_Expr big tuple) index"
| "fmt_Expr big (UMinus e) = fmt_UMinus (fmt_Expr big e)"
| "fmt_Expr big UnitLiteral = Inr fmt_UnitLiteral"
| "fmt_Expr big (Variable x) = Inr (fmt_Variable x)"
| "fmt_Pattern big (ADTPattern binder idn tps subPatterns) =
     fmt_ADTPattern (map_option fmt_ValDef binder) idn (map (fmt_Pattern big) subPatterns)"
| "fmt_Pattern big (LiteralPattern binder lit) = unimplemented"
| "fmt_Pattern big (TuplePattern binder subPatterns) = unimplemented"
| "fmt_Pattern big (WildcardPattern binder) = Inr (fmt_WildcardPattern binder)"
| "fmt_Lambda big (MkLambda params body) = fmt_Lambda_parts (map fmt_ValDef params) (fmt_Expr big body)"
| "fmt_MatchCase big (MkMatchCase pattern optGuard rhs) =
     fmt_MatchCase_parts (fmt_Pattern big pattern) (fmt_Expr big rhs)"

section \<open>Definitions\<close>

definition fmt_FunDef :: "(int \<Rightarrow> string) \<Rightarrow> FunDef \<Rightarrow> string res" where
  "fmt_FunDef big x =
     cat (concat (map (\<lambda>fl. [fmt_Flag fl, Inr nl]) (fd_flags x)) @
       [Inr ''fn '', Inr (fmt_SymbolIdentifier (fd_id x))] @
       (if fd_tparams x \<noteq> []
        then [Inr ''<'', writeSeq (map (\<lambda>td. fmt_TypeParameter (tpd_tp td)) (fd_tparams x)) '', '', Inr ''>'']
        else []) @
       [Inr ''('', writeSeq (map fmt_ValDef (fd_params x)) '', '', Inr '') -> '', fmt_Type (fd_returnType x),
        Inr '' {'', Inr nl, Inr ''    '', fmt_Expr big (fd_fullBody x), Inr nl] @
       (case fd_fullBody x of
          Ensuring body pred \<Rightarrow> [Inr ''} ensuring ('', fmt_Lambda big pred, Inr '')'', Inr nl]
        | _ \<Rightarrow> [Inr ''}'', Inr nl]))"

definition fmt_ADTConstructor :: "ADTConstructor \<Rightarrow> string res" where
  "fmt_ADTConstructor x =
     cat ([Inr ''    '', Inr (fmt_SymbolIdentifier (cons_id x))] @
       (if cons_fields x \<noteq> [] then [Inr ''('', writeSeq (map fmt_ValDef (cons_fields x)) '', '', Inr '')'']
        else []))"

definition fmt_ADTSort :: "ADTSort \<Rightarrow> string res" where
  "fmt_ADTSort x =
     cat [Inr ''enum '', Inr (fmt_SymbolIdentifier (sort_id x)), Inr '' {'', Inr nl,
       writeSeq (map fmt_ADTConstructor (sort_constructors x)) ('','' @ nl), Inr (nl @ ''}''), Inr nl]"

section \<open>What can be printed\<close>

text \<open>
  The trees without a flag, a type parameter or a variant for which the printer has no
  case. Type arguments of an ADT type, guards of match cases and the predicate of a nested
  \<open>Ensuring\<close> are not printed at all.
\<close>

primrec printable_Type :: "Type \<Rightarrow> bool" where
  "printable_Type (ADTType idn tps) \<longleftrightarrow> True"
| "printable_Type AnyType \<longleftrightarrow> True"
| "printable_Type (BVType x) \<longleftrightarrow> True"
| "printable_Type BooleanType \<longleftrightarrow> True"
| "printable_Type (FunctionType frm tto) \<longleftrightarrow> (\<forall>b \<in> set (map printable_Type frm). b) \<and> printable_Type tto"
| "printable_Type IntegerType \<longleftrightarrow> True"
| "printable_Type (SetType b) \<longleftrightarrow> False"
| "printable_Type (TupleType bases) \<longleftrightarrow> (\<forall>b \<in> set (map printable_Type bases). b)"
| "printable_Type (TypeParameter x) \<longleftrightarrow> False"
| "printable_Type UnitType \<longleftrightarrow> True"
| "printable_Type Untyped \<longleftrightarrow> True"

definition printable_ValDef :: "ValDef \<Rightarrow> bool" where
  "printable_ValDef x \<longleftrightarrow> var_flags (vd_v x) = [] \<and> printable_Type (var_tpe (vd_v x))"

primrec printable_Expr :: "Expr \<Rightarrow> bool"
  and printable_Pattern :: "Pattern \<Rightarrow> bool"
  and printable_Lambda :: "Lambda \<Rightarrow> bool"
  and printable_MatchCase :: "MatchCase \<Rightarrow> bool" where
  "printable_Expr (ADT idn tps args) \<longleftrightarrow> (\<forall>t \<in> set tps. printable_Type t) \<and> (\<forall>b \<in> set (map printable_Expr args). b)"
| "printable_Expr (ADTSelector adt selector) \<longleftrightarrow> False"
| "printable_Expr (And exprs) \<longleftrightarrow> (\<forall>b \<in> set (map printable_Expr exprs). b)"
| "printable_Expr (BVAShiftRight lhs rhs) \<longleftrightarrow> False"
| "printable_Expr (BVAnd lhs rhs) \<longleftrightarrow> False"
| "printable_Expr (BVLShiftRight lhs rhs) \<longleftrightarrow> False"
| "printable_Expr (BVLiteral x) \<longleftrightarrow> True"
| "printable_Expr (BVNot e) \<longleftrightarrow> printable_Expr e"
| "printable_Expr (BVOr lhs rhs) \<longleftrightarrow> False"
| "printable_Expr (BVShiftLeft lhs rhs) \<longleftrightarrow> False"
| "printable_Expr (BVWideningCast expr newType) \<longleftrightarrow> False"
| "printable_Expr (BVXor lhs rhs) \<longleftrightarrow> False"
| "printable_Expr (Block exprs lst) \<longleftrightarrow> (\<forall>b \<in> set (map printable_Expr exprs). b) \<and> printable_Expr lst"
| "printable_Expr (BooleanLiteral v) \<longleftrightarrow> True"
| "printable_Expr (Decreases msr body) \<longleftrightarrow> False"
| "printable_Expr (Division lhs rhs) \<longleftrightarrow> printable_Expr lhs \<and> printable_Expr rhs"
| "printable_Expr (Ensuring body pred) \<longleftrightarrow> printable_Expr body"
| "printable_Expr (Equals lhs rhs) \<longleftrightarrow> printable_Expr lhs \<and> printable_Expr rhs"
| "printable_Expr (Error tpe description) \<longleftrightarrow> False"
| "printable_Expr (FiniteSet elements base) \<longleftrightarrow> False"
| "printable_Expr (FunctionInvocation idn tps args) \<longleftrightarrow> (\<forall>t \<in> set tps. printable_Type t) \<and> (\<forall>b \<in> set (map printable_Expr args). b)"
| "printable_Expr (GreaterEquals lhs rhs) \<longleftrightarrow> printable_Expr lhs \<and> printable_Expr rhs"
| "printable_Expr (GreaterThan lhs rhs) \<longleftrightarrow> printable_Expr lhs \<and> printable_Expr rhs"
| "printable_Expr (IfExpr c t e) \<longleftrightarrow> printable_Expr c \<and> printable_Expr t \<and> printable_Expr e"
| "printable_Expr (IntegerLiteral v) \<longleftrightarrow> True"
| "printable_Expr (Lambda x) \<longleftrightarrow> printable_Lambda x"
| "printable_Expr (LessEquals lhs rhs) \<longleftrightarrow> printable_Expr lhs \<and> printable_Expr rhs"
| "printable_Expr (LessThan lhs rhs) \<longleftrightarrow> printable_Expr lhs \<and> printable_Expr rhs"
| "printable_Expr (Let_e vd v body) \<longleftrightarrow> printable_ValDef vd \<and> printable_Expr v \<and> printable_Expr body"
| "printable_Expr (LetVar vd v body) \<longleftrightarrow> printable_ValDef vd \<and> printable_Expr v \<and> printable_Expr body"
| "printable_Expr (MatchExpr scrutinee cs) \<longleftrightarrow> printable_Expr scrutinee \<and> (\<forall>b \<in> set (map printable_MatchCase cs). b)"
| "printable_Expr (Minus lhs rhs) \<longleftrightarrow> printable_Expr lhs \<and> printable_Expr rhs"
| "printable_Expr (NoTree t) \<longleftrightarrow> True"
| "printable_Expr (Not_e e) \<longleftrightarrow> printable_Expr e"
| "printable_Expr (Or exprs) \<longleftrightarrow> (\<forall>b \<in> set (map printable_Expr exprs). b)"
| "printable_Expr (Plus_e lhs rhs) \<longleftrightarrow> printable_Expr lhs \<and> printable_Expr rhs"
| "printable_Expr (Remainder lhs rhs) \<longleftrightarrow> False"
| "printable_Expr (Require pred body) \<longleftrightarrow> False"
| "printable_Expr (SetAdd st elem) \<longleftrightarrow> False"
| "printable_Expr (SetDifference lhs rhs) \<longleftrightarrow> False"
| "printable_Expr (SetIntersection lhs rhs) \<longleftrightarrow> False"
| "printable_Expr (SetUnion lhs rhs) \<longleftrightarrow> False"
| "printable_Expr (StringLiteral v) \<longleftrightarrow> False"
| "printable_Expr (SubsetOf lhs rhs) \<longleftrightarrow> False"
| "printable_Expr (Times lhs rhs) \<longleftrightarrow> printable_Expr lhs \<and> printable_Expr rhs"
| "printable_Expr (Tuple exprs) \<longleftrightarrow> (\<forall>b \<in> set (map printable_Expr exprs). b)"
| "printable_Expr (TupleSelect tuple index) \<longleftrightarrow> printable_Expr tuple"
| "printable_Expr (UMinus e) \<longleftrightarrow> printable_Expr e"
| "printable_Expr UnitLiteral \<longleftrightarrow> True"
| "printable_Expr (Variable x) \<longleftrightarrow> True"
| "printable_Pattern (ADTPattern binder idn tps subPatterns) \<longleftrightarrow>
     (\<forall>b \<in> set_option binder. printable_ValDef b) \<and> (\<forall>b \<in> set (map printable_Pattern subPatterns). b)"
| "printable_Pattern (LiteralPattern binder lit) \<longleftrightarrow> False"
| "printable_Pattern (TuplePattern binder subPatterns) \<longleftrightarrow> False"
| "printable_Pattern (WildcardPattern binder) \<longleftrightarrow> True"
| "printable_Lambda (MkLambda params body) \<longleftrightarrow> (\<forall>p \<in> set params. printable_ValDef p) \<and> printable_Expr body"
| "printable_MatchCase (MkMatchCase pattern optGuard rhs) \<longleftrightarrow> printable_Pattern pattern \<and> printable_Expr rhs"

section \<open>Printing succeeds exactly on printable trees\<close>

definition prints :: "string res \<Rightarrow> bool" where
  "prints r \<longleftrightarrow> \<not> isl r"

lemma prints_simps [simp]: "prints (Inr s)" "\<not> prints unimplemented"
  by (simp_all add: prints_def unimplemented_def)

lemma prints_cat [simp]: "prints (cat rs) \<longleftrightarrow> (\<forall>r \<in> set rs. prints r)"
proof (induction rs)
  case (Cons r rs)
  then show ?case
    by (cases r; cases "cat rs") (auto simp: prints_def)
qed simp

declare cat.simps [simp del]

lemma prints_writeSeq [simp]: "prints (writeSeq xs sep) \<longleftrightarrow> (\<forall>x \<in> set xs. prints x)"
  by (cases xs) auto

lemma prints_type_args [simp]: "(\<forall>r \<in> set (type_args xs). prints r) \<longleftrightarrow> (\<forall>x \<in> set xs. prints x)"
  by (auto simp: type_args_def)

lemma prints_Type [simp]: "prints (fmt_Type t) \<longleftrightarrow> printable_Type t"
  by (induction t) (auto simp: fmt_ADTType_def fmt_FunctionType_def fmt_TupleType_def)

lemma prints_flags [simp]:
  "(\<forall>r \<in> set (concat (map (\<lambda>fl. [fmt_Flag fl, Inr s]) fls)). prints r) \<longleftrightarrow> fls = []"
  by (cases fls) (auto simp: fmt_Flag_def)

lemma prints_ValDef [simp]: "prints (fmt_ValDef v) \<longleftrightarrow> printable_ValDef v"
  by (auto simp add: fmt_ValDef_def printable_ValDef_def ball_Un simp del: set_concat)

lemma prints_parts [simp]:
  "prints (fmt_Block es l) \<longleftrightarrow> (\<forall>e \<in> set es. prints e) \<and> prints l"
  "prints (fmt_MatchExpr l es) \<longleftrightarrow> prints l \<and> (\<forall>e \<in> set es. prints e)"
  "prints (fmt_ADT i tps es) \<longleftrightarrow> (\<forall>t \<in> set tps. prints t) \<and> (\<forall>e \<in> set es. prints e)"
  "prints (fmt_FunctionInvocation i tps es) \<longleftrightarrow> (\<forall>t \<in> set tps. prints t) \<and> (\<forall>e \<in> set es. prints e)"
  by (auto simp: fmt_Block_def fmt_MatchExpr_def fmt_ADT_def fmt_FunctionInvocation_def type_args_def)

lemma prints_ADTPattern [simp]:
  "prints (fmt_ADTPattern b i es) \<longleftrightarrow> (\<forall>v \<in> set_option b. prints v) \<and> (\<forall>e \<in> set es. prints e)"
  by (cases b; cases es) (auto simp: fmt_ADTPattern_def)

lemmas fmt_defs =
  fmt_UMinus_def fmt_BVNot_def fmt_Not_def fmt_Plus_def
  fmt_Minus_def fmt_Times_def fmt_Division_def fmt_Equals_def fmt_LessThan_def fmt_LessEquals_def
  fmt_GreaterThan_def fmt_GreaterEquals_def fmt_And_def fmt_Or_def fmt_Tuple_def
  fmt_Lambda_parts_def fmt_Ensuring_def fmt_TupleSelect_def fmt_IfExpr_def
  fmt_MatchCase_parts_def fmt_Let_def fmt_LetVar_def

lemma prints_Expr [simp]:
  "prints (fmt_Expr big e) \<longleftrightarrow> printable_Expr e"
  "prints (fmt_Pattern big p) \<longleftrightarrow> printable_Pattern p"
  "prints (fmt_Lambda big l) \<longleftrightarrow> printable_Lambda l"
  "prints (fmt_MatchCase big c) \<longleftrightarrow> printable_MatchCase c"
  by (induction e and p and l and c)
    (simp_all add: fmt_defs option.set_map)

lemma prints_TypeParameter [simp]: "prints (fmt_TypeParameter p) \<longleftrightarrow> tp_flags p = []"
  by (simp add: fmt_TypeParameter_def ball_Un del: set_concat)

lemma prints_ensuring:
  "(\<forall>r \<in> set (case e of Ensuring body pred \<Rightarrow> [Inr a, fmt_Lambda big pred, Inr b, Inr c] | _ \<Rightarrow> [Inr d, Inr c]). prints r)
    \<longleftrightarrow> (case e of Ensuring body pred \<Rightarrow> printable_Lambda pred | _ \<Rightarrow> True)"
  by (cases e) simp_all

lemma prints_FunDef:
  "prints (fmt_FunDef big f) \<longleftrightarrow> fd_flags f = [] \<and>
     (\<forall>p \<in> set (fd_tparams f). tp_flags (tpd_tp p) = []) \<and> (\<forall>p \<in> set (fd_params f). printable_ValDef p) \<and>
     printable_Type (fd_returnType f) \<and> printable_Expr (fd_fullBody f) \<and>
     (case fd_fullBody f of Ensuring body pred \<Rightarrow> printable_Lambda pred | _ \<Rightarrow> True)"
  unfolding fmt_FunDef_def prints_cat set_append ball_Un prints_flags prints_ensuring
  by (cases "fd_tparams f") auto

section \<open>Printed identifiers\<close>

lemma is_digit_dollar: "CHR ''$'' \<notin> set (show_int i)"
  using dec_digits [of "CHR ''$''"] by (auto simp: show_int_def is_digit_def)

lemma hd_dec: "hd (dec n) \<noteq> CHR ''-''"
  using dec_digits [of "hd (dec n)" n] by (auto simp: is_digit_def)

lemma dec_minus [simp]: "CHR ''-'' # s \<noteq> dec n" "dec n \<noteq> CHR ''-'' # s"
  using hd_dec [of n] by (metis list.sel(1))+

lemma show_int_inject: "show_int i = show_int j \<longleftrightarrow> i = j"
proof
  assume "show_int i = show_int j"
  then show "i = j"
    by (cases "i < 0"; cases "j < 0") (auto simp: show_int_def dec_inject)
qed simp

lemma append_last_inject:
  assumes "xs @ c # ys = us @ c # vs" and "c \<notin> set ys" and "c \<notin> set vs"
  shows "xs = us \<and> ys = vs"
  using assms by (auto simp: append_eq_append_conv2 append_eq_Cons_conv Cons_eq_append_conv)

lemma fmt_Identifier_inject:
  "fmt_Identifier x = fmt_Identifier y \<longleftrightarrow> ident_name x = ident_name y \<and> ident_globalId x = ident_globalId y"
proof
  assume "fmt_Identifier x = fmt_Identifier y"
  then have "ident_name x = ident_name y \<and> show_i32 (ident_globalId x) = show_i32 (ident_globalId y)"
    unfolding fmt_Identifier_def show_i32_def
    by (intro append_last_inject [where c = "CHR ''$''"] is_digit_dollar) simp
  then show "ident_name x = ident_name y \<and> ident_globalId x = ident_globalId y"
    by (auto simp: show_i32_def show_int_inject intro: signed_word_eqI)
qed (simp add: fmt_Identifier_def)

section \<open>Properties\<close>


text \<open>
  Printed identifiers can be told apart: two identifiers print the same text only if
  they have the same name and the same global id, even for names with a dollar sign.
\<close>

lemma printed_identifiers_distinct:
  "fmt_SymbolIdentifier a = fmt_SymbolIdentifier b \<longleftrightarrow>
     ident_name (sym_id a) = ident_name (sym_id b) \<and> SymbolIdentifier_eq a b"
  by (simp add: fmt_SymbolIdentifier_def fmt_Identifier_inject SymbolIdentifier_eq_def)

end
