(* ===== verification/Ast_Nodes.thy ===== *)
theory Ast_Nodes
  imports Ast_Ser
begin

text \<open>
  The rest of \<open>ast/generated.rs\<close>: the serialization of the nodes that the front end never
  builds, and what holds for all nodes of an enum. A child that is a tree itself is given by
  the action that serializes it, since the data model has only the trees that occur.

  Every node starts with its marker. Within an enum the markers are different, so the first
  byte of a node tells a reader which kind of node follows, with one exception among the
  expressions.
\<close>

section \<open>Definitions\<close>

definition ser_ClassDef :: "SymbolIdentifier \<Rightarrow> action list \<Rightarrow> action list \<Rightarrow> action list \<Rightarrow> action list \<Rightarrow> action" where
  "ser_ClassDef idn tparams parents flds flags = ser_do
    [write_marker (MarkerId 222),
     ser_SymbolIdentifier idn,
     ser_Seq (\<lambda>a. a) tparams,
     ser_Seq (\<lambda>a. a) parents,
     ser_Seq (\<lambda>a. a) flds,
     ser_Seq (\<lambda>a. a) flags]"

definition ser_LocalClassDef :: "SymbolIdentifier \<Rightarrow> action list \<Rightarrow> action list \<Rightarrow> action list \<Rightarrow> action list \<Rightarrow> action list \<Rightarrow> action list \<Rightarrow> action" where
  "ser_LocalClassDef idn tparams parents flds methods typeMembers flags = ser_do
    [write_marker (MarkerId 233),
     ser_SymbolIdentifier idn,
     ser_Seq (\<lambda>a. a) tparams,
     ser_Seq (\<lambda>a. a) parents,
     ser_Seq (\<lambda>a. a) flds,
     ser_Seq (\<lambda>a. a) methods,
     ser_Seq (\<lambda>a. a) typeMembers,
     ser_Seq (\<lambda>a. a) flags]"

definition ser_LocalFunDef :: "SymbolIdentifier \<Rightarrow> action list \<Rightarrow> action list \<Rightarrow> action \<Rightarrow> action \<Rightarrow> action list \<Rightarrow> action" where
  "ser_LocalFunDef idn tparams params returnType fullBody flags = ser_do
    [write_marker (MarkerId 183),
     ser_SymbolIdentifier idn,
     ser_Seq (\<lambda>a. a) tparams,
     ser_Seq (\<lambda>a. a) params,
     returnType,
     fullBody,
     ser_Seq (\<lambda>a. a) flags]"

definition ser_LocalMethodDef :: "SymbolIdentifier \<Rightarrow> action list \<Rightarrow> action list \<Rightarrow> action \<Rightarrow> action \<Rightarrow> action list \<Rightarrow> action" where
  "ser_LocalMethodDef idn tparams params returnType fullBody flags = ser_do
    [write_marker (MarkerId 234),
     ser_SymbolIdentifier idn,
     ser_Seq (\<lambda>a. a) tparams,
     ser_Seq (\<lambda>a. a) params,
     returnType,
     fullBody,
     ser_Seq (\<lambda>a. a) flags]"

definition ser_LocalTypeDef :: "SymbolIdentifier \<Rightarrow> action list \<Rightarrow> action \<Rightarrow> action list \<Rightarrow> action" where
  "ser_LocalTypeDef idn tparams rhs flags = ser_do
    [write_marker (MarkerId 246),
     ser_SymbolIdentifier idn,
     ser_Seq (\<lambda>a. a) tparams,
     rhs,
     ser_Seq (\<lambda>a. a) flags]"

definition ser_TypeDef :: "SymbolIdentifier \<Rightarrow> action list \<Rightarrow> action \<Rightarrow> action list \<Rightarrow> action" where
  "ser_TypeDef idn tparams rhs flags = ser_do
    [write_marker (MarkerId 244),
     ser_SymbolIdentifier idn,
     ser_Seq (\<lambda>a. a) tparams,
     rhs,
     ser_Seq (\<lambda>a. a) flags]"

section \<open>Flags\<close>

definition ser_Annotation :: "string \<Rightarrow> action list \<Rightarrow> action" where
  "ser_Annotation nam args = ser_do
    [write_marker (MarkerId 93),
     ser_String nam,
     ser_Seq (\<lambda>a. a) args]"

definition ser_Bounds :: "action \<Rightarrow> action \<Rightarrow> action" where
  "ser_Bounds lo hi = ser_do [write_marker (MarkerId 226), lo, hi]"

definition ser_Derived :: "SymbolIdentifier \<Rightarrow> action" where
  "ser_Derived idn = ser_do [write_marker (MarkerId 142), ser_SymbolIdentifier idn]"

definition ser_Erasable :: "action" where
  "ser_Erasable = ser_do [write_marker (MarkerId 155)]"

definition ser_Final :: "action" where
  "ser_Final = ser_do [write_marker (MarkerId 149)]"

definition ser_Ghost :: "action" where
  "ser_Ghost = ser_do [write_marker (MarkerId 147)]"

definition ser_HasADTEquality :: "SymbolIdentifier \<Rightarrow> action" where
  "ser_HasADTEquality idn = ser_do [write_marker (MarkerId 92), ser_SymbolIdentifier idn]"

definition ser_HasADTInvariant :: "SymbolIdentifier \<Rightarrow> action" where
  "ser_HasADTInvariant idn = ser_do [write_marker (MarkerId 91), ser_SymbolIdentifier idn]"

definition ser_Ignore :: "action" where
  "ser_Ignore = ser_do [write_marker (MarkerId 218)]"

definition ser_IndexedAt :: "action \<Rightarrow> action" where
  "ser_IndexedAt e = ser_do [write_marker (MarkerId 156), e]"

definition ser_Inline :: "action" where
  "ser_Inline = ser_do [write_marker (MarkerId 181)]"

definition ser_InlineInvariant :: "action" where
  "ser_InlineInvariant = ser_do [write_marker (MarkerId 166)]"

definition ser_InlineOnce :: "action" where
  "ser_InlineOnce = ser_do [write_marker (MarkerId 228)]"

definition ser_IsAbstract :: "action" where
  "ser_IsAbstract = ser_do [write_marker (MarkerId 224)]"

definition ser_IsAccessor :: "SymbolIdentifier option \<Rightarrow> action" where
  "ser_IsAccessor idn = ser_do [write_marker (MarkerId 231), ser_Option ser_SymbolIdentifier idn]"

definition ser_IsCaseObject :: "action" where
  "ser_IsCaseObject = ser_do [write_marker (MarkerId 229)]"

definition ser_IsField :: "bool \<Rightarrow> action" where
  "ser_IsField isLazy = ser_do [write_marker (MarkerId 143), ser_Boolean isLazy]"

definition ser_IsInvariant :: "action" where
  "ser_IsInvariant = ser_do [write_marker (MarkerId 223)]"

definition ser_IsMethodOf :: "SymbolIdentifier \<Rightarrow> action" where
  "ser_IsMethodOf idn = ser_do [write_marker (MarkerId 217), ser_SymbolIdentifier idn]"

definition ser_IsSealed :: "action" where
  "ser_IsSealed = ser_do [write_marker (MarkerId 225)]"

definition ser_IsUnapply :: "SymbolIdentifier \<Rightarrow> SymbolIdentifier \<Rightarrow> action" where
  "ser_IsUnapply isEmpty get = ser_do
    [write_marker (MarkerId 144),
     ser_SymbolIdentifier isEmpty,
     ser_SymbolIdentifier get]"

definition ser_Library :: "action" where
  "ser_Library = ser_do [write_marker (MarkerId 158)]"

definition ser_Opaque :: "action" where
  "ser_Opaque = ser_do [write_marker (MarkerId 140)]"

definition ser_PartialEval :: "action" where
  "ser_PartialEval = ser_do [write_marker (MarkerId 146)]"

definition ser_Private :: "action" where
  "ser_Private = ser_do [write_marker (MarkerId 148)]"

definition ser_Synthetic :: "action" where
  "ser_Synthetic = ser_do [write_marker (MarkerId 165)]"

definition ser_Unchecked :: "action" where
  "ser_Unchecked = ser_do [write_marker (MarkerId 141)]"

definition ser_ValueClass :: "action" where
  "ser_ValueClass = ser_do [write_marker (MarkerId 243)]"

definition ser_Variance :: "bool \<Rightarrow> action" where
  "ser_Variance variance = ser_do [write_marker (MarkerId 227), ser_Boolean variance]"

definition ser_Wrapping :: "action" where
  "ser_Wrapping = ser_do [write_marker (MarkerId 159)]"

section \<open>Expressions\<close>

definition ser_Annotated :: "action \<Rightarrow> action list \<Rightarrow> action" where
  "ser_Annotated body flags = ser_do [write_marker (MarkerId 123), body, ser_Seq (\<lambda>a. a) flags]"

definition ser_Application :: "action \<Rightarrow> action list \<Rightarrow> action" where
  "ser_Application callee args = ser_do [write_marker (MarkerId 13), callee, ser_Seq (\<lambda>a. a) args]"

definition ser_ApplyLetRec :: "SymbolIdentifier \<Rightarrow> action list \<Rightarrow> action \<Rightarrow> action list \<Rightarrow> action list \<Rightarrow> action" where
  "ser_ApplyLetRec idn tparams tpe tps args = ser_do
    [write_marker (MarkerId 185),
     ser_SymbolIdentifier idn,
     ser_Seq (\<lambda>a. a) tparams,
     tpe,
     ser_Seq (\<lambda>a. a) tps,
     ser_Seq (\<lambda>a. a) args]"

definition ser_ArrayLength :: "action \<Rightarrow> action" where
  "ser_ArrayLength array = ser_do [write_marker (MarkerId 137), array]"

definition ser_ArraySelect :: "action \<Rightarrow> action \<Rightarrow> action" where
  "ser_ArraySelect array index = ser_do [write_marker (MarkerId 135), array, index]"

definition ser_ArrayUpdate :: "action \<Rightarrow> action \<Rightarrow> action \<Rightarrow> action" where
  "ser_ArrayUpdate array index v = ser_do [write_marker (MarkerId 193), array, index, v]"

definition ser_ArrayUpdated :: "action \<Rightarrow> action \<Rightarrow> action \<Rightarrow> action" where
  "ser_ArrayUpdated array index v = ser_do [write_marker (MarkerId 136), array, index, v]"

definition ser_AsInstanceOf :: "action \<Rightarrow> action \<Rightarrow> action" where
  "ser_AsInstanceOf expr tpe = ser_do [write_marker (MarkerId 203), expr, tpe]"

definition ser_Assert :: "action \<Rightarrow> string option \<Rightarrow> action \<Rightarrow> action" where
  "ser_Assert pred error body = ser_do
    [write_marker (MarkerId 125),
     pred,
     ser_Option ser_String error,
     body]"

definition ser_Assignment :: "action \<Rightarrow> action \<Rightarrow> action" where
  "ser_Assignment v v2 = ser_do [write_marker (MarkerId 190), v, v2]"

definition ser_Assume :: "action \<Rightarrow> action \<Rightarrow> action" where
  "ser_Assume pred body = ser_do [write_marker (MarkerId 10), pred, body]"

definition ser_BVNarrowingCast :: "action \<Rightarrow> BVType \<Rightarrow> action" where
  "ser_BVNarrowingCast expr newType = ser_do [write_marker (MarkerId 55), expr, ser_BVType newType]"

definition ser_BagAdd :: "action \<Rightarrow> action \<Rightarrow> action" where
  "ser_BagAdd bag elem = ser_do [write_marker (MarkerId 67), bag, elem]"

definition ser_BagDifference :: "action \<Rightarrow> action \<Rightarrow> action" where
  "ser_BagDifference lhs rhs = ser_do [write_marker (MarkerId 71), lhs, rhs]"

definition ser_BagIntersection :: "action \<Rightarrow> action \<Rightarrow> action" where
  "ser_BagIntersection lhs rhs = ser_do [write_marker (MarkerId 69), lhs, rhs]"

definition ser_BagUnion :: "action \<Rightarrow> action \<Rightarrow> action" where
  "ser_BagUnion lhs rhs = ser_do [write_marker (MarkerId 70), lhs, rhs]"

definition ser_BoolBitwiseAnd :: "action \<Rightarrow> action \<Rightarrow> action" where
  "ser_BoolBitwiseAnd lhs rhs = ser_do [write_marker (MarkerId 195), lhs, rhs]"

definition ser_BoolBitwiseOr :: "action \<Rightarrow> action \<Rightarrow> action" where
  "ser_BoolBitwiseOr lhs rhs = ser_do [write_marker (MarkerId 196), lhs, rhs]"

definition ser_BoolBitwiseXor :: "action \<Rightarrow> action \<Rightarrow> action" where
  "ser_BoolBitwiseXor lhs rhs = ser_do [write_marker (MarkerId 197), lhs, rhs]"

definition ser_CharLiteral :: "u32 \<Rightarrow> action" where
  "ser_CharLiteral v = ser_do [write_marker (MarkerId 19), ser_Char v]"

definition ser_Choose :: "action \<Rightarrow> action \<Rightarrow> action" where
  "ser_Choose res pred = ser_do [write_marker (MarkerId 16), res, pred]"

definition ser_ClassConstructor :: "action \<Rightarrow> action list \<Rightarrow> action" where
  "ser_ClassConstructor ct args = ser_do [write_marker (MarkerId 200), ct, ser_Seq (\<lambda>a. a) args]"

definition ser_ClassSelector :: "action \<Rightarrow> SymbolIdentifier \<Rightarrow> action" where
  "ser_ClassSelector expr selector = ser_do
    [write_marker (MarkerId 201),
     expr,
     ser_SymbolIdentifier selector]"

definition ser_ElementOfSet :: "action \<Rightarrow> action \<Rightarrow> action" where
  "ser_ElementOfSet element st = ser_do [write_marker (MarkerId 61), element, st]"

definition ser_FieldAssignment :: "action \<Rightarrow> SymbolIdentifier \<Rightarrow> action \<Rightarrow> action" where
  "ser_FieldAssignment obj selector v = ser_do
    [write_marker (MarkerId 191),
     obj,
     ser_SymbolIdentifier selector,
     v]"

definition ser_FiniteArray :: "action list \<Rightarrow> action \<Rightarrow> action" where
  "ser_FiniteArray elems base = ser_do [write_marker (MarkerId 133), ser_Seq (\<lambda>a. a) elems, base]"

definition ser_FiniteBag :: "(action \<times> action) list \<Rightarrow> action \<Rightarrow> action" where
  "ser_FiniteBag elements base = ser_do
    [write_marker (MarkerId 66),
     ser_Seq (ser_tuple2 (\<lambda>a. a) (\<lambda>a. a)) elements,
     base]"

definition ser_FiniteMap :: "(action \<times> action) list \<Rightarrow> action \<Rightarrow> action \<Rightarrow> action \<Rightarrow> action" where
  "ser_FiniteMap pairs dflt keyType valueType = ser_do
    [write_marker (MarkerId 72),
     ser_Seq (ser_tuple2 (\<lambda>a. a) (\<lambda>a. a)) pairs,
     dflt,
     keyType,
     valueType]"

definition ser_Forall :: "action list \<Rightarrow> action \<Rightarrow> action" where
  "ser_Forall params body = ser_do [write_marker (MarkerId 15), ser_Seq (\<lambda>a. a) params, body]"

definition ser_FractionLiteral :: "(int \<Rightarrow> bytes) \<Rightarrow> int \<Rightarrow> int \<Rightarrow> action" where
  "ser_FractionLiteral tsb numerator denominator = ser_do
    [write_marker (MarkerId 22),
     ser_BigInt tsb numerator,
     ser_BigInt tsb denominator]"

definition ser_GenericValue :: "action \<Rightarrow> i32 \<Rightarrow> action" where
  "ser_GenericValue tp idn = ser_do [write_marker (MarkerId 26), tp, ser_Int idn]"

definition ser_Implies :: "action \<Rightarrow> action \<Rightarrow> action" where
  "ser_Implies lhs rhs = ser_do [write_marker (MarkerId 99), lhs, rhs]"

definition ser_IsConstructor :: "action \<Rightarrow> SymbolIdentifier \<Rightarrow> action" where
  "ser_IsConstructor expr idn = ser_do [write_marker (MarkerId 28), expr, ser_SymbolIdentifier idn]"

definition ser_IsInstanceOf :: "action \<Rightarrow> action \<Rightarrow> action" where
  "ser_IsInstanceOf expr tpe = ser_do [write_marker (MarkerId 202), expr, tpe]"

definition ser_LargeArray :: "(i32 \<times> action) list \<Rightarrow> action \<Rightarrow> action \<Rightarrow> action \<Rightarrow> action" where
  "ser_LargeArray elems dflt sz base = ser_do
    [write_marker (MarkerId 134),
     ser_Map ser_Int (\<lambda>a. a) elems,
     dflt,
     sz,
     base]"

definition ser_LetClass :: "action list \<Rightarrow> action \<Rightarrow> action" where
  "ser_LetClass classes body = ser_do [write_marker (MarkerId 232), ser_Seq (\<lambda>a. a) classes, body]"

definition ser_LetRec :: "action list \<Rightarrow> action \<Rightarrow> action" where
  "ser_LetRec fds body = ser_do [write_marker (MarkerId 184), ser_Seq (\<lambda>a. a) fds, body]"

definition ser_LocalClassConstructor :: "action \<Rightarrow> action list \<Rightarrow> action" where
  "ser_LocalClassConstructor lct args = ser_do
    [write_marker (MarkerId 235),
     lct,
     ser_Seq (\<lambda>a. a) args]"

definition ser_LocalClassSelector :: "action \<Rightarrow> SymbolIdentifier \<Rightarrow> action \<Rightarrow> action" where
  "ser_LocalClassSelector expr selector tpe = ser_do
    [write_marker (MarkerId 241),
     expr,
     ser_SymbolIdentifier selector,
     tpe]"

definition ser_LocalMethodInvocation :: "action \<Rightarrow> action \<Rightarrow> action list \<Rightarrow> action list \<Rightarrow> action list \<Rightarrow> action" where
  "ser_LocalMethodInvocation receiver method tparams tps args = ser_do
    [write_marker (MarkerId 240),
     receiver,
     method,
     ser_Seq (\<lambda>a. a) tparams,
     ser_Seq (\<lambda>a. a) tps,
     ser_Seq (\<lambda>a. a) args]"

definition ser_LocalThis :: "action \<Rightarrow> action" where
  "ser_LocalThis lct = ser_do [write_marker (MarkerId 242), lct]"

definition ser_MapApply :: "action \<Rightarrow> action \<Rightarrow> action" where
  "ser_MapApply m k = ser_do [write_marker (MarkerId 73), m, k]"

definition ser_MapUpdated :: "action \<Rightarrow> action \<Rightarrow> action \<Rightarrow> action" where
  "ser_MapUpdated m k v = ser_do [write_marker (MarkerId 74), m, k, v]"

definition ser_Max :: "action list \<Rightarrow> action" where
  "ser_Max exprs = ser_do [write_marker (MarkerId 160), ser_Seq (\<lambda>a. a) exprs]"

definition ser_MethodInvocation :: "action \<Rightarrow> SymbolIdentifier \<Rightarrow> action list \<Rightarrow> action list \<Rightarrow> action" where
  "ser_MethodInvocation receiver idn tps args = ser_do
    [write_marker (MarkerId 216),
     receiver,
     ser_SymbolIdentifier idn,
     ser_Seq (\<lambda>a. a) tps,
     ser_Seq (\<lambda>a. a) args]"

definition ser_Modulo :: "action \<Rightarrow> action \<Rightarrow> action" where
  "ser_Modulo lhs rhs = ser_do [write_marker (MarkerId 43), lhs, rhs]"

definition ser_MultiplicityInBag :: "action \<Rightarrow> action \<Rightarrow> action" where
  "ser_MultiplicityInBag element bag = ser_do [write_marker (MarkerId 68), element, bag]"

definition ser_MutableMapApply :: "action \<Rightarrow> action \<Rightarrow> action" where
  "ser_MutableMapApply m k = ser_do [write_marker (MarkerId 234), m, k]"

definition ser_MutableMapDuplicate :: "action \<Rightarrow> action" where
  "ser_MutableMapDuplicate m = ser_do [write_marker (MarkerId 237), m]"

definition ser_MutableMapUpdate :: "action \<Rightarrow> action \<Rightarrow> action \<Rightarrow> action" where
  "ser_MutableMapUpdate m k v = ser_do [write_marker (MarkerId 235), m, k, v]"

definition ser_MutableMapUpdated :: "action \<Rightarrow> action \<Rightarrow> action \<Rightarrow> action" where
  "ser_MutableMapUpdated m k v = ser_do [write_marker (MarkerId 236), m, k, v]"

definition ser_MutableMapWithDefault :: "action \<Rightarrow> action \<Rightarrow> action \<Rightarrow> action" where
  "ser_MutableMapWithDefault frm tto dflt = ser_do [write_marker (MarkerId 233), frm, tto, dflt]"

definition ser_Old :: "action \<Rightarrow> action" where
  "ser_Old e = ser_do [write_marker (MarkerId 194), e]"

definition ser_Passes :: "action \<Rightarrow> action \<Rightarrow> action list \<Rightarrow> action" where
  "ser_Passes inn outt cs = ser_do [write_marker (MarkerId 158), inn, outt, ser_Seq (\<lambda>a. a) cs]"

definition ser_SizedADT :: "SymbolIdentifier \<Rightarrow> action list \<Rightarrow> action list \<Rightarrow> action \<Rightarrow> action" where
  "ser_SizedADT idn tps args sz = ser_do
    [write_marker (MarkerId 154),
     ser_SymbolIdentifier idn,
     ser_Seq (\<lambda>a. a) tps,
     ser_Seq (\<lambda>a. a) args,
     sz]"

definition ser_Snapshot :: "action \<Rightarrow> action" where
  "ser_Snapshot e = ser_do [write_marker (MarkerId 239), e]"

definition ser_StringConcat :: "action \<Rightarrow> action \<Rightarrow> action" where
  "ser_StringConcat lhs rhs = ser_do [write_marker (MarkerId 34), lhs, rhs]"

definition ser_StringLength :: "action \<Rightarrow> action" where
  "ser_StringLength expr = ser_do [write_marker (MarkerId 36), expr]"

definition ser_SubString :: "action \<Rightarrow> action \<Rightarrow> action \<Rightarrow> action" where
  "ser_SubString expr strt endd = ser_do [write_marker (MarkerId 35), expr, strt, endd]"

definition ser_Super :: "action \<Rightarrow> action" where
  "ser_Super ct = ser_do [write_marker (MarkerId 215), ct]"

definition ser_This :: "action \<Rightarrow> action" where
  "ser_This ct = ser_do [write_marker (MarkerId 214), ct]"

definition ser_Throw :: "action \<Rightarrow> action" where
  "ser_Throw ex = ser_do [write_marker (MarkerId 212), ex]"

definition ser_Throwing :: "action \<Rightarrow> action \<Rightarrow> action" where
  "ser_Throwing body pred = ser_do [write_marker (MarkerId 211), body, pred]"

definition ser_Try :: "action \<Rightarrow> action list \<Rightarrow> action option \<Rightarrow> action" where
  "ser_Try body cs finallizer = ser_do
    [write_marker (MarkerId 213),
     body,
     ser_Seq (\<lambda>a. a) cs,
     ser_Option (\<lambda>a. a) finallizer]"

definition ser_While :: "action \<Rightarrow> action \<Rightarrow> action option \<Rightarrow> action" where
  "ser_While cond body pred = ser_do
    [write_marker (MarkerId 192),
     cond,
     body,
     ser_Option (\<lambda>a. a) pred]"

section \<open>Types\<close>

definition ser_AnnotatedType :: "action \<Rightarrow> action list \<Rightarrow> action" where
  "ser_AnnotatedType tpe flags = ser_do [write_marker (MarkerId 157), tpe, ser_Seq (\<lambda>a. a) flags]"

definition ser_ArrayType :: "action \<Rightarrow> action" where
  "ser_ArrayType base = ser_do [write_marker (MarkerId 138), base]"

definition ser_BagType :: "action \<Rightarrow> action" where
  "ser_BagType base = ser_do [write_marker (MarkerId 86), base]"

definition ser_CharType :: "action" where
  "ser_CharType = ser_do [write_marker (MarkerId 78)]"

definition ser_ClassType :: "SymbolIdentifier \<Rightarrow> action list \<Rightarrow> action" where
  "ser_ClassType idn tps = ser_do
    [write_marker (MarkerId 206),
     ser_SymbolIdentifier idn,
     ser_Seq (\<lambda>a. a) tps]"

definition ser_LocalClassType :: "SymbolIdentifier \<Rightarrow> action list \<Rightarrow> action list \<Rightarrow> action list \<Rightarrow> action" where
  "ser_LocalClassType idn tparams tps ancestors = ser_do
    [write_marker (MarkerId 236),
     ser_SymbolIdentifier idn,
     ser_Seq (\<lambda>a. a) tparams,
     ser_Seq (\<lambda>a. a) tps,
     ser_Seq (\<lambda>a. a) ancestors]"

definition ser_MapType :: "action \<Rightarrow> action \<Rightarrow> action" where
  "ser_MapType frm tto = ser_do [write_marker (MarkerId 87), frm, tto]"

definition ser_MutableMapType :: "action \<Rightarrow> action \<Rightarrow> action" where
  "ser_MutableMapType frm tto = ser_do [write_marker (MarkerId 232), frm, tto]"

definition ser_NothingType :: "action" where
  "ser_NothingType = ser_do [write_marker (MarkerId 208)]"

definition ser_PiType :: "action list \<Rightarrow> action \<Rightarrow> action" where
  "ser_PiType params tto = ser_do [write_marker (MarkerId 101), ser_Seq (\<lambda>a. a) params, tto]"

definition ser_RealType :: "action" where
  "ser_RealType = ser_do [write_marker (MarkerId 80)]"

definition ser_RecursiveType :: "SymbolIdentifier \<Rightarrow> action list \<Rightarrow> action \<Rightarrow> action" where
  "ser_RecursiveType idn tps index = ser_do
    [write_marker (MarkerId 152),
     ser_SymbolIdentifier idn,
     ser_Seq (\<lambda>a. a) tps,
     index]"

definition ser_RefinementType :: "action \<Rightarrow> action \<Rightarrow> action" where
  "ser_RefinementType vd prop = ser_do [write_marker (MarkerId 100), vd, prop]"

definition ser_SigmaType :: "action list \<Rightarrow> action \<Rightarrow> action" where
  "ser_SigmaType params tto = ser_do [write_marker (MarkerId 102), ser_Seq (\<lambda>a. a) params, tto]"

definition ser_StringType :: "action" where
  "ser_StringType = ser_do [write_marker (MarkerId 81)]"

definition ser_TypeApply :: "action \<Rightarrow> action list \<Rightarrow> action" where
  "ser_TypeApply selector tps = ser_do [write_marker (MarkerId 238), selector, ser_Seq (\<lambda>a. a) tps]"

definition ser_TypeBounds :: "action \<Rightarrow> action \<Rightarrow> action list \<Rightarrow> action" where
  "ser_TypeBounds lo hi flags = ser_do [write_marker (MarkerId 209), lo, hi, ser_Seq (\<lambda>a. a) flags]"

definition ser_TypeSelect :: "action option \<Rightarrow> SymbolIdentifier \<Rightarrow> action" where
  "ser_TypeSelect expr selector = ser_do
    [write_marker (MarkerId 237),
     ser_Option (\<lambda>a. a) expr,
     ser_SymbolIdentifier selector]"

definition ser_UnknownType :: "bool \<Rightarrow> action" where
  "ser_UnknownType isPure = ser_do [write_marker (MarkerId 245), ser_Boolean isPure]"

definition ser_ValueType :: "action \<Rightarrow> action" where
  "ser_ValueType tpe = ser_do [write_marker (MarkerId 153), tpe]"

section \<open>Patterns\<close>

definition ser_ClassPattern :: "action option \<Rightarrow> action \<Rightarrow> action list \<Rightarrow> action" where
  "ser_ClassPattern binder tpe subPatterns = ser_do
    [write_marker (MarkerId 204),
     ser_Option (\<lambda>a. a) binder,
     tpe,
     ser_Seq (\<lambda>a. a) subPatterns]"

definition ser_InstanceOfPattern :: "action option \<Rightarrow> action \<Rightarrow> action" where
  "ser_InstanceOfPattern binder tpe = ser_do
    [write_marker (MarkerId 205),
     ser_Option (\<lambda>a. a) binder,
     tpe]"

definition ser_UnapplyPattern :: "action option \<Rightarrow> action list \<Rightarrow> SymbolIdentifier \<Rightarrow> action list \<Rightarrow> action list \<Rightarrow> action" where
  "ser_UnapplyPattern binder recs idn tps subPatterns = ser_do
    [write_marker (MarkerId 132),
     ser_Option (\<lambda>a. a) binder,
     ser_Seq (\<lambda>a. a) recs,
     ser_SymbolIdentifier idn,
     ser_Seq (\<lambda>a. a) tps,
     ser_Seq (\<lambda>a. a) subPatterns]"

section \<open>Other nodes\<close>

definition ser_Import :: "string list \<Rightarrow> bool \<Rightarrow> action" where
  "ser_Import path isWildcard = ser_do
    [write_marker (MarkerId 219),
     ser_Seq ser_String path,
     ser_Boolean isWildcard]"

definition ser_Inner :: "action \<Rightarrow> action" where
  "ser_Inner fd = ser_do [write_marker (MarkerId 187), fd]"

definition ser_ModuleDef :: "SymbolIdentifier \<Rightarrow> action list \<Rightarrow> SymbolIdentifier list \<Rightarrow> SymbolIdentifier list \<Rightarrow> SymbolIdentifier list \<Rightarrow> action list \<Rightarrow> action" where
  "ser_ModuleDef idn imports classes fns typeDefs modules = ser_do
    [write_marker (MarkerId 221),
     ser_SymbolIdentifier idn,
     ser_Seq (\<lambda>a. a) imports,
     ser_Seq ser_SymbolIdentifier classes,
     ser_Seq ser_SymbolIdentifier fns,
     ser_Seq ser_SymbolIdentifier typeDefs,
     ser_Seq (\<lambda>a. a) modules]"

definition ser_Outer :: "action \<Rightarrow> action" where
  "ser_Outer fd = ser_do [write_marker (MarkerId 186), fd]"

definition ser_UnitDef :: "SymbolIdentifier \<Rightarrow> action list \<Rightarrow> SymbolIdentifier list \<Rightarrow> action list \<Rightarrow> bool \<Rightarrow> action" where
  "ser_UnitDef idn imports classes modules isMain = ser_do
    [write_marker (MarkerId 220),
     ser_SymbolIdentifier idn,
     ser_Seq (\<lambda>a. a) imports,
     ser_Seq ser_SymbolIdentifier classes,
     ser_Seq (\<lambda>a. a) modules,
     ser_Boolean isMain]"

lemmas node_defs =
  ser_ClassDef_def ser_LocalClassDef_def ser_LocalFunDef_def ser_LocalMethodDef_def
  ser_LocalTypeDef_def ser_TypeDef_def ser_Annotation_def ser_Bounds_def
  ser_Derived_def ser_Erasable_def ser_Final_def ser_Ghost_def
  ser_HasADTEquality_def ser_HasADTInvariant_def ser_Ignore_def ser_IndexedAt_def
  ser_Inline_def ser_InlineInvariant_def ser_InlineOnce_def ser_IsAbstract_def
  ser_IsAccessor_def ser_IsCaseObject_def ser_IsField_def ser_IsInvariant_def
  ser_IsMethodOf_def ser_IsSealed_def ser_IsUnapply_def ser_Library_def
  ser_Opaque_def ser_PartialEval_def ser_Private_def ser_Synthetic_def
  ser_Unchecked_def ser_ValueClass_def ser_Variance_def ser_Wrapping_def
  ser_Annotated_def ser_Application_def ser_ApplyLetRec_def ser_ArrayLength_def
  ser_ArraySelect_def ser_ArrayUpdate_def ser_ArrayUpdated_def ser_AsInstanceOf_def
  ser_Assert_def ser_Assignment_def ser_Assume_def ser_BVNarrowingCast_def
  ser_BagAdd_def ser_BagDifference_def ser_BagIntersection_def ser_BagUnion_def
  ser_BoolBitwiseAnd_def ser_BoolBitwiseOr_def ser_BoolBitwiseXor_def ser_CharLiteral_def
  ser_Choose_def ser_ClassConstructor_def ser_ClassSelector_def ser_ElementOfSet_def
  ser_FieldAssignment_def ser_FiniteArray_def ser_FiniteBag_def ser_FiniteMap_def
  ser_Forall_def ser_FractionLiteral_def ser_GenericValue_def ser_Implies_def
  ser_IsConstructor_def ser_IsInstanceOf_def ser_LargeArray_def ser_LetClass_def
  ser_LetRec_def ser_LocalClassConstructor_def ser_LocalClassSelector_def ser_LocalMethodInvocation_def
  ser_LocalThis_def ser_MapApply_def ser_MapUpdated_def ser_Max_def
  ser_MethodInvocation_def ser_Modulo_def ser_MultiplicityInBag_def ser_MutableMapApply_def
  ser_MutableMapDuplicate_def ser_MutableMapUpdate_def ser_MutableMapUpdated_def ser_MutableMapWithDefault_def
  ser_Old_def ser_Passes_def ser_SizedADT_def ser_Snapshot_def
  ser_StringConcat_def ser_StringLength_def ser_SubString_def ser_Super_def
  ser_This_def ser_Throw_def ser_Throwing_def ser_Try_def
  ser_While_def ser_AnnotatedType_def ser_ArrayType_def ser_BagType_def
  ser_CharType_def ser_ClassType_def ser_LocalClassType_def ser_MapType_def
  ser_MutableMapType_def ser_NothingType_def ser_PiType_def ser_RealType_def
  ser_RecursiveType_def ser_RefinementType_def ser_SigmaType_def ser_StringType_def
  ser_TypeApply_def ser_TypeBounds_def ser_TypeSelect_def ser_UnknownType_def
  ser_ValueType_def ser_ClassPattern_def ser_InstanceOfPattern_def ser_UnapplyPattern_def
  ser_Import_def ser_Inner_def ser_ModuleDef_def ser_Outer_def
  ser_UnitDef_def

section \<open>The nodes of an enum\<close>

text \<open>
  \<open><enum>_node tsb kind a\<close>: the action \<open>a\<close> serializes a node of this kind, with children that
  are serialized themselves.
\<close>

inductive definition_node :: "(int \<Rightarrow> bytes) \<Rightarrow> string \<Rightarrow> action \<Rightarrow> bool" for tsb where
  definition_ADTSort: "definition_node tsb ''ADTSort'' (ser_ADTSort x)"
| definition_ClassDef: "\<forall>a \<in> set tparams. appending a \<Longrightarrow>
    \<forall>a \<in> set parents. appending a \<Longrightarrow>
    \<forall>a \<in> set flds. appending a \<Longrightarrow>
    \<forall>a \<in> set flags. appending a \<Longrightarrow>
    definition_node tsb ''ClassDef'' (ser_ClassDef idn tparams parents flds flags)"
| definition_FunDef: "definition_node tsb ''FunDef'' (ser_FunDef tsb x)"
| definition_LocalClassDef: "\<forall>a \<in> set tparams. appending a \<Longrightarrow>
    \<forall>a \<in> set parents. appending a \<Longrightarrow>
    \<forall>a \<in> set flds. appending a \<Longrightarrow>
    \<forall>a \<in> set methods. appending a \<Longrightarrow>
    \<forall>a \<in> set typeMembers. appending a \<Longrightarrow>
    \<forall>a \<in> set flags. appending a \<Longrightarrow>
    definition_node tsb ''LocalClassDef'' (ser_LocalClassDef idn tparams parents flds methods typeMembers flags)"
| definition_LocalFunDef: "\<forall>a \<in> set tparams. appending a \<Longrightarrow>
    \<forall>a \<in> set params. appending a \<Longrightarrow>
    appending returnType \<Longrightarrow>
    appending fullBody \<Longrightarrow>
    \<forall>a \<in> set flags. appending a \<Longrightarrow>
    definition_node tsb ''LocalFunDef'' (ser_LocalFunDef idn tparams params returnType fullBody flags)"
| definition_LocalMethodDef: "\<forall>a \<in> set tparams. appending a \<Longrightarrow>
    \<forall>a \<in> set params. appending a \<Longrightarrow>
    appending returnType \<Longrightarrow>
    appending fullBody \<Longrightarrow>
    \<forall>a \<in> set flags. appending a \<Longrightarrow>
    definition_node tsb ''LocalMethodDef'' (ser_LocalMethodDef idn tparams params returnType fullBody flags)"
| definition_LocalTypeDef: "\<forall>a \<in> set tparams. appending a \<Longrightarrow> appending rhs \<Longrightarrow> \<forall>a \<in> set flags. appending a \<Longrightarrow>
    definition_node tsb ''LocalTypeDef'' (ser_LocalTypeDef idn tparams rhs flags)"
| definition_TypeDef: "\<forall>a \<in> set tparams. appending a \<Longrightarrow> appending rhs \<Longrightarrow> \<forall>a \<in> set flags. appending a \<Longrightarrow>
    definition_node tsb ''TypeDef'' (ser_TypeDef idn tparams rhs flags)"
| definition_TypeParameterDef: "definition_node tsb ''TypeParameterDef'' (ser_TypeParameterDef x)"
| definition_ValDef: "definition_node tsb ''ValDef'' (ser_ValDef x)"

definition definition_markers :: "(string \<times> u32) list" where
  "definition_markers =
    [(''ADTSort'', 96), (''ClassDef'', 222), (''FunDef'', 98), (''LocalClassDef'', 233),
     (''LocalFunDef'', 183), (''LocalMethodDef'', 234), (''LocalTypeDef'', 246), (''TypeDef'', 244),
     (''TypeParameterDef'', 95), (''ValDef'', 94)]"

inductive flag_node :: "(int \<Rightarrow> bytes) \<Rightarrow> string \<Rightarrow> action \<Rightarrow> bool" for tsb where
  flag_Annotation: "\<forall>a \<in> set args. appending a \<Longrightarrow> flag_node tsb ''Annotation'' (ser_Annotation nam args)"
| flag_Bounds: "appending lo \<Longrightarrow> appending hi \<Longrightarrow> flag_node tsb ''Bounds'' (ser_Bounds lo hi)"
| flag_Derived: "flag_node tsb ''Derived'' (ser_Derived idn)"
| flag_Erasable: "flag_node tsb ''Erasable'' ser_Erasable"
| flag_Extern: "flag_node tsb ''Extern'' ser_Extern"
| flag_Final: "flag_node tsb ''Final'' ser_Final"
| flag_Ghost: "flag_node tsb ''Ghost'' ser_Ghost"
| flag_HasADTEquality: "flag_node tsb ''HasADTEquality'' (ser_HasADTEquality idn)"
| flag_HasADTInvariant: "flag_node tsb ''HasADTInvariant'' (ser_HasADTInvariant idn)"
| flag_Ignore: "flag_node tsb ''Ignore'' ser_Ignore"
| flag_IndexedAt: "appending e \<Longrightarrow> flag_node tsb ''IndexedAt'' (ser_IndexedAt e)"
| flag_Inline: "flag_node tsb ''Inline'' ser_Inline"
| flag_InlineInvariant: "flag_node tsb ''InlineInvariant'' ser_InlineInvariant"
| flag_InlineOnce: "flag_node tsb ''InlineOnce'' ser_InlineOnce"
| flag_IsAbstract: "flag_node tsb ''IsAbstract'' ser_IsAbstract"
| flag_IsAccessor: "flag_node tsb ''IsAccessor'' (ser_IsAccessor idn)"
| flag_IsCaseObject: "flag_node tsb ''IsCaseObject'' ser_IsCaseObject"
| flag_IsField: "flag_node tsb ''IsField'' (ser_IsField isLazy)"
| flag_IsInvariant: "flag_node tsb ''IsInvariant'' ser_IsInvariant"
| flag_IsMethodOf: "flag_node tsb ''IsMethodOf'' (ser_IsMethodOf idn)"
| flag_IsMutable: "flag_node tsb ''IsMutable'' ser_IsMutable"
| flag_IsPure: "flag_node tsb ''IsPure'' ser_IsPure"
| flag_IsSealed: "flag_node tsb ''IsSealed'' ser_IsSealed"
| flag_IsUnapply: "flag_node tsb ''IsUnapply'' (ser_IsUnapply isEmpty get)"
| flag_IsVar: "flag_node tsb ''IsVar'' ser_IsVar"
| flag_Law: "flag_node tsb ''Law'' ser_Law"
| flag_Library: "flag_node tsb ''Library'' ser_Library"
| flag_Opaque: "flag_node tsb ''Opaque'' ser_Opaque"
| flag_PartialEval: "flag_node tsb ''PartialEval'' ser_PartialEval"
| flag_Private: "flag_node tsb ''Private'' ser_Private"
| flag_Synthetic: "flag_node tsb ''Synthetic'' ser_Synthetic"
| flag_Unchecked: "flag_node tsb ''Unchecked'' ser_Unchecked"
| flag_ValueClass: "flag_node tsb ''ValueClass'' ser_ValueClass"
| flag_Variance: "flag_node tsb ''Variance'' (ser_Variance variance)"
| flag_Wrapping: "flag_node tsb ''Wrapping'' ser_Wrapping"

definition flag_markers :: "(string \<times> u32) list" where
  "flag_markers =
    [(''Annotation'', 93), (''Bounds'', 226), (''Derived'', 142), (''Erasable'', 155),
     (''Extern'', 139), (''Final'', 149), (''Ghost'', 147), (''HasADTEquality'', 92),
     (''HasADTInvariant'', 91), (''Ignore'', 218), (''IndexedAt'', 156), (''Inline'', 181),
     (''InlineInvariant'', 166), (''InlineOnce'', 228), (''IsAbstract'', 224), (''IsAccessor'', 231),
     (''IsCaseObject'', 229), (''IsField'', 143), (''IsInvariant'', 223), (''IsMethodOf'', 217),
     (''IsMutable'', 199), (''IsPure'', 230), (''IsSealed'', 225), (''IsUnapply'', 144),
     (''IsVar'', 198), (''Law'', 150), (''Library'', 158), (''Opaque'', 140),
     (''PartialEval'', 146), (''Private'', 148), (''Synthetic'', 165), (''Unchecked'', 141),
     (''ValueClass'', 243), (''Variance'', 227), (''Wrapping'', 159)]"

inductive type_node :: "(int \<Rightarrow> bytes) \<Rightarrow> string \<Rightarrow> action \<Rightarrow> bool" for tsb where
  type_ADTType: "appending idn \<Longrightarrow> appending tps \<Longrightarrow> type_node tsb ''ADTType'' (ser_ADTType idn tps)"
| type_AnnotatedType: "appending tpe \<Longrightarrow> \<forall>a \<in> set flags. appending a \<Longrightarrow>
    type_node tsb ''AnnotatedType'' (ser_AnnotatedType tpe flags)"
| type_AnyType: "type_node tsb ''AnyType'' ser_AnyType"
| type_ArrayType: "appending base \<Longrightarrow> type_node tsb ''ArrayType'' (ser_ArrayType base)"
| type_BVType: "type_node tsb ''BVType'' (ser_BVType x)"
| type_BagType: "appending base \<Longrightarrow> type_node tsb ''BagType'' (ser_BagType base)"
| type_BooleanType: "type_node tsb ''BooleanType'' ser_BooleanType"
| type_CharType: "type_node tsb ''CharType'' ser_CharType"
| type_ClassType: "\<forall>a \<in> set tps. appending a \<Longrightarrow> type_node tsb ''ClassType'' (ser_ClassType idn tps)"
| type_FunctionType: "appending frm \<Longrightarrow> appending tto \<Longrightarrow> type_node tsb ''FunctionType'' (ser_FunctionType frm tto)"
| type_IntegerType: "type_node tsb ''IntegerType'' ser_IntegerType"
| type_LocalClassType: "\<forall>a \<in> set tparams. appending a \<Longrightarrow> \<forall>a \<in> set tps. appending a \<Longrightarrow> \<forall>a \<in> set ancestors. appending a \<Longrightarrow>
    type_node tsb ''LocalClassType'' (ser_LocalClassType idn tparams tps ancestors)"
| type_MapType: "appending frm \<Longrightarrow> appending tto \<Longrightarrow> type_node tsb ''MapType'' (ser_MapType frm tto)"
| type_MutableMapType: "appending frm \<Longrightarrow> appending tto \<Longrightarrow> type_node tsb ''MutableMapType'' (ser_MutableMapType frm tto)"
| type_NothingType: "type_node tsb ''NothingType'' ser_NothingType"
| type_PiType: "\<forall>a \<in> set params. appending a \<Longrightarrow> appending tto \<Longrightarrow> type_node tsb ''PiType'' (ser_PiType params tto)"
| type_RealType: "type_node tsb ''RealType'' ser_RealType"
| type_RecursiveType: "\<forall>a \<in> set tps. appending a \<Longrightarrow> appending index \<Longrightarrow>
    type_node tsb ''RecursiveType'' (ser_RecursiveType idn tps index)"
| type_RefinementType: "appending vd \<Longrightarrow> appending prop \<Longrightarrow> type_node tsb ''RefinementType'' (ser_RefinementType vd prop)"
| type_SetType: "appending base \<Longrightarrow> type_node tsb ''SetType'' (ser_SetType base)"
| type_SigmaType: "\<forall>a \<in> set params. appending a \<Longrightarrow> appending tto \<Longrightarrow>
    type_node tsb ''SigmaType'' (ser_SigmaType params tto)"
| type_StringType: "type_node tsb ''StringType'' ser_StringType"
| type_TupleType: "appending bases \<Longrightarrow> type_node tsb ''TupleType'' (ser_TupleType bases)"
| type_TypeApply: "appending selector \<Longrightarrow> \<forall>a \<in> set tps. appending a \<Longrightarrow>
    type_node tsb ''TypeApply'' (ser_TypeApply selector tps)"
| type_TypeBounds: "appending lo \<Longrightarrow> appending hi \<Longrightarrow> \<forall>a \<in> set flags. appending a \<Longrightarrow>
    type_node tsb ''TypeBounds'' (ser_TypeBounds lo hi flags)"
| type_TypeParameter: "type_node tsb ''TypeParameter'' (ser_TypeParameter x)"
| type_TypeSelect: "\<forall>a \<in> set_option expr. appending a \<Longrightarrow> type_node tsb ''TypeSelect'' (ser_TypeSelect expr selector)"
| type_UnitType: "type_node tsb ''UnitType'' ser_UnitType"
| type_UnknownType: "type_node tsb ''UnknownType'' (ser_UnknownType isPure)"
| type_Untyped: "type_node tsb ''Untyped'' ser_Untyped"
| type_ValueType: "appending tpe \<Longrightarrow> type_node tsb ''ValueType'' (ser_ValueType tpe)"

definition type_markers :: "(string \<times> u32) list" where
  "type_markers =
    [(''ADTType'', 89), (''AnnotatedType'', 157), (''AnyType'', 207), (''ArrayType'', 138),
     (''BVType'', 82), (''BagType'', 86), (''BooleanType'', 76), (''CharType'', 78),
     (''ClassType'', 206), (''FunctionType'', 88), (''IntegerType'', 79), (''LocalClassType'', 236),
     (''MapType'', 87), (''MutableMapType'', 232), (''NothingType'', 208), (''PiType'', 101),
     (''RealType'', 80), (''RecursiveType'', 152), (''RefinementType'', 100), (''SetType'', 85),
     (''SigmaType'', 102), (''StringType'', 81), (''TupleType'', 84), (''TypeApply'', 238),
     (''TypeBounds'', 209), (''TypeParameter'', 83), (''TypeSelect'', 237), (''UnitType'', 77),
     (''UnknownType'', 245), (''Untyped'', 75), (''ValueType'', 153)]"

inductive pattern_node :: "(int \<Rightarrow> bytes) \<Rightarrow> string \<Rightarrow> action \<Rightarrow> bool" for tsb where
  pattern_ADTPattern: "appending binder \<Longrightarrow>
    appending idn \<Longrightarrow>
    appending tps \<Longrightarrow>
    appending subPatterns \<Longrightarrow>
    pattern_node tsb ''ADTPattern'' (ser_ADTPattern binder idn tps subPatterns)"
| pattern_ClassPattern: "\<forall>a \<in> set_option binder. appending a \<Longrightarrow> appending tpe \<Longrightarrow> \<forall>a \<in> set subPatterns. appending a \<Longrightarrow>
    pattern_node tsb ''ClassPattern'' (ser_ClassPattern binder tpe subPatterns)"
| pattern_InstanceOfPattern: "\<forall>a \<in> set_option binder. appending a \<Longrightarrow> appending tpe \<Longrightarrow>
    pattern_node tsb ''InstanceOfPattern'' (ser_InstanceOfPattern binder tpe)"
| pattern_LiteralPattern: "appending binder \<Longrightarrow> appending lit \<Longrightarrow>
    pattern_node tsb ''LiteralPattern'' (ser_LiteralPattern binder lit)"
| pattern_TuplePattern: "appending binder \<Longrightarrow> appending subPatterns \<Longrightarrow>
    pattern_node tsb ''TuplePattern'' (ser_TuplePattern binder subPatterns)"
| pattern_UnapplyPattern: "\<forall>a \<in> set_option binder. appending a \<Longrightarrow>
    \<forall>a \<in> set recs. appending a \<Longrightarrow>
    \<forall>a \<in> set tps. appending a \<Longrightarrow>
    \<forall>a \<in> set subPatterns. appending a \<Longrightarrow>
    pattern_node tsb ''UnapplyPattern'' (ser_UnapplyPattern binder recs idn tps subPatterns)"
| pattern_WildcardPattern: "appending binder \<Longrightarrow> pattern_node tsb ''WildcardPattern'' (ser_WildcardPattern binder)"

definition pattern_markers :: "(string \<times> u32) list" where
  "pattern_markers =
    [(''ADTPattern'', 129), (''ClassPattern'', 204), (''InstanceOfPattern'', 205), (''LiteralPattern'', 131),
     (''TuplePattern'', 130), (''UnapplyPattern'', 132), (''WildcardPattern'', 128)]"

inductive expr_node :: "(int \<Rightarrow> bytes) \<Rightarrow> string \<Rightarrow> action \<Rightarrow> bool" for tsb where
  expr_ADT: "appending idn \<Longrightarrow> appending tps \<Longrightarrow> appending args \<Longrightarrow> expr_node tsb ''ADT'' (ser_ADT idn tps args)"
| expr_ADTSelector: "appending adt \<Longrightarrow> appending selector \<Longrightarrow>
    expr_node tsb ''ADTSelector'' (ser_ADTSelector adt selector)"
| expr_And: "appending exprs \<Longrightarrow> expr_node tsb ''And'' (ser_And exprs)"
| expr_Annotated: "appending body \<Longrightarrow> \<forall>a \<in> set flags. appending a \<Longrightarrow>
    expr_node tsb ''Annotated'' (ser_Annotated body flags)"
| expr_Application: "appending callee \<Longrightarrow> \<forall>a \<in> set args. appending a \<Longrightarrow>
    expr_node tsb ''Application'' (ser_Application callee args)"
| expr_ApplyLetRec: "\<forall>a \<in> set tparams. appending a \<Longrightarrow>
    appending tpe \<Longrightarrow>
    \<forall>a \<in> set tps. appending a \<Longrightarrow>
    \<forall>a \<in> set args. appending a \<Longrightarrow>
    expr_node tsb ''ApplyLetRec'' (ser_ApplyLetRec idn tparams tpe tps args)"
| expr_ArrayLength: "appending array \<Longrightarrow> expr_node tsb ''ArrayLength'' (ser_ArrayLength array)"
| expr_ArraySelect: "appending array \<Longrightarrow> appending index \<Longrightarrow> expr_node tsb ''ArraySelect'' (ser_ArraySelect array index)"
| expr_ArrayUpdate: "appending array \<Longrightarrow> appending index \<Longrightarrow> appending v \<Longrightarrow>
    expr_node tsb ''ArrayUpdate'' (ser_ArrayUpdate array index v)"
| expr_ArrayUpdated: "appending array \<Longrightarrow> appending index \<Longrightarrow> appending v \<Longrightarrow>
    expr_node tsb ''ArrayUpdated'' (ser_ArrayUpdated array index v)"
| expr_AsInstanceOf: "appending expr \<Longrightarrow> appending tpe \<Longrightarrow> expr_node tsb ''AsInstanceOf'' (ser_AsInstanceOf expr tpe)"
| expr_Assert: "appending pred \<Longrightarrow> appending body \<Longrightarrow> expr_node tsb ''Assert'' (ser_Assert pred error body)"
| expr_Assignment: "appending v \<Longrightarrow> appending v2 \<Longrightarrow> expr_node tsb ''Assignment'' (ser_Assignment v v2)"
| expr_Assume: "appending pred \<Longrightarrow> appending body \<Longrightarrow> expr_node tsb ''Assume'' (ser_Assume pred body)"
| expr_BVAShiftRight: "appending lhs \<Longrightarrow> appending rhs \<Longrightarrow> expr_node tsb ''BVAShiftRight'' (ser_BVAShiftRight lhs rhs)"
| expr_BVAnd: "appending lhs \<Longrightarrow> appending rhs \<Longrightarrow> expr_node tsb ''BVAnd'' (ser_BVAnd lhs rhs)"
| expr_BVLShiftRight: "appending lhs \<Longrightarrow> appending rhs \<Longrightarrow> expr_node tsb ''BVLShiftRight'' (ser_BVLShiftRight lhs rhs)"
| expr_BVLiteral: "expr_node tsb ''BVLiteral'' (ser_BVLiteral tsb x)"
| expr_BVNarrowingCast: "appending expr \<Longrightarrow> expr_node tsb ''BVNarrowingCast'' (ser_BVNarrowingCast expr newType)"
| expr_BVNot: "appending e \<Longrightarrow> expr_node tsb ''BVNot'' (ser_BVNot e)"
| expr_BVOr: "appending lhs \<Longrightarrow> appending rhs \<Longrightarrow> expr_node tsb ''BVOr'' (ser_BVOr lhs rhs)"
| expr_BVShiftLeft: "appending lhs \<Longrightarrow> appending rhs \<Longrightarrow> expr_node tsb ''BVShiftLeft'' (ser_BVShiftLeft lhs rhs)"
| expr_BVWideningCast: "appending expr \<Longrightarrow> appending newType \<Longrightarrow>
    expr_node tsb ''BVWideningCast'' (ser_BVWideningCast expr newType)"
| expr_BVXor: "appending lhs \<Longrightarrow> appending rhs \<Longrightarrow> expr_node tsb ''BVXor'' (ser_BVXor lhs rhs)"
| expr_BagAdd: "appending bag \<Longrightarrow> appending elem \<Longrightarrow> expr_node tsb ''BagAdd'' (ser_BagAdd bag elem)"
| expr_BagDifference: "appending lhs \<Longrightarrow> appending rhs \<Longrightarrow> expr_node tsb ''BagDifference'' (ser_BagDifference lhs rhs)"
| expr_BagIntersection: "appending lhs \<Longrightarrow> appending rhs \<Longrightarrow> expr_node tsb ''BagIntersection'' (ser_BagIntersection lhs rhs)"
| expr_BagUnion: "appending lhs \<Longrightarrow> appending rhs \<Longrightarrow> expr_node tsb ''BagUnion'' (ser_BagUnion lhs rhs)"
| expr_Block: "appending exprs \<Longrightarrow> appending lst \<Longrightarrow> expr_node tsb ''Block'' (ser_Block exprs lst)"
| expr_BoolBitwiseAnd: "appending lhs \<Longrightarrow> appending rhs \<Longrightarrow> expr_node tsb ''BoolBitwiseAnd'' (ser_BoolBitwiseAnd lhs rhs)"
| expr_BoolBitwiseOr: "appending lhs \<Longrightarrow> appending rhs \<Longrightarrow> expr_node tsb ''BoolBitwiseOr'' (ser_BoolBitwiseOr lhs rhs)"
| expr_BoolBitwiseXor: "appending lhs \<Longrightarrow> appending rhs \<Longrightarrow> expr_node tsb ''BoolBitwiseXor'' (ser_BoolBitwiseXor lhs rhs)"
| expr_BooleanLiteral: "appending v \<Longrightarrow> expr_node tsb ''BooleanLiteral'' (ser_BooleanLiteral v)"
| expr_CharLiteral: "expr_node tsb ''CharLiteral'' (ser_CharLiteral v)"
| expr_Choose: "appending res \<Longrightarrow> appending pred \<Longrightarrow> expr_node tsb ''Choose'' (ser_Choose res pred)"
| expr_ClassConstructor: "appending ct \<Longrightarrow> \<forall>a \<in> set args. appending a \<Longrightarrow>
    expr_node tsb ''ClassConstructor'' (ser_ClassConstructor ct args)"
| expr_ClassSelector: "appending expr \<Longrightarrow> expr_node tsb ''ClassSelector'' (ser_ClassSelector expr selector)"
| expr_Decreases: "appending msr \<Longrightarrow> appending body \<Longrightarrow> expr_node tsb ''Decreases'' (ser_Decreases msr body)"
| expr_Division: "appending lhs \<Longrightarrow> appending rhs \<Longrightarrow> expr_node tsb ''Division'' (ser_Division lhs rhs)"
| expr_ElementOfSet: "appending element \<Longrightarrow> appending st \<Longrightarrow> expr_node tsb ''ElementOfSet'' (ser_ElementOfSet element st)"
| expr_Ensuring: "appending body \<Longrightarrow> appending pred \<Longrightarrow> expr_node tsb ''Ensuring'' (ser_Ensuring body pred)"
| expr_Equals: "appending lhs \<Longrightarrow> appending rhs \<Longrightarrow> expr_node tsb ''Equals'' (ser_Equals lhs rhs)"
| expr_Error: "appending tpe \<Longrightarrow> appending description \<Longrightarrow> expr_node tsb ''Error'' (ser_Error tpe description)"
| expr_FieldAssignment: "appending obj \<Longrightarrow> appending v \<Longrightarrow>
    expr_node tsb ''FieldAssignment'' (ser_FieldAssignment obj selector v)"
| expr_FiniteArray: "\<forall>a \<in> set elems. appending a \<Longrightarrow> appending base \<Longrightarrow>
    expr_node tsb ''FiniteArray'' (ser_FiniteArray elems base)"
| expr_FiniteBag: "\<forall>(a, b) \<in> set elements. appending a \<and> appending b \<Longrightarrow> appending base \<Longrightarrow>
    expr_node tsb ''FiniteBag'' (ser_FiniteBag elements base)"
| expr_FiniteMap: "\<forall>(a, b) \<in> set pairs. appending a \<and> appending b \<Longrightarrow>
    appending dflt \<Longrightarrow>
    appending keyType \<Longrightarrow>
    appending valueType \<Longrightarrow>
    expr_node tsb ''FiniteMap'' (ser_FiniteMap pairs dflt keyType valueType)"
| expr_FiniteSet: "appending elements \<Longrightarrow> appending base \<Longrightarrow> expr_node tsb ''FiniteSet'' (ser_FiniteSet elements base)"
| expr_Forall: "\<forall>a \<in> set params. appending a \<Longrightarrow> appending body \<Longrightarrow>
    expr_node tsb ''Forall'' (ser_Forall params body)"
| expr_FractionLiteral: "expr_node tsb ''FractionLiteral'' (ser_FractionLiteral tsb numerator denominator)"
| expr_FunctionInvocation: "appending idn \<Longrightarrow> appending tps \<Longrightarrow> appending args \<Longrightarrow>
    expr_node tsb ''FunctionInvocation'' (ser_FunctionInvocation idn tps args)"
| expr_GenericValue: "appending tp \<Longrightarrow> expr_node tsb ''GenericValue'' (ser_GenericValue tp idn)"
| expr_GreaterEquals: "appending lhs \<Longrightarrow> appending rhs \<Longrightarrow> expr_node tsb ''GreaterEquals'' (ser_GreaterEquals lhs rhs)"
| expr_GreaterThan: "appending lhs \<Longrightarrow> appending rhs \<Longrightarrow> expr_node tsb ''GreaterThan'' (ser_GreaterThan lhs rhs)"
| expr_IfExpr: "appending cond \<Longrightarrow> appending thenn \<Longrightarrow> appending elze \<Longrightarrow>
    expr_node tsb ''IfExpr'' (ser_IfExpr cond thenn elze)"
| expr_Implies: "appending lhs \<Longrightarrow> appending rhs \<Longrightarrow> expr_node tsb ''Implies'' (ser_Implies lhs rhs)"
| expr_IntegerLiteral: "appending v \<Longrightarrow> expr_node tsb ''IntegerLiteral'' (ser_IntegerLiteral v)"
| expr_IsConstructor: "appending expr \<Longrightarrow> expr_node tsb ''IsConstructor'' (ser_IsConstructor expr idn)"
| expr_IsInstanceOf: "appending expr \<Longrightarrow> appending tpe \<Longrightarrow> expr_node tsb ''IsInstanceOf'' (ser_IsInstanceOf expr tpe)"
| expr_Lambda: "expr_node tsb ''Lambda'' (ser_Lambda tsb x)"
| expr_LargeArray: "\<forall>(n, a) \<in> set elems. appending a \<Longrightarrow>
    appending dflt \<Longrightarrow>
    appending sz \<Longrightarrow>
    appending base \<Longrightarrow>
    expr_node tsb ''LargeArray'' (ser_LargeArray elems dflt sz base)"
| expr_LessEquals: "appending lhs \<Longrightarrow> appending rhs \<Longrightarrow> expr_node tsb ''LessEquals'' (ser_LessEquals lhs rhs)"
| expr_LessThan: "appending lhs \<Longrightarrow> appending rhs \<Longrightarrow> expr_node tsb ''LessThan'' (ser_LessThan lhs rhs)"
| expr_Let: "appending vd \<Longrightarrow> appending v \<Longrightarrow> appending body \<Longrightarrow> expr_node tsb ''Let'' (ser_Let vd v body)"
| expr_LetClass: "\<forall>a \<in> set classes. appending a \<Longrightarrow> appending body \<Longrightarrow>
    expr_node tsb ''LetClass'' (ser_LetClass classes body)"
| expr_LetRec: "\<forall>a \<in> set fds. appending a \<Longrightarrow> appending body \<Longrightarrow> expr_node tsb ''LetRec'' (ser_LetRec fds body)"
| expr_LetVar: "appending vd \<Longrightarrow> appending v \<Longrightarrow> appending body \<Longrightarrow> expr_node tsb ''LetVar'' (ser_LetVar vd v body)"
| expr_LocalClassConstructor: "appending lct \<Longrightarrow> \<forall>a \<in> set args. appending a \<Longrightarrow>
    expr_node tsb ''LocalClassConstructor'' (ser_LocalClassConstructor lct args)"
| expr_LocalClassSelector: "appending expr \<Longrightarrow> appending tpe \<Longrightarrow>
    expr_node tsb ''LocalClassSelector'' (ser_LocalClassSelector expr selector tpe)"
| expr_LocalMethodInvocation: "appending receiver \<Longrightarrow>
    appending method \<Longrightarrow>
    \<forall>a \<in> set tparams. appending a \<Longrightarrow>
    \<forall>a \<in> set tps. appending a \<Longrightarrow>
    \<forall>a \<in> set args. appending a \<Longrightarrow>
    expr_node tsb ''LocalMethodInvocation'' (ser_LocalMethodInvocation receiver method tparams tps args)"
| expr_LocalThis: "appending lct \<Longrightarrow> expr_node tsb ''LocalThis'' (ser_LocalThis lct)"
| expr_MapApply: "appending m \<Longrightarrow> appending k \<Longrightarrow> expr_node tsb ''MapApply'' (ser_MapApply m k)"
| expr_MapUpdated: "appending m \<Longrightarrow> appending k \<Longrightarrow> appending v \<Longrightarrow> expr_node tsb ''MapUpdated'' (ser_MapUpdated m k v)"
| expr_MatchExpr: "appending scrutinee \<Longrightarrow> appending cs \<Longrightarrow> expr_node tsb ''MatchExpr'' (ser_MatchExpr scrutinee cs)"
| expr_Max: "\<forall>a \<in> set exprs. appending a \<Longrightarrow> expr_node tsb ''Max'' (ser_Max exprs)"
| expr_MethodInvocation: "appending receiver \<Longrightarrow> \<forall>a \<in> set tps. appending a \<Longrightarrow> \<forall>a \<in> set args. appending a \<Longrightarrow>
    expr_node tsb ''MethodInvocation'' (ser_MethodInvocation receiver idn tps args)"
| expr_Minus: "appending lhs \<Longrightarrow> appending rhs \<Longrightarrow> expr_node tsb ''Minus'' (ser_Minus lhs rhs)"
| expr_Modulo: "appending lhs \<Longrightarrow> appending rhs \<Longrightarrow> expr_node tsb ''Modulo'' (ser_Modulo lhs rhs)"
| expr_MultiplicityInBag: "appending element \<Longrightarrow> appending bag \<Longrightarrow>
    expr_node tsb ''MultiplicityInBag'' (ser_MultiplicityInBag element bag)"
| expr_MutableMapApply: "appending m \<Longrightarrow> appending k \<Longrightarrow> expr_node tsb ''MutableMapApply'' (ser_MutableMapApply m k)"
| expr_MutableMapDuplicate: "appending m \<Longrightarrow> expr_node tsb ''MutableMapDuplicate'' (ser_MutableMapDuplicate m)"
| expr_MutableMapUpdate: "appending m \<Longrightarrow> appending k \<Longrightarrow> appending v \<Longrightarrow>
    expr_node tsb ''MutableMapUpdate'' (ser_MutableMapUpdate m k v)"
| expr_MutableMapUpdated: "appending m \<Longrightarrow> appending k \<Longrightarrow> appending v \<Longrightarrow>
    expr_node tsb ''MutableMapUpdated'' (ser_MutableMapUpdated m k v)"
| expr_MutableMapWithDefault: "appending frm \<Longrightarrow> appending tto \<Longrightarrow> appending dflt \<Longrightarrow>
    expr_node tsb ''MutableMapWithDefault'' (ser_MutableMapWithDefault frm tto dflt)"
| expr_NoTree: "appending tpe \<Longrightarrow> expr_node tsb ''NoTree'' (ser_NoTree tpe)"
| expr_Not: "appending expr \<Longrightarrow> expr_node tsb ''Not'' (ser_Not expr)"
| expr_Old: "appending e \<Longrightarrow> expr_node tsb ''Old'' (ser_Old e)"
| expr_Or: "appending exprs \<Longrightarrow> expr_node tsb ''Or'' (ser_Or exprs)"
| expr_Passes: "appending inn \<Longrightarrow> appending outt \<Longrightarrow> \<forall>a \<in> set cs. appending a \<Longrightarrow>
    expr_node tsb ''Passes'' (ser_Passes inn outt cs)"
| expr_Plus: "appending lhs \<Longrightarrow> appending rhs \<Longrightarrow> expr_node tsb ''Plus'' (ser_Plus lhs rhs)"
| expr_Remainder: "appending lhs \<Longrightarrow> appending rhs \<Longrightarrow> expr_node tsb ''Remainder'' (ser_Remainder lhs rhs)"
| expr_Require: "appending pred \<Longrightarrow> appending body \<Longrightarrow> expr_node tsb ''Require'' (ser_Require pred body)"
| expr_SetAdd: "appending st \<Longrightarrow> appending elem \<Longrightarrow> expr_node tsb ''SetAdd'' (ser_SetAdd st elem)"
| expr_SetDifference: "appending lhs \<Longrightarrow> appending rhs \<Longrightarrow> expr_node tsb ''SetDifference'' (ser_SetDifference lhs rhs)"
| expr_SetIntersection: "appending lhs \<Longrightarrow> appending rhs \<Longrightarrow> expr_node tsb ''SetIntersection'' (ser_SetIntersection lhs rhs)"
| expr_SetUnion: "appending lhs \<Longrightarrow> appending rhs \<Longrightarrow> expr_node tsb ''SetUnion'' (ser_SetUnion lhs rhs)"
| expr_SizedADT: "\<forall>a \<in> set tps. appending a \<Longrightarrow> \<forall>a \<in> set args. appending a \<Longrightarrow> appending sz \<Longrightarrow>
    expr_node tsb ''SizedADT'' (ser_SizedADT idn tps args sz)"
| expr_Snapshot: "appending e \<Longrightarrow> expr_node tsb ''Snapshot'' (ser_Snapshot e)"
| expr_StringConcat: "appending lhs \<Longrightarrow> appending rhs \<Longrightarrow> expr_node tsb ''StringConcat'' (ser_StringConcat lhs rhs)"
| expr_StringLength: "appending expr \<Longrightarrow> expr_node tsb ''StringLength'' (ser_StringLength expr)"
| expr_StringLiteral: "appending v \<Longrightarrow> expr_node tsb ''StringLiteral'' (ser_StringLiteral v)"
| expr_SubString: "appending expr \<Longrightarrow> appending strt \<Longrightarrow> appending endd \<Longrightarrow>
    expr_node tsb ''SubString'' (ser_SubString expr strt endd)"
| expr_SubsetOf: "appending lhs \<Longrightarrow> appending rhs \<Longrightarrow> expr_node tsb ''SubsetOf'' (ser_SubsetOf lhs rhs)"
| expr_Super: "appending ct \<Longrightarrow> expr_node tsb ''Super'' (ser_Super ct)"
| expr_This: "appending ct \<Longrightarrow> expr_node tsb ''This'' (ser_This ct)"
| expr_Throw: "appending ex \<Longrightarrow> expr_node tsb ''Throw'' (ser_Throw ex)"
| expr_Throwing: "appending body \<Longrightarrow> appending pred \<Longrightarrow> expr_node tsb ''Throwing'' (ser_Throwing body pred)"
| expr_Times: "appending lhs \<Longrightarrow> appending rhs \<Longrightarrow> expr_node tsb ''Times'' (ser_Times lhs rhs)"
| expr_Try: "appending body \<Longrightarrow> \<forall>a \<in> set cs. appending a \<Longrightarrow> \<forall>a \<in> set_option finallizer. appending a \<Longrightarrow>
    expr_node tsb ''Try'' (ser_Try body cs finallizer)"
| expr_Tuple: "appending exprs \<Longrightarrow> expr_node tsb ''Tuple'' (ser_Tuple exprs)"
| expr_TupleSelect: "appending tuple \<Longrightarrow> appending index \<Longrightarrow> expr_node tsb ''TupleSelect'' (ser_TupleSelect tuple index)"
| expr_UMinus: "appending expr \<Longrightarrow> expr_node tsb ''UMinus'' (ser_UMinus expr)"
| expr_UnitLiteral: "expr_node tsb ''UnitLiteral'' ser_UnitLiteral"
| expr_Variable: "expr_node tsb ''Variable'' (ser_Variable x)"
| expr_While: "appending cond \<Longrightarrow> appending body \<Longrightarrow> \<forall>a \<in> set_option pred. appending a \<Longrightarrow>
    expr_node tsb ''While'' (ser_While cond body pred)"

definition expr_markers :: "(string \<times> u32) list" where
  "expr_markers =
    [(''ADT'', 27), (''ADTSelector'', 29), (''And'', 31), (''Annotated'', 123),
     (''Application'', 13), (''ApplyLetRec'', 185), (''ArrayLength'', 137), (''ArraySelect'', 135),
     (''ArrayUpdate'', 193), (''ArrayUpdated'', 136), (''AsInstanceOf'', 203), (''Assert'', 125),
     (''Assignment'', 190), (''Assume'', 10), (''BVAShiftRight'', 53), (''BVAnd'', 49),
     (''BVLShiftRight'', 54), (''BVLiteral'', 20), (''BVNarrowingCast'', 55), (''BVNot'', 48),
     (''BVOr'', 50), (''BVShiftLeft'', 52), (''BVWideningCast'', 56), (''BVXor'', 51),
     (''BagAdd'', 67), (''BagDifference'', 71), (''BagIntersection'', 69), (''BagUnion'', 70),
     (''Block'', 188), (''BoolBitwiseAnd'', 195), (''BoolBitwiseOr'', 196), (''BoolBitwiseXor'', 197),
     (''BooleanLiteral'', 23), (''CharLiteral'', 19), (''Choose'', 16), (''ClassConstructor'', 200),
     (''ClassSelector'', 201), (''Decreases'', 180), (''Division'', 41), (''ElementOfSet'', 61),
     (''Ensuring'', 124), (''Equals'', 30), (''Error'', 121), (''FieldAssignment'', 191),
     (''FiniteArray'', 133), (''FiniteBag'', 66), (''FiniteMap'', 72), (''FiniteSet'', 59),
     (''Forall'', 15), (''FractionLiteral'', 22), (''FunctionInvocation'', 17), (''GenericValue'', 26),
     (''GreaterEquals'', 47), (''GreaterThan'', 45), (''IfExpr'', 18), (''Implies'', 99),
     (''IntegerLiteral'', 21), (''IsConstructor'', 28), (''IsInstanceOf'', 202), (''Lambda'', 14),
     (''LargeArray'', 134), (''LessEquals'', 46), (''LessThan'', 44), (''Let'', 12),
     (''LetClass'', 232), (''LetRec'', 184), (''LetVar'', 189), (''LocalClassConstructor'', 235),
     (''LocalClassSelector'', 241), (''LocalMethodInvocation'', 240), (''LocalThis'', 242), (''MapApply'', 73),
     (''MapUpdated'', 74), (''MatchExpr'', 126), (''Max'', 160), (''MethodInvocation'', 216),
     (''Minus'', 38), (''Modulo'', 43), (''MultiplicityInBag'', 68), (''MutableMapApply'', 234),
     (''MutableMapDuplicate'', 237), (''MutableMapUpdate'', 235), (''MutableMapUpdated'', 236), (''MutableMapWithDefault'', 233),
     (''NoTree'', 120), (''Not'', 33), (''Old'', 194), (''Or'', 32),
     (''Passes'', 158), (''Plus'', 37), (''Remainder'', 42), (''Require'', 122),
     (''SetAdd'', 60), (''SetDifference'', 65), (''SetIntersection'', 63), (''SetUnion'', 64),
     (''SizedADT'', 154), (''Snapshot'', 239), (''StringConcat'', 34), (''StringLength'', 36),
     (''StringLiteral'', 24), (''SubString'', 35), (''SubsetOf'', 62), (''Super'', 215),
     (''This'', 214), (''Throw'', 212), (''Throwing'', 211), (''Times'', 40),
     (''Try'', 213), (''Tuple'', 57), (''TupleSelect'', 58), (''UMinus'', 39),
     (''UnitLiteral'', 25), (''Variable'', 11), (''While'', 192)]"
section \<open>The markers of an enum\<close>

text \<open>An action that writes a marker below 255 and then the parts of the node.\<close>

definition heads :: "u32 \<Rightarrow> action \<Rightarrow> bool" where
  "heads m a \<longleftrightarrow> m < 255 \<and> (\<exists>parts. a = ser_do (write_marker (MarkerId m) # parts) \<and> appending (ser_do parts))"

lemma headsI [simp]: "m < 255 \<Longrightarrow> appending (ser_do parts) \<Longrightarrow> heads m (ser_do (write_marker (MarkerId m) # parts))"
  by (auto simp: heads_def)

lemma heads_out:
  assumes "heads m a" and "out a = Some p"
  shows "\<exists>r. p = ucast m # r"
proof -
  from assms(1) obtain parts where a: "a = ser_do (write_marker (MarkerId m) # parts)" and m: "m < 255"
    and app: "appending (ser_do parts)" by (auto simp: heads_def)
  have "out (write_marker (MarkerId m)) = Some [ucast m]"
    using m by (simp add: out_simps)
  with assms(2) app show ?thesis
    by (auto simp: a out_simps split: option.splits)
qed

lemma byte_of_marker: "m < 255 \<Longrightarrow> n < 255 \<Longrightarrow> (ucast m :: u8) = ucast n \<longleftrightarrow> m = n" for m n :: u32
  by (rule ucast_marker_inject)

lemma appending_pairs [simp]:
  "\<forall>(a, b) \<in> set xs. appending a \<and> appending b \<Longrightarrow> appending (ser_Seq (ser_tuple2 (\<lambda>a. a) (\<lambda>a. a)) xs)"
  "\<forall>(n, a) \<in> set ys. appending a \<Longrightarrow> appending (ser_Map ser_Int (\<lambda>a. a) ys)"
  by (auto intro!: ser_intros)

lemma heads_old:
  "heads 11 (ser_Variable x)" "heads 20 (ser_BVLiteral tsb y)" "heads 14 (ser_Lambda tsb l)" "heads 82 (ser_BVType b)"
  "heads 83 (ser_TypeParameter tp)" "heads 94 (ser_ValDef vd)" "heads 95 (ser_TypeParameterDef tpd)"
  by (simp_all add: ser_Variable_def ser_BVLiteral_def ser_Lambda_head ser_BVType_def ser_TypeParameter_def ser_ValDef_def
      ser_TypeParameterDef_def ser_intros)

lemma flag_node_marked: "flag_node tsb k a \<Longrightarrow> \<exists>m. (k, m) \<in> set flag_markers \<and> heads m a"
  by (erule flag_node.cases) (simp_all add: flag_markers_def node_defs ser_flag_defs ser_intros)

lemma type_node_marked: "type_node tsb k a \<Longrightarrow> \<exists>m. (k, m) \<in> set type_markers \<and> heads m a"
  by (erule type_node.cases) (simp_all add: heads_old type_markers_def, simp_all add: node_defs ser_type_defs ser_intros)

lemma pattern_node_marked: "pattern_node tsb k a \<Longrightarrow> \<exists>m. (k, m) \<in> set pattern_markers \<and> heads m a"
  by (erule pattern_node.cases) (simp_all add: pattern_markers_def node_defs ser_expr_defs ser_intros)

lemma definition_node_marked: "definition_node tsb k a \<Longrightarrow> \<exists>m. (k, m) \<in> set definition_markers \<and> heads m a"
  by (erule definition_node.cases)
    (simp_all add: heads_old definition_markers_def,
      simp_all add: node_defs ser_ADTSort_def ser_FunDef_def ser_intros)

lemma expr_node_marked: "expr_node tsb k a \<Longrightarrow> \<exists>m. (k, m) \<in> set expr_markers \<and> heads m a"
  by (erule expr_node.cases) (simp_all add: heads_old expr_markers_def, simp_all add: node_defs ser_expr_defs ser_intros)


text \<open>Different kinds of an enum have different markers, but for one pair of expressions.\<close>

lemma distinct_fst: "distinct (map fst T) \<Longrightarrow> (k, m) \<in> set T \<Longrightarrow> (k, m') \<in> set T \<Longrightarrow> m = m'"
  by (metis eq_key_imp_eq_value)

lemma distinct_snd: "distinct (map snd T) \<Longrightarrow> (k, m) \<in> set T \<Longrightarrow> (k', m) \<in> set T \<Longrightarrow> k = k'"
  by (metis distinct_map inj_onD prod.inject snd_conv)

lemma markers_distinct:
  "distinct (map snd flag_markers)" "distinct (map fst flag_markers)"
  "distinct (map snd type_markers)" "distinct (map fst type_markers)"
  "distinct (map snd pattern_markers)" "distinct (map fst pattern_markers)"
  "distinct (map snd definition_markers)" "distinct (map fst definition_markers)"
  by (simp_all add: flag_markers_def type_markers_def pattern_markers_def definition_markers_def)

lemma expr_kinds_distinct: "distinct (map fst expr_markers)"
  by (simp add: expr_markers_def)

lemma expr_markers_distinct: "distinct (map snd (filter (\<lambda>(k, m). k \<noteq> ''MutableMapUpdate'') expr_markers))"
  by (simp add: expr_markers_def)

lemma expr_marker_twice: "(''MutableMapUpdate'', 235) \<in> set expr_markers" "(''LocalClassConstructor'', 235) \<in> set expr_markers"
  by (simp_all add: expr_markers_def)

lemma expr_markers_same:
  assumes k: "(k, m) \<in> set expr_markers" and k': "(k', m') \<in> set expr_markers"
  shows "m = m' \<longleftrightarrow> k = k' \<or> {k, k'} = {''LocalClassConstructor'', ''MutableMapUpdate''}"
proof -
  note fst = distinct_fst [OF expr_kinds_distinct]
  have snd: "k1 = k2" if "(k1, n) \<in> set expr_markers" "(k2, n) \<in> set expr_markers" "k1 \<noteq> ''MutableMapUpdate''"
    "k2 \<noteq> ''MutableMapUpdate''" for k1 k2 n
    using distinct_snd [OF expr_markers_distinct, of k1 n k2] that by simp
  note twice = expr_marker_twice
  show ?thesis
  proof (cases "k = ''MutableMapUpdate'' \<longleftrightarrow> k' = ''MutableMapUpdate''")
    case True
    with k k' show ?thesis
      by (cases "k = ''MutableMapUpdate''") (auto dest: fst snd simp: doubleton_eq_iff)
  next
    case False
    have update: "m1 = m2 \<longleftrightarrow> k2 = ''LocalClassConstructor''"
      if "(''MutableMapUpdate'', m1) \<in> set expr_markers" "(k2, m2) \<in> set expr_markers" "k2 \<noteq> ''MutableMapUpdate''" for m1 m2 k2
    proof -
      have "m1 = 235" using that(1) twice(1) by (rule fst)
      moreover have "m2 = 235" if "k2 = ''LocalClassConstructor''"
        using \<open>(k2, m2) \<in> set expr_markers\<close> twice(2) unfolding that by (rule fst)
      moreover have "k2 = ''LocalClassConstructor''" if "m2 = 235"
        by (rule snd [OF _ twice(2)]) (use \<open>(k2, m2) \<in> set expr_markers\<close> \<open>k2 \<noteq> ''MutableMapUpdate''\<close> that in simp_all)
      ultimately show ?thesis by blast
    qed
    from False consider "k = ''MutableMapUpdate''" "k' \<noteq> ''MutableMapUpdate''"
      | "k' = ''MutableMapUpdate''" "k \<noteq> ''MutableMapUpdate''" by blast
    then show ?thesis
    proof cases
      case 1
      with update [of m k' m'] k k' show ?thesis by (auto simp: doubleton_eq_iff)
    next
      case 2
      with update [of m' k m] k k' show ?thesis by (auto simp: doubleton_eq_iff)
    qed
  qed
qed

lemma first_bytes:
  assumes "heads m a" and "heads m' a'" and "out a = Some p" and "out a' = Some p'"
  shows "p \<noteq> [] \<and> p' \<noteq> [] \<and> (hd p = hd p' \<longleftrightarrow> m = m')"
proof -
  have "m < 255" "m' < 255"
    using assms(1,2) by (auto simp: heads_def)
  with heads_out [OF assms(1,3)] heads_out [OF assms(2,4)] show ?thesis
    by (auto simp: byte_of_marker)
qed

text \<open>The expressions of the data model are such nodes.\<close>

lemma node_of_Expr: "\<exists>kind. expr_node tsb kind (ser_Expr tsb e)"
  by (cases e) (auto intro!: exI expr_node.intros)

text \<open>\<open>tells_apart N same\<close>: the first bytes of two nodes agree exactly when their kinds are the same.\<close>

definition tells_apart :: "(string \<Rightarrow> action \<Rightarrow> bool) \<Rightarrow> (string \<Rightarrow> string \<Rightarrow> bool) \<Rightarrow> bool" where
  "tells_apart N same \<longleftrightarrow> (\<forall>k a p k' a' p'. N k a \<longrightarrow> N k' a' \<longrightarrow> out a = Some p \<longrightarrow> out a' = Some p' \<longrightarrow>
     p \<noteq> [] \<and> p' \<noteq> [] \<and> (hd p = hd p' \<longleftrightarrow> same k k'))"

lemma tells_apartI:
  assumes "\<And>k a. N k a \<Longrightarrow> \<exists>m. (k, m) \<in> set table \<and> heads m a"
    and "\<And>k m k' m'. (k, m) \<in> set table \<Longrightarrow> (k', m') \<in> set table \<Longrightarrow> m = m' \<longleftrightarrow> same k k'"
  shows "tells_apart N same"
  unfolding tells_apart_def
proof (intro allI impI)
  fix k a p k' a' p'
  assume "N k a" "N k' a'" and out: "out a = Some p" "out a' = Some p'"
  then obtain m m' where "(k, m) \<in> set table" "(k', m') \<in> set table" and heads: "heads m a" "heads m' a'"
    using assms(1) by meson
  with assms(2) have "m = m' \<longleftrightarrow> same k k'" by blast
  with first_bytes [OF heads out] show "p \<noteq> [] \<and> p' \<noteq> [] \<and> (hd p = hd p' \<longleftrightarrow> same k k')" by simp
qed

lemma tells_apart_distinct:
  assumes "\<And>k a. N k a \<Longrightarrow> \<exists>m. (k, m) \<in> set table \<and> heads m a"
    and "distinct (map snd table)" and "distinct (map fst table)"
  shows "tells_apart N (=)"
  using assms(1) by (rule tells_apartI) (use distinct_snd [OF assms(2)] distinct_fst [OF assms(3)] in blast)+

section \<open>Properties\<close>

text \<open>
  C4: The first byte of a serialized node tells which variant of its enum it is, for all
  flags, types, patterns and definitions, and for all expressions but two: a
  \<open>LocalClassConstructor\<close> and a \<open>MutableMapUpdate\<close> start with the same byte.
\<close>

theorem variants_start_differently:
  "tells_apart (expr_node tsb) (\<lambda>k k'. k = k' \<or> {k, k'} = {''LocalClassConstructor'', ''MutableMapUpdate''}) \<and>
   tells_apart (type_node tsb) (=) \<and> tells_apart (flag_node tsb) (=) \<and>
   tells_apart (pattern_node tsb) (=) \<and> tells_apart (definition_node tsb) (=)"
  by (intro conjI tells_apartI [OF expr_node_marked expr_markers_same]
      tells_apart_distinct [OF type_node_marked markers_distinct(3,4)]
      tells_apart_distinct [OF flag_node_marked markers_distinct(1,2)]
      tells_apart_distinct [OF pattern_node_marked markers_distinct(5,6)]
      tells_apart_distinct [OF definition_node_marked markers_distinct(7,8)])

end
