(* ===== verification/Process.thy ===== *)
theory Process
  imports Strings
begin

text \<open>
  What the programs around the extraction share (the verifier's back end, the compiler
  driver and the cargo subcommand): computations over the state of the machine that can
  end early, commands for other processes, and the standard library's operations on
  paths and padded text that they use.
\<close>

section \<open>Computations that can end early\<close>

text \<open>
  A program returns, exits with a code, panics, or raises the fatal error of a compiler
  session; what it did to the machine before that stays done. \<open>No_fuel\<close> is no outcome of the
  program: it stands for an extraction whose recursion bound was too small.
\<close>

datatype 'a outcome = Returns 'a | Exits int | Panics string | Fatal | No_fuel

type_synonym ('s, 'a) proc = "'s \<Rightarrow> 'a outcome \<times> 's"

definition returns :: "'a \<Rightarrow> ('s, 'a) proc" where
  "returns x = (\<lambda>s. (Returns x, s))"

definition exits :: "int \<Rightarrow> ('s, 'a) proc" where
  "exits code = (\<lambda>s. (Exits code, s))"

definition panics :: "string \<Rightarrow> ('s, 'a) proc" where
  "panics msg = (\<lambda>s. (Panics msg, s))"

definition fatal :: "('s, 'a) proc" where
  "fatal = (\<lambda>s. (Fatal, s))"

definition and_then :: "('s, 'a) proc \<Rightarrow> ('a \<Rightarrow> ('s, 'b) proc) \<Rightarrow> ('s, 'b) proc" where
  "and_then p f = (\<lambda>s. case p s of
       (Returns x, t) \<Rightarrow> f x t
     | (Exits code, t) \<Rightarrow> (Exits code, t)
     | (Panics msg, t) \<Rightarrow> (Panics msg, t)
     | (Fatal, t) \<Rightarrow> (Fatal, t)
     | (No_fuel, t) \<Rightarrow> (No_fuel, t))"

text \<open>The value of a fallible pure computation, whose fault is a panic.\<close>

definition of_res :: "'a res \<Rightarrow> ('s, 'a) proc" where
  "of_res r = (\<lambda>s. case r of
       Inr x \<Rightarrow> (Returns x, s)
     | Inl (Panic msg) \<Rightarrow> (Panics msg, s)
     | Inl (Io_error msg) \<Rightarrow> (Panics msg, s)
     | Inl Out_of_fuel \<Rightarrow> (No_fuel, s))"

definition expect :: "string \<Rightarrow> 'a option \<Rightarrow> ('s, 'a) proc" where
  "expect msg x = (case x of Some y \<Rightarrow> returns y | None \<Rightarrow> panics msg)"

text \<open>The question-mark operator on a \<open>Result\<close> with a message.\<close>

definition try_then ::
  "('s, string + 'a) proc \<Rightarrow> ('a \<Rightarrow> ('s, string + 'b) proc) \<Rightarrow> ('s, string + 'b) proc" where
  "try_then p f = and_then p (\<lambda>r. case r of Inl e \<Rightarrow> returns (Inl e) | Inr x \<Rightarrow> f x)"

lemma and_then_simps [simp]:
  "and_then (returns x) f = f x"
  "and_then (exits c) f = exits c"
  "and_then (panics msg) f = panics msg"
  "and_then fatal f = fatal"
  by (simp_all add: and_then_def returns_def exits_def panics_def fatal_def)

lemma and_then_Returns:
  "and_then p f s = (Returns y, u) \<longleftrightarrow> (\<exists>x t. p s = (Returns x, t) \<and> f x t = (Returns y, u))"
  by (cases "p s"; cases "fst (p s)") (auto simp: and_then_def)

lemma and_then_eval:
  "p s = (Returns x, t) \<Longrightarrow> and_then p f s = f x t"
  "p s = (Exits c, t) \<Longrightarrow> and_then p f s = (Exits c, t)"
  "p s = (Panics msg, t) \<Longrightarrow> and_then p f s = (Panics msg, t)"
  "p s = (Fatal, t) \<Longrightarrow> and_then p f s = (Fatal, t)"
  by (simp_all add: and_then_def)

lemma outcome_simps [simp]:
  "returns x s = (Returns y, t) \<longleftrightarrow> x = y \<and> s = t"
  "exits c s \<noteq> (Returns y, t)" "panics msg s \<noteq> (Returns y, t)" "fatal s \<noteq> (Returns y, t)"
  by (auto simp: returns_def exits_def panics_def fatal_def)

lemma of_res_Returns [simp]: "of_res r s = (Returns x, t) \<longleftrightarrow> r = Inr x \<and> s = t"
  by (auto simp: of_res_def split: sum.splits fault.splits)

lemma expect_Returns [simp]: "expect msg x s = (Returns y, t) \<longleftrightarrow> x = Some y \<and> s = t"
  by (auto simp: expect_def split: option.splits)

lemma try_then_simps [simp]:
  "try_then (returns (Inl e)) f = returns (Inl e)"
  "try_then (returns (Inr x)) f = f x"
  by (simp_all add: try_then_def)

lemma try_then_Returns:
  "try_then p f s = (Returns y, u) \<longleftrightarrow>
     (\<exists>e. p s = (Returns (Inl e), u) \<and> y = Inl e) \<or> (\<exists>x t. p s = (Returns (Inr x), t) \<and> f x t = (Returns y, u))"
proof -
  have "try_then p f s = (Returns y, u) \<longleftrightarrow>
      (\<exists>r t. p s = (Returns r, t) \<and> (case r of Inl e \<Rightarrow> returns (Inl e) | Inr x \<Rightarrow> f x) t = (Returns y, u))"
    by (simp add: try_then_def and_then_Returns)
  also have "\<dots> \<longleftrightarrow> (\<exists>e t. p s = (Returns (Inl e), t) \<and> returns (Inl e) t = (Returns y, u)) \<or>
      (\<exists>x t. p s = (Returns (Inr x), t) \<and> f x t = (Returns y, u))"
    by (auto split: sum.splits) (metis sum.exhaust_sel sum.case)+
  finally show ?thesis by auto
qed

section \<open>Commands\<close>

record Command =
  cmd_program :: string
  cmd_args :: "string list"
  cmd_env :: "string \<rightharpoonup> string"

section \<open>Paths\<close>

text \<open>
  \<open>PathBuf::pop\<close> removes the last component and what separates it from the rest; a
  path without a parent stays. Trailing separators and a trailing \<open>.\<close> are no components.
  The helper works on the reversed path.
\<close>

fun trim_separators :: "string \<Rightarrow> string" where
  "trim_separators [] = []"
| "trim_separators [c] = [c]"
| "trim_separators (c # d # cs) =
     (if c = CHR ''/'' then trim_separators (d # cs)
      else if c = CHR ''.'' \<and> d = CHR ''/'' then trim_separators (d # cs)
      else c # d # cs)"

definition path_pop :: "string \<Rightarrow> string" where
  "path_pop path =
     (let r = trim_separators (rev path) in
      if r = [] \<or> r = ''/'' then path
      else rev (trim_separators (dropWhile (\<lambda>c. c \<noteq> CHR ''/'') r)))"

definition path_join :: "string \<Rightarrow> string \<Rightarrow> string" where
  "path_join path name =
     (if path = [] \<or> last path = CHR ''/'' then path @ name else path @ ''/'' @ name)"

lemma trim_separators_plain [simp]: "c \<noteq> CHR ''/'' \<Longrightarrow> c \<noteq> CHR ''.'' \<Longrightarrow> trim_separators (c # cs) = c # cs"
  by (cases cs) auto

lemma path_pop_examples:
  "path_pop ''/root/bin/cargo'' = ''/root/bin''" "path_pop ''/root/bin//'' = ''/root''"
  "path_pop ''/root'' = ''/''" "path_pop ''/'' = ''/''" "path_pop ''cargo'' = []" "path_pop ''a/b/.'' = ''a''"
  by (simp_all add: path_pop_def)

section \<open>Padded text\<close>

text \<open>The width of a text is its number of characters: its bytes that do not continue one.\<close>

definition width :: "string \<Rightarrow> nat" where
  "width s = length (filter (\<lambda>c. (of_char c :: nat) div 64 \<noteq> 2) s)"

definition pad_right :: "nat \<Rightarrow> string \<Rightarrow> string" where
  "pad_right n s = s @ replicate (n - width s) CHR '' ''"

definition pad_left :: "nat \<Rightarrow> string \<Rightarrow> string" where
  "pad_left n s = replicate (n - width s) CHR '' '' @ s"

definition pad_centre :: "nat \<Rightarrow> string \<Rightarrow> string" where
  "pad_centre n s =
     (let k = n - width s in replicate (k div 2) CHR '' '' @ s @ replicate (k - k div 2) CHR '' '')"

lemma width_pad [simp]:
  "width (pad_right n s) = max n (width s)" "width (pad_left n s) = max n (width s)"
  by (auto simp: pad_right_def pad_left_def width_def)

lemma width_pad_centre [simp]: "width (pad_centre n s) = max n (width s)"
proof -
  have "width (pad_centre n s) = (n - width s) div 2 + (width s + ((n - width s) - (n - width s) div 2))"
    by (simp add: pad_centre_def Let_def width_def)
  moreover have "(n - width s) div 2 \<le> n - width s"
    by simp
  ultimately show ?thesis by linarith
qed

end
