(* ===== verification/Backend.thy ===== *)
theory Backend
  imports Process Symbols
begin

text \<open>
  The verifier's back end, \<open>stainless_backend/src/lib.rs\<close> and \<open>messages.rs\<close>: it starts
  Stainless, writes the serialized program to a temporary file, sends the file's path
  over the standard input of the process and reads the response.

  What the back end asks the machine is the parameter \<open>Host\<close>; the state \<open>Machine\<close> has the
  files and, for each query, what Stainless finds at its path. The decoding of a response
  (\<open>serde_json\<close>) is part of the parameter.
\<close>

section \<open>Messages\<close>

record SourceIdentifier =
  si_name :: string
  si_gid :: nat
  si_id :: nat

datatype VerificationStatus = Valid | ValidFromCache | Inconclusive | Invalid

definition is_valid :: "VerificationStatus \<Rightarrow> bool" where
  "is_valid status = (case status of Valid \<Rightarrow> True | ValidFromCache \<Rightarrow> True | _ \<Rightarrow> False)"

definition fmt_VerificationStatus :: "VerificationStatus \<Rightarrow> string" where
  "fmt_VerificationStatus status = (case status of
       Valid \<Rightarrow> ''Valid''
     | ValidFromCache \<Rightarrow> ''Valid from cache''
     | Inconclusive \<Rightarrow> ''Unknown''
     | Invalid \<Rightarrow> ''Invalid'')"

record VerificationResult =
  vr_id :: SourceIdentifier
  vr_time :: nat
  vr_status :: VerificationStatus
  vr_solver_name :: "string option"
  vr_kind :: string
  vr_derived_from :: SourceIdentifier

datatype Report = Verification (report_results: "VerificationResult list") (report_sources: "SourceIdentifier list")

datatype Response = Response_Error string | Response_Success "Report list"

definition into_verification_report :: "Response \<Rightarrow> Report option" where
  "into_verification_report response = (case response of
       Response_Success reports \<Rightarrow> find (\<lambda>report. case report of Verification _ _ \<Rightarrow> True) reports
     | _ \<Rightarrow> None)"

section \<open>The machine\<close>

text \<open>
  \<open>spawn_error\<close> and \<open>answer\<close> stand for the Stainless process: why it cannot be started, and
  what it writes when it reads a path, given the files at that moment: nothing, a text
  that is no response, or a response.
\<close>

record Host =
  env_var :: "string \<Rightarrow> string option"
  is_file :: "string \<Rightarrow> bool"
  new_temp :: "(string \<rightharpoonup> bytes) \<Rightarrow> string option"
  write_refused :: "string \<Rightarrow> bool"
  spawn_error :: "Command \<Rightarrow> string option"
  query_refused :: "string \<Rightarrow> bool"
  answer :: "Command \<Rightarrow> (string \<rightharpoonup> bytes) \<Rightarrow> string \<Rightarrow> (string + Response) option"
  seconds :: "nat \<Rightarrow> string"

datatype message = Note string | Warn string | Fatal_error string | Line string

record Machine =
  files :: "string \<rightharpoonup> bytes"
  queries :: "(string \<times> bytes option) list"
  said :: "message list"

definition say :: "message \<Rightarrow> (Machine, unit) proc" where
  "say msg = (\<lambda>m. (Returns (), m\<lparr>said := said m @ [msg]\<rparr>))"

definition write_file :: "Host \<Rightarrow> string \<Rightarrow> string \<Rightarrow> bytes \<Rightarrow> (Machine, unit) proc" where
  "write_file h msg path data =
     (if write_refused h path then panics msg
      else (\<lambda>m. (Returns (), m\<lparr>files := (files m)(path \<mapsto> data)\<rparr>)))"

definition remove_file :: "string \<Rightarrow> Machine \<Rightarrow> Machine" where
  "remove_file path m = m\<lparr>files := (files m)(path := None)\<rparr>"

text \<open>A temporary file exists until its owner is dropped, also when a panic unwinds.\<close>

definition with_temp_file :: "Host \<Rightarrow> string \<Rightarrow> (string \<Rightarrow> (Machine, 'a) proc) \<Rightarrow> (Machine, 'a) proc" where
  "with_temp_file h msg use = (\<lambda>m. case new_temp h (files m) of
       None \<Rightarrow> (Panics msg, m)
     | Some path \<Rightarrow>
         (case use path (m\<lparr>files := (files m)(path \<mapsto> [])\<rparr>) of (result, m') \<Rightarrow> (result, remove_file path m')))"

section \<open>The back end\<close>

record Config =
  timeout :: nat
  print_ids :: bool
  print_types :: bool
  debug_trees :: bool
  debug_phases :: "string list"
  strict_arithmetic :: bool

definition Config_default :: Config where
  "Config_default = \<lparr>timeout = 30, print_ids = False, print_types = False, debug_trees = False,
     debug_phases = [], strict_arithmetic = False\<rparr>"

definition show_bool :: "bool \<Rightarrow> string" where
  "show_bool b = (if b then ''true'' else ''false'')"

definition stainless_args :: "Config \<Rightarrow> string option \<Rightarrow> string list" where
  "stainless_args config extra_flags =
     [''--interactive'', ''--batched'', ''--vc-cache=false'', ''--timeout='' @ dec (timeout config),
      ''--print-ids='' @ show_bool (print_ids config), ''--print-types='' @ show_bool (print_types config),
      ''--strict-arithmetic='' @ show_bool (strict_arithmetic config)] @
     (if debug_trees config then [''--debug=trees'', ''--debug-phases='' @ join '','' (debug_phases config)] else []) @
     (case extra_flags of Some flags \<Rightarrow> split_char CHR '' '' flags | None \<Rightarrow> [])"

definition find_stainless_home :: "Host \<Rightarrow> string + string" where
  "find_stainless_home h = (case env_var h ''STAINLESS_HOME'' of
       Some home_path \<Rightarrow> Inr home_path
     | None \<Rightarrow> Inl ''Could not find stainless directory. Please make sure STAINLESS_HOME is set.'')"

text \<open>A back end is the process it talks to, identified by the command that started it.\<close>

definition create :: "Host \<Rightarrow> Config \<Rightarrow> string + Command" where
  "create h config = res_bind (find_stainless_home h) (\<lambda>home_path.
     let exec_path = path_join home_path ''stainless'' in
     if \<not> is_file h exec_path then Inl (''Could not find stainless executable at '' @ exec_path)
     else
       let cmd = \<lparr>cmd_program = exec_path, cmd_args = stainless_args config (env_var h ''STAINLESS_FLAGS''),
                  cmd_env = Map.empty\<rparr> in
       case spawn_error h cmd of
         Some err \<Rightarrow> Inl (''Could not spawn stainless: '' @ err)
       | None \<Rightarrow> Inr cmd)"

definition query :: "Host \<Rightarrow> Command \<Rightarrow> string \<Rightarrow> (Machine, string + Response) proc" where
  "query h child query_path =
     (if query_refused h query_path then returns (Inl ''Could not write query to stainless stdin'')
      else (\<lambda>m.
        (Returns (case answer h child (files m) query_path of
             None \<Rightarrow> Inl ''Stainless stopped before responding''
           | Some (Inl err) \<Rightarrow> Inl (''Failed to parse response: '' @ err)
           | Some (Inr response) \<Rightarrow> Inr response),
         m\<lparr>queries := queries m @ [(query_path, files m query_path)]\<rparr>)))"

definition serialized :: "(int \<Rightarrow> bytes) \<Rightarrow> Symbols \<Rightarrow> bytes res" where
  "serialized tsb symbols = res_bind (ser_Symbols tsb symbols BufferSerializer_new) (\<lambda>s. Inr (as_slice s))"

definition query_for_program ::
  "Host \<Rightarrow> (int \<Rightarrow> bytes) \<Rightarrow> Command \<Rightarrow> Symbols \<Rightarrow> (Machine, string + Response) proc" where
  "query_for_program h tsb child symbols =
     with_temp_file h ''Unable to create temporary example file'' (\<lambda>path.
       and_then (of_res (serialized tsb symbols)) (\<lambda>data.
       and_then (write_file h ''Unable to write example file'' path data) (\<lambda>_.
       query h child path)))"

definition verify_program ::
  "Host \<Rightarrow> (int \<Rightarrow> bytes) \<Rightarrow> Config \<Rightarrow> Symbols \<Rightarrow> (Machine, string + Report) proc" where
  "verify_program h tsb config symbols =
     try_then (returns (create h config)) (\<lambda>backend.
     try_then (query_for_program h tsb backend symbols) (\<lambda>response.
     returns (case into_verification_report response of
         Some report \<Rightarrow> Inr report
       | None \<Rightarrow> Inl ''No verification report found'')))"

section \<open>What a verification does to the machine\<close>

lemma into_verification_report_Some:
  "into_verification_report response = Some report \<longleftrightarrow> (\<exists>others. response = Response_Success (report # others))"
proof (cases response)
  case (Response_Success reports)
  then show ?thesis
    by (cases reports) (auto simp: into_verification_report_def split: Report.splits)
qed (simp add: into_verification_report_def)

text \<open>A computation that changes no files but those of a set, however it ends.\<close>

definition touches :: "string set \<Rightarrow> (Machine, 'a) proc \<Rightarrow> bool" where
  "touches P p \<longleftrightarrow> (\<forall>m r m'. p m = (r, m') \<longrightarrow> (\<forall>path. path \<notin> P \<longrightarrow> files m' path = files m path))"

lemma touches_and_then:
  assumes "touches P p" and "\<And>x. touches P (f x)"
  shows "touches P (and_then p f)"
  unfolding touches_def
proof (intro allI impI)
  fix m r m' path
  assume run: "and_then p f m = (r, m')" and path: "path \<notin> P"
  obtain r1 t where p: "p m = (r1, t)"
    by (cases "p m")
  then have t: "files t path = files m path"
    using assms(1) path by (auto simp: touches_def)
  show "files m' path = files m path"
  proof (cases r1)
    case (Returns x)
    with p run have "f x t = (r, m')" by (simp add: and_then_eval)
    with assms(2) path t show ?thesis by (metis touches_def)
  qed (use p run t in \<open>auto simp: and_then_def\<close>)
qed

lemma touches_simps [simp]:
  "touches P (returns x)" "touches P (panics msg)" "touches P fatal" "touches P (of_res y)" "touches P (say line)"
  "touches P (expect text z)" "touches P (query h child path)" "path \<in> P \<Longrightarrow> touches P (write_file h msg path data)"
  by (auto simp: touches_def returns_def panics_def fatal_def of_res_def say_def query_def write_file_def expect_def
      split: sum.splits fault.splits option.splits if_splits)

text \<open>\<open>tempfile\<close> promises that the path of a new temporary file is not in use.\<close>

definition temp_fresh :: "Host \<Rightarrow> bool" where
  "temp_fresh h \<longleftrightarrow> (\<forall>fs path. new_temp h fs = Some path \<longrightarrow> fs path = None)"

lemma touches_with_temp_file:
  assumes "\<And>path. touches {path} (use path)" and "temp_fresh h"
  shows "touches {} (with_temp_file h msg use)"
  unfolding touches_def
proof (intro allI impI)
  fix m r m' q
  assume run: "with_temp_file h msg use m = (r, m')"
  show "files m' q = files m q"
  proof (cases "new_temp h (files m)")
    case (Some path)
    let ?m = "m\<lparr>files := (files m)(path \<mapsto> [])\<rparr>"
    obtain u where use: "use path ?m = (r, u)" and m': "m' = remove_file path u"
      using run Some by (cases "use path ?m") (simp add: with_temp_file_def)
    have "files u q = files ?m q" if "q \<noteq> path"
      using assms(1) [of path] use that by (simp add: touches_def)
    moreover have "files m path = None"
      using assms(2) Some by (auto simp: temp_fresh_def)
    ultimately show ?thesis by (auto simp: m' remove_file_def)
  qed (use run in \<open>simp add: with_temp_file_def\<close>)
qed

lemma serialized_out: "serialized tsb symbols = Inr data \<Longrightarrow> out (ser_Symbols tsb symbols) = Some data"
  by (auto simp: serialized_def out_def res_bind_Inr_iff as_slice_def)

lemma query_for_program_Returns:
  assumes "query_for_program h tsb child symbols m = (Returns r, m')" and "temp_fresh h"
  obtains path data where "new_temp h (files m) = Some path" and "serialized tsb symbols = Inr data"
    and "files m' = files m" and "said m' = said m"
    and "query h child path (m\<lparr>files := (files m)(path \<mapsto> data)\<rparr>) = (Returns r, m'\<lparr>files := (files m)(path \<mapsto> data)\<rparr>)"
proof -
  let ?use = "\<lambda>path. and_then (of_res (serialized tsb symbols)) (\<lambda>data.
      and_then (write_file h ''Unable to write example file'' path data) (\<lambda>_. query h child path))"
  obtain path u where path: "new_temp h (files m) = Some path"
    and use: "?use path (m\<lparr>files := (files m)(path \<mapsto> [])\<rparr>) = (Returns r, u)" and m': "m' = remove_file path u"
    using assms(1) by (auto simp: query_for_program_def with_temp_file_def split: option.splits prod.splits)
  obtain data where data: "serialized tsb symbols = Inr data"
    and q: "query h child path (m\<lparr>files := (files m)(path \<mapsto> data)\<rparr>) = (Returns r, u)"
    using use by (auto simp: and_then_Returns write_file_def split: if_splits)
  have u: "files u = (files m)(path \<mapsto> data)" "said u = said m"
    using q by (auto simp: query_def split: if_splits)
  have "files m path = None"
    using assms(2) path by (auto simp: temp_fresh_def)
  then have files: "files m' = files m"
    using u by (auto simp: m' remove_file_def fun_eq_iff)
  show thesis
    using that [OF path data files] q u by (simp add: m' remove_file_def)
qed

text \<open>A successful verification: Stainless has read the serialized program and answered with the report.\<close>

lemma verify_program_Inr:
  assumes "verify_program h tsb config symbols m = (Returns (Inr report), m')" and "temp_fresh h"
  obtains backend path data others where "create h config = Inr backend" and "serialized tsb symbols = Inr data"
    and "answer h backend ((files m)(path \<mapsto> data)) path = Some (Inr (Response_Success (report # others)))"
    and "files m' = files m" and "said m' = said m" and "queries m' = queries m @ [(path, Some data)]"
proof -
  obtain backend response where create: "create h config = Inr backend"
    and run: "query_for_program h tsb backend symbols m = (Returns (Inr response), m')"
    and report: "into_verification_report response = Some report"
    using assms(1) by (auto simp: verify_program_def try_then_Returns split: option.splits)
  from query_for_program_Returns [OF run assms(2)] obtain path data where data: "serialized tsb symbols = Inr data"
    and m': "files m' = files m" "said m' = said m"
    and q: "query h backend path (m\<lparr>files := (files m)(path \<mapsto> data)\<rparr>) =
      (Returns (Inr response), m'\<lparr>files := (files m)(path \<mapsto> data)\<rparr>)" .
  from q have answered: "answer h backend ((files m)(path \<mapsto> data)) path = Some (Inr response)"
    and "queries (m'\<lparr>files := (files m)(path \<mapsto> data)\<rparr>) = queries m @ [(path, Some data)]"
    by (auto simp: query_def split: if_splits option.splits sum.splits dest!: arg_cong [where f = queries])
  then have "queries m' = queries m @ [(path, Some data)]" by simp
  moreover obtain others where "response = Response_Success (report # others)"
    using report by (auto simp: into_verification_report_Some)
  ultimately show thesis
    using that create data answered m' by blast
qed

lemma touches_verify_program:
  assumes "temp_fresh h"
  shows "touches {} (verify_program h tsb config symbols)"
proof -
  have "touches {} (query_for_program h tsb backend symbols)" for backend
    unfolding query_for_program_def using assms
    by (rule touches_with_temp_file [rotated]) (intro touches_and_then; simp)
  then show ?thesis
    unfolding verify_program_def try_then_def
    by (intro touches_and_then) (auto intro!: touches_and_then split: sum.split)
qed

end
