(* ===== verification/Spec_Macros.thy ===== *)
theory Spec_Macros
  imports Strings
begin

text \<open>
  Specifications: the attribute macros \<open>#[pre]\<close>, \<open>#[post]\<close>, \<open>#[measure]\<close> of
  \<open>libstainless_macros/implementation.rs\<close>, which turn the conditions of a function into
  hidden spec functions named \<open>__{type}_{index}_{name}\<close>, and the parser of these names,
  \<open>stainless_extraction/src/spec.rs\<close>, by which the extraction finds them again.

  Tokens are kept as lists of strings. The parsers of the package \<open>syn\<close> are parameters:
  \<open>parse_expr\<close> for the argument of the first attribute, \<open>parse_args\<close> for the parenthesised
  argument of the others. A parameter list is parsed by the Rust grammar:
  parameters separated by commas, with an optional trailing comma.
\<close>

section \<open>Kinds of specs and the names of spec functions\<close>

datatype SpecType = Pre | Post | Measure

definition SpecType_name :: "SpecType \<Rightarrow> string" where
  "SpecType_name t = (case t of Pre \<Rightarrow> ''pre'' | Post \<Rightarrow> ''post'' | Measure \<Rightarrow> ''measure'')"

text \<open>\<open>TryFrom<String>\<close> of the macros and \<open>TryFrom<&str>\<close> of the extraction.\<close>

definition SpecType_try_from_string :: "string \<Rightarrow> SpecType option" where
  "SpecType_try_from_string name =
     (if name = ''pre'' then Some Pre else if name = ''post'' then Some Post
      else if name = ''measure'' then Some Measure else None)"

definition SpecType_try_from_str :: "string \<Rightarrow> SpecType option" where
  "SpecType_try_from_str name =
     (if name = ''pre'' then Some Pre else if name = ''post'' then Some Post
      else if name = ''measure'' then Some Measure else None)"

definition parse_spec_type_fn_name :: "(string \<Rightarrow> bool) \<Rightarrow> string \<Rightarrow> (SpecType \<times> string) option" where
  "parse_spec_type_fn_name num str =
     (let parts = split_char (CHR ''_'') str in
      case parts of
        a # b # spec_type # index # _ \<Rightarrow>
          (if a = [] \<and> b = [] \<and> num index
           then map_option (\<lambda>sp. (sp, join ''_'' (drop 4 parts))) (SpecType_try_from_str spec_type)
           else None)
      | _ \<Rightarrow> None)"

text \<open>The identifier that \<open>make_spec_fn\<close> builds.\<close>

definition spec_ident :: "SpecType \<Rightarrow> nat \<Rightarrow> string \<Rightarrow> string" where
  "spec_ident typ index fn_name =
     ''__'' @ SpecType_name typ @ ''_'' @ dec (index + 1) @ ''_'' @ fn_name"

section \<open>Functions and their attributes\<close>

type_synonym tokens = "string list"

datatype FnArg = Receiver tokens | Typed tokens

datatype Attribute = Attribute (attr_path: "string list") (attr_tokens: tokens)

datatype ItemFn = ItemFn
    (fn_attrs: "Attribute list")
    (fn_vis: tokens)
    (fn_ident: string)
    (fn_generics: tokens)
    (fn_inputs: "FnArg list")
    (fn_trailing_comma: bool)
    (fn_output: "tokens option")
    (fn_stmts: "Stmt list")
  and Stmt = Item_Fn ItemFn | Stmt_Expr tokens | Stmt_Semi tokens | Stmt_Other tokens

record Spec =
  spec_typ :: SpecType
  spec_expr :: tokens

definition SpecType_try_from_attr :: "Attribute \<Rightarrow> SpecType option" where
  "SpecType_try_from_attr attr =
     (case attr_path attr of [segment] \<Rightarrow> SpecType_try_from_string segment | _ \<Rightarrow> None)"

section \<open>Parsing the specs of a function\<close>

datatype 'a expansion = Expanded 'a | Compile_error string

definition try_parse ::
  "(tokens \<Rightarrow> string + tokens) \<Rightarrow> (tokens \<Rightarrow> string + tokens) \<Rightarrow> 
   SpecType \<Rightarrow> tokens \<Rightarrow> ItemFn \<Rightarrow> (ItemFn \<times> Spec list) expansion res" where
  "try_parse parse_expr parse_args first_spec_type first_attr_args item_fn =
     (case parse_expr first_attr_args of
        Inl _ \<Rightarrow> Inl (Panic ''parse_quote'')
      | Inr first_args \<Rightarrow>
          (let specs = List.map_filter (\<lambda>attr.
                 map_option (\<lambda>typ. (typ, parse_args (attr_tokens attr))) (SpecType_try_from_attr attr))
                 (fn_attrs item_fn);
               specs = (first_spec_type, Inr first_args) # specs in
           Inr (case find (\<lambda>(_, cond). isl cond) specs of
               Some (_, Inl err) \<Rightarrow> Compile_error err
             | _ \<Rightarrow> Expanded (item_fn, map (\<lambda>(typ, cond). \<lparr>spec_typ = typ, spec_expr = projr cond\<rparr>) specs))))"

section \<open>Generating spec functions\<close>

datatype param_token = Param FnArg | Comma

fun param_tokens :: "FnArg list \<Rightarrow> bool \<Rightarrow> param_token list" where
  "param_tokens [] trailing = []"
| "param_tokens [a] trailing = (if trailing then [Param a, Comma] else [Param a])"
| "param_tokens (a # b # as) trailing = Param a # Comma # param_tokens (b # as) trailing"

fun parse_params :: "param_token list \<Rightarrow> (FnArg list \<times> bool) option" where
  "parse_params [] = Some ([], False)"
| "parse_params [Param a] = Some ([a], False)"
| "parse_params [Param a, Comma] = Some ([a], True)"
| "parse_params (Param a # Comma # ts) = map_option (\<lambda>(as, tr). (a # as, tr)) (parse_params ts)"
| "parse_params _ = None"

definition doc_hidden :: "Attribute list" where
  "doc_hidden = [Attribute [''doc''] [''hidden''], Attribute [''allow''] [''unused_variables'']]"

definition make_spec_fn :: "ItemFn \<Rightarrow> nat \<times> Spec \<Rightarrow> ItemFn res" where
  "make_spec_fn item_fn = (\<lambda>(index, spec).
     let fn_return_ty = (case fn_output item_fn of Some ty \<Rightarrow> ty | None \<Rightarrow> [''('', '')'']);
         ident = spec_ident (spec_typ spec) index (fn_ident item_fn);
         ret_param = (case spec_typ spec of
             Post \<Rightarrow> [Comma, Param (Typed ([''ret'', '':''] @ fn_return_ty))]
           | _ \<Rightarrow> []);
         (return_type, body) = (case spec_typ spec of
             Measure \<Rightarrow> ([''('', '')''], Stmt_Semi (spec_expr spec))
           | _ \<Rightarrow> ([''bool''], Stmt_Expr (spec_expr spec))) in
     case parse_params (param_tokens (fn_inputs item_fn) (fn_trailing_comma item_fn) @ ret_param) of
       None \<Rightarrow> Inl (Panic ''parse_quote'')
     | Some (inputs, trailing) \<Rightarrow>
         Inr (ItemFn doc_hidden [] ident (fn_generics item_fn) inputs trailing (Some return_type) [body]))"

definition has_self_param :: "ItemFn \<Rightarrow> bool" where
  "has_self_param item_fn = (case fn_inputs item_fn of Receiver _ # _ \<Rightarrow> True | _ \<Rightarrow> False)"

fun with_stmts :: "ItemFn \<Rightarrow> Stmt list \<Rightarrow> ItemFn" where
  "with_stmts (ItemFn a v i g ins tr out _) stmts = ItemFn a v i g ins tr out stmts"

fun with_attrs :: "ItemFn \<Rightarrow> Attribute list \<Rightarrow> ItemFn" where
  "with_attrs (ItemFn _ v i g ins tr out stmts) a = ItemFn a v i g ins tr out stmts"

definition generate_fn_with_spec :: "ItemFn \<Rightarrow> Spec list \<Rightarrow> ItemFn list res" where
  "generate_fn_with_spec item_fn specs =
     res_bind (res_map (make_spec_fn item_fn) (enumerate 0 specs)) (\<lambda>spec_fns.
     if has_self_param item_fn then Inr (spec_fns @ [item_fn])
     else Inr [with_stmts item_fn (map Item_Fn spec_fns @ fn_stmts item_fn)])"

definition extract_specs_and_expand ::
  "(tokens \<Rightarrow> string + tokens) \<Rightarrow> (tokens \<Rightarrow> string + tokens) \<Rightarrow> 
   SpecType \<Rightarrow> tokens \<Rightarrow> ItemFn \<Rightarrow> ItemFn list expansion res" where
  "extract_specs_and_expand parse_expr parse_args first_spec_type first_attr_args item =
     res_bind (try_parse parse_expr parse_args first_spec_type first_attr_args item) (\<lambda>r.
     case r of
       Compile_error err \<Rightarrow> Inr (Compile_error err)
     | Expanded (item_fn, specs) \<Rightarrow>
         (let item_fn = with_attrs item_fn
            (filter (\<lambda>attr. SpecType_try_from_attr attr = None) (fn_attrs item_fn)) in
          res_bind (generate_fn_with_spec item_fn specs) (\<lambda>fns. Inr (Expanded fns))))"

section \<open>Flags\<close>

text \<open>
  \<open>rewrite_flag\<close>: the attribute that it puts in front of the item. The macros defined by
  \<open>define_flags!\<close> are \<open>flag_macros\<close>.
\<close>

definition rewrite_flag :: "string \<Rightarrow> tokens \<Rightarrow> ItemFn \<Rightarrow> ItemFn" where
  "rewrite_flag flag_name args item =
     with_attrs item (Attribute [''clippy'', ''stainless'', flag_name]
       (if args = [] then [] else [''(''] @ args @ ['')'']) # fn_attrs item)"

definition flag_macros :: "string list" where
  "flag_macros = [''external'', ''pure'', ''mutable'', ''var'', ''law'']"

section \<open>Names\<close>

lemma SpecType_try_from_name [simp]:
  "SpecType_try_from_str (SpecType_name t) = Some t"
  "SpecType_try_from_string (SpecType_name t) = Some t"
  by (cases t; simp add: SpecType_name_def SpecType_try_from_str_def SpecType_try_from_string_def)+

lemma underscore_not_digit: "CHR ''_'' \<notin> set (dec n)"
  using dec_digits [of "CHR ''_''" n] by (auto simp: is_digit_def)

lemma underscore_not_in_name: "CHR ''_'' \<notin> set (SpecType_name t)"
  by (cases t) (simp_all add: SpecType_name_def)

lemma split_spec_ident:
  "split_char (CHR ''_'') (spec_ident t i n) =
     [] # [] # SpecType_name t # dec (i + 1) # split_char (CHR ''_'') n"
  by (simp add: spec_ident_def split_char_append underscore_not_in_name underscore_not_digit)

lemma spec_ident_inject: "spec_ident t i n = spec_ident t' i' n' \<longleftrightarrow> t = t' \<and> i = i' \<and> n = n'"
proof
  assume "spec_ident t i n = spec_ident t' i' n'"
  then have "SpecType_name t = SpecType_name t'" "dec (i + 1) = dec (i' + 1)"
    "split_char (CHR ''_'') n = split_char (CHR ''_'') n'"
    using split_spec_ident [of t i n] split_spec_ident [of t' i' n'] by simp_all
  then show "t = t' \<and> i = i' \<and> n = n'"
    by (metis SpecType_try_from_name(1) option.inject dec_inject join_split_char add_right_cancel)
qed simp

context numeric_strings
begin

lemma parse_spec_ident: "parse_spec_type_fn_name num (spec_ident t i n) = Some (t, n)"
  by (simp add: parse_spec_type_fn_name_def split_spec_ident num_dec join_split_char)

end

section \<open>Generated functions\<close>

lemma parse_param_tokens: "parse_params (param_tokens ins tr) = Some (ins, tr \<and> ins \<noteq> [])"
proof (induction ins tr rule: param_tokens.induct)
  case (3 a b as trailing)
  then show ?case
    by (cases as; cases trailing) auto
qed auto

lemma parse_param_tokens_ret:
  "parse_params (param_tokens ins tr @ [Comma, Param r]) =
    (if ins = [] \<or> tr then None else Some (ins @ [r], False))"
proof (induction ins tr rule: param_tokens.induct)
  case (3 a b as trailing)
  then show ?case
    by (cases as; cases trailing) auto
qed auto

text \<open>A postcondition needs a parameter to put \<open>ret\<close> after.\<close>

definition takes_ret :: "ItemFn \<Rightarrow> bool" where
  "takes_ret item_fn \<longleftrightarrow> fn_inputs item_fn \<noteq> [] \<and> \<not> fn_trailing_comma item_fn"

lemma make_spec_fn_Inr_iff:
  "(\<exists>f. make_spec_fn item_fn (i, s) = Inr f) \<longleftrightarrow> (spec_typ s = Post \<longrightarrow> takes_ret item_fn)"
  by (cases "spec_typ s")
    (auto simp: make_spec_fn_def parse_param_tokens parse_param_tokens_ret takes_ret_def Let_def)

lemma make_spec_fn_ident:
  "make_spec_fn item_fn (i, s) = Inr f \<Longrightarrow> fn_ident f = spec_ident (spec_typ s) i (fn_ident item_fn)"
  by (auto simp: make_spec_fn_def Let_def split: option.splits prod.splits)

lemma res_map_spec_fns_Inr_iff:
  "(\<exists>gen. res_map (make_spec_fn item_fn) (enumerate k specs) = Inr gen) \<longleftrightarrow>
     (\<forall>s \<in> set specs. spec_typ s = Post \<longrightarrow> takes_ret item_fn)"
proof (induction specs arbitrary: k)
  case (Cons s specs)
  from Cons [of "Suc k"] show ?case
    using make_spec_fn_Inr_iff [of item_fn k s] by (auto simp: res_bind_Inr_iff)
qed simp

lemma generate_Inr_iff:
  "(\<exists>fns. generate_fn_with_spec item_fn specs = Inr fns) \<longleftrightarrow>
     ((\<exists>s \<in> set specs. spec_typ s = Post) \<longrightarrow> takes_ret item_fn)"
proof -
  have "(\<exists>fns. generate_fn_with_spec item_fn specs = Inr fns) \<longleftrightarrow>
      (\<exists>gen. res_map (make_spec_fn item_fn) (enumerate 0 specs) = Inr gen)"
    by (auto simp: generate_fn_with_spec_def res_bind_Inr_iff)
  then show ?thesis
    unfolding res_map_spec_fns_Inr_iff by blast
qed

text \<open>The generated functions, in order, carry the kinds of the specs and the function's name.\<close>

lemma generated_idents:
  "res_map (make_spec_fn item_fn) (enumerate k specs) = Inr gen \<Longrightarrow>
    map fn_ident gen = map (\<lambda>(i, s). spec_ident (spec_typ s) i (fn_ident item_fn)) (enumerate k specs)"
  by (induction specs arbitrary: k gen) (auto simp: res_bind_Inr_iff make_spec_fn_ident)

lemma try_parse_Expanded:
  assumes "try_parse parse_expr parse_args t args item = Inr (Expanded (item', specs))"
  shows "item' = item" and "map spec_typ specs = t # List.map_filter SpecType_try_from_attr (fn_attrs item)"
proof -
  have "map fst (List.map_filter (\<lambda>attr. map_option (\<lambda>typ. (typ, g attr)) (SpecType_try_from_attr attr)) attrs) =
      List.map_filter SpecType_try_from_attr attrs" for g :: "Attribute \<Rightarrow> string + tokens" and attrs
    by (induction attrs) (auto simp: map_filter_simps split: option.splits)
  with assms show "item' = item"
    "map spec_typ specs = t # List.map_filter SpecType_try_from_attr (fn_attrs item)"
    by (auto simp: try_parse_def Let_def comp_def case_prod_beta split: sum.splits option.splits)
qed

lemma distinct_generated_idents:
  "res_map (make_spec_fn item_fn) (enumerate k specs) = Inr gen \<Longrightarrow> distinct (map fn_ident gen)"
  unfolding generated_idents by (simp add: distinct_conv_nth nth_enumerate_eq spec_ident_inject)

lemma expand_Expanded:
  assumes "extract_specs_and_expand parse_expr parse_args t args item = Inr (Expanded fns)"
  obtains specs where "try_parse parse_expr parse_args t args item = Inr (Expanded (item, specs))"
    and "generate_fn_with_spec (with_attrs item
        (filter (\<lambda>attr. SpecType_try_from_attr attr = None) (fn_attrs item))) specs = Inr fns"
proof -
  from assms obtain r where r: "try_parse parse_expr parse_args t args item = Inr r"
    by (auto simp: extract_specs_and_expand_def res_bind_Inr_iff)
  with assms obtain item' specs where ex: "r = Expanded (item', specs)"
    by (cases r) (auto simp: extract_specs_and_expand_def)
  with r ex have "item' = item" by (blast dest: try_parse_Expanded(1))
  with r ex assms that show thesis
    by (auto simp: extract_specs_and_expand_def res_bind_Inr_iff Let_def)
qed

section \<open>Properties\<close>

text \<open>
  C6: The name that the macros give to a spec function is read back by the extraction as
  the kind of the spec and the name of its function, whatever the index and even when the
  name contains underscores.
\<close>

theorem spec_name_round_trip:
  assumes "numeric_strings num"
  shows "parse_spec_type_fn_name num (spec_ident t i n) = Some (t, n)"
  using numeric_strings.parse_spec_ident [OF assms] .

lemma spec_name_round_trip_witness:
  "parse_spec_type_fn_name ascii_numeric (spec_ident Measure 1 ''dummy_for_specs_2'') =
    Some (Measure, ''dummy_for_specs_2'')"
  by (rule spec_name_round_trip) (rule ascii.numeric_strings_axioms)

text \<open>
  C7: A successful expansion keeps the function, without its spec attributes, and adds one
  spec function per spec: beside a method, inside the body of any other function. In
  order, their names parse to the kinds of the specs and to the name of the function, and
  no two of them have the same name.
\<close>

theorem expansion_names_the_specs:
  assumes "numeric_strings num"
    and "extract_specs_and_expand parse_expr parse_args t args item = Inr (Expanded fns)"
  shows "\<exists>gen. (let kept = with_attrs item
            (filter (\<lambda>attr. SpecType_try_from_attr attr = None) (fn_attrs item)) in
       fns = (if has_self_param item then gen @ [kept]
              else [with_stmts kept (map Item_Fn gen @ fn_stmts item)])) \<and>
     map (\<lambda>g. parse_spec_type_fn_name num (fn_ident g)) gen =
       map (\<lambda>typ. Some (typ, fn_ident item)) (t # List.map_filter SpecType_try_from_attr (fn_attrs item)) \<and>
     distinct (map fn_ident gen)"
proof -
  from assms(2) obtain specs where
    parsed: "try_parse parse_expr parse_args t args item = Inr (Expanded (item, specs))"
    and gen: "generate_fn_with_spec (with_attrs item
        (filter (\<lambda>attr. SpecType_try_from_attr attr = None) (fn_attrs item))) specs = Inr fns"
    by (rule expand_Expanded)
  define kept where "kept = with_attrs item
      (filter (\<lambda>attr. SpecType_try_from_attr attr = None) (fn_attrs item))"
  have kept: "fn_ident kept = fn_ident item" "has_self_param kept = has_self_param item"
    "fn_stmts kept = fn_stmts item"
    by (cases item; simp add: kept_def has_self_param_def)+
  from gen obtain g where g: "res_map (make_spec_fn kept) (enumerate 0 specs) = Inr g"
    and fns: "fns = (if has_self_param item then g @ [kept]
      else [with_stmts kept (map Item_Fn g @ fn_stmts item)])"
    by (auto simp: generate_fn_with_spec_def res_bind_Inr_iff kept simp flip: kept_def split: if_splits)
  have "map (\<lambda>g. parse_spec_type_fn_name num (fn_ident g)) g =
      map (parse_spec_type_fn_name num) (map fn_ident g)"
    by simp
  also have "\<dots> = map (\<lambda>s. Some (spec_typ s, fn_ident item)) specs"
    unfolding generated_idents [OF g]
    by (rule nth_equalityI) (simp_all add: nth_enumerate_eq kept numeric_strings.parse_spec_ident [OF assms(1)])
  also have "\<dots> = map (\<lambda>typ. Some (typ, fn_ident item)) (map spec_typ specs)"
    by simp
  finally show ?thesis
    using fns distinct_generated_idents [OF g] try_parse_Expanded(2) [OF parsed]
    by (intro exI [of _ g]) (simp add: Let_def flip: kept_def)
qed

definition sample_item :: ItemFn where
  "sample_item = ItemFn [Attribute [''post''] [''ret > x''], Attribute [''inline''] []] [] ''incr_by_one'' []
     [Typed [''x: i32'']] False (Some [''i32'']) [Stmt_Expr [''x + 1'']]"

lemma sample_expands:
  "\<exists>fns. extract_specs_and_expand Inr Inr Pre [''x < 9''] sample_item = Inr (Expanded fns)"
proof -
  let ?specs = "[\<lparr>spec_typ = Pre, spec_expr = [''x < 9'']\<rparr>, \<lparr>spec_typ = Post, spec_expr = [''ret > x'']\<rparr>]"
  have "try_parse Inr Inr Pre [''x < 9''] sample_item = Inr (Expanded (sample_item, ?specs))"
    by (simp add: try_parse_def sample_item_def map_filter_simps SpecType_try_from_attr_def
        SpecType_try_from_string_def)
  moreover have "\<exists>fns. generate_fn_with_spec (with_attrs sample_item attrs) ?specs = Inr fns" for attrs
    unfolding generate_Inr_iff by (simp add: takes_ret_def sample_item_def)
  ultimately show ?thesis
    by (auto simp: extract_specs_and_expand_def Let_def res_bind_Inr_iff)
qed

lemma expansion_names_the_specs_witness:
  "\<exists>fns gen. extract_specs_and_expand Inr Inr Pre [''x < 9''] sample_item = Inr (Expanded fns) \<and>
     fns = [with_stmts (with_attrs sample_item [Attribute [''inline''] []])
       (map Item_Fn gen @ fn_stmts sample_item)] \<and>
     map (\<lambda>g. parse_spec_type_fn_name ascii_numeric (fn_ident g)) gen =
       [Some (Pre, ''incr_by_one''), Some (Post, ''incr_by_one'')]"
proof -
  obtain fns where fns: "extract_specs_and_expand Inr Inr Pre [''x < 9''] sample_item = Inr (Expanded fns)"
    using sample_expands by blast
  have sample: "filter (\<lambda>attr. SpecType_try_from_attr attr = None) (fn_attrs sample_item) = [Attribute [''inline''] []]"
    "List.map_filter SpecType_try_from_attr (fn_attrs sample_item) = [Post]"
    "has_self_param sample_item = False" "fn_ident sample_item = ''incr_by_one''"
    by (simp_all add: sample_item_def map_filter_simps SpecType_try_from_attr_def
        SpecType_try_from_string_def has_self_param_def)
  show ?thesis
    using expansion_names_the_specs [OF ascii.numeric_strings_axioms fns] fns
    unfolding sample Let_def if_False list.map
    by (elim exE conjE) (intro exI conjI, assumption+)
qed


end
