(* ===== verification/Flags.thy ===== *)
theory Flags
  imports Spec_Macros Ast
begin

text \<open>
  Annotations, \<open>stainless_extraction/src/flags.rs\<close>: the flags that the extraction knows,
  their names, and the scan of the attributes of an item for \<open>clippy::stainless::<flag>\<close>,
  the form into which the flag macros rewrite \<open>#[external]\<close>, \<open>#[pure]\<close>, ... The set
  behind \<open>Flags\<close> is kept in the order of insertion; its iteration order is arbitrary.
\<close>

section \<open>Flags and their names\<close>

datatype XFlag = XExtern | XIsPure | XIsMutable | XIsVar | XLaw

instantiation XFlag :: linorder
begin

fun xflag_rank :: "XFlag \<Rightarrow> nat" where
  "xflag_rank XExtern = 0"
| "xflag_rank XIsPure = 1"
| "xflag_rank XIsMutable = 2"
| "xflag_rank XIsVar = 3"
| "xflag_rank XLaw = 4"

definition less_eq_XFlag :: "XFlag \<Rightarrow> XFlag \<Rightarrow> bool" where
  "less_eq_XFlag a b \<longleftrightarrow> xflag_rank a \<le> xflag_rank b"

definition less_XFlag :: "XFlag \<Rightarrow> XFlag \<Rightarrow> bool" where
  "less_XFlag a b \<longleftrightarrow> xflag_rank a < xflag_rank b"

instance
proof
  fix a b :: XFlag
  show "a \<le> b \<Longrightarrow> b \<le> a \<Longrightarrow> a = b"
    by (cases a; cases b) (simp_all add: less_eq_XFlag_def)
qed (auto simp: less_eq_XFlag_def less_XFlag_def)

end

text \<open>\<open>Flags\<close>: a hash set of flags.\<close>

type_synonym Flags = "XFlag list"

definition Flags_new :: Flags where
  "Flags_new = []"

definition Flags_add :: "XFlag \<Rightarrow> Flags \<Rightarrow> Flags" where
  "Flags_add flag fs = (if flag \<in> set fs then fs else fs @ [flag])"

definition to_stainless :: "Flags \<Rightarrow> Flag list" where
  "to_stainless fs = map (\<lambda>flag. case flag of
       XExtern \<Rightarrow> Extern | XIsPure \<Rightarrow> IsPure | XIsMutable \<Rightarrow> IsMutable | XIsVar \<Rightarrow> IsVar | XLaw \<Rightarrow> Law) fs"

definition flag_name :: "XFlag \<Rightarrow> string" where
  "flag_name flag = (case flag of
       XExtern \<Rightarrow> ''external'' | XIsPure \<Rightarrow> ''pure'' | XIsMutable \<Rightarrow> ''mutable'' | XIsVar \<Rightarrow> ''var''
     | XLaw \<Rightarrow> ''law'')"

definition FLAGS :: "XFlag list" where
  "FLAGS = [XExtern, XIsPure, XIsMutable, XIsVar, XLaw]"

definition FLAGS_BY_NAME :: "string \<rightharpoonup> XFlag" where
  "FLAGS_BY_NAME = foldl (\<lambda>flags flag. flags(flag_name flag \<mapsto> flag)) Map.empty FLAGS"

definition flag_from_name :: "string \<Rightarrow> XFlag option" where
  "flag_from_name name = FLAGS_BY_NAME name"

section \<open>Scanning the attributes of an item\<close>

text \<open>
  The tokens of a delimited argument list, as far as the scan tells them apart. \<open>fn\<close> is a
  keyword; integers name the fields of tuple structs.
\<close>

datatype token_tree = TComma | TIdent string | TIntLit string | TOther

datatype mac_args = ArgsEmpty | ArgsDelimited "token_tree list" | ArgsEq

datatype attr_kind = Normal "string list" mac_args | DocComment

type_synonym flag_map = "(string \<times> Flags) list"

fun add_by_symbol :: "XFlag \<Rightarrow> string \<Rightarrow> flag_map \<Rightarrow> flag_map" where
  "add_by_symbol flag symbol [] = [(symbol, Flags_add flag Flags_new)]"
| "add_by_symbol flag symbol ((k, fs) # m) =
     (if k = symbol then (k, Flags_add flag fs) # m else (k, fs) # add_by_symbol flag symbol m)"

text \<open>The arguments of one annotation; the third result says whether a warning ended the scan.\<close>

fun scan_tokens :: "XFlag \<Rightarrow> token_tree list \<Rightarrow> Flags \<times> flag_map \<Rightarrow> Flags \<times> flag_map \<times> bool" where
  "scan_tokens flag [] (c, m) = (c, m, False)"
| "scan_tokens flag (TComma # ts) (c, m) = scan_tokens flag ts (c, m)"
| "scan_tokens flag (TIdent symbol # ts) (c, m) =
     (if symbol = ''fn'' then scan_tokens flag ts (Flags_add flag c, m)
      else scan_tokens flag ts (c, add_by_symbol flag symbol m))"
| "scan_tokens flag (TIntLit symbol # ts) (c, m) = scan_tokens flag ts (c, add_by_symbol flag symbol m)"
| "scan_tokens flag (TOther # ts) (c, m) = (c, m, True)"

datatype flag_warning = Unsupported_target | Unknown_annotation string | Unknown_argument

fun scan_attr ::
  "attr_kind \<Rightarrow> Flags \<times> flag_map \<times> flag_warning list \<Rightarrow> Flags \<times> flag_map \<times> flag_warning list" where
  "scan_attr DocComment (c, m, ws) = (c, m, ws)"
| "scan_attr (Normal segments args) (c, m, ws) =
     (if length segments = 3 \<and> segments ! 1 = ''stainless'' then
        (let name = segments ! 2 in
         case flag_from_name name of
           None \<Rightarrow> (c, m, ws @ [Unknown_annotation name])
         | Some flag \<Rightarrow>
             (case args of
                ArgsEq \<Rightarrow> (c, m, ws @ [Unsupported_target])
              | ArgsEmpty \<Rightarrow> (Flags_add flag c, m, ws)
              | ArgsDelimited tokens \<Rightarrow>
                  (let (c', m', stopped) = scan_tokens flag tokens (c, m) in
                   (c', m', if stopped then ws @ [Unknown_argument] else ws))))
      else (c, m, ws))"

definition extract_flags :: "attr_kind list \<Rightarrow> Flags \<times> flag_map \<times> flag_warning list" where
  "extract_flags attrs = foldl (\<lambda>acc attr. scan_attr attr acc) (Flags_new, [], []) attrs"

definition report_unused_flags :: "flag_map \<Rightarrow> string option" where
  "report_unused_flags flags_by_symbol =
     (if flags_by_symbol \<noteq> [] then
        Some (''Stainless annotations for non-existent parameters: '' @ join '', '' (map fst flags_by_symbol))
      else None)"

section \<open>Lemmas\<close>

lemma flag_from_name_simp: "flag_from_name (flag_name flag) = Some flag"
  by (cases flag) (simp_all add: flag_from_name_def FLAGS_BY_NAME_def FLAGS_def flag_name_def)

lemma flag_from_name_Some: "flag_from_name name = Some flag \<longleftrightarrow> name = flag_name flag"
proof
  assume "flag_from_name name = Some flag"
  then show "name = flag_name flag"
    by (simp add: flag_from_name_def FLAGS_BY_NAME_def FLAGS_def split: if_splits)
qed (simp add: flag_from_name_simp)

lemma set_Flags_add [simp]: "set (Flags_add flag fs) = insert flag (set fs)"
  by (auto simp: Flags_add_def)

lemma distinct_Flags_add: "distinct fs \<Longrightarrow> distinct (Flags_add flag fs)"
  by (simp add: Flags_add_def)

fun symbol_flags :: "flag_map \<Rightarrow> string \<Rightarrow> XFlag set" where
  "symbol_flags [] s = {}"
| "symbol_flags ((k, fs) # m) s = (if k = s then set fs else symbol_flags m s)"

lemma symbol_flags_add [simp]:
  "symbol_flags (add_by_symbol flag symbol m) s =
     (if s = symbol then insert flag (symbol_flags m s) else symbol_flags m s)"
  by (induction m) (auto simp: Flags_new_def split: if_splits)

text \<open>The arguments before the first one that is not understood.\<close>

abbreviation read_args :: "token_tree list \<Rightarrow> token_tree set" where
  "read_args ts \<equiv> set (takeWhile (\<lambda>t. t \<noteq> TOther) ts)"

lemma scan_tokens_flags:
  "scan_tokens flag ts (c, m) = (c', m', stopped) \<Longrightarrow>
    set c' = set c \<union> {f. f = flag \<and> TIdent ''fn'' \<in> read_args ts} \<and>
    symbol_flags m' s = symbol_flags m s \<union>
      {f. f = flag \<and> (s \<noteq> ''fn'' \<and> TIdent s \<in> read_args ts \<or> TIntLit s \<in> read_args ts)}"
  by (induction flag ts "(c, m)" arbitrary: c m rule: scan_tokens.induct) (auto split: if_splits)

text \<open>Does an attribute annotate the item itself, or the parameter or field \<open>s\<close>, with a flag?\<close>

fun annotates_item :: "attr_kind \<Rightarrow> XFlag \<Rightarrow> bool" where
  "annotates_item DocComment flag \<longleftrightarrow> False"
| "annotates_item (Normal segments args) flag \<longleftrightarrow>
     length segments = 3 \<and> segments ! 1 = ''stainless'' \<and> segments ! 2 = flag_name flag \<and>
     (case args of ArgsEmpty \<Rightarrow> True | ArgsEq \<Rightarrow> False | ArgsDelimited ts \<Rightarrow> TIdent ''fn'' \<in> read_args ts)"

fun annotates_symbol :: "string \<Rightarrow> attr_kind \<Rightarrow> XFlag \<Rightarrow> bool" where
  "annotates_symbol s DocComment flag \<longleftrightarrow> False"
| "annotates_symbol s (Normal segments args) flag \<longleftrightarrow>
     length segments = 3 \<and> segments ! 1 = ''stainless'' \<and> segments ! 2 = flag_name flag \<and>
     (case args of ArgsDelimited ts \<Rightarrow>
        s \<noteq> ''fn'' \<and> TIdent s \<in> read_args ts \<or> TIntLit s \<in> read_args ts | _ \<Rightarrow> False)"

lemma scan_attr_flags:
  assumes "scan_attr attr (c, m, ws) = (c', m', ws')"
  shows "set c' = set c \<union> {f. annotates_item attr f}"
    and "symbol_flags m' s = symbol_flags m s \<union> {f. annotates_symbol s attr f}"
proof -
  have "set c' = set c \<union> {f. annotates_item attr f} \<and>
      symbol_flags m' s = symbol_flags m s \<union> {f. annotates_symbol s attr f}"
  proof (cases attr)
    case (Normal segments args)
    then show ?thesis
      using assms scan_tokens_flags [of _ _ c m, where s = s]
      by (auto simp: Let_def flag_from_name_Some split: if_splits option.splits mac_args.splits prod.splits)
        (metis flag_from_name_Some flag_from_name_simp option.distinct(1) option.inject)+
  qed (use assms in auto)
  then show "set c' = set c \<union> {f. annotates_item attr f}"
    "symbol_flags m' s = symbol_flags m s \<union> {f. annotates_symbol s attr f}" by simp_all
qed

lemma foldl_scan_attr:
  assumes "foldl (\<lambda>acc attr. scan_attr attr acc) (c, m, ws) attrs = (c', m', ws')"
  shows "set c' = set c \<union> (\<Union>attr \<in> set attrs. {f. annotates_item attr f}) \<and>
    symbol_flags m' s = symbol_flags m s \<union> (\<Union>attr \<in> set attrs. {f. annotates_symbol s attr f})"
  using assms
proof (induction attrs arbitrary: c m ws)
  case (Cons attr attrs)
  obtain c1 m1 ws1 where step: "scan_attr attr (c, m, ws) = (c1, m1, ws1)"
    by (cases "scan_attr attr (c, m, ws)") auto
  with Cons.prems have "foldl (\<lambda>acc attr. scan_attr attr acc) (c1, m1, ws1) attrs = (c', m', ws')"
    by simp
  from Cons.IH [OF this] scan_attr_flags [OF step] show ?case
    by auto
qed simp

section \<open>Properties\<close>

text \<open>
  C12: What the annotations of an item mean: a flag is set on the item itself exactly if
  some annotation with this flag has no argument list or lists \<open>fn\<close>, and on a parameter or
  field exactly if some annotation with this flag lists its name or number, in both cases
  before any argument that is not understood. The order of the attributes is irrelevant.
\<close>

theorem extracted_flags_are_the_annotated:
  assumes "extract_flags attrs = (carrier_flags, flags_by_symbol, warnings)"
  shows "set carrier_flags = {flag. \<exists>attr \<in> set attrs. annotates_item attr flag} \<and>
    symbol_flags flags_by_symbol s = {flag. \<exists>attr \<in> set attrs. annotates_symbol s attr flag}"
  using foldl_scan_attr [OF assms [unfolded extract_flags_def], of s] by (auto simp: Flags_new_def)

lemma extracted_flags_are_the_annotated_witness:
  "symbol_flags [(''0'', [XIsVar])] ''0'' = {flag. \<exists>attr \<in> set
     [Normal [''clippy'', ''stainless'', ''pure''] ArgsEmpty,
      Normal [''clippy'', ''stainless'', ''var''] (ArgsDelimited [TIntLit ''0''])].
     annotates_symbol ''0'' attr flag}"
proof -
  have "extract_flags [Normal [''clippy'', ''stainless'', ''pure''] ArgsEmpty,
      Normal [''clippy'', ''stainless'', ''var''] (ArgsDelimited [TIntLit ''0''])] =
      ([XIsPure], [(''0'', [XIsVar])], [])"
    by (simp add: extract_flags_def flag_from_name_def FLAGS_BY_NAME_def FLAGS_def flag_name_def
        Flags_add_def Flags_new_def)
  from extracted_flags_are_the_annotated [OF this, of "''0''"] show ?thesis
    by (rule conjunct2)
qed



end
