(* ===== verification/Extraction_State.thy ===== *)
theory Extraction_State
  imports Symbols Strings
begin

text \<open>
  The state of the extraction, \<open>stainless_extraction/src/lib.rs\<close> and \<open>utils.rs\<close>: the
  counters behind fresh identifiers, the mapping from Rust ids to Stainless ids, and the
  collected definitions. An operation takes the state and returns its result with the
  updated state, or the panic of a failed assertion.

  \<open>*c += 1\<close> on an \<open>i32\<close> panics or wraps around at \<open>i32::MAX\<close>, depending on whether the
  crate is compiled with overflow checks: the flag \<open>oc\<close>. The path of a definition,
  \<open>TyCtxt::def_path_str\<close>, is the compiler's: the parameter \<open>path_str\<close>.
\<close>

section \<open>Sequencing\<close>

type_synonym ('s, 'a) step = "'s \<Rightarrow> fault + ('a \<times> 's)"

definition bind :: "('s, 'a) step \<Rightarrow> ('a \<Rightarrow> ('s, 'b) step) \<Rightarrow> ('s, 'b) step" where
  "bind m f = (\<lambda>s. res_bind (m s) (\<lambda>(a, s'). f a s'))"

definition ret :: "'a \<Rightarrow> ('s, 'a) step" where
  "ret a = (\<lambda>s. Inr (a, s))"

definition panic :: "string \<Rightarrow> ('s, 'a) step" where
  "panic msg = (\<lambda>s. Inl (Panic msg))"

lemma bind_Inr_iff: "bind m f s = Inr (b, t) \<longleftrightarrow> (\<exists>a s'. m s = Inr (a, s') \<and> f a s' = Inr (b, t))"
  by (auto simp: bind_def res_bind_Inr_iff)

lemma step_simps [simp]: "ret a s = Inr (a, s)" "panic msg s = Inl (Panic msg)"
  by (simp_all add: ret_def panic_def)

section \<open>Counters\<close>

text \<open>\<open>UniqueCounter<K>\<close>: the next value of each key, absent for 0.\<close>

type_synonym 'k UniqueCounter = "'k \<rightharpoonup> i32"

definition i32_add :: "bool \<Rightarrow> i32 \<Rightarrow> i32 \<Rightarrow> i32 res" where
  "i32_add oc a b =
     (if oc \<and> sint (a + b) \<noteq> sint a + sint b then Inl (Panic ''attempt to add with overflow'')
      else Inr (a + b))"

definition UniqueCounter_fresh :: "bool \<Rightarrow> 'k \<Rightarrow> ('k UniqueCounter, i32) step" where
  "UniqueCounter_fresh oc k next =
     (case next k of
        None \<Rightarrow> Inr (0, next(k \<mapsto> 1))
      | Some c \<Rightarrow> res_bind (i32_add oc c 1) (\<lambda>c'. Inr (c, next(k \<mapsto> c'))))"

section \<open>Ids of the compiler and the symbol mapping\<close>

record DefId =
  krate :: nat
  def_index :: nat

definition is_local :: "DefId \<Rightarrow> bool" where
  "is_local d \<longleftrightarrow> krate d = 0"

record HirId =
  hir_owner :: nat
  hir_local_id :: nat

definition owner_def_id :: "HirId \<Rightarrow> DefId" where
  "owner_def_id h = \<lparr>krate = 0, def_index = hir_owner h\<rparr>"

record SymbolMapping =
  global_id_counter :: "unit UniqueCounter"
  local_id_counter :: "string UniqueCounter"
  did_to_stid :: "DefId \<rightharpoonup> SymbolIdentifier"
  hid_to_stid :: "HirId \<rightharpoonup> SymbolIdentifier"

record Extraction =
  mapping :: SymbolMapping
  xt_adts :: "ADTSort Symbol_Map"
  function_refs :: "DefId set"
  xt_functions :: "FunDef Symbol_Map"

definition Extraction_new :: Extraction where
  "Extraction_new = \<lparr>mapping = \<lparr>global_id_counter = Map.empty, local_id_counter = Map.empty,
       did_to_stid = Map.empty, hid_to_stid = Map.empty\<rparr>,
     xt_adts = [], function_refs = {}, xt_functions = []\<rparr>"

section \<open>Fresh ids and registration\<close>

definition fresh_id :: "bool \<Rightarrow> string \<Rightarrow> string list \<Rightarrow> (Extraction, SymbolIdentifier) step" where
  "fresh_id oc name path xt =
     res_bind (UniqueCounter_fresh oc () (global_id_counter (mapping xt))) (\<lambda>(global_id, gc).
     res_bind (UniqueCounter_fresh oc name (local_id_counter (mapping xt))) (\<lambda>(local_id, lc).
     Inr (\<lparr>sym_id = \<lparr>ident_name = name, ident_globalId = global_id, ident_id = local_id\<rparr>,
           symbol_path = path\<rparr>,
          xt\<lparr>mapping := (mapping xt)\<lparr>global_id_counter := gc, local_id_counter := lc\<rparr>\<rparr>)))"

text \<open>\<open>BaseExtractor::fresh_id\<close>: the path is the name itself.\<close>

definition base_fresh_id :: "bool \<Rightarrow> string \<Rightarrow> (Extraction, SymbolIdentifier) step" where
  "base_fresh_id oc name = fresh_id oc name [name]"

definition symbol_path_from_def_id :: "(DefId \<Rightarrow> string) \<Rightarrow> DefId \<Rightarrow> string list" where
  "symbol_path_from_def_id path_str def_id = split_colons (path_str def_id)"

definition insert_did :: "DefId \<Rightarrow> SymbolIdentifier \<Rightarrow> (Extraction, SymbolIdentifier) step" where
  "insert_did def_id stid xt =
     (if did_to_stid (mapping xt) def_id = None
      then Inr (stid, xt\<lparr>mapping := (mapping xt)\<lparr>did_to_stid := (did_to_stid (mapping xt))(def_id \<mapsto> stid)\<rparr>\<rparr>)
      else Inl (Panic ''assertion failed: did_to_stid.insert(def_id, id).is_none()''))"

text \<open>Prepend an underscore to numerical-only identifiers for compatibility with Stainless.\<close>

definition compatible_name :: "(string \<Rightarrow> bool) \<Rightarrow> string list \<Rightarrow> string \<times> string list" where
  "compatible_name num path =
     (let name = last path in
      if num name then
        (let new_name = ''_'' @ name in (new_name, take (length path - 1) path @ [new_name]))
      else (name, path))"

definition register_def ::
  "(string \<Rightarrow> bool) \<Rightarrow> bool \<Rightarrow> (DefId \<Rightarrow> string) \<Rightarrow> DefId \<Rightarrow> (Extraction, SymbolIdentifier) step" where
  "register_def num oc path_str def_id =
     (let (name, path) = compatible_name num (symbol_path_from_def_id path_str def_id) in
      bind (fresh_id oc name path) (insert_did def_id))"

definition get_id_from_def :: "Extraction \<Rightarrow> DefId \<Rightarrow> SymbolIdentifier option" where
  "get_id_from_def xt def_id = did_to_stid (mapping xt) def_id"

definition get_or_register_def ::
  "(string \<Rightarrow> bool) \<Rightarrow> bool \<Rightarrow> (DefId \<Rightarrow> string) \<Rightarrow> DefId \<Rightarrow> (Extraction, SymbolIdentifier) step" where
  "get_or_register_def num oc path_str def_id xt =
     (case get_id_from_def xt def_id of
        Some stid \<Rightarrow> Inr (stid, xt)
      | None \<Rightarrow> register_def num oc path_str def_id xt)"

definition insert_hid :: "HirId \<Rightarrow> SymbolIdentifier \<Rightarrow> (Extraction, SymbolIdentifier) step" where
  "insert_hid hir_id stid xt =
     (if hid_to_stid (mapping xt) hir_id = None
      then Inr (stid, xt\<lparr>mapping := (mapping xt)\<lparr>hid_to_stid := (hid_to_stid (mapping xt))(hir_id \<mapsto> stid)\<rparr>\<rparr>)
      else Inl (Panic ''assertion failed: hid_to_stid.insert(hir_id, id).is_none()''))"

definition register_hir ::
  "bool \<Rightarrow> (DefId \<Rightarrow> string) \<Rightarrow> HirId \<Rightarrow> string \<Rightarrow> (Extraction, SymbolIdentifier) step" where
  "register_hir oc path_str hir_id name =
     bind (fresh_id oc name (symbol_path_from_def_id path_str (owner_def_id hir_id) @ [name]))
       (insert_hid hir_id)"

section \<open>ADTs and functions\<close>

definition add_adt :: "SymbolIdentifier \<Rightarrow> ADTSort \<Rightarrow> (Extraction, unit) step" where
  "add_adt stid adt xt =
     (if Map_get (xt_adts xt) stid = None then Inr ((), xt\<lparr>xt_adts := Map_insert stid adt (xt_adts xt)\<rparr>)
      else Inl (Panic ''assertion failed: xt.adts.insert(id, adt).is_none()''))"

definition add_function_ref :: "DefId \<Rightarrow> (Extraction, unit) step" where
  "add_function_ref def_id xt =
     (if def_id \<notin> function_refs xt then Inr ((), xt\<lparr>function_refs := insert def_id (function_refs xt)\<rparr>)
      else Inl (Panic ''assertion failed: xt.function_refs.insert(def_id)''))"

definition add_function :: "SymbolIdentifier \<Rightarrow> FunDef \<Rightarrow> (Extraction, unit) step" where
  "add_function stid fd xt =
     (if Map_get (xt_functions xt) stid = None then Inr ((), xt\<lparr>xt_functions := Map_insert stid fd (xt_functions xt)\<rparr>)
      else Inl (Panic ''assertion failed: xt.functions.insert(id, fd).is_none()''))"

definition into_result :: "Extraction \<Rightarrow> ADTSort list \<times> FunDef list" where
  "into_result xt = (map snd (xt_adts xt), map snd (xt_functions xt))"

text \<open>\<open>extract_fn_ref\<close> of \<open>krate.rs\<close>: a function is registered at its first reference.\<close>

definition extract_fn_ref ::
  "(string \<Rightarrow> bool) \<Rightarrow> bool \<Rightarrow> (DefId \<Rightarrow> string) \<Rightarrow> DefId \<Rightarrow> (Extraction, SymbolIdentifier) step" where
  "extract_fn_ref num oc path_str def_id xt =
     (case get_id_from_def xt def_id of
        Some fun_id \<Rightarrow> Inr (fun_id, xt)
      | None \<Rightarrow> bind (add_function_ref def_id) (\<lambda>_. register_def num oc path_str def_id) xt)"

section \<open>Runs of the extraction\<close>

text \<open>
  The extraction is a sequence of these operations. \<open>xstep s ids t\<close>: one operation leads
  from \<open>s\<close> to \<open>t\<close> and creates the ids \<open>ids\<close>.
\<close>

inductive xstep ::
  "(string \<Rightarrow> bool) \<Rightarrow> bool \<Rightarrow> (DefId \<Rightarrow> string) \<Rightarrow> Extraction \<Rightarrow> SymbolIdentifier list \<Rightarrow> Extraction \<Rightarrow> bool"
  for num oc path_str where
  fresh: "base_fresh_id oc name s = Inr (i, t) \<Longrightarrow> xstep num oc path_str s [i] t"
| reg_def: "register_def num oc path_str d s = Inr (i, t) \<Longrightarrow> xstep num oc path_str s [i] t"
| reg_hir: "register_hir oc path_str h name s = Inr (i, t) \<Longrightarrow> xstep num oc path_str s [i] t"
| known: "get_id_from_def s d = Some i \<Longrightarrow> get_or_register_def num oc path_str d s = Inr (i, t) \<Longrightarrow>
    xstep num oc path_str s [] t"
| unknown: "get_id_from_def s d = None \<Longrightarrow> get_or_register_def num oc path_str d s = Inr (i, t) \<Longrightarrow>
    xstep num oc path_str s [i] t"
| known_fn: "get_id_from_def s d = Some i \<Longrightarrow> extract_fn_ref num oc path_str d s = Inr (i, t) \<Longrightarrow>
    xstep num oc path_str s [] t"
| unknown_fn: "get_id_from_def s d = None \<Longrightarrow> extract_fn_ref num oc path_str d s = Inr (i, t) \<Longrightarrow>
    xstep num oc path_str s [i] t"
| adt: "add_adt i adt s = Inr ((), t) \<Longrightarrow> xstep num oc path_str s [] t"
| add_fn: "add_function i fd s = Inr ((), t) \<Longrightarrow> xstep num oc path_str s [] t"
| add_fn_ref: "add_function_ref d s = Inr ((), t) \<Longrightarrow> xstep num oc path_str s [] t"

inductive xrun ::
  "(string \<Rightarrow> bool) \<Rightarrow> bool \<Rightarrow> (DefId \<Rightarrow> string) \<Rightarrow> SymbolIdentifier list \<Rightarrow> Extraction \<Rightarrow> bool"
  for num oc path_str where
  start: "xrun num oc path_str [] Extraction_new"
| next_step: "xrun num oc path_str ids s \<Longrightarrow> xstep num oc path_str s new t \<Longrightarrow> xrun num oc path_str (ids @ new) t"

definition count :: "'k UniqueCounter \<Rightarrow> 'k \<Rightarrow> int" where
  "count next k = (case next k of None \<Rightarrow> 0 | Some c \<Rightarrow> sint c)"

lemma UniqueCounter_fresh_count:
  assumes "UniqueCounter_fresh True k m = Inr (v, m')"
  shows "sint v = count m k" and "count m' = (count m)(k := count m k + 1)"
  using assms
  by (auto simp: UniqueCounter_fresh_def count_def i32_add_def fun_eq_iff split: option.splits if_splits)

text \<open>The invariant: ids are numbered in the order of their creation, and so are the ids of one name.\<close>

definition numbered :: "SymbolIdentifier list \<Rightarrow> bool" where
  "numbered ids \<longleftrightarrow> map (\<lambda>i. sint (global_id i)) ids = map int [0..<length ids]"

definition named :: "string \<Rightarrow> SymbolIdentifier list \<Rightarrow> SymbolIdentifier list" where
  "named name ids = filter (\<lambda>i. ident_name (sym_id i) = name) ids"

definition counters_ok :: "SymbolIdentifier list \<Rightarrow> SymbolMapping \<Rightarrow> bool" where
  "counters_ok ids m \<longleftrightarrow>
     numbered ids \<and> count (global_id_counter m) () = int (length ids) \<and>
     (\<forall>name. map (\<lambda>i. sint (ident_id (sym_id i))) (named name ids) = map int [0..<length (named name ids)] \<and>
        count (local_id_counter m) name = int (length (named name ids)))"

definition mapping_ok :: "SymbolIdentifier list \<Rightarrow> SymbolMapping \<Rightarrow> bool" where
  "mapping_ok ids m \<longleftrightarrow>
     ran (did_to_stid m) \<union> ran (hid_to_stid m) \<subseteq> set ids \<and>
     inj_on (\<lambda>d. map_option global_id (did_to_stid m d)) (dom (did_to_stid m)) \<and>
     inj_on (\<lambda>h. map_option global_id (hid_to_stid m h)) (dom (hid_to_stid m)) \<and>
     global_id ` ran (did_to_stid m) \<inter> global_id ` ran (hid_to_stid m) = {}"

lemma fresh_id_Inr:
  assumes "fresh_id True name path s = Inr (i, t)" and "counters_ok ids (mapping s)"
  shows "counters_ok (ids @ [i]) (mapping t)" and "ident_name (sym_id i) = name"
    and "symbol_path i = path" and "sint (global_id i) = int (length ids)"
    and "t = s\<lparr>mapping := (mapping s)\<lparr>global_id_counter := global_id_counter (mapping t),
           local_id_counter := local_id_counter (mapping t)\<rparr>\<rparr>"
proof -
  from assms(1) obtain g gc l lc where
    g: "UniqueCounter_fresh True () (global_id_counter (mapping s)) = Inr (g, gc)"
    and l: "UniqueCounter_fresh True name (local_id_counter (mapping s)) = Inr (l, lc)"
    and i: "i = \<lparr>sym_id = \<lparr>ident_name = name, ident_globalId = g, ident_id = l\<rparr>, symbol_path = path\<rparr>"
    and t: "t = s\<lparr>mapping := (mapping s)\<lparr>global_id_counter := gc, local_id_counter := lc\<rparr>\<rparr>"
    by (auto simp: fresh_id_def res_bind_Inr_iff)
  note UniqueCounter_fresh_count [OF g] UniqueCounter_fresh_count [OF l]
  with assms(2) i t show "counters_ok (ids @ [i]) (mapping t)"
    "sint (global_id i) = int (length ids)"
    by (auto simp: counters_ok_def numbered_def named_def)
  from i t show "ident_name (sym_id i) = name" "symbol_path i = path"
    "t = s\<lparr>mapping := (mapping s)\<lparr>global_id_counter := global_id_counter (mapping t),
           local_id_counter := local_id_counter (mapping t)\<rparr>\<rparr>"
    by simp_all
qed

lemma numbered_new:
  assumes "numbered ids" and "sint (global_id i) = int (length ids)"
  shows "global_id i \<notin> global_id ` set ids"
proof
  assume "global_id i \<in> global_id ` set ids"
  then obtain k where "k < length ids" "global_id (ids ! k) = global_id i"
    by (metis imageE in_set_conv_nth)
  moreover have "map (\<lambda>i. sint (global_id i)) ids ! k = map int [0..<length ids] ! k"
    using assms(1) by (simp add: numbered_def)
  ultimately show False
    using assms(2) by simp
qed

lemma inj_on_new_value:
  assumes "inj_on (\<lambda>d. map_option f (m d)) (dom m)" and "m d = None" and "f i \<notin> f ` ran m"
  shows "inj_on (\<lambda>d'. map_option f ((m(d \<mapsto> i)) d')) (dom (m(d \<mapsto> i)))"
proof (rule inj_onI)
  have "f w \<noteq> f i" if "m z = Some w" for z w
    using assms(3) imageI [OF ranI [of m z w, OF that], of f] by metis
  then have new: "map_option f (m z) \<noteq> Some (f i)" for z
    by (cases "m z") auto
  fix x y
  assume "x \<in> dom (m(d \<mapsto> i))" "y \<in> dom (m(d \<mapsto> i))"
    and "map_option f ((m(d \<mapsto> i)) x) = map_option f ((m(d \<mapsto> i)) y)"
  then show "x = y"
    using inj_onD [OF assms(1), of x y] new [of x] new [of y]
    by (cases "x = d"; cases "y = d") auto
qed

lemma inj_on_map_optionD:
  "inj_on (\<lambda>d. map_option f (m d)) (dom m) \<Longrightarrow> m d = Some i \<Longrightarrow> m d' = Some j \<Longrightarrow> f i = f j \<Longrightarrow> d = d'"
  by (drule inj_onD [of _ _ d d']) auto

lemma map_ran_disjointD:
  "f ` ran m \<inter> f ` ran n = {} \<Longrightarrow> m d = Some i \<Longrightarrow> n h = Some j \<Longrightarrow> f i \<noteq> f j"
  using ranI [of m d i] ranI [of n h j] by auto

lemma mapping_ok_more: "mapping_ok ids m \<Longrightarrow> mapping_ok (ids @ new) m"
  by (auto simp: mapping_ok_def)

lemma mapping_ok_counters:
  "mapping_ok ids (m\<lparr>global_id_counter := gc, local_id_counter := lc\<rparr>) = mapping_ok ids m"
  by (simp add: mapping_ok_def)

lemma mapping_ok_insert_did:
  assumes "mapping_ok ids m" and "global_id i \<notin> global_id ` set ids" and "did_to_stid m d = None"
  shows "mapping_ok (ids @ [i]) (m\<lparr>did_to_stid := (did_to_stid m)(d \<mapsto> i)\<rparr>)"
proof -
  have "inj_on (\<lambda>x. map_option global_id (((did_to_stid m)(d \<mapsto> i)) x)) (dom ((did_to_stid m)(d \<mapsto> i)))"
    using assms by (intro inj_on_new_value) (auto simp: mapping_ok_def)
  then show ?thesis
    using assms by (auto simp: mapping_ok_def ran_map_upd simp del: fun_upd_apply)
qed

lemma mapping_ok_insert_hid:
  assumes "mapping_ok ids m" and "global_id i \<notin> global_id ` set ids" and "hid_to_stid m h = None"
  shows "mapping_ok (ids @ [i]) (m\<lparr>hid_to_stid := (hid_to_stid m)(h \<mapsto> i)\<rparr>)"
proof -
  have "inj_on (\<lambda>x. map_option global_id (((hid_to_stid m)(h \<mapsto> i)) x)) (dom ((hid_to_stid m)(h \<mapsto> i)))"
    using assms by (intro inj_on_new_value) (auto simp: mapping_ok_def)
  then show ?thesis
    using assms by (auto simp: mapping_ok_def ran_map_upd simp del: fun_upd_apply)
qed

text \<open>Every operation keeps the two invariants.\<close>

definition run_ok :: "SymbolIdentifier list \<Rightarrow> Extraction \<Rightarrow> bool" where
  "run_ok ids xt \<longleftrightarrow> counters_ok ids (mapping xt) \<and> mapping_ok ids (mapping xt)"

lemma run_ok_fresh:
  assumes "run_ok ids s" and "fresh_id True name path s = Inr (i, t)"
  shows "run_ok (ids @ [i]) t" and "global_id i \<notin> global_id ` set ids"
    and "did_to_stid (mapping t) = did_to_stid (mapping s)"
    and "hid_to_stid (mapping t) = hid_to_stid (mapping s)" and "mapping_ok ids (mapping t)"
proof -
  have ok: "counters_ok ids (mapping s)" "mapping_ok ids (mapping s)"
    using assms(1) by (simp_all add: run_ok_def)
  note fresh = fresh_id_Inr [OF assms(2) ok(1)]
  from fresh(5) obtain gc lc where
    m: "mapping t = (mapping s)\<lparr>global_id_counter := gc, local_id_counter := lc\<rparr>"
    by (metis Extraction.select_convs(1) Extraction.update_convs(1) Extraction.surjective)
  from m show "did_to_stid (mapping t) = did_to_stid (mapping s)"
    "hid_to_stid (mapping t) = hid_to_stid (mapping s)" by simp_all
  from m ok(2) show m_ok: "mapping_ok ids (mapping t)"
    by (simp add: mapping_ok_counters)
  with fresh(1) show "run_ok (ids @ [i]) t"
    by (simp add: run_ok_def mapping_ok_more)
  show "global_id i \<notin> global_id ` set ids"
    using fresh(4) ok(1) by (intro numbered_new) (simp_all add: counters_ok_def)
qed

lemma run_ok_insert_did:
  assumes "run_ok (ids @ [i]) s" and "mapping_ok ids (mapping s)" and "global_id i \<notin> global_id ` set ids"
    and "insert_did d i s = Inr (j, t)"
  shows "run_ok (ids @ [i]) t \<and> j = i"
  using assms mapping_ok_insert_did [of ids "mapping s" i d]
  by (auto simp: insert_did_def run_ok_def counters_ok_def split: if_splits)

lemma run_ok_insert_hid:
  assumes "run_ok (ids @ [i]) s" and "mapping_ok ids (mapping s)" and "global_id i \<notin> global_id ` set ids"
    and "insert_hid h i s = Inr (j, t)"
  shows "run_ok (ids @ [i]) t \<and> j = i"
  using assms mapping_ok_insert_hid [of ids "mapping s" i h]
  by (auto simp: insert_hid_def run_ok_def counters_ok_def split: if_splits)

lemma run_ok_register_def:
  assumes "run_ok ids s" and "register_def num True path_str d s = Inr (i, t)"
  shows "run_ok (ids @ [i]) t"
proof -
  from assms(2) obtain name path j u where f: "fresh_id True name path s = Inr (j, u)"
    and ins: "insert_did d j u = Inr (i, t)"
    by (auto simp: register_def_def bind_Inr_iff split: prod.splits)
  note fresh = run_ok_fresh [OF assms(1) f]
  from run_ok_insert_did [OF fresh(1,5,2) ins] show ?thesis by simp
qed

lemma run_ok_register_hir:
  assumes "run_ok ids s" and "register_hir True path_str h name s = Inr (i, t)"
  shows "run_ok (ids @ [i]) t"
proof -
  from assms(2) obtain name path j u where f: "fresh_id True name path s = Inr (j, u)"
    and ins: "insert_hid h j u = Inr (i, t)"
    by (auto simp: register_hir_def bind_Inr_iff)
  note fresh = run_ok_fresh [OF assms(1) f]
  from run_ok_insert_hid [OF fresh(1,5,2) ins] show ?thesis by simp
qed

lemma run_ok_collect:
  "add_adt k adt s = Inr ((), t) \<Longrightarrow> run_ok ids t = run_ok ids s"
  "add_function k fd s = Inr ((), t) \<Longrightarrow> run_ok ids t = run_ok ids s"
  "add_function_ref d s = Inr ((), t) \<Longrightarrow> run_ok ids t = run_ok ids s"
  by (auto simp: add_adt_def add_function_def add_function_ref_def run_ok_def split: if_splits)

lemma run_ok_xstep: "xstep num True path_str s new t \<Longrightarrow> run_ok ids s \<Longrightarrow> run_ok (ids @ new) t"
proof (induction rule: xstep.induct)
  case (fresh name s i t)
  then show ?case
    by (auto simp: base_fresh_id_def intro: run_ok_fresh)
next
  case (unknown_fn s d i t)
  then obtain u where "add_function_ref d s = Inr ((), u)" "register_def num True path_str d u = Inr (i, t)"
    by (auto simp: extract_fn_ref_def bind_Inr_iff)
  with unknown_fn show ?case
    using run_ok_collect(3) run_ok_register_def by metis
qed (auto simp: get_or_register_def_def extract_fn_ref_def run_ok_collect
    intro: run_ok_register_def run_ok_register_hir)

lemma run_ok_xrun: "xrun num True path_str ids s \<Longrightarrow> run_ok ids s"
proof (induction rule: xrun.induct)
  case start
  then show ?case
    by (simp add: run_ok_def counters_ok_def numbered_def named_def mapping_ok_def Extraction_new_def count_def)
qed (rule run_ok_xstep)

lemma numbered_distinct:
  assumes "numbered ids"
  shows "distinct (map global_id ids)"
proof -
  have "distinct (map int [0..<length ids])"
    by (simp add: distinct_map)
  with assms have "distinct (map sint (map global_id ids))"
    by (simp add: numbered_def comp_def)
  then show ?thesis
    by (simp only: distinct_map)
qed

section \<open>Properties\<close>

text \<open>
  C9: However the operations of the extraction are interleaved, the ids that they create
  are numbered 0, 1, 2, ... in the order of creation and the ids of one name are numbered
  0, 1, 2, ... among themselves. So no two ids share a global id, and no two share their
  name and local id. (With overflow checks; the counter panics after 2^31 - 1 ids.)
\<close>

theorem created_ids_are_unique:
  assumes "xrun num True path_str ids s"
  shows "map (\<lambda>i. sint (global_id i)) ids = map int [0..<length ids] \<and>
     map (\<lambda>i. sint (ident_id (sym_id i))) (filter (\<lambda>i. ident_name (sym_id i) = name) ids) =
       map int [0..<length (filter (\<lambda>i. ident_name (sym_id i) = name) ids)] \<and>
     distinct (map global_id ids)"
  using run_ok_xrun [OF assms]
  by (auto simp: run_ok_def counters_ok_def named_def numbered_def [symmetric] intro: numbered_distinct)

definition sample_x :: "i32 \<Rightarrow> SymbolIdentifier" where
  "sample_x n = \<lparr>sym_id = \<lparr>ident_name = ''x'', ident_globalId = n, ident_id = n\<rparr>, symbol_path = [''x'']\<rparr>"

lemma sample_run: "\<exists>s. xrun num True path_str [sample_x 0, sample_x 1] s"
proof -
  obtain t where t: "base_fresh_id True ''x'' Extraction_new = Inr (sample_x 0, t)"
    and ct: "global_id_counter (mapping t) = Map.empty(() \<mapsto> 1)"
    "local_id_counter (mapping t) = Map.empty(''x'' \<mapsto> 1)"
    by (simp add: base_fresh_id_def fresh_id_def UniqueCounter_fresh_def Extraction_new_def sample_x_def)
  have "\<exists>u. base_fresh_id True ''x'' t = Inr (sample_x 1, u)"
    by (simp add: base_fresh_id_def fresh_id_def UniqueCounter_fresh_def ct i32_add_def sample_x_def)
  then obtain u where u: "base_fresh_id True ''x'' t = Inr (sample_x 1, u)" ..
  have "xrun num True path_str ([] @ [sample_x 0]) t"
    by (rule xrun.next_step [OF xrun.start xstep.fresh [OF t]])
  then have "xrun num True path_str (([] @ [sample_x 0]) @ [sample_x 1]) u"
    by (rule xrun.next_step [OF _ xstep.fresh [OF u]])
  then show ?thesis by auto
qed

lemma created_ids_are_unique_witness:
  "map (\<lambda>i. sint (ident_id (sym_id i))) [sample_x 0, sample_x 1] = [0, 1]"
proof -
  obtain s where "xrun ascii_numeric True (\<lambda>_. ''m::f'') [sample_x 0, sample_x 1] s"
    using sample_run by blast
  from created_ids_are_unique [OF this, of "''x''"] show ?thesis
    by (simp add: sample_x_def)
qed

text \<open>
  C10: In every reachable state, two definitions or bindings of the program that have been
  registered are given equal identifiers only if they are the same; the identifier of a
  definition never equals the one of a local binding.
\<close>

theorem registered_ids_distinguish:
  assumes "xrun num True path_str ids s"
  shows "(did_to_stid (mapping s) d = Some i \<and> did_to_stid (mapping s) d' = Some j \<and>
       SymbolIdentifier_eq i j \<longrightarrow> d = d') \<and>
     (hid_to_stid (mapping s) h = Some i \<and> hid_to_stid (mapping s) h' = Some j \<and>
       SymbolIdentifier_eq i j \<longrightarrow> h = h') \<and>
     \<not> (did_to_stid (mapping s) d = Some i \<and> hid_to_stid (mapping s) h = Some j \<and>
       SymbolIdentifier_eq i j)"
proof -
  have ok: "mapping_ok ids (mapping s)"
    using run_ok_xrun [OF assms] by (simp add: run_ok_def)
  then have "inj_on (\<lambda>d. map_option global_id (did_to_stid (mapping s) d)) (dom (did_to_stid (mapping s)))"
    "inj_on (\<lambda>h. map_option global_id (hid_to_stid (mapping s) h)) (dom (hid_to_stid (mapping s)))"
    "global_id ` ran (did_to_stid (mapping s)) \<inter> global_id ` ran (hid_to_stid (mapping s)) = {}"
    by (simp_all add: mapping_ok_def)
  then show ?thesis
    unfolding SymbolIdentifier_eq_def
    by (blast intro: inj_on_map_optionD dest: map_ran_disjointD)
qed

lemma sample_registered:
  "\<exists>s i. xrun num True (\<lambda>_. ''m::f'') [i] s \<and>
     did_to_stid (mapping s) \<lparr>krate = 0, def_index = 4\<rparr> = Some i"
proof -
  let ?d = "\<lparr>krate = 0, def_index = 4\<rparr>"
  have "\<exists>i t. register_def num True (\<lambda>_. ''m::f'') ?d Extraction_new = Inr (i, t) \<and>
      did_to_stid (mapping t) ?d = Some i"
    by (simp add: register_def_def compatible_name_def bind_def fresh_id_def UniqueCounter_fresh_def
        Extraction_new_def insert_did_def symbol_path_from_def_id_def Let_def)
  then obtain i t where *: "register_def num True (\<lambda>_. ''m::f'') ?d Extraction_new = Inr (i, t)"
    "did_to_stid (mapping t) ?d = Some i" by blast
  have "xrun num True (\<lambda>_. ''m::f'') ([] @ [i]) t"
    by (rule xrun.next_step [OF xrun.start xstep.reg_def [OF *(1)]])
  with * show ?thesis by auto
qed

lemma registered_ids_distinguish_witness:
  "\<exists>(s :: Extraction) i. did_to_stid (mapping s) \<lparr>krate = 0, def_index = 4\<rparr> = Some i \<and>
     (\<forall>d'. did_to_stid (mapping s) d' = Some i \<longrightarrow> \<lparr>krate = 0, def_index = 4\<rparr> = d')"
proof -
  obtain s i where run: "xrun ascii_numeric True (\<lambda>_. ''m::f'') [i] s"
    and i: "did_to_stid (mapping s) \<lparr>krate = 0, def_index = 4\<rparr> = Some i"
    using sample_registered by blast
  have "\<lparr>krate = 0, def_index = 4\<rparr> = d'" if "did_to_stid (mapping s) d' = Some i" for d'
    using conjunct1 [OF registered_ids_distinguish [OF run, of "\<lparr>krate = 0, def_index = 4\<rparr>" i d' i]] i that
    by (simp add: SymbolIdentifier_eq_def)
  with i show ?thesis by blast
qed

lemma butlast_split: "take (length xs - Suc 0) xs = butlast xs"
  by (simp add: butlast_conv_take)

text \<open>
  A registered definition is found under its id; the id's path is the definition's
  path, except that a last segment made only of numeric characters gets an underscore in
  front; the last segment is the id's name, and it is never numeric.
\<close>

lemma register_def_names:
  assumes "numeric_strings num" and "register_def num oc path_str d s = Inr (i, t)"
  shows "get_id_from_def s d = None \<and> get_id_from_def t d = Some i \<and>
     \<not> num (ident_name (sym_id i)) \<and>
     (\<exists>front seg. join ''::'' (front @ [seg]) = path_str d \<and>
        ident_name (sym_id i) = (if num seg then ''_'' @ seg else seg) \<and>
        symbol_path i = front @ [ident_name (sym_id i)])"
proof -
  let ?p = "split_colons (path_str d)"
  from assms(2) obtain j u where
    f: "fresh_id oc (fst (compatible_name num ?p)) (snd (compatible_name num ?p)) s = Inr (j, u)"
    and ins: "insert_did d j u = Inr (i, t)"
    by (auto simp: register_def_def symbol_path_from_def_id_def bind_Inr_iff split: prod.splits)
  from f have "did_to_stid (mapping u) = did_to_stid (mapping s)"
    and j: "ident_name (sym_id j) = fst (compatible_name num ?p)" "symbol_path j = snd (compatible_name num ?p)"
    by (auto simp: fresh_id_def res_bind_Inr_iff)
  with ins have ids: "get_id_from_def s d = None" "get_id_from_def t d = Some i" and "i = j"
    by (auto simp: insert_did_def get_id_from_def_def split: if_splits)
  have "join ''::'' (butlast ?p @ [last ?p]) = path_str d"
    by (simp add: join_split_colons)
  moreover have "\<not> num (''_'' @ seg)" for seg
    by (rule numeric_strings.num_underscore [OF assms(1)]) simp
  ultimately show ?thesis
    using ids j \<open>i = j\<close>
    by (auto simp: compatible_name_def Let_def butlast_split intro!: exI [of _ "butlast ?p"] exI [of _ "last ?p"])
qed

lemma register_def_names_witness:
  "\<exists>i t. register_def ascii_numeric False (\<lambda>_. ''core::pair::0'') \<lparr>krate = 1, def_index = 2\<rparr> Extraction_new =
     Inr (i, t) \<and> ident_name (sym_id i) = ''_0'' \<and> get_id_from_def t \<lparr>krate = 1, def_index = 2\<rparr> = Some i"
proof -
  have "\<exists>i t. register_def ascii_numeric False (\<lambda>_. ''core::pair::0'') \<lparr>krate = 1, def_index = 2\<rparr>
      Extraction_new = Inr (i, t) \<and> ident_name (sym_id i) = ''_0''"
    by (simp add: register_def_def compatible_name_def bind_def fresh_id_def UniqueCounter_fresh_def
        Extraction_new_def insert_did_def symbol_path_from_def_id_def Let_def ascii_numeric_def is_digit_def)
  then obtain i t where r: "register_def ascii_numeric False (\<lambda>_. ''core::pair::0'')
      \<lparr>krate = 1, def_index = 2\<rparr> Extraction_new = Inr (i, t)" "ident_name (sym_id i) = ''_0''"
    by blast
  from register_def_names [OF ascii.numeric_strings_axioms r(1)] r show ?thesis
    by blast
qed

end
