(* ===== verification/Std_Items.thy ===== *)
theory Std_Items
  imports Extraction_State "HOL-Library.AList"
begin

text \<open>
  Standard items, \<open>stainless_extraction/src/std_items.rs\<close>: the items of the Rust standard
  library and of the \<open>stainless\<close> crate that the extraction treats specially, and how their
  definitions are found. The compiler's tables are the parameter \<open>crate_store\<close>; looking up
  a definition beyond the end of a crate's table panics there.
\<close>

section \<open>Items\<close>

datatype StdItem =
    FnTrait | FnMutTrait | FnOnceTrait | SizedTrait | BeginPanicFn | BeginPanicFmtFn
  | SetType_item | SetAddFn | SetDifferenceFn | SetIntersectionFn | SetUnionFn | SubsetOfFn
  | SetEmptyFn | SetSingletonFn

datatype LangItem =
    FnTraitLangItem | FnMutTraitLangItem | FnOnceTraitLangItem | SizedTraitLangItem
  | BeginPanicFnLangItem | OtherLangItem

definition RUST_LANG_ITEMS :: "StdItem list" where
  "RUST_LANG_ITEMS = [FnTrait, FnMutTrait, FnOnceTrait, SizedTrait, BeginPanicFn]"

definition STAINLESS_ITEMS :: "StdItem list" where
  "STAINLESS_ITEMS = [SetType_item, SetAddFn, SetDifferenceFn, SetIntersectionFn, SetUnionFn,
     SubsetOfFn, SetEmptyFn, SetSingletonFn]"

definition NUM_STD_ITEMS :: nat where
  "NUM_STD_ITEMS = 14"

fun item_index :: "StdItem \<Rightarrow> nat" where
  "item_index FnTrait = 0"
| "item_index FnMutTrait = 1"
| "item_index FnOnceTrait = 2"
| "item_index SizedTrait = 3"
| "item_index BeginPanicFn = 4"
| "item_index BeginPanicFmtFn = 5"
| "item_index SetType_item = 6"
| "item_index SetAddFn = 7"
| "item_index SetDifferenceFn = 8"
| "item_index SetIntersectionFn = 9"
| "item_index SetUnionFn = 10"
| "item_index SubsetOfFn = 11"
| "item_index SetEmptyFn = 12"
| "item_index SetSingletonFn = NUM_STD_ITEMS - 1"

fun item_name :: "StdItem \<Rightarrow> string" where
  "item_name FnTrait = ''Fn''"
| "item_name FnMutTrait = ''FnMut''"
| "item_name FnOnceTrait = ''FnOnce''"
| "item_name SizedTrait = ''Sized''"
| "item_name BeginPanicFn = ''begin_panic''"
| "item_name BeginPanicFmtFn = ''begin_panic_fmt''"
| "item_name SetType_item = ''Set''"
| "item_name SetAddFn = ''add''"
| "item_name SetDifferenceFn = ''difference''"
| "item_name SetIntersectionFn = ''intersection''"
| "item_name SetUnionFn = ''union''"
| "item_name SubsetOfFn = ''is_subset_of''"
| "item_name SetEmptyFn = ''empty''"
| "item_name SetSingletonFn = ''singleton''"

fun lang_item :: "StdItem \<Rightarrow> LangItem option" where
  "lang_item FnTrait = Some FnTraitLangItem"
| "lang_item FnMutTrait = Some FnMutTraitLangItem"
| "lang_item FnOnceTrait = Some FnOnceTraitLangItem"
| "lang_item SizedTrait = Some SizedTraitLangItem"
| "lang_item BeginPanicFn = Some BeginPanicFnLangItem"
| "lang_item _ = None"

fun StdItem_from :: "LangItem \<Rightarrow> StdItem res" where
  "StdItem_from FnTraitLangItem = Inr FnTrait"
| "StdItem_from FnMutTraitLangItem = Inr FnMutTrait"
| "StdItem_from FnOnceTraitLangItem = Inr FnOnceTrait"
| "StdItem_from SizedTraitLangItem = Inr SizedTrait"
| "StdItem_from BeginPanicFnLangItem = Inr BeginPanicFn"
| "StdItem_from OtherLangItem = Inl (Panic ''not implemented'')"

section \<open>Finding the definitions\<close>

text \<open>
  What the compiler knows of the crates: their numbers and names, for each crate the number
  of its definitions, for each definition the last segment of its path (none for the crate
  itself), and the definitions of the language items.
\<close>

record crate_store =
  crates :: "nat list"
  crate_name :: "nat \<Rightarrow> string"
  num_defs :: "nat \<Rightarrow> nat"
  def_name :: "DefId \<Rightarrow> string option"
  require_lang_item :: "LangItem \<Rightarrow> DefId"

record StdItems =
  item_defs :: "DefId list"
  def_items :: "DefId \<rightharpoonup> StdItem"

definition make_def_id :: "nat \<Rightarrow> nat \<Rightarrow> DefId" where
  "make_def_id cnum index = \<lparr>krate = cnum, def_index = index\<rparr>"

definition item_to_def :: "StdItems \<Rightarrow> StdItem \<Rightarrow> DefId" where
  "item_to_def this item = item_defs this ! item_index item"

definition def_to_item_opt :: "StdItems \<Rightarrow> DefId \<Rightarrow> StdItem option" where
  "def_to_item_opt this def_id = def_items this def_id"

definition is_one_of :: "StdItems \<Rightarrow> DefId \<Rightarrow> StdItem list \<Rightarrow> bool" where
  "is_one_of this def_id items \<longleftrightarrow> list_ex (\<lambda>item. item_to_def this item = def_id) items"

definition register_item :: "StdItem \<Rightarrow> DefId \<Rightarrow> StdItems \<Rightarrow> StdItems" where
  "register_item item def_id this =
     \<lparr>item_defs = (item_defs this)[item_index item := def_id], def_items = (def_items this)(def_id \<mapsto> item)\<rparr>"

fun register_items_from_lang_items :: "crate_store \<Rightarrow> StdItem list \<Rightarrow> StdItems \<Rightarrow> StdItems res" where
  "register_items_from_lang_items tcx [] this = Inr this"
| "register_items_from_lang_items tcx (item # items) this =
     (case lang_item item of
        None \<Rightarrow> Inl (Panic ''called `Option::unwrap()` on a `None` value'')
      | Some li \<Rightarrow>
          register_items_from_lang_items tcx items (register_item item (require_lang_item tcx li) this))"

text \<open>The loop over the indices of a crate, until every item of the map has been found.\<close>

function scan_crate ::
  "crate_store \<Rightarrow> nat \<Rightarrow> (string \<times> StdItem) list \<Rightarrow> nat \<Rightarrow> StdItems \<Rightarrow> StdItems res" where
  "scan_crate tcx cnum items index this =
     (if items = [] then Inr this
      else if num_defs tcx cnum \<le> index then Inl (Panic ''index out of bounds'')
      else
        (let def_id = make_def_id cnum index in
         case def_name tcx def_id of
           None \<Rightarrow> scan_crate tcx cnum items (Suc index) this
         | Some name_sym \<Rightarrow>
             (case map_of items name_sym of
                None \<Rightarrow> scan_crate tcx cnum items (Suc index) this
              | Some item \<Rightarrow>
                  scan_crate tcx cnum (AList.delete name_sym items) (Suc index)
                    (register_item item def_id this))))"
  by pat_completeness auto
termination
  by (relation "measure (\<lambda>(tcx, cnum, _, index, _). num_defs tcx cnum - index)") auto

definition items_by_name :: "StdItem list \<Rightarrow> (string \<times> StdItem) list" where
  "items_by_name items = foldl (\<lambda>m item. AList.update (item_name item) item m) [] items"

definition register_items_from_crate :: "crate_store \<Rightarrow> StdItem list \<Rightarrow> nat \<Rightarrow> StdItems \<Rightarrow> StdItems res" where
  "register_items_from_crate tcx items cnum this = scan_crate tcx cnum (items_by_name items) 0 this"

definition stainless_missing :: string where
  "stainless_missing = ''Couldn't find stainless library. Make sure it is included using '' @
     [CHR 0x27] @ ''extern crate stainless;'' @ [CHR 0x27]"

definition StdItems_collect :: "crate_store \<Rightarrow> StdItems res" where
  "StdItems_collect tcx =
     (let this = \<lparr>item_defs = replicate NUM_STD_ITEMS (make_def_id 0 0), def_items = Map.empty\<rparr> in
      res_bind (register_items_from_lang_items tcx RUST_LANG_ITEMS this) (\<lambda>this.
      let std_crate_num = krate (item_to_def this BeginPanicFn) in
      res_bind (register_items_from_crate tcx [BeginPanicFmtFn] std_crate_num this) (\<lambda>this.
      case find (\<lambda>cnum. crate_name tcx cnum = ''stainless'') (crates tcx) of
        None \<Rightarrow> Inl (Panic stainless_missing)
      | Some stainless_crate_num \<Rightarrow>
          register_items_from_crate tcx STAINLESS_ITEMS stainless_crate_num this)))"

declare scan_crate.simps [simp del]

section \<open>Where the items are found\<close>

text \<open>The first definition of a crate with a name, from an index on.\<close>

definition first_from :: "crate_store \<Rightarrow> nat \<Rightarrow> nat \<Rightarrow> string \<Rightarrow> nat option" where
  "first_from tcx cnum index name =
     find (\<lambda>i. def_name tcx (make_def_id cnum i) = Some name) [index..<num_defs tcx cnum]"

lemma first_from_step:
  "first_from tcx cnum index name =
     (if num_defs tcx cnum \<le> index then None
      else if def_name tcx (make_def_id cnum index) = Some name then Some index
      else first_from tcx cnum (Suc index) name)"
  by (simp add: first_from_def upt_rec)

lemma first_from_Some:
  "first_from tcx cnum index name = Some i \<Longrightarrow>
    index \<le> i \<and> i < num_defs tcx cnum \<and> def_name tcx (make_def_id cnum i) = Some name"
  by (auto simp: first_from_def find_Some_iff)

lemma first_from_Suc_self [simp]: "first_from tcx cnum (Suc index) name \<noteq> Some index"
  using first_from_Some [of tcx cnum "Suc index" name index] by auto

definition found_items ::
  "crate_store \<Rightarrow> nat \<Rightarrow> (string \<times> StdItem) list \<Rightarrow> nat \<Rightarrow> DefId \<rightharpoonup> StdItem" where
  "found_items tcx cnum items index d =
     (if krate d = cnum then
        (case def_name tcx d of
           None \<Rightarrow> None
         | Some n \<Rightarrow> if first_from tcx cnum index n = Some (def_index d) then map_of items n else None)
      else None)"

lemma item_index_less: "item_index item < NUM_STD_ITEMS"
  by (cases item) (simp_all add: NUM_STD_ITEMS_def)

lemma item_index_inject [simp]: "item_index a = item_index b \<longleftrightarrow> a = b"
  by (cases a; cases b) (simp_all add: NUM_STD_ITEMS_def)

lemma item_name_inject [simp]: "item_name a = item_name b \<longleftrightarrow> a = b"
  by (cases a; cases b) simp_all

lemma make_def_id_simps [simp]:
  "krate (make_def_id c i) = c" "def_index (make_def_id c i) = i"
  "make_def_id c i = make_def_id c' i' \<longleftrightarrow> c = c' \<and> i = i'"
  by (simp_all add: make_def_id_def)

lemma make_def_id_collapse: "make_def_id (krate d) (def_index d) = d"
  by (simp add: make_def_id_def)

text \<open>The map under construction: every item under its own name.\<close>

definition by_name :: "(string \<times> StdItem) list \<Rightarrow> bool" where
  "by_name items \<longleftrightarrow> distinct (map fst items) \<and> (\<forall>(n, item) \<in> set items. n = item_name item)"

lemma by_name_delete: "by_name items \<Longrightarrow> by_name (AList.delete n items)"
  by (auto simp: by_name_def distinct_delete) (auto simp: AList.delete_eq)

lemma by_name_lookup: "by_name items \<Longrightarrow> map_of items n = Some item \<longleftrightarrow> n = item_name item \<and> item \<in> snd ` set items"
  by (simp add: by_name_def map_of_eq_Some_iff) force

lemma found_items_Nil [simp]: "found_items tcx cnum [] index = Map.empty"
  by (auto simp: found_items_def fun_eq_iff split: option.splits)

lemma found_items_skip:
  assumes "index < num_defs tcx cnum"
    and "\<And>n. def_name tcx (make_def_id cnum index) = Some n \<Longrightarrow> map_of items n = None"
  shows "found_items tcx cnum items index = found_items tcx cnum items (Suc index)"
proof
  fix d
  show "found_items tcx cnum items index d = found_items tcx cnum items (Suc index) d"
    using assms make_def_id_collapse [of d]
    by (auto simp: found_items_def first_from_step [of tcx cnum index] split: option.splits)
qed

lemma found_items_hit:
  assumes "index < num_defs tcx cnum" and "def_name tcx (make_def_id cnum index) = Some n"
    and "map_of items n = Some item"
  shows "found_items tcx cnum items index =
    (Map.empty(make_def_id cnum index \<mapsto> item)) ++ found_items tcx cnum (AList.delete n items) (Suc index)"
proof
  fix d
  show "found_items tcx cnum items index d =
    ((Map.empty(make_def_id cnum index \<mapsto> item)) ++
      found_items tcx cnum (AList.delete n items) (Suc index)) d"
    using assms make_def_id_collapse [of d]
    by (auto simp: found_items_def map_add_def delete_conv first_from_step [of tcx cnum index]
        split: option.splits)
qed

lemma item_to_def_register:
  "length (item_defs this) = NUM_STD_ITEMS \<Longrightarrow>
    item_to_def (register_item item d this) i = (if i = item then d else item_to_def this i)"
  using item_index_less [of item] by (auto simp: item_to_def_def register_item_def nth_list_update)

lemma register_item_simps [simp]:
  "length (item_defs (register_item item d this)) = length (item_defs this)"
  "def_items (register_item item d this) = (def_items this)(d \<mapsto> item)"
  by (simp_all add: register_item_def)

lemma first_from_skip:
  "index < num_defs tcx cnum \<Longrightarrow> def_name tcx (make_def_id cnum index) \<noteq> Some n \<Longrightarrow>
    first_from tcx cnum index n = first_from tcx cnum (Suc index) n"
  by (simp add: first_from_step [of tcx cnum index])

lemma first_from_hit:
  "index < num_defs tcx cnum \<Longrightarrow> def_name tcx (make_def_id cnum index) = Some n \<Longrightarrow>
    first_from tcx cnum index n = Some index"
  by (simp add: first_from_step [of tcx cnum index])

text \<open>The items of a map, without those that a deletion removes.\<close>

lemma items_delete:
  "by_name items \<Longrightarrow> map_of items n = Some item \<Longrightarrow> snd ` set (AList.delete n items) = snd ` set items - {item}"
proof -
  assume b: "by_name items" and n: "map_of items n = Some item"
  have "n = item_name item" and "\<And>k v. (k, v) \<in> set items \<Longrightarrow> k = item_name v"
    using by_name_lookup [OF b, THEN iffD1, OF n] b by (auto simp: by_name_def)
  then show ?thesis
    by (force simp: AList.delete_eq)
qed

text \<open>The four cases of a turn of the loop, as equations and as an induction.\<close>

lemma scan_crate_eqs:
  "scan_crate tcx cnum [] index this = Inr this"
  "items \<noteq> [] \<Longrightarrow> num_defs tcx cnum \<le> index \<Longrightarrow>
    scan_crate tcx cnum items index this = Inl (Panic ''index out of bounds'')"
  "items \<noteq> [] \<Longrightarrow> index < num_defs tcx cnum \<Longrightarrow>
    (\<And>n. def_name tcx (make_def_id cnum index) = Some n \<Longrightarrow> map_of items n = None) \<Longrightarrow>
    scan_crate tcx cnum items index this = scan_crate tcx cnum items (Suc index) this"
  "index < num_defs tcx cnum \<Longrightarrow> def_name tcx (make_def_id cnum index) = Some n \<Longrightarrow>
    map_of items n = Some item \<Longrightarrow>
    scan_crate tcx cnum items index this =
      scan_crate tcx cnum (AList.delete n items) (Suc index) (register_item item (make_def_id cnum index) this)"
  by (subst scan_crate.simps; force simp: Let_def split: option.splits)+

lemma scan_induct [case_names none_left no_more skip hit]:
  assumes "\<And>index this. P [] index this"
    and "\<And>items index this. items \<noteq> [] \<Longrightarrow> num_defs tcx cnum \<le> index \<Longrightarrow> P items index this"
    and "\<And>items index this. items \<noteq> [] \<Longrightarrow> index < num_defs tcx cnum \<Longrightarrow>
      (\<And>n. def_name tcx (make_def_id cnum index) = Some n \<Longrightarrow> map_of items n = None) \<Longrightarrow>
      P items (Suc index) this \<Longrightarrow> P items index this"
    and "\<And>items index this n item. index < num_defs tcx cnum \<Longrightarrow>
      def_name tcx (make_def_id cnum index) = Some n \<Longrightarrow> map_of items n = Some item \<Longrightarrow>
      P (AList.delete n items) (Suc index) (register_item item (make_def_id cnum index) this) \<Longrightarrow>
      P items index this"
  shows "P items index this"
proof (induction "num_defs tcx cnum - index" arbitrary: items index this)
  case 0
  then show ?case
    by (cases "items = []") (auto intro: assms(1,2))
next
  case (Suc k)
  then have less: "index < num_defs tcx cnum" and k: "k = num_defs tcx cnum - Suc index"
    by simp_all
  note IH = Suc(1) [OF k]
  show ?case
  proof (cases "items \<noteq> [] \<and> (\<exists>n. def_name tcx (make_def_id cnum index) = Some n \<and> map_of items n \<noteq> None)")
    case True
    then show ?thesis
      using assms(4) [OF less _ _ IH] by auto
  next
    case False
    then show ?thesis
      using assms(1) assms(3) [OF _ less _ IH] by (cases "items = []") auto
  qed
qed

lemma scan_crate_total:
  "by_name items \<Longrightarrow>
    (\<exists>t. scan_crate tcx cnum items index this = Inr t) \<longleftrightarrow>
    (\<forall>item \<in> snd ` set items. first_from tcx cnum index (item_name item) \<noteq> None)"
proof (induction items index this rule: scan_induct [where tcx = tcx and cnum = cnum])
  case (none_left index this)
  then show ?case by (simp add: scan_crate_eqs)
next
  case (no_more items index this)
  then show ?case
    by (cases items) (auto simp: scan_crate_eqs first_from_step [of tcx cnum index])
next
  case (skip items index this)
  have "def_name tcx (make_def_id cnum index) \<noteq> Some (item_name item)" if "item \<in> snd ` set items" for item
    using skip(3) by_name_lookup [OF skip(5)] that by (metis option.distinct(1))
  with skip show ?case
    by (simp add: scan_crate_eqs(3) first_from_skip)
next
  case (hit items index this n item)
  note item = by_name_lookup [OF hit(5), THEN iffD1, OF hit(3)]
  have "first_from tcx cnum index (item_name i) =
      (if i = item then Some index else first_from tcx cnum (Suc index) (item_name i))" for i
    using hit(1,2) item by (simp add: first_from_skip first_from_hit)
  with hit(4) [OF by_name_delete [OF hit(5)]] item show ?case
    unfolding scan_crate_eqs(4) [OF hit(1-3)] items_delete [OF hit(5,3)] by auto
qed

lemma scan_crate_Inr:
  assumes "by_name items" and "length (item_defs this) = NUM_STD_ITEMS"
    and "scan_crate tcx cnum items index this = Inr t"
  shows "def_items t = def_items this ++ found_items tcx cnum items index \<and>
    length (item_defs t) = NUM_STD_ITEMS \<and>
    (\<forall>item. item_to_def t item =
       (if item \<in> snd ` set items then make_def_id cnum (the (first_from tcx cnum index (item_name item)))
        else item_to_def this item))"
  using assms
proof (induction items index this rule: scan_induct [where tcx = tcx and cnum = cnum])
  case (skip items index this)
  have "def_name tcx (make_def_id cnum index) \<noteq> Some (item_name item)" if "item \<in> snd ` set items" for item
    using skip(3) by_name_lookup [OF skip(5)] that by (metis option.distinct(1))
  with skip show ?case
    by (auto simp: scan_crate_eqs(3) first_from_skip found_items_skip)
next
  case (hit items index this n item)
  note item = by_name_lookup [OF hit(5), THEN iffD1, OF hit(3)]
  have first: "first_from tcx cnum index (item_name i) =
      (if i = item then Some index else first_from tcx cnum (Suc index) (item_name i))" for i
    using hit(1,2) item by (simp add: first_from_skip first_from_hit)
  have "scan_crate tcx cnum (AList.delete n items) (Suc index)
      (register_item item (make_def_id cnum index) this) = Inr t"
    using hit(7) by (simp add: scan_crate_eqs(4) [OF hit(1-3)])
  from hit(4) [OF by_name_delete [OF hit(5)] _ this] hit(6) item show ?case
    unfolding found_items_hit [OF hit(1-3)] items_delete [OF hit(5,3)] first
    by (auto simp: item_to_def_register map_add_def fun_eq_iff split: option.splits)
qed (simp_all add: scan_crate_eqs)

lemma items_by_name_simps [simp]:
  "items_by_name [BeginPanicFmtFn] = [(''begin_panic_fmt'', BeginPanicFmtFn)]"
  "items_by_name STAINLESS_ITEMS = map (\<lambda>item. (item_name item, item)) STAINLESS_ITEMS"
  by (simp_all add: items_by_name_def STAINLESS_ITEMS_def)

lemma by_name_items [simp]:
  "by_name [(''begin_panic_fmt'', BeginPanicFmtFn)]"
  "by_name (map (\<lambda>item. (item_name item, item)) STAINLESS_ITEMS)"
  by (simp_all add: by_name_def STAINLESS_ITEMS_def)

definition lang_defs :: "crate_store \<Rightarrow> StdItems" where
  "lang_defs tcx =
     fold (\<lambda>item. register_item item (require_lang_item tcx (the (lang_item item)))) RUST_LANG_ITEMS
       \<lparr>item_defs = replicate NUM_STD_ITEMS (make_def_id 0 0), def_items = Map.empty\<rparr>"

lemma register_lang_items:
  "list_all (\<lambda>item. lang_item item \<noteq> None) items \<Longrightarrow>
    register_items_from_lang_items tcx items this =
      Inr (fold (\<lambda>item. register_item item (require_lang_item tcx (the (lang_item item)))) items this)"
  by (induction items arbitrary: this) auto

lemma lang_items_known: "list_all (\<lambda>item. lang_item item \<noteq> None) RUST_LANG_ITEMS"
  by (simp add: RUST_LANG_ITEMS_def)

lemma lang_defs_simps:
  "length (item_defs (lang_defs tcx)) = NUM_STD_ITEMS"
  "def_items (lang_defs tcx) =
     map_of (map (\<lambda>item. (require_lang_item tcx (the (lang_item item)), item)) (rev RUST_LANG_ITEMS))"
  by (simp_all add: lang_defs_def RUST_LANG_ITEMS_def)

lemma lang_defs_item:
  "item_to_def (lang_defs tcx) item =
     (if item \<in> set RUST_LANG_ITEMS then require_lang_item tcx (the (lang_item item)) else make_def_id 0 0)"
proof -
  have "item_to_def \<lparr>item_defs = replicate NUM_STD_ITEMS d, def_items = Map.empty\<rparr> item = d" for d
    by (simp add: item_to_def_def item_index_less)
  then show ?thesis
    by (simp add: lang_defs_def RUST_LANG_ITEMS_def item_to_def_register)
qed

lemma found_items_Some:
  assumes "by_name items"
  shows "found_items tcx cnum items index d = Some item \<longleftrightarrow>
    item \<in> snd ` set items \<and> krate d = cnum \<and> first_from tcx cnum index (item_name item) = Some (def_index d)"
proof (cases "krate d = cnum \<and> first_from tcx cnum index (item_name item) = Some (def_index d)")
  case True
  then have "def_name tcx d = Some (item_name item)"
    using first_from_Some [of tcx cnum index "item_name item" "def_index d"] by (auto simp: make_def_id_collapse)
  with True show ?thesis
    by (simp add: found_items_def by_name_lookup [OF assms])
next
  case False
  then show ?thesis
    by (auto simp: found_items_def by_name_lookup [OF assms] split: option.splits if_splits)
qed

lemma lang_item_found:
  "item \<in> set RUST_LANG_ITEMS \<Longrightarrow>
    map_of (map (\<lambda>item. (require_lang_item tcx (the (lang_item item)), item)) (rev RUST_LANG_ITEMS))
      (require_lang_item tcx (the (lang_item item))) \<noteq> None"
  by (auto simp: map_of_eq_None_iff image_image)

text \<open>Where an item should be: at its language item, or at the first definition with its name.\<close>

definition stainless_crate :: "crate_store \<Rightarrow> nat option" where
  "stainless_crate tcx = find (\<lambda>cnum. crate_name tcx cnum = ''stainless'') (crates tcx)"

definition item_place :: "crate_store \<Rightarrow> StdItem \<Rightarrow> DefId option" where
  "item_place tcx item =
     (if item \<in> set RUST_LANG_ITEMS then Some (require_lang_item tcx (the (lang_item item)))
      else if item = BeginPanicFmtFn then
        (let cnum = krate (require_lang_item tcx BeginPanicFnLangItem) in
         map_option (make_def_id cnum) (first_from tcx cnum 0 (item_name item)))
      else
        (case stainless_crate tcx of
           None \<Rightarrow> None
         | Some cnum \<Rightarrow> map_option (make_def_id cnum) (first_from tcx cnum 0 (item_name item))))"

lemma all_items: "item \<in> set RUST_LANG_ITEMS \<or> item = BeginPanicFmtFn \<or> item \<in> set STAINLESS_ITEMS"
  by (cases item) (simp_all add: RUST_LANG_ITEMS_def STAINLESS_ITEMS_def)

lemma items_disjoint [simp]:
  "BeginPanicFmtFn \<notin> set RUST_LANG_ITEMS" "BeginPanicFmtFn \<notin> set STAINLESS_ITEMS"
  "item \<in> set STAINLESS_ITEMS \<Longrightarrow> item \<notin> set RUST_LANG_ITEMS"
  "item \<in> set STAINLESS_ITEMS \<Longrightarrow> item \<noteq> BeginPanicFmtFn"
  "BeginPanicFn \<in> set RUST_LANG_ITEMS"
  by (auto simp: RUST_LANG_ITEMS_def STAINLESS_ITEMS_def)

lemma snd_named_items [simp]: "snd ` set (map (\<lambda>item. (item_name item, item)) items) = set items"
  by force

lemma register_lang_defs:
  "register_items_from_lang_items tcx RUST_LANG_ITEMS
     \<lparr>item_defs = replicate NUM_STD_ITEMS (make_def_id 0 0), def_items = Map.empty\<rparr> = Inr (lang_defs tcx)"
  by (simp add: register_lang_items [OF lang_items_known] lang_defs_def)

lemma StdItems_collect_eq:
  "StdItems_collect tcx =
     res_bind (scan_crate tcx (krate (require_lang_item tcx BeginPanicFnLangItem))
         [(''begin_panic_fmt'', BeginPanicFmtFn)] 0 (lang_defs tcx)) (\<lambda>this.
     case stainless_crate tcx of
       None \<Rightarrow> Inl (Panic stainless_missing)
     | Some cnum \<Rightarrow> scan_crate tcx cnum (map (\<lambda>item. (item_name item, item)) STAINLESS_ITEMS) 0 this)"
proof -
  have "krate (item_to_def (lang_defs tcx) BeginPanicFn) = krate (require_lang_item tcx BeginPanicFnLangItem)"
    by (simp add: lang_defs_item)
  then show ?thesis
    unfolding StdItems_collect_def stainless_crate_def [symmetric] Let_def register_lang_defs
    by (simp only: res_bind_simps register_items_from_crate_def items_by_name_simps)
qed

lemma StdItems_collect_total:
  "(\<exists>items. StdItems_collect tcx = Inr items) \<longleftrightarrow>
     stainless_crate tcx \<noteq> None \<and> (\<forall>item. item_place tcx item \<noteq> None)"
proof -
  let ?std = "krate (require_lang_item tcx BeginPanicFnLangItem)"
  let ?fmt = "[(''begin_panic_fmt'', BeginPanicFmtFn)]"
  have "item_place tcx BeginPanicFmtFn \<noteq> None \<longleftrightarrow> first_from tcx ?std 0 ''begin_panic_fmt'' \<noteq> None"
    by (simp add: item_place_def Let_def)
  moreover have "item_place tcx item \<noteq> None" if "item \<in> set RUST_LANG_ITEMS" for item
    using that by (simp add: item_place_def)
  ultimately have places: "(\<forall>item. item_place tcx item \<noteq> None) \<longleftrightarrow>
      first_from tcx ?std 0 ''begin_panic_fmt'' \<noteq> None \<and> (\<forall>item \<in> set STAINLESS_ITEMS. item_place tcx item \<noteq> None)"
    using all_items by metis
  have fmt: "(\<exists>this. scan_crate tcx ?std ?fmt 0 (lang_defs tcx) = Inr this) \<longleftrightarrow>
      first_from tcx ?std 0 ''begin_panic_fmt'' \<noteq> None"
    by (subst scan_crate_total) simp_all
  have stainless: "(\<exists>t. scan_crate tcx cnum (map (\<lambda>item. (item_name item, item)) STAINLESS_ITEMS) 0 this = Inr t) \<longleftrightarrow>
      (\<forall>item \<in> set STAINLESS_ITEMS. item_place tcx item \<noteq> None)" if "stainless_crate tcx = Some cnum" for cnum this
    unfolding scan_crate_total [OF by_name_items(2)] snd_named_items
    using that by (auto simp: item_place_def)
  have "(\<exists>items. StdItems_collect tcx = Inr items) \<longleftrightarrow>
      (\<exists>this. scan_crate tcx ?std ?fmt 0 (lang_defs tcx) = Inr this) \<and>
      (\<forall>item \<in> set STAINLESS_ITEMS. item_place tcx item \<noteq> None)" if "stainless_crate tcx = Some cnum" for cnum
  proof -
    have "(\<exists>items. StdItems_collect tcx = Inr items) \<longleftrightarrow>
        (\<exists>this. scan_crate tcx ?std ?fmt 0 (lang_defs tcx) = Inr this \<and>
          (\<exists>t. scan_crate tcx cnum (map (\<lambda>item. (item_name item, item)) STAINLESS_ITEMS) 0 this = Inr t))"
      unfolding StdItems_collect_eq res_bind_Inr_iff that option.case by blast
    then show ?thesis
      unfolding stainless [OF that] by blast
  qed
  then show ?thesis
    unfolding places fmt [symmetric]
    by (cases "stainless_crate tcx") (auto simp: res_bind_Inr_iff StdItems_collect_eq)
qed

subsection \<open>The collected tables\<close>

text \<open>The registrations of the three phases, as the finite map that each of them adds.\<close>

definition registered_items :: "crate_store \<Rightarrow> nat \<Rightarrow> DefId \<rightharpoonup> StdItem" where
  "registered_items tcx cnum =
     map_of (map (\<lambda>item. (require_lang_item tcx (the (lang_item item)), item)) (rev RUST_LANG_ITEMS)) ++
     found_items tcx (krate (require_lang_item tcx BeginPanicFnLangItem)) [(''begin_panic_fmt'', BeginPanicFmtFn)] 0 ++
     found_items tcx cnum (map (\<lambda>item. (item_name item, item)) STAINLESS_ITEMS) 0"

lemma collected_tables:
  assumes "StdItems_collect tcx = Inr items"
  obtains cnum where "stainless_crate tcx = Some cnum"
    and "\<And>item. item_place tcx item = Some (item_to_def items item)"
    and "def_to_item_opt items = registered_items tcx cnum"
proof -
  let ?std = "krate (require_lang_item tcx BeginPanicFnLangItem)"
  from assms obtain this cnum
    where first: "scan_crate tcx ?std [(''begin_panic_fmt'', BeginPanicFmtFn)] 0 (lang_defs tcx) = Inr this"
      and cnum: "stainless_crate tcx = Some cnum"
      and second: "scan_crate tcx cnum (map (\<lambda>item. (item_name item, item)) STAINLESS_ITEMS) 0 this = Inr items"
    by (auto simp: StdItems_collect_eq res_bind_Inr_iff split: option.splits)
  note r1 = scan_crate_Inr [OF by_name_items(1) lang_defs_simps(1) first]
  note r2 = scan_crate_Inr [OF by_name_items(2) conjunct1 [OF conjunct2 [OF r1]] second, unfolded snd_named_items]
  have place: "item_place tcx item = Some (item_to_def items item)" for item
  proof -
    obtain e where e: "item_place tcx item = Some e"
      using assms StdItems_collect_total [of tcx] by blast
    consider "item \<in> set RUST_LANG_ITEMS" "item \<notin> set STAINLESS_ITEMS" "item \<noteq> BeginPanicFmtFn"
      | "item = BeginPanicFmtFn" | "item \<in> set STAINLESS_ITEMS"
      using all_items [of item] by auto
    then show ?thesis
      using e cnum r1 r2 lang_defs_item [of tcx item]
      by cases (auto simp: item_place_def Let_def)
  qed
  have "def_to_item_opt items = def_items items"
    by (rule ext) (simp add: def_to_item_opt_def)
  with r1 r2 have "def_to_item_opt items = registered_items tcx cnum"
    by (simp add: lang_defs_simps registered_items_def)
  with cnum place show thesis by (rule that)
qed

lemma registered_item_place:
  assumes "stainless_crate tcx = Some cnum" and "registered_items tcx cnum d = Some item"
  shows "item_place tcx item = Some d"
proof -
  consider "map_of (map (\<lambda>item. (require_lang_item tcx (the (lang_item item)), item)) (rev RUST_LANG_ITEMS)) d = Some item"
    | "found_items tcx (krate (require_lang_item tcx BeginPanicFnLangItem)) [(''begin_panic_fmt'', BeginPanicFmtFn)] 0 d = Some item"
    | "found_items tcx cnum (map (\<lambda>item. (item_name item, item)) STAINLESS_ITEMS) 0 d = Some item"
    using assms(2) unfolding registered_items_def map_add_Some_iff by blast
  then show ?thesis
  proof cases
    case 1
    then show ?thesis
      by (auto dest!: map_of_SomeD simp: item_place_def)
  next
    case 2
    then show ?thesis
      using make_def_id_collapse [of d] by (auto simp: found_items_Some item_place_def Let_def)
  next
    case 3
    then show ?thesis
      using make_def_id_collapse [of d] assms(1)
      by (auto simp: found_items_Some snd_named_items item_place_def simp del: set_map)
  qed
qed

lemma place_registered:
  assumes "stainless_crate tcx = Some cnum" and place: "item_place tcx item = Some d"
  shows "registered_items tcx cnum d \<noteq> None"
proof -
  consider "item \<in> set RUST_LANG_ITEMS" | "item = BeginPanicFmtFn" | "item \<in> set STAINLESS_ITEMS"
    using all_items by blast
  then have "map_of (map (\<lambda>item. (require_lang_item tcx (the (lang_item item)), item)) (rev RUST_LANG_ITEMS)) d \<noteq> None \<or>
      found_items tcx (krate (require_lang_item tcx BeginPanicFnLangItem)) [(''begin_panic_fmt'', BeginPanicFmtFn)] 0 d = Some item \<or>
      found_items tcx cnum (map (\<lambda>item. (item_name item, item)) STAINLESS_ITEMS) 0 d = Some item"
  proof cases
    case 1
    with place lang_item_found [OF 1, of tcx] show ?thesis
      by (simp add: item_place_def del: not_None_eq)
  next
    case 2
    with place show ?thesis
      by (auto simp: item_place_def Let_def found_items_Some dest!: sym [where s = "make_def_id a b" for a b])
  next
    case 3
    with place assms(1) show ?thesis
      by (auto simp: item_place_def found_items_Some snd_named_items simp del: set_map
          dest!: sym [where s = "make_def_id a b" for a b])
  qed
  then show ?thesis
    by (auto simp: registered_items_def map_add_def split: option.splits)
qed

section \<open>Properties\<close>

text \<open>
  C14: Collecting the standard items succeeds exactly when the crate \<open>stainless\<close> is linked
  and every item has a definition with its name in its crate; otherwise it ends with a
  panic, after finitely many steps of the loop that has no bound in the source.
\<close>

theorem std_items_collected_iff:
  "(\<exists>items. StdItems_collect tcx = Inr items) \<longleftrightarrow>
     stainless_crate tcx \<noteq> None \<and> (\<forall>item. item_place tcx item \<noteq> None)"
  by (rule StdItems_collect_total)


definition sample_store :: crate_store where
  "sample_store = \<lparr>crates = [1, 2],
     crate_name = (\<lambda>c. if c = 1 then ''std'' else ''stainless''),
     num_defs = (\<lambda>c. if c = 1 then 3 else 9),
     def_name = (\<lambda>d. if krate d = 1 then [None, Some ''begin_panic'', Some ''begin_panic_fmt''] ! def_index d
       else (None # map (Some \<circ> item_name) STAINLESS_ITEMS) ! def_index d),
     require_lang_item = (\<lambda>li. case li of BeginPanicFnLangItem \<Rightarrow> make_def_id 1 1
       | FnTraitLangItem \<Rightarrow> make_def_id 3 1 | FnMutTraitLangItem \<Rightarrow> make_def_id 3 2
       | FnOnceTraitLangItem \<Rightarrow> make_def_id 3 3 | _ \<Rightarrow> make_def_id 3 4)\<rparr>"

lemma sample_places:
  "stainless_crate sample_store = Some 2" "item_place sample_store item \<noteq> None"
proof -
  show st: "stainless_crate sample_store = Some 2"
    by (simp add: stainless_crate_def sample_store_def)
  have "first_from sample_store 2 0 (item_name i) \<noteq> None" if "i \<in> set STAINLESS_ITEMS" for i
    using that by (auto simp: STAINLESS_ITEMS_def first_from_def sample_store_def upt_rec)
  moreover have "first_from sample_store 1 0 ''begin_panic_fmt'' \<noteq> None"
    by (simp add: first_from_def sample_store_def upt_rec)
  moreover have "krate (require_lang_item sample_store BeginPanicFnLangItem) = 1"
    by (simp add: sample_store_def)
  ultimately show "item_place sample_store item \<noteq> None"
    using all_items [of item] by (auto simp: item_place_def st Let_def)
qed


end
