(* ===== verification/Session.thy ===== *)
theory Session
  imports Flags Std_Items
begin

text \<open>
  What every part of the extraction works with: the compiler's view of the program (types,
  generics, definitions, attributes) as the extraction reads it, the session state (the
  extraction with the reported diagnostics), and the sequencing of steps over it.

  The compiler's queries are the fields of \<open>TyCtxt\<close>, a parameter of the model. A \<open>Ty\<close> or
  a generic argument keeps what the extraction matches on. The text of a diagnostic is kept
  up to the \<open>Debug\<close> output of compiler data in it.
\<close>

section \<open>Types and definitions of the compiler\<close>

datatype Mutability = Mut | Not_mut

datatype IntTy = Isize | I8 | I16 | I32 | I64 | I128

datatype UintTy = Usize | U8 | U16 | U32 | U64 | U128

datatype Ty =
    TBool | TInt IntTy | TUint UintTy | TStr
  | TTuple "Ty list"
  | TAdt DefId "GenericArg list"
  | TRef Ty Mutability
  | TParam nat
  | TFnDef DefId "GenericArg list"
  | TClosure DefId
  | TOther
and GenericArg = GLifetime | GType Ty | GConst

record GenericParamDef =
  gp_index :: nat
  gp_def_id :: DefId
  gp_is_type :: bool

record Generics =
  gen_parent :: "DefId option"
  gen_parent_count :: nat
  gen_params :: "GenericParamDef list"

datatype Predicate =
    PTrait DefId "GenericArg list"
  | PProjection DefId "GenericArg list" Ty
  | POther

record FieldDef =
  field_did :: DefId
  field_name :: string
  field_ty :: Ty

record VariantDef =
  variant_did :: DefId
  variant_fields :: "FieldDef list"

record AdtDef =
  adt_is_box :: bool
  adt_variants :: "VariantDef list"

record TyCtxt = crate_store +
  def_path_str :: "DefId \<Rightarrow> string"
  parent_of :: "DefId \<Rightarrow> DefId option"
  generics_of :: "DefId \<Rightarrow> Generics"
  predicates_of :: "DefId \<Rightarrow> Predicate list"
  is_closure :: "DefId \<Rightarrow> bool"
  adt_def :: "DefId \<Rightarrow> AdtDef"
  hir_id_of :: "DefId \<Rightarrow> HirId"
  hir_attrs :: "HirId \<Rightarrow> attr_kind list"
  fn_sig :: "DefId \<Rightarrow> Ty list \<times> Ty"
  int_bit_width :: "IntTy \<Rightarrow> nat option"
  uint_bit_width :: "UintTy \<Rightarrow> nat option"

definition subst_types :: "GenericArg list \<Rightarrow> Ty list" where
  "subst_types substs = List.map_filter (\<lambda>arg. case arg of GType ty \<Rightarrow> Some ty | _ \<Rightarrow> None) substs"

definition type_at :: "GenericArg list \<Rightarrow> nat \<Rightarrow> Ty res" where
  "type_at substs i =
     (if i < length substs then
        (case substs ! i of GType ty \<Rightarrow> Inr ty | _ \<Rightarrow> Inl (Panic ''expected type for param''))
      else Inl (Panic ''index out of bounds''))"

section \<open>The session\<close>

datatype diag = Span_err string | Span_warn string | Flag_warn flag_warning

record Session =
  xtor :: Extraction
  diags :: "diag list"

text \<open>
  What does not change during an extraction: the compiler, the standard items, whether
  overflows panic, \<open>char::is_numeric\<close> lifted to strings, and the order in which a hash map
  with numbers as keys, named by the variable and the definition it is built for, is
  iterated.
\<close>

record Env =
  tcx :: TyCtxt
  std_items :: StdItems
  overflow_checks :: bool
  numeric :: "string \<Rightarrow> bool"
  hash_order :: "string \<Rightarrow> DefId \<Rightarrow> nat list \<Rightarrow> nat list"

definition on_xtor :: "(Extraction, 'a) step \<Rightarrow> (Session, 'a) step" where
  "on_xtor m = (\<lambda>s. res_bind (m (xtor s)) (\<lambda>(a, x). Inr (a, s\<lparr>xtor := x\<rparr>)))"

definition report :: "diag \<Rightarrow> (Session, unit) step" where
  "report d = (\<lambda>s. Inr ((), s\<lparr>diags := diags s @ [d]\<rparr>))"

definition unsupported :: "string \<Rightarrow> (Session, unit) step" where
  "unsupported msg = report (Span_err (''Unsupported tree: '' @ msg))"

definition lift_res :: "'a res \<Rightarrow> ('s, 'a) step" where
  "lift_res r = (\<lambda>s. res_bind r (\<lambda>a. Inr (a, s)))"

definition unexpected :: "string \<Rightarrow> ('s, 'a) step" where
  "unexpected msg = panic (''Unexpected tree: '' @ msg)"

definition out_of_fuel :: "('s, 'a) step" where
  "out_of_fuel = (\<lambda>s. Inl Out_of_fuel)"

definition check :: "bool \<Rightarrow> string \<Rightarrow> ('s, unit) step" where
  "check b msg = (if b then ret () else panic msg)"

fun map_steps :: "('a \<Rightarrow> ('s, 'b) step) \<Rightarrow> 'a list \<Rightarrow> ('s, 'b list) step" where
  "map_steps f [] = ret []"
| "map_steps f (x # xs) = bind (f x) (\<lambda>y. bind (map_steps f xs) (\<lambda>ys. ret (y # ys)))"

definition option_step :: "('a \<Rightarrow> ('s, 'b) step) \<Rightarrow> 'a option \<Rightarrow> ('s, 'b option) step" where
  "option_step f x = (case x of None \<Rightarrow> ret None | Some a \<Rightarrow> bind (f a) (\<lambda>b. ret (Some b)))"

lemma bind_cong [fundef_cong]:
  "m = m' \<Longrightarrow> (\<And>a. f a = f' a) \<Longrightarrow> bind m f = bind m' f'"
  by (metis ext)

lemma map_steps_cong [fundef_cong]:
  "xs = ys \<Longrightarrow> (\<And>x. x \<in> set ys \<Longrightarrow> f x = g x) \<Longrightarrow> map_steps f xs = map_steps g ys"
  by (induction xs arbitrary: ys) auto

lemma option_step_cong [fundef_cong]:
  "x = y \<Longrightarrow> (\<And>a. y = Some a \<Longrightarrow> f a = g a) \<Longrightarrow> option_step f x = option_step g y"
  by (auto simp: option_step_def split: option.splits)

section \<open>Outcomes of steps\<close>

lemma report_simp [simp]: "report d s = Inr ((), s\<lparr>diags := diags s @ [d]\<rparr>)"
  by (simp add: report_def)

lemma unexpected_simp [simp]: "unexpected msg s = Inl (Panic (''Unexpected tree: '' @ msg))"
  by (simp add: unexpected_def)

lemma out_of_fuel_simp [simp]: "out_of_fuel s = Inl Out_of_fuel"
  by (simp add: out_of_fuel_def)

lemma lift_res_simps [simp]: "lift_res (Inr a) s = Inr (a, s)" "lift_res (Inl e) s = Inl e"
  by (simp_all add: lift_res_def)

lemma lift_res_Inr_iff: "lift_res r s = Inr (a, t) \<longleftrightarrow> r = Inr a \<and> t = s"
  by (cases r) auto

lemma check_Inr_iff: "check b msg s = Inr (u, t) \<longleftrightarrow> b \<and> t = s"
  by (auto simp: check_def)

lemma on_xtor_Inr_iff: "on_xtor m s = Inr (a, t) \<longleftrightarrow> (\<exists>x. m (xtor s) = Inr (a, x) \<and> t = s\<lparr>xtor := x\<rparr>)"
  by (auto simp: on_xtor_def res_bind_Inr_iff)

text \<open>Several operations of the extraction, with the ids that they create.\<close>

inductive xsteps :: "Env \<Rightarrow> Extraction \<Rightarrow> SymbolIdentifier list \<Rightarrow> Extraction \<Rightarrow> bool" for env where
  no_step: "xsteps env s [] s"
| one_more: "xsteps env s ids t \<Longrightarrow>
    xstep (numeric env) (overflow_checks env) (def_path_str (tcx env)) t new u \<Longrightarrow> xsteps env s (ids @ new) u"

lemma xsteps_trans: "xsteps env t ids' u \<Longrightarrow> xsteps env s ids t \<Longrightarrow> xsteps env s (ids @ ids') u"
proof (induction rule: xsteps.induct)
  case (one_more t ids' u new v)
  then show ?case
    using xsteps.one_more [of env s "ids @ ids'" u new v] by simp
qed simp

lemma xsteps_single:
  "xstep (numeric env) (overflow_checks env) (def_path_str (tcx env)) s new t \<Longrightarrow> xsteps env s new t"
  using xsteps.one_more [OF xsteps.no_step] by fastforce

lemma xsteps_xrun:
  "xsteps env s ids t \<Longrightarrow> xrun (numeric env) (overflow_checks env) (def_path_str (tcx env)) before s \<Longrightarrow>
    xrun (numeric env) (overflow_checks env) (def_path_str (tcx env)) (before @ ids) t"
proof (induction rule: xsteps.induct)
  case (one_more s ids t new u)
  then show ?case
    using xrun.next_step [of _ _ _ "before @ ids" t new u] by simp
qed simp

text \<open>Operations keep what has been registered and collected.\<close>

definition extends :: "Extraction \<Rightarrow> Extraction \<Rightarrow> bool" where
  "extends s t \<longleftrightarrow>
     did_to_stid (mapping s) \<subseteq>\<^sub>m did_to_stid (mapping t) \<and>
     hid_to_stid (mapping s) \<subseteq>\<^sub>m hid_to_stid (mapping t) \<and> function_refs s \<subseteq> function_refs t"

lemma extends_refl [simp]: "extends s s"
  by (simp add: extends_def)

lemma extends_trans: "extends s t \<Longrightarrow> extends t u \<Longrightarrow> extends s u"
  unfolding extends_def by (meson map_le_trans subset_trans)

lemma extends_did: "extends s t \<Longrightarrow> did_to_stid (mapping s) d = Some i \<Longrightarrow> did_to_stid (mapping t) d = Some i"
  by (auto simp: extends_def map_le_def dom_def)

lemma fresh_id_extends: "fresh_id oc name path s = Inr (i, t) \<Longrightarrow> extends s t"
  by (auto simp: fresh_id_def res_bind_Inr_iff extends_def)

lemma insert_did_extends: "insert_did d i s = Inr (j, t) \<Longrightarrow> extends s t"
  by (auto simp: insert_did_def extends_def map_le_def split: if_splits)

lemma insert_hid_extends: "insert_hid h i s = Inr (j, t) \<Longrightarrow> extends s t"
  by (auto simp: insert_hid_def extends_def map_le_def split: if_splits)

lemma register_def_extends: "register_def num oc path_str d s = Inr (i, t) \<Longrightarrow> extends s t"
  by (auto simp: register_def_def bind_Inr_iff split: prod.splits
      intro: extends_trans fresh_id_extends insert_did_extends)

lemma add_function_ref_extends: "add_function_ref d s = Inr (u, t) \<Longrightarrow> extends s t"
  by (auto simp: add_function_ref_def extends_def split: if_splits)

lemma xstep_extends: "xstep num oc path_str s new t \<Longrightarrow> extends s t"
proof (induction rule: xstep.induct)
  case (fresh name s i t)
  then show ?case
    by (auto simp: base_fresh_id_def intro: fresh_id_extends)
next
  case (reg_hir h name s i t)
  then show ?case
    by (auto simp: register_hir_def bind_Inr_iff intro: extends_trans fresh_id_extends insert_hid_extends)
next
  case (unknown_fn s d i t)
  then show ?case
    by (auto simp: extract_fn_ref_def bind_Inr_iff intro: extends_trans add_function_ref_extends register_def_extends)
next
  case (adt i adt s t)
  then show ?case
    by (auto simp: add_adt_def extends_def split: if_splits)
next
  case (add_fn i fd s t)
  then show ?case
    by (auto simp: add_function_def extends_def split: if_splits)
qed (auto simp: get_or_register_def_def extract_fn_ref_def intro: register_def_extends add_function_ref_extends)

lemma xsteps_extends: "xsteps env s ids t \<Longrightarrow> extends s t"
  by (induction rule: xsteps.induct) (auto intro: extends_trans xstep_extends)

section \<open>Steps that are runs\<close>

text \<open>The results of the extraction are only added to by the extraction of a crate.\<close>

definition same_results :: "Extraction \<Rightarrow> Extraction \<Rightarrow> bool" where
  "same_results x y \<longleftrightarrow> xt_adts y = xt_adts x \<and> xt_functions y = xt_functions x"

lemma same_results_refl [simp]: "same_results x x"
  by (simp add: same_results_def)

lemma same_results_trans: "same_results x y \<Longrightarrow> same_results y z \<Longrightarrow> same_results x z"
  by (simp add: same_results_def)

lemma fresh_id_results: "fresh_id oc name path x = Inr (i, y) \<Longrightarrow> same_results x y"
  by (auto simp: fresh_id_def res_bind_Inr_iff same_results_def)

lemma insert_results:
  "insert_did d i x = Inr (j, y) \<Longrightarrow> same_results x y" "insert_hid h i x = Inr (j, y) \<Longrightarrow> same_results x y"
  "add_function_ref d x = Inr (u, y) \<Longrightarrow> same_results x y"
  by (auto simp: insert_did_def insert_hid_def add_function_ref_def same_results_def split: if_splits)

lemma register_results:
  "register_def num oc path_str d x = Inr (i, y) \<Longrightarrow> same_results x y"
  "register_hir oc path_str h name x = Inr (i, y) \<Longrightarrow> same_results x y"
  by (auto simp: register_def_def register_hir_def bind_Inr_iff split: prod.splits
      dest!: fresh_id_results insert_results intro: same_results_trans)

text \<open>
  \<open>runs env m\<close>: whatever \<open>m\<close> does to the extraction is a sequence of the operations of
  the extraction state that leaves its results alone, and it only adds to the diagnostics.
\<close>

named_theorems run_intros \<open>steps that are runs of the extraction\<close>

definition run_to :: "Env \<Rightarrow> Session \<Rightarrow> Session \<Rightarrow> bool" where
  "run_to env s t \<longleftrightarrow> (\<exists>new. xsteps env (xtor s) new (xtor t)) \<and> (\<exists>ds. diags t = diags s @ ds) \<and>
     same_results (xtor s) (xtor t)"

definition runs :: "Env \<Rightarrow> (Session, 'a) step \<Rightarrow> bool" where
  "runs env m \<longleftrightarrow> (\<forall>s a t. m s = Inr (a, t) \<longrightarrow> run_to env s t)"

lemma runsD: "runs env m \<Longrightarrow> m s = Inr (a, t) \<Longrightarrow> run_to env s t"
  by (auto simp: runs_def)

lemma run_to_refl [simp]: "run_to env s s"
  by (auto simp: run_to_def intro: xsteps.no_step)

lemma run_to_trans: "run_to env s t \<Longrightarrow> run_to env t u \<Longrightarrow> run_to env s u"
  unfolding run_to_def by (metis append.assoc xsteps_trans same_results_trans)

lemma run_to_extends: "run_to env s t \<Longrightarrow> extends (xtor s) (xtor t)"
  by (auto simp: run_to_def intro: xsteps_extends)

lemma runs_ret [run_intros]: "runs env (ret a)"
  by (simp add: runs_def)

lemma runs_panic [run_intros]: "runs env (panic msg)" "runs env (unexpected msg)" "runs env out_of_fuel"
  by (simp_all add: runs_def)

lemma runs_bind [run_intros]: "runs env m \<Longrightarrow> (\<And>a. runs env (f a)) \<Longrightarrow> runs env (bind m f)"
  unfolding runs_def bind_Inr_iff by (blast intro: run_to_trans)

lemma runs_report [run_intros]: "runs env (report d)" "runs env (unsupported msg)"
  by (auto simp: runs_def run_to_def unsupported_def intro: xsteps.no_step)

lemma runs_lift [run_intros]: "runs env (lift_res r)" "runs env (check b msg)"
  by (auto simp: runs_def lift_res_Inr_iff check_Inr_iff)

lemma runs_map_steps [run_intros]: "(\<And>x. x \<in> set xs \<Longrightarrow> runs env (f x)) \<Longrightarrow> runs env (map_steps f xs)"
  by (induction xs) (auto intro!: run_intros)

lemma runs_option_step [run_intros]: "(\<And>a. x = Some a \<Longrightarrow> runs env (f a)) \<Longrightarrow> runs env (option_step f x)"
  by (cases x) (auto simp: option_step_def intro!: run_intros)

lemma runs_if [run_intros]:
  "(b \<Longrightarrow> runs env m) \<Longrightarrow> (\<not> b \<Longrightarrow> runs env m') \<Longrightarrow> runs env (if b then m else m')"
  by simp

lemma runs_case_prod [run_intros]: "(\<And>a b. p = (a, b) \<Longrightarrow> runs env (f a b)) \<Longrightarrow> runs env (case p of (a, b) \<Rightarrow> f a b)"
  by (cases p) simp

lemma runs_case_option [run_intros]:
  "runs env m \<Longrightarrow> (\<And>a. x = Some a \<Longrightarrow> runs env (f a)) \<Longrightarrow> runs env (case x of None \<Rightarrow> m | Some a \<Rightarrow> f a)"
  by (cases x) simp_all

lemma runs_on_xtor:
  assumes "\<And>x a y. m x = Inr (a, y) \<Longrightarrow>
    \<exists>new. xstep (numeric env) (overflow_checks env) (def_path_str (tcx env)) x new y"
    and "\<And>x a y. m x = Inr (a, y) \<Longrightarrow> same_results x y"
  shows "runs env (on_xtor m)"
  unfolding runs_def run_to_def on_xtor_Inr_iff
  using assms by (fastforce intro: xsteps_single)

text \<open>The results of a sequence of runs, related to their inputs in the final state.\<close>

lemma map_steps_list_all2:
  assumes "map_steps f xs s = Inr (ys, t)" and "\<And>x. x \<in> set xs \<Longrightarrow> runs env (f x)"
    and "\<And>x s y t. x \<in> set xs \<Longrightarrow> f x s = Inr (y, t) \<Longrightarrow> R t x y"
    and "\<And>t u x y. R t x y \<Longrightarrow> run_to env t u \<Longrightarrow> R u x y"
  shows "list_all2 (R t) xs ys"
  using assms(1-3)
proof (induction xs arbitrary: s ys)
  case (Cons x xs)
  from Cons.prems(1) obtain y u zs where x: "f x s = Inr (y, u)" and xs: "map_steps f xs u = Inr (zs, t)"
    and ys: "ys = y # zs"
    by (auto simp: bind_Inr_iff)
  have "runs env (map_steps f xs)"
    using Cons.prems(2) by (intro runs_map_steps) simp
  from runsD [OF this xs] assms(4) Cons.prems(3) [OF _ x] have "R t x y"
    by auto
  moreover have "list_all2 (R t) xs zs"
    by (rule Cons.IH [OF xs]) (auto intro: Cons.prems)
  ultimately show ?case
    using ys by simp
qed simp

text \<open>The operations of the extraction state in a session.\<close>

definition x_fresh_id :: "Env \<Rightarrow> string \<Rightarrow> (Session, SymbolIdentifier) step" where
  "x_fresh_id env name = on_xtor (base_fresh_id (overflow_checks env) name)"

definition x_register_def :: "Env \<Rightarrow> DefId \<Rightarrow> (Session, SymbolIdentifier) step" where
  "x_register_def env d = on_xtor (register_def (numeric env) (overflow_checks env) (def_path_str (tcx env)) d)"

definition x_get_or_register_def :: "Env \<Rightarrow> DefId \<Rightarrow> (Session, SymbolIdentifier) step" where
  "x_get_or_register_def env d =
     on_xtor (get_or_register_def (numeric env) (overflow_checks env) (def_path_str (tcx env)) d)"

definition x_register_hir :: "Env \<Rightarrow> HirId \<Rightarrow> string \<Rightarrow> (Session, SymbolIdentifier) step" where
  "x_register_hir env h name =
     on_xtor (register_hir (overflow_checks env) (def_path_str (tcx env)) h name)"

definition x_extract_fn_ref :: "Env \<Rightarrow> DefId \<Rightarrow> (Session, SymbolIdentifier) step" where
  "x_extract_fn_ref env d =
     on_xtor (extract_fn_ref (numeric env) (overflow_checks env) (def_path_str (tcx env)) d)"

lemma runs_operations [run_intros]:
  "runs env (x_fresh_id env name)" "runs env (x_register_def env d)" "runs env (x_get_or_register_def env d)"
  "runs env (x_register_hir env h name)" "runs env (x_extract_fn_ref env d)"
  unfolding x_fresh_id_def x_register_def_def x_get_or_register_def_def x_register_hir_def x_extract_fn_ref_def
proof -
  show "runs env (on_xtor (base_fresh_id (overflow_checks env) name))"
    by (rule runs_on_xtor, rule exI, erule xstep.fresh) (auto simp: base_fresh_id_def dest: fresh_id_results)
  show "runs env (on_xtor (register_def (numeric env) (overflow_checks env) (def_path_str (tcx env)) d))"
    by (rule runs_on_xtor, rule exI, erule xstep.reg_def) (rule register_results)
  show "runs env (on_xtor (register_hir (overflow_checks env) (def_path_str (tcx env)) h name))"
    by (rule runs_on_xtor, rule exI, erule xstep.reg_hir) (rule register_results)
  show "runs env (on_xtor (get_or_register_def (numeric env) (overflow_checks env) (def_path_str (tcx env)) d))"
  proof (rule runs_on_xtor)
    fix x i y
    assume "get_or_register_def (numeric env) (overflow_checks env) (def_path_str (tcx env)) d x = Inr (i, y)"
    then show "\<exists>new. xstep (numeric env) (overflow_checks env) (def_path_str (tcx env)) x new y"
      by (cases "get_id_from_def x d")
        (rule exI, erule (1) xstep.unknown, rule exI, rule xstep.known, auto simp: get_or_register_def_def)
  qed (auto simp: get_or_register_def_def split: option.splits dest: register_results)
  show "runs env (on_xtor (extract_fn_ref (numeric env) (overflow_checks env) (def_path_str (tcx env)) d))"
  proof (rule runs_on_xtor)
    fix x i y
    assume "extract_fn_ref (numeric env) (overflow_checks env) (def_path_str (tcx env)) d x = Inr (i, y)"
    then show "\<exists>new. xstep (numeric env) (overflow_checks env) (def_path_str (tcx env)) x new y"
      by (cases "get_id_from_def x d") 
        (rule exI, erule (1) xstep.unknown_fn, rule exI, rule xstep.known_fn, auto simp: extract_fn_ref_def)
  qed (auto simp: extract_fn_ref_def bind_Inr_iff split: option.splits dest!: register_results insert_results
      intro: same_results_trans)
qed

end
