(* ===== verification/Types.thy ===== *)
theory Types
  imports Session
begin

text \<open>
  Extraction of types, generics and algebraic data types: \<open>stainless_extraction/src/ty.rs\<close> and
  \<open>extract_adt\<close>, \<open>extract_adt_id\<close> of \<open>krate.rs\<close>. The three call each other: a type mentions
  data types, whose fields and generics have types. A type is extracted structurally, given the
  extraction of the data types it mentions (the argument \<open>adt_id\<close>); \<open>extract_adt\<close> ties the knot
  with fuel for the nesting of data types that are met for the first time.
\<close>

section \<open>Types\<close>

datatype TyParam = Replaced Type | Extracted TypeParameter

definition Type_of_TyParam :: "TyParam \<Rightarrow> Type" where
  "Type_of_TyParam tparam = (case tparam of Replaced tpe \<Rightarrow> tpe | Extracted tp \<Rightarrow> TypeParameter tp)"

record TyExtractionCtxt =
  tx_def_id :: DefId
  index_to_tparam :: "(nat \<times> TyParam) list"

definition is_bigint :: "Env \<Rightarrow> DefId \<Rightarrow> bool" where
  "is_bigint env did \<longleftrightarrow> def_path_str (tcx env) did = ''num_bigint::BigInt''"

definition is_fn_like_trait :: "Env \<Rightarrow> DefId \<Rightarrow> bool" where
  "is_fn_like_trait env did \<longleftrightarrow> is_one_of (std_items env) did [FnTrait, FnMutTrait, FnOnceTrait]"

fun is_bv_type :: "Ty \<Rightarrow> bool" where
  "is_bv_type (TInt _) \<longleftrightarrow> True"
| "is_bv_type (TUint _) \<longleftrightarrow> True"
| "is_bv_type _ \<longleftrightarrow> False"

fun is_signed_bv_type :: "Ty \<Rightarrow> bool" where
  "is_signed_bv_type (TInt _) \<longleftrightarrow> True"
| "is_signed_bv_type _ \<longleftrightarrow> False"

fun is_bigint_type :: "Env \<Rightarrow> Ty \<Rightarrow> bool" where
  "is_bigint_type env (TAdt did _) \<longleftrightarrow> is_bigint env did"
| "is_bigint_type env _ \<longleftrightarrow> False"

definition BV :: "bool \<Rightarrow> i32 \<Rightarrow> Type" where
  "BV is_signed width = BVType \<lparr>bvt_signed = is_signed, bvt_size = width\<rparr>"

lemma subst_types_size [termination_simp]: "ty \<in> set (subst_types substs) \<Longrightarrow> size ty < Suc (size_list size substs)"
  by (induction substs) (auto simp: subst_types_def map_filter_simps split: GenericArg.splits option.splits)

function extract_ty_with ::
  "Env \<Rightarrow> (DefId \<Rightarrow> (Session, SymbolIdentifier) step) \<Rightarrow> TyExtractionCtxt \<Rightarrow> Ty \<Rightarrow> (Session, Type) step" where
  "extract_ty_with env adt_id txtcx ty =
     (case ty of
        TBool \<Rightarrow> ret BooleanType
      | TInt int_ty \<Rightarrow>
          (case int_ty of
             I8 \<Rightarrow> ret (BV True 8) | I16 \<Rightarrow> ret (BV True 16) | I32 \<Rightarrow> ret (BV True 32)
           | I64 \<Rightarrow> ret (BV True 64) | I128 \<Rightarrow> ret (BV True 128)
           | Isize \<Rightarrow> bind (unsupported ''Cannot extract type'') (\<lambda>_. ret Untyped))
      | TUint uint_ty \<Rightarrow>
          (case uint_ty of
             U8 \<Rightarrow> ret (BV False 8) | U16 \<Rightarrow> ret (BV False 16) | U32 \<Rightarrow> ret (BV False 32)
           | U64 \<Rightarrow> ret (BV False 64) | U128 \<Rightarrow> ret (BV False 128)
           | Usize \<Rightarrow> bind (unsupported ''Cannot extract type'') (\<lambda>_. ret Untyped))
      | TTuple tys \<Rightarrow>
          bind (map_steps (extract_ty_with env adt_id txtcx) tys) (\<lambda>arg_tps.
          if length arg_tps = 0 then ret UnitType
          else if length arg_tps = 1 then
            bind (unsupported ''Cannot extract type of one-tuples'') (\<lambda>_. ret Untyped)
          else ret (TupleType arg_tps))
      | TAdt did substs \<Rightarrow>
          if is_bigint env did then ret IntegerType
          else if adt_is_box (adt_def (tcx env) did) then
            (case substs of
               GType arg # _ \<Rightarrow> extract_ty_with env adt_id txtcx arg
             | _ \<Rightarrow> panic ''expected type for param #0'')
          else if def_to_item_opt (std_items env) did = Some SetType_item then
            (case substs of
               GType arg # _ \<Rightarrow> bind (extract_ty_with env adt_id txtcx arg) (\<lambda>arg_ty. ret (SetType arg_ty))
             | _ \<Rightarrow> panic ''expected type for param #0'')
          else
            bind (adt_id did) (\<lambda>sid.
            bind (map_steps (extract_ty_with env adt_id txtcx) (subst_types substs)) (\<lambda>arg_tps.
            ret (ADTType sid arg_tps)))
      | TRef arg Not_mut \<Rightarrow> extract_ty_with env adt_id txtcx arg
      | TParam index \<Rightarrow>
          (case map_of (index_to_tparam txtcx) index of
             None \<Rightarrow> panic ''Missing type parameter identifier''
           | Some tparam \<Rightarrow> ret (Type_of_TyParam tparam))
      | _ \<Rightarrow> bind (unsupported ''Cannot extract type'') (\<lambda>_. ret Untyped))"
  by pat_completeness auto
termination
proof (relation "measure (\<lambda>(env, adt_id, txtcx, ty). size ty)"; simp?)
  show "size a < Suc (size_list size l)" if "a \<in> set l" for a and l :: "Ty list"
    using that by (induction l) auto
qed (auto intro: subst_types_size)

declare extract_ty_with.simps [simp del]

definition extract_tys_with ::
  "Env \<Rightarrow> (DefId \<Rightarrow> (Session, SymbolIdentifier) step) \<Rightarrow> TyExtractionCtxt \<Rightarrow> Ty list \<Rightarrow> (Session, Type list) step" where
  "extract_tys_with env adt_id txtcx tys = map_steps (extract_ty_with env adt_id txtcx) tys"

section \<open>Generics\<close>

text \<open>The parameters of a definition after those of its parents: the loop runs up the parents.\<close>

partial_function (option) generics_chain :: "(DefId \<Rightarrow> Generics) \<Rightarrow> DefId \<Rightarrow> Generics list option" where
  "generics_chain gens def_id =
     (let generics = gens def_id in
      case gen_parent generics of
        None \<Rightarrow> Some [generics]
      | Some parent_id \<Rightarrow>
          Option.bind (generics_chain gens parent_id) (\<lambda>parents. Some (generics # parents)))"

definition all_generic_params_of :: "TyCtxt \<Rightarrow> DefId \<Rightarrow> GenericParamDef list option" where
  "all_generic_params_of tcxt def_id =
     map_option (\<lambda>all_generics. concat (map gen_params (rev all_generics))) (generics_chain (generics_of tcxt) def_id)"

definition insert_new :: "nat \<Rightarrow> 'v \<Rightarrow> (nat \<times> 'v) list \<Rightarrow> ('s, (nat \<times> 'v) list) step" where
  "insert_new k v m = (if map_of m k = None then ret (m @ [(k, v)]) else panic ''assertion failed: insert(..).is_none()'')"

type_synonym hof_params = "(nat \<times> Ty list) list"
type_synonym hof_returns = "(nat \<times> Ty) list"

definition self_param :: "GenericArg list \<Rightarrow> nat option res" where
  "self_param substs = res_bind (type_at substs 0) (\<lambda>ty. Inr (case ty of TParam index \<Rightarrow> Some index | _ \<Rightarrow> None))"

definition tuple_fields :: "Ty \<Rightarrow> Ty list res" where
  "tuple_fields ty = (case ty of TTuple tys \<Rightarrow> Inr tys | _ \<Rightarrow> Inl (Panic ''tuple_fields called on non-tuple''))"

fun scan_predicate ::
  "Env \<Rightarrow> Predicate \<Rightarrow> hof_params \<times> hof_returns \<Rightarrow> (Session, hof_params \<times> hof_returns) step" where
  "scan_predicate env (PTrait trait_did substs) (fun_params, fun_return) =
     (if is_one_of (std_items env) trait_did [SizedTrait] then ret (fun_params, fun_return)
      else
        bind (lift_res (self_param substs)) (\<lambda>self.
        case self of
          Some index \<Rightarrow>
            if is_fn_like_trait env trait_did then
              bind (lift_res (res_bind (type_at substs 1) tuple_fields)) (\<lambda>param_tys.
              bind (insert_new index param_tys fun_params) (\<lambda>fun_params'. ret (fun_params', fun_return)))
            else bind (report (Span_warn ''Ignored predicate during extraction'')) (\<lambda>_. ret (fun_params, fun_return))
        | None \<Rightarrow> bind (report (Span_warn ''Ignored predicate during extraction'')) (\<lambda>_. ret (fun_params, fun_return))))"
| "scan_predicate env (PProjection trait_did substs return_ty) (fun_params, fun_return) =
     bind (lift_res (self_param substs)) (\<lambda>self.
     case self of
       Some index \<Rightarrow>
         if is_fn_like_trait env trait_did then
           bind (insert_new index return_ty fun_return) (\<lambda>fun_return'. ret (fun_params, fun_return'))
         else bind (report (Span_warn ''Ignored predicate during extraction'')) (\<lambda>_. ret (fun_params, fun_return))
     | None \<Rightarrow> bind (report (Span_warn ''Ignored predicate during extraction'')) (\<lambda>_. ret (fun_params, fun_return)))"
| "scan_predicate env POther (fun_params, fun_return) =
     bind (report (Span_warn ''Ignored predicate during extraction'')) (\<lambda>_. ret (fun_params, fun_return))"

fun scan_predicates ::
  "Env \<Rightarrow> Predicate list \<Rightarrow> hof_params \<times> hof_returns \<Rightarrow> (Session, hof_params \<times> hof_returns) step" where
  "scan_predicates env [] maps = ret maps"
| "scan_predicates env (p # ps) maps = bind (scan_predicate env p maps) (scan_predicates env ps)"

text \<open>The normal generic parameters; \<open>collect\<close> keeps the last value of a key.\<close>

definition extract_param :: "Env \<Rightarrow> hof_params \<Rightarrow> GenericParamDef \<Rightarrow> (Session, (nat \<times> TyParam) option) step" where
  "extract_param env fun_params param =
     (if gp_is_type param then
        if map_of fun_params (gp_index param) \<noteq> None then ret None
        else bind (x_get_or_register_def env (gp_def_id param)) (\<lambda>tp.
          ret (Some (gp_index param, Extracted \<lparr>tp_id = tp, tp_flags = []\<rparr>)))
      else
        bind (unsupported (''Cannot extract generic parameter '' @ def_path_str (tcx env) (gp_def_id param)))
          (\<lambda>_. ret None))"

definition collect_params :: "(nat \<times> TyParam) option list \<Rightarrow> (nat \<times> TyParam) list" where
  "collect_params entries = fold (\<lambda>(k, v). AList.update k v) (List.map_filter id entries) []"

text \<open>Higher-order parameters are replaced by the recovered function types, in the order of the map.\<close>

fun replace_fun_params ::
  "Env \<Rightarrow> (DefId \<Rightarrow> (Session, SymbolIdentifier) step) \<Rightarrow> (nat \<times> Ty list) list \<Rightarrow> hof_returns \<Rightarrow>
     TyExtractionCtxt \<Rightarrow> (Session, TyExtractionCtxt) step" where
  "replace_fun_params env adt_id [] fun_return txtcx = ret txtcx"
| "replace_fun_params env adt_id ((param_index, param_tys) # rest) fun_return txtcx =
     bind (extract_tys_with env adt_id txtcx param_tys) (\<lambda>param_tps.
     case map_of fun_return param_index of
       None \<Rightarrow> panic ''Got parameter types for HOF parameter but no return type''
     | Some return_ty \<Rightarrow>
         bind (extract_ty_with env adt_id txtcx return_ty) (\<lambda>return_tpe.
         bind (insert_new param_index (Replaced (FunctionType param_tps return_tpe)) (index_to_tparam txtcx)) (\<lambda>m.
         replace_fun_params env adt_id rest (AList.delete param_index fun_return) (txtcx\<lparr>index_to_tparam := m\<rparr>))))"

definition in_order :: "nat list \<Rightarrow> (nat \<times> 'v) list \<Rightarrow> (nat \<times> 'v) list" where
  "in_order order m = List.map_filter (\<lambda>k. map_option (Pair k) (map_of m k)) order"

definition tparam_defs :: "(nat \<times> TyParam) list \<Rightarrow> TypeParameterDef list" where
  "tparam_defs m = List.map_filter (\<lambda>(k, tparam). case tparam of
       Replaced _ \<Rightarrow> None | Extracted tp \<Rightarrow> Some (TypeParameterDef tp)) m"

definition extract_generics_with ::
  "Env \<Rightarrow> (DefId \<Rightarrow> (Session, SymbolIdentifier) step) \<Rightarrow> DefId \<Rightarrow>
     (Session, TypeParameterDef list \<times> TyExtractionCtxt) step" where
  "extract_generics_with env adt_id def_id =
     (let generics = generics_of (tcx env) def_id; predicates = predicates_of (tcx env) def_id in
      if is_closure (tcx env) def_id then
        bind (check (gen_parent_count generics + length (gen_params generics) = 3) ''assertion failed: left == right'') (\<lambda>_.
        bind (check (length predicates = 0) ''assertion failed: left == right'') (\<lambda>_.
        ret ([], \<lparr>tx_def_id = def_id, index_to_tparam = []\<rparr>)))
      else
        (case all_generic_params_of (tcx env) def_id of
           None \<Rightarrow> out_of_fuel
         | Some all_params \<Rightarrow>
             bind (scan_predicates env predicates ([], [])) (\<lambda>(fun_params, fun_return).
             bind (map_steps (extract_param env fun_params) all_params) (\<lambda>entries.
             let txtcx = \<lparr>tx_def_id = def_id, index_to_tparam = collect_params entries\<rparr> in
             bind (replace_fun_params env adt_id
                 (in_order (hash_order env ''tparam_to_fun_params'' def_id (map fst fun_params)) fun_params)
                 fun_return txtcx) (\<lambda>txtcx.
             ret (tparam_defs (in_order (hash_order env ''index_to_tparam'' def_id
                 (map fst (index_to_tparam txtcx))) (index_to_tparam txtcx)), txtcx))))))"

section \<open>Algebraic data types\<close>

definition report_flag_warnings :: "flag_warning list \<Rightarrow> (Session, unit) step" where
  "report_flag_warnings ws = bind (map_steps (\<lambda>w. report (Flag_warn w)) ws) (\<lambda>_. ret ())"

definition x_extract_flags :: "Env \<Rightarrow> HirId \<Rightarrow> (Session, Flags \<times> flag_map) step" where
  "x_extract_flags env hir_id =
     (let (carrier_flags, flags_by_symbol, ws) = extract_flags (hir_attrs (tcx env) hir_id) in
      bind (report_flag_warnings ws) (\<lambda>_. ret (carrier_flags, flags_by_symbol)))"

definition x_report_unused_flags :: "flag_map \<Rightarrow> (Session, unit) step" where
  "x_report_unused_flags flags_by_symbol =
     (case report_unused_flags flags_by_symbol of None \<Rightarrow> ret () | Some msg \<Rightarrow> report (Span_warn msg))"

definition take_flags :: "string \<Rightarrow> flag_map \<Rightarrow> Flag list \<times> flag_map" where
  "take_flags name flags_by_symbol =
     (case map_of flags_by_symbol name of
        None \<Rightarrow> ([], flags_by_symbol)
      | Some fs \<Rightarrow> (to_stainless fs, AList.delete name flags_by_symbol))"

fun extract_fields ::
  "Env \<Rightarrow> (DefId \<Rightarrow> (Session, SymbolIdentifier) step) \<Rightarrow> TyExtractionCtxt \<Rightarrow> FieldDef list \<Rightarrow> flag_map \<Rightarrow>
     (Session, ValDef list \<times> flag_map) step" where
  "extract_fields env adt_id txtcx [] fm = ret ([], fm)"
| "extract_fields env adt_id txtcx (field # rest) fm =
     bind (x_get_or_register_def env (field_did field)) (\<lambda>field_id.
     bind (extract_ty_with env adt_id txtcx (field_ty field)) (\<lambda>ty.
     let (flags, fm') = take_flags (field_name field) fm in
     bind (extract_fields env adt_id txtcx rest fm') (\<lambda>(fields, fm'').
     ret (ValDef \<lparr>var_id = field_id, var_tpe = ty, var_flags = flags\<rparr> # fields, fm''))))"

fun extract_variants ::
  "Env \<Rightarrow> (DefId \<Rightarrow> (Session, SymbolIdentifier) step) \<Rightarrow> TyExtractionCtxt \<Rightarrow> SymbolIdentifier \<Rightarrow>
     VariantDef list \<Rightarrow> flag_map \<Rightarrow> (Session, ADTConstructor list \<times> flag_map) step" where
  "extract_variants env adt_id txtcx adt_sid [] fm = ret ([], fm)"
| "extract_variants env adt_id txtcx adt_sid (variant # rest) fm =
     bind (x_get_or_register_def env (variant_did variant)) (\<lambda>cons.
     bind (extract_fields env adt_id txtcx (variant_fields variant) fm) (\<lambda>(fields, fm').
     bind (extract_variants env adt_id txtcx adt_sid rest fm') (\<lambda>(constructors, fm'').
     ret (\<lparr>cons_id = cons, cons_sort = adt_sid, cons_fields = fields\<rparr> # constructors, fm''))))"

definition known_sort :: "Extraction \<Rightarrow> DefId \<Rightarrow> ADTSort option" where
  "known_sort xt def_id = Option.bind (did_to_stid (mapping xt) def_id) (Map_get (xt_adts xt))"

definition extract_adt_with ::
  "Env \<Rightarrow> (DefId \<Rightarrow> (Session, SymbolIdentifier) step) \<Rightarrow> DefId \<Rightarrow> (Session, ADTSort) step" where
  "extract_adt_with env adt_id def_id s =
     (case known_sort (xtor s) def_id of
        Some adt \<Rightarrow> Inr (adt, s)
      | None \<Rightarrow>
          bind (x_register_def env def_id) (\<lambda>adt_sid.
          bind (if is_local def_id then x_extract_flags env (hir_id_of (tcx env) def_id) else ret ([], []))
            (\<lambda>(carrier_flags, flags_by_symbol).
          bind (extract_generics_with env adt_id def_id) (\<lambda>(tparams, txtcx).
          bind (extract_variants env adt_id txtcx adt_sid (adt_variants (adt_def (tcx env) def_id)) flags_by_symbol)
            (\<lambda>(constructors, unused).
          bind (if is_local def_id then x_report_unused_flags unused else ret ()) (\<lambda>_.
          ret \<lparr>sort_id = adt_sid, sort_tparams = tparams, sort_constructors = constructors,
               sort_flags = to_stainless carrier_flags\<rparr>))))) s)"

text \<open>What \<open>extract_adt\<close> does once the id of a new data type is registered.\<close>

abbreviation build_adt ::
  "Env \<Rightarrow> (DefId \<Rightarrow> (Session, SymbolIdentifier) step) \<Rightarrow> DefId \<Rightarrow> SymbolIdentifier \<Rightarrow> (Session, ADTSort) step" where
  "build_adt env adt_id def_id adt_sid \<equiv>
     bind (if is_local def_id then x_extract_flags env (hir_id_of (tcx env) def_id) else ret ([], []))
       (\<lambda>(carrier_flags, flags_by_symbol).
     bind (extract_generics_with env adt_id def_id) (\<lambda>(tparams, txtcx).
     bind (extract_variants env adt_id txtcx adt_sid (adt_variants (adt_def (tcx env) def_id)) flags_by_symbol)
       (\<lambda>(constructors, unused).
     bind (if is_local def_id then x_report_unused_flags unused else ret ()) (\<lambda>_.
     ret \<lparr>sort_id = adt_sid, sort_tparams = tparams, sort_constructors = constructors,
          sort_flags = to_stainless carrier_flags\<rparr>))))"

text \<open>\<open>extract_adt_id\<close>: a known id, otherwise the id of the data type extracted now.\<close>

definition extract_adt_id_with :: "(DefId \<Rightarrow> (Session, ADTSort) step) \<Rightarrow> DefId \<Rightarrow> (Session, SymbolIdentifier) step" where
  "extract_adt_id_with extract def_id s =
     (case get_id_from_def (xtor s) def_id of
        Some stid \<Rightarrow> Inr (stid, s)
      | None \<Rightarrow> bind (extract def_id) (\<lambda>adt. ret (sort_id adt)) s)"

primrec extract_adt :: "Env \<Rightarrow> nat \<Rightarrow> DefId \<Rightarrow> (Session, ADTSort) step" where
  "extract_adt env 0 = (\<lambda>def_id. out_of_fuel)"
| "extract_adt env (Suc fuel) = extract_adt_with env (extract_adt_id_with (extract_adt env fuel))"

definition extract_adt_id :: "Env \<Rightarrow> nat \<Rightarrow> DefId \<Rightarrow> (Session, SymbolIdentifier) step" where
  "extract_adt_id env fuel = extract_adt_id_with (extract_adt env fuel)"

definition extract_ty :: "Env \<Rightarrow> nat \<Rightarrow> TyExtractionCtxt \<Rightarrow> Ty \<Rightarrow> (Session, Type) step" where
  "extract_ty env fuel = extract_ty_with env (extract_adt_id env fuel)"

definition extract_tys :: "Env \<Rightarrow> nat \<Rightarrow> TyExtractionCtxt \<Rightarrow> Ty list \<Rightarrow> (Session, Type list) step" where
  "extract_tys env fuel = extract_tys_with env (extract_adt_id env fuel)"

definition extract_generics ::
  "Env \<Rightarrow> nat \<Rightarrow> DefId \<Rightarrow> (Session, TypeParameterDef list \<times> TyExtractionCtxt) step" where
  "extract_generics env fuel = extract_generics_with env (extract_adt_id env fuel)"

section \<open>The contract of the extraction of data types\<close>

text \<open>
  What the extraction of types and generics relies on: asking for the id of a data type is
  a run of the extraction, after which the data type is registered under that id.
\<close>

locale adt_ids =
  fixes env :: Env and adt_id :: "DefId \<Rightarrow> (Session, SymbolIdentifier) step"
  assumes adt_id_runs: "runs env (adt_id d)"
    and adt_id_registered: "adt_id d s = Inr (i, t) \<Longrightarrow> get_id_from_def (xtor t) d = Some i"

lemma x_register_def_registers:
  "x_register_def env d s = Inr (sid, t) \<Longrightarrow> did_to_stid (mapping (xtor t)) d = Some sid"
  by (auto simp: x_register_def_def on_xtor_Inr_iff register_def_def bind_Inr_iff insert_did_def
      split: prod.splits if_splits)

lemma runs_insert_new [run_intros]: "runs env (insert_new k v m)"
  by (simp add: insert_new_def runs_ret runs_panic)

lemma runs_flags [run_intros]:
  "runs env (report_flag_warnings ws)" "runs env (x_extract_flags env h)" "runs env (x_report_unused_flags fm)"
  by (auto simp: report_flag_warnings_def x_extract_flags_def x_report_unused_flags_def
      intro!: run_intros)

lemma runs_scan_predicate [run_intros]: "runs env (scan_predicate env p maps)"
  by (cases p; cases maps) (auto intro!: run_intros split: option.split)

lemma runs_scan_predicates [run_intros]: "runs env (scan_predicates env ps maps)"
  by (induction ps arbitrary: maps) (auto intro!: run_intros)

lemma runs_extract_param [run_intros]: "runs env (extract_param env fun_params param)"
  by (auto simp: extract_param_def intro!: run_intros)

context adt_ids
begin

lemma extract_ty_runs: "runs env (extract_ty_with env adt_id txtcx ty)"
proof (induction "size ty" arbitrary: ty rule: less_induct)
  case less
  have IH: "runs env (extract_ty_with env adt_id txtcx ty')" if "size ty' < size ty" for ty'
    using less that by blast
  have "size a < Suc (size_list size tys)" if "a \<in> set tys" for a and tys :: "Ty list"
    using that by (induction tys) auto
  then have tuple: "runs env (extract_ty_with env adt_id txtcx a)" if "ty = TTuple tys" "a \<in> set tys" for a tys
    using that by (intro IH) simp
  have adt: "runs env (extract_ty_with env adt_id txtcx a)"
    if "ty = TAdt did substs" "a \<in> set (subst_types substs)" for a did substs
    using that subst_types_size [of a substs] by (intro IH) simp
  show ?case
    by (subst extract_ty_with.simps)
      (auto intro!: run_intros adt_id_runs intro: IH tuple adt
        split: Ty.split IntTy.split UintTy.split list.split GenericArg.split Mutability.split option.split)
qed

lemma extract_tys_runs: "runs env (extract_tys_with env adt_id txtcx tys)"
  by (simp add: extract_tys_with_def runs_map_steps extract_ty_runs)

lemma replace_fun_params_runs: "runs env (replace_fun_params env adt_id ps fun_return txtcx)"
  by (induction ps arbitrary: fun_return txtcx)
    (auto intro!: run_intros extract_tys_runs extract_ty_runs)

lemma extract_generics_runs: "runs env (extract_generics_with env adt_id def_id)"
  by (auto simp: extract_generics_with_def Let_def
      intro!: run_intros replace_fun_params_runs)

lemma extract_fields_runs: "runs env (extract_fields env adt_id txtcx fs fm)"
  by (induction fs arbitrary: fm)
    (auto simp: Let_def intro!: run_intros extract_ty_runs)

lemma extract_variants_runs: "runs env (extract_variants env adt_id txtcx adt_sid variants fm)"
  by (induction variants arbitrary: fm) (auto intro!: run_intros extract_fields_runs)

lemma build_adt_runs: "runs env (build_adt env adt_id def_id sid)"
  by (auto intro!: run_intros extract_generics_runs extract_variants_runs)

lemma extract_adt_runs: "runs env (extract_adt_with env adt_id def_id)"
proof -
  have "runs env (bind (x_register_def env def_id) (build_adt env adt_id def_id))"
    by (intro runs_bind runs_operations build_adt_runs)
  then show ?thesis
    by (auto simp: runs_def extract_adt_with_def split: option.splits)
qed

lemma extract_adt_registers:
  assumes "get_id_from_def (xtor s) def_id = None" and "extract_adt_with env adt_id def_id s = Inr (adt, t)"
  shows "get_id_from_def (xtor t) def_id = Some (sort_id adt)"
proof -
  have "known_sort (xtor s) def_id = None"
    using assms(1) by (simp add: known_sort_def get_id_from_def_def)
  with assms(2) obtain sid u where reg: "x_register_def env def_id s = Inr (sid, u)"
    and rest: "build_adt env adt_id def_id sid u = Inr (adt, t)"
    by (auto simp: extract_adt_with_def bind_Inr_iff)
  have "extends (xtor u) (xtor t)"
    by (rule run_to_extends [OF runsD [OF build_adt_runs rest]])
  from extends_did [OF this x_register_def_registers [OF reg]]
  have "did_to_stid (mapping (xtor t)) def_id = Some sid" .
  moreover from rest have "sort_id adt = sid"
    by (auto simp: bind_Inr_iff split: prod.splits)
  ultimately show ?thesis
    by (simp add: get_id_from_def_def)
qed

end

lemma extract_adt_id_with_Inr_iff:
  "extract_adt_id_with extract d s = Inr (i, t) \<longleftrightarrow>
     (if get_id_from_def (xtor s) d = None then \<exists>adt. extract d s = Inr (adt, t) \<and> i = sort_id adt
      else get_id_from_def (xtor s) d = Some i \<and> t = s)"
  by (auto simp: extract_adt_id_with_def bind_Inr_iff split: option.splits)

lemma adt_ids_step:
  assumes "adt_ids env adt_id"
  shows "adt_ids env (extract_adt_id_with (extract_adt_with env adt_id))"
proof
  fix d s i t
  show "runs env (extract_adt_id_with (extract_adt_with env adt_id) d)"
    unfolding runs_def extract_adt_id_with_Inr_iff
    using adt_ids.extract_adt_runs [OF assms] by (auto simp: runs_def)
  show "get_id_from_def (xtor t) d = Some i"
    if "extract_adt_id_with (extract_adt_with env adt_id) d s = Inr (i, t)"
    using that adt_ids.extract_adt_registers [OF assms]
    unfolding extract_adt_id_with_Inr_iff by (auto split: if_splits)
qed

lemma adt_ids_extract: "adt_ids env (extract_adt_id env fuel)"
proof (induction fuel)
  case 0
  show ?case
    by unfold_locales
      (auto simp: extract_adt_id_def runs_def extract_adt_id_with_Inr_iff split: if_splits)
next
  case (Suc fuel)
  then show ?case
    using adt_ids_step by (simp add: extract_adt_id_def)
qed

text \<open>The contract holds for the extraction of data types at every fuel.\<close>

interpretation adts: adt_ids env "extract_adt_id env fuel" for env fuel
  by (rule adt_ids_extract)

end
