(* ===== verification/Type_Spec.thy ===== *)
theory Type_Spec
  imports Types
begin

text \<open>
  What the extraction of types promises: the translation of types as a relation without
  state, with the extraction as its implementation; the absence of \<open>Untyped\<close> in types
  extracted without an error; and the fuel that the nesting of data types needs.
\<close>

section \<open>The translation of types as a relation\<close>

fun int_bits :: "IntTy \<Rightarrow> i32" where
  "int_bits I8 = 8" | "int_bits I16 = 16" | "int_bits I32 = 32" | "int_bits I64 = 64"
| "int_bits I128 = 128" | "int_bits Isize = 0"

fun uint_bits :: "UintTy \<Rightarrow> i32" where
  "uint_bits U8 = 8" | "uint_bits U16 = 16" | "uint_bits U32 = 32" | "uint_bits U64 = 64"
| "uint_bits U128 = 128" | "uint_bits Usize = 0"

fun untranslatable :: "Ty \<Rightarrow> bool" where
  "untranslatable (TInt i) \<longleftrightarrow> i = Isize"
| "untranslatable (TUint i) \<longleftrightarrow> i = Usize"
| "untranslatable TStr \<longleftrightarrow> True"
| "untranslatable (TTuple tys) \<longleftrightarrow> length tys = 1"
| "untranslatable (TRef ty mut) \<longleftrightarrow> mut = Mut"
| "untranslatable (TFnDef _ _) \<longleftrightarrow> True"
| "untranslatable (TClosure _) \<longleftrightarrow> True"
| "untranslatable TOther \<longleftrightarrow> True"
| "untranslatable _ \<longleftrightarrow> False"

text \<open>The kinds of data types that the extraction tells apart.\<close>

datatype adt_kind = Big_kind | Box_kind | Set_kind | Sort_kind

definition adt_kind :: "Env \<Rightarrow> DefId \<Rightarrow> adt_kind" where
  "adt_kind env did =
     (if is_bigint env did then Big_kind else if adt_is_box (adt_def (tcx env) did) then Box_kind
      else if def_to_item_opt (std_items env) did = Some SetType_item then Set_kind else Sort_kind)"

inductive translates ::
  "Env \<Rightarrow> (DefId \<rightharpoonup> SymbolIdentifier) \<Rightarrow> (nat \<rightharpoonup> TyParam) \<Rightarrow> Ty \<Rightarrow> Type \<Rightarrow> bool"
  for env ids params where
  t_bool: "translates env ids params TBool BooleanType"
| t_int: "i \<noteq> Isize \<Longrightarrow> translates env ids params (TInt i) (BV True (int_bits i))"
| t_uint: "u \<noteq> Usize \<Longrightarrow> translates env ids params (TUint u) (BV False (uint_bits u))"
| t_unit: "translates env ids params (TTuple []) UnitType"
| t_tuple: "length tys > 1 \<Longrightarrow> list_all2 (translates env ids params) tys tps \<Longrightarrow>
    translates env ids params (TTuple tys) (TupleType tps)"
| t_big: "adt_kind env did = Big_kind \<Longrightarrow> translates env ids params (TAdt did substs) IntegerType"
| t_box: "adt_kind env did = Box_kind \<Longrightarrow> translates env ids params ty tpe \<Longrightarrow>
    translates env ids params (TAdt did (GType ty # substs)) tpe"
| t_set: "adt_kind env did = Set_kind \<Longrightarrow> translates env ids params ty tpe \<Longrightarrow>
    translates env ids params (TAdt did (GType ty # substs)) (SetType tpe)"
| t_sort: "adt_kind env did = Sort_kind \<Longrightarrow> ids did = Some stid \<Longrightarrow>
    list_all2 (translates env ids params) (subst_types substs) tps \<Longrightarrow>
    translates env ids params (TAdt did substs) (ADTType stid tps)"
| t_ref: "translates env ids params ty tpe \<Longrightarrow> translates env ids params (TRef ty Not_mut) tpe"
| t_param: "params index = Some tparam \<Longrightarrow> translates env ids params (TParam index) (Type_of_TyParam tparam)"
| t_none: "untranslatable ty \<Longrightarrow> translates env ids params ty Untyped"

inductive_cases translates_tuple: "translates env ids params (TTuple tys) tpe"
inductive_cases translates_adt: "translates env ids params (TAdt did substs) tpe"
inductive_cases translates_ref: "translates env ids params (TRef ty mut) tpe"

inductive_simps translates_leaf [simp]:
  "translates env ids params TBool tpe" "translates env ids params (TInt i) tpe"
  "translates env ids params (TUint u) tpe" "translates env ids params (TParam index) tpe"
  "translates env ids params TStr tpe" "translates env ids params (TFnDef did substs) tpe"
  "translates env ids params (TClosure did) tpe" "translates env ids params TOther tpe"

lemma list_all2_unique:
  "list_all2 (\<lambda>x y. \<forall>y'. R x y' \<longrightarrow> y = y') xs ys \<Longrightarrow> list_all2 R xs ys' \<Longrightarrow> ys = ys'"
  by (induction xs ys arbitrary: ys' rule: list_all2_induct) (auto simp: list_all2_Cons1)

text \<open>A type has at most one translation, and it does not change when more ids are registered.\<close>

lemma translates_unique: "translates env ids params ty tpe \<Longrightarrow> translates env ids params ty tpe' \<Longrightarrow> tpe = tpe'"
proof (induction arbitrary: tpe' rule: translates.induct)
  case (t_tuple tys tps)
  have "list_all2 (\<lambda>x y. \<forall>y'. translates env ids params x y' \<longrightarrow> y = y') tys tps"
    by (rule list_all2_mono [OF t_tuple(2)]) auto
  from t_tuple(3,1) list_all2_unique [OF this] show ?case
    by (cases rule: translates_tuple) auto
next
  case (t_sort did stid substs tps)
  have "list_all2 (\<lambda>x y. \<forall>y'. translates env ids params x y' \<longrightarrow> y = y') (subst_types substs) tps"
    by (rule list_all2_mono [OF t_sort(3)]) auto
  from t_sort(4,1,2) list_all2_unique [OF this] show ?case
    by (cases rule: translates_adt) auto
next
  case (t_none ty)
  from t_none(2,1) show ?case
    by (cases rule: translates.cases) auto
next
  case t_unit
  then show ?case by (cases rule: translates_tuple) auto
next
  case (t_big did substs)
  from t_big(2,1) show ?case by (cases rule: translates_adt) auto
next
  case (t_box did ty tpe substs)
  from t_box(4,1,3) show ?case by (cases rule: translates_adt) auto
next
  case (t_set did ty tpe substs)
  from t_set(4,1,3) show ?case by (cases rule: translates_adt) auto
next
  case (t_ref ty tpe)
  from t_ref(3,2) show ?case by (cases rule: translates_ref) auto
qed auto

lemma translates_more_ids:
  "translates env ids params ty tpe \<Longrightarrow> ids \<subseteq>\<^sub>m ids' \<Longrightarrow> translates env ids' params ty tpe"
proof (induction rule: translates.induct)
  case (t_tuple tys tps)
  then show ?case
    by (auto intro!: translates.t_tuple elim: list_all2_mono)
next
  case (t_sort did stid substs tps)
  then have "ids' did = Some stid"
    by (auto simp: map_le_def dom_def)
  with t_sort show ?case
    by (auto intro!: translates.t_sort elim: list_all2_mono)
qed (auto intro: translates.intros)

abbreviation did_ids :: "Session \<Rightarrow> DefId \<rightharpoonup> SymbolIdentifier" where
  "did_ids s \<equiv> did_to_stid (mapping (xtor s))"

lemma run_to_ids: "run_to env s t \<Longrightarrow> did_ids s \<subseteq>\<^sub>m did_ids t"
  using run_to_extends by (auto simp: extends_def)

lemma translates_run_to:
  "translates env (did_ids t) params ty tpe \<Longrightarrow> run_to env t u \<Longrightarrow> translates env (did_ids u) params ty tpe"
  using translates_more_ids run_to_ids by blast

context adt_ids
begin

lemma map_extract_ty_translates:
  assumes "map_steps (extract_ty_with env adt_id txtcx) tys s = Inr (tps, t)"
    and "\<And>ty s tpe t. ty \<in> set tys \<Longrightarrow> extract_ty_with env adt_id txtcx ty s = Inr (tpe, t) \<Longrightarrow>
      translates env (did_ids t) (map_of (index_to_tparam txtcx)) ty tpe"
  shows "list_all2 (translates env (did_ids t) (map_of (index_to_tparam txtcx))) tys tps"
  by (rule map_steps_list_all2 [OF assms(1) extract_ty_runs])
    (auto intro: assms(2) translates_run_to)

lemma extract_ty_translates:
  "extract_ty_with env adt_id txtcx ty s = Inr (tpe, t) \<Longrightarrow>
    translates env (did_ids t) (map_of (index_to_tparam txtcx)) ty tpe"
proof (induction "size ty" arbitrary: ty s tpe t rule: less_induct)
  case less
  let ?R = "\<lambda>t. translates env (did_ids t) (map_of (index_to_tparam txtcx))"
  note unfold = less(2) [unfolded extract_ty_with.simps [of env adt_id txtcx ty]]
  show ?case
  proof (cases ty)
    case (TTuple tys)
    with unfold obtain tps u where tps: "map_steps (extract_ty_with env adt_id txtcx) tys s = Inr (tps, u)"
      and rest: "(if length tps = 0 then ret UnitType else if length tps = 1 then
            bind (unsupported ''Cannot extract type of one-tuples'') (\<lambda>_. ret Untyped)
          else ret (TupleType tps)) u = Inr (tpe, t)"
      by (auto simp: bind_Inr_iff)
    have "size a < Suc (size_list size tys)" if "a \<in> set tys" for a
      using that by (induction tys) auto
    then have all: "list_all2 (?R u) tys tps"
      using TTuple by (intro map_extract_ty_translates [OF tps] less(1)) auto
    with list_all2_lengthD [OF all] rest show ?thesis
      by (auto simp: TTuple bind_Inr_iff split: if_splits intro: translates.intros) 
        (cases tys; force intro: translates.t_tuple)
  next
    case (TAdt did substs)
    show ?thesis
    proof (cases "adt_kind env did")
      case Sort_kind
      then have "\<not> is_bigint env did" "\<not> adt_is_box (adt_def (tcx env) did)"
        "def_to_item_opt (std_items env) did \<noteq> Some SetType_item"
        by (auto simp: adt_kind_def split: if_splits)
      with unfold TAdt obtain sid u tps where sid: "adt_id did s = Inr (sid, u)"
        and tps: "map_steps (extract_ty_with env adt_id txtcx) (subst_types substs) u = Inr (tps, t)"
        and tpe: "tpe = ADTType sid tps"
        by (auto simp: bind_Inr_iff)
      have "run_to env u t"
        using runsD [OF runs_map_steps tps] extract_ty_runs by blast
      from run_to_ids [OF this] adt_id_registered [OF sid] have "did_ids t did = Some sid"
        by (auto simp: map_le_def dom_def get_id_from_def_def)
      moreover have "list_all2 (?R t) (subst_types substs) tps"
        using TAdt by (intro map_extract_ty_translates [OF tps] less(1)) (auto intro: subst_types_size)
      ultimately show ?thesis
        using Sort_kind TAdt tpe by (auto intro: translates.t_sort)
    qed (use unfold TAdt less(1) in \<open>auto simp: adt_kind_def bind_Inr_iff split: if_splits list.splits GenericArg.splits
          intro!: translates.intros\<close>)
  qed (use unfold less(1) in \<open>auto simp: bind_Inr_iff split: IntTy.splits UintTy.splits Mutability.splits option.splits
        intro: translates.intros\<close>)
qed

end

section \<open>Types extracted without an error\<close>

fun typed :: "Type \<Rightarrow> bool" where
  "typed Untyped \<longleftrightarrow> False"
| "typed (ADTType _ tps) \<longleftrightarrow> list_all typed tps"
| "typed (FunctionType from to) \<longleftrightarrow> list_all typed from \<and> typed to"
| "typed (SetType tpe) \<longleftrightarrow> typed tpe"
| "typed (TupleType tps) \<longleftrightarrow> list_all typed tps"
| "typed _ \<longleftrightarrow> True"

definition typed_params :: "TyExtractionCtxt \<Rightarrow> bool" where
  "typed_params txtcx \<longleftrightarrow> (\<forall>tparam \<in> snd ` set (index_to_tparam txtcx). typed (Type_of_TyParam tparam))"

definition typed_sort :: "ADTSort \<Rightarrow> bool" where
  "typed_sort adt \<longleftrightarrow> list_all (\<lambda>c. list_all (\<lambda>vd. typed (var_tpe (vd_v vd))) (cons_fields c)) (sort_constructors adt)"

definition no_errors :: "Session \<Rightarrow> bool" where
  "no_errors s \<longleftrightarrow> list_all (\<lambda>d. case d of Span_err _ \<Rightarrow> False | _ \<Rightarrow> True) (diags s)"

lemma no_errors_run_to: "run_to env s t \<Longrightarrow> no_errors t \<Longrightarrow> no_errors s"
  by (auto simp: run_to_def no_errors_def)

lemma unsupported_errors: "unsupported msg s = Inr (u, t) \<Longrightarrow> \<not> no_errors t"
  by (auto simp: unsupported_def no_errors_def)

lemma map_steps_no_errors:
  assumes "map_steps f xs s = Inr (ys, t)" and "\<And>x. x \<in> set xs \<Longrightarrow> runs env (f x)" and "no_errors t"
    and "\<And>x s y t. x \<in> set xs \<Longrightarrow> f x s = Inr (y, t) \<Longrightarrow> no_errors t \<Longrightarrow> P y"
  shows "list_all P ys"
proof -
  have "list_all2 (\<lambda>x y. no_errors t \<longrightarrow> P y) xs ys"
    by (rule map_steps_list_all2 [where R = "\<lambda>t x y. no_errors t \<longrightarrow> P y", OF assms(1,2)])
      (auto intro: assms(4) no_errors_run_to)
  with assms(3) show ?thesis
    by (auto simp: list_all2_conv_all_nth list_all_length)
qed

lemma typed_param: "typed_params txtcx \<Longrightarrow> map_of (index_to_tparam txtcx) i = Some tparam \<Longrightarrow> typed (Type_of_TyParam tparam)"
  by (auto simp: typed_params_def dest!: map_of_SomeD) 

context adt_ids
begin

lemma extract_ty_typed:
  assumes "typed_params txtcx"
  shows "extract_ty_with env adt_id txtcx ty s = Inr (tpe, t) \<Longrightarrow> no_errors t \<Longrightarrow> typed tpe"
proof (induction "size ty" arbitrary: ty s tpe t rule: less_induct)
  case less
  note unfold = less(2) [unfolded extract_ty_with.simps [of env adt_id txtcx ty]]
  have "list_all typed tps" if "map_steps (extract_ty_with env adt_id txtcx) tys u = Inr (tps, v)" "no_errors v"
    "\<And>a. a \<in> set tys \<Longrightarrow> size a < size ty" for tys tps u v
    by (rule map_steps_no_errors [OF that(1) extract_ty_runs that(2)]) (rule less(1) [OF that(3)])
  note list = this
  have sub: "typed T" if "extract_ty_with env adt_id txtcx a u = Inr (T, v)" "no_errors v" "size a < size ty"
    for a u T v
    using less(1) that by blast
  show ?case
  proof (cases ty)
    case (TTuple tys)
    have sizes: "size a < size (TTuple tys)" if "a \<in> set tys" for a
      using that by (induction tys) auto
    from unfold TTuple obtain tps u where tps: "map_steps (extract_ty_with env adt_id txtcx) tys s = Inr (tps, u)"
      and rest: "(if length tps = 0 then ret UnitType else if length tps = 1 then
            bind (unsupported ''Cannot extract type of one-tuples'') (\<lambda>_. ret Untyped)
          else ret (TupleType tps)) u = Inr (tpe, t)"
      by (auto simp: bind_Inr_iff)
    from rest less(3) have "t = u"
      by (auto simp: bind_Inr_iff split: if_splits dest: unsupported_errors)
    with list [OF tps] less(3) sizes rest TTuple show ?thesis
      by (auto simp: bind_Inr_iff split: if_splits dest: unsupported_errors)
  next
    case (TAdt did substs)
    have "size a < size ty" if "a \<in> set (subst_types substs)" for a
      using TAdt subst_types_size [OF that] by simp
    with unfold TAdt less(3) list [of "subst_types substs"] show ?thesis
      by (auto simp: bind_Inr_iff split: if_splits list.splits GenericArg.splits intro: sub) (erule sub; simp)
  qed (use unfold less(3) typed_param [OF assms] in \<open>auto simp: bind_Inr_iff BV_def
        split: IntTy.splits UintTy.splits Mutability.splits option.splits dest: unsupported_errors intro: sub\<close>)
qed

lemma extract_tys_typed:
  "typed_params txtcx \<Longrightarrow> extract_tys_with env adt_id txtcx tys s = Inr (tps, t) \<Longrightarrow> no_errors t \<Longrightarrow> list_all typed tps"
  unfolding extract_tys_with_def by (rule map_steps_no_errors [OF _ extract_ty_runs]) (auto intro: extract_ty_typed)

lemma replace_fun_params_typed:
  "typed_params txtcx \<Longrightarrow> replace_fun_params env adt_id ps fun_return txtcx s = Inr (txtcx', t) \<Longrightarrow> no_errors t \<Longrightarrow>
    typed_params txtcx'"
proof (induction ps arbitrary: fun_return txtcx s)
  case (Cons p ps)
  obtain i tys where p: "p = (i, tys)" by (cases p)
  with Cons.prems obtain tps s1 return_ty tpe s2 m where
    tps: "extract_tys_with env adt_id txtcx tys s = Inr (tps, s1)"
    and tpe: "extract_ty_with env adt_id txtcx return_ty s1 = Inr (tpe, s2)"
    and m: "insert_new i (Replaced (FunctionType tps tpe)) (index_to_tparam txtcx) s2 = Inr (m, s2)"
    and rest: "replace_fun_params env adt_id ps (AList.delete i fun_return) (txtcx\<lparr>index_to_tparam := m\<rparr>) s2 = Inr (txtcx', t)"
    by (auto simp: bind_Inr_iff insert_new_def split: option.splits if_splits)
  have ok2: "no_errors s2"
    using no_errors_run_to [OF runsD [OF replace_fun_params_runs rest] Cons.prems(3)] .
  then have ok1: "no_errors s1"
    using no_errors_run_to [OF runsD [OF extract_ty_runs tpe]] by simp
  have "typed (FunctionType tps tpe)"
    using extract_ty_typed [OF Cons.prems(1) tpe ok2] extract_tys_typed [OF Cons.prems(1) tps ok1] by simp
  then have "typed_params (txtcx\<lparr>index_to_tparam := m\<rparr>)"
    using m Cons.prems(1) by (auto simp: typed_params_def insert_new_def Type_of_TyParam_def split: if_splits)
  from Cons.IH [OF this rest Cons.prems(3)] show ?case .
qed simp

lemma extract_param_typed:
  "extract_param env fun_params param s = Inr (Some (k, tparam), t) \<Longrightarrow> typed (Type_of_TyParam tparam)"
  by (auto simp: extract_param_def bind_Inr_iff Type_of_TyParam_def split: if_splits)

lemma collect_params_values:
  "snd ` set (collect_params entries) \<subseteq> snd ` set (List.map_filter id entries)"
proof -
  have "snd ` set (fold (\<lambda>(k, v). AList.update k v) kvs m) \<subseteq> snd ` set kvs \<union> snd ` set m"
    for kvs and m :: "(nat \<times> TyParam) list"
  proof (induction kvs arbitrary: m)
    case (Cons kv kvs)
    obtain k v where kv: "kv = (k, v)" by (cases kv)
    have "snd ` set (AList.update k v m) \<subseteq> insert v (snd ` set m)"
      by (induction m) auto
    with Cons.IH [of "AList.update k v m"] kv show ?case by auto
  qed simp
  from this [of "List.map_filter id entries" "[]"] show ?thesis
    by (simp add: collect_params_def)
qed

lemma extract_generics_typed:
  assumes "extract_generics_with env adt_id def_id s = Inr ((tparams, txtcx), t)" and "no_errors t"
  shows "typed_params txtcx"
proof (cases "is_closure (tcx env) def_id")
  case True
  with assms show ?thesis
    by (auto simp: extract_generics_with_def Let_def bind_Inr_iff typed_params_def)
next
  case False
  with assms(1) obtain all_params s1 fun_params fun_return s2 entries where
    entries: "map_steps (extract_param env fun_params) all_params s1 = Inr (entries, s2)"
    and replace: "replace_fun_params env adt_id
      (in_order (hash_order env ''tparam_to_fun_params'' def_id (map fst fun_params)) fun_params) fun_return
      \<lparr>tx_def_id = def_id, index_to_tparam = collect_params entries\<rparr> s2 = Inr (txtcx, t)"
    by (auto simp: extract_generics_with_def Let_def bind_Inr_iff split: option.splits prod.splits)
  have "no_errors s2"
    using no_errors_run_to [OF runsD [OF replace_fun_params_runs replace] assms(2)] .
  have "list_all (\<lambda>entry. \<forall>k tparam. entry = Some (k, tparam) \<longrightarrow> typed (Type_of_TyParam tparam)) entries"
    by (rule map_steps_no_errors [OF entries runs_extract_param \<open>no_errors s2\<close>]) (auto intro: extract_param_typed)
  then have "typed (Type_of_TyParam tparam)" if "tparam \<in> snd ` set (List.map_filter id entries)" for tparam
    using that by (auto simp: List.map_filter_def list_all_iff)
  with collect_params_values [of entries] have "typed_params \<lparr>tx_def_id = def_id, index_to_tparam = collect_params entries\<rparr>"
    by (auto simp: typed_params_def)
  from replace_fun_params_typed [OF this replace assms(2)] show ?thesis .
qed

lemma extract_fields_typed:
  "typed_params txtcx \<Longrightarrow> extract_fields env adt_id txtcx fs fm s = Inr ((vds, fm'), t) \<Longrightarrow> no_errors t \<Longrightarrow>
    list_all (\<lambda>vd. typed (var_tpe (vd_v vd))) vds"
proof (induction fs arbitrary: fm s vds)
  case (Cons f fs)
  obtain flags fm1 where fm1: "take_flags (field_name f) fm = (flags, fm1)"
    by fastforce
  with Cons.prems(2) obtain u ty v rest where
    ty: "extract_ty_with env adt_id txtcx (field_ty f) u = Inr (ty, v)"
    and rest: "extract_fields env adt_id txtcx fs fm1 v = Inr ((rest, fm'), t)"
    and vds: "map (\<lambda>vd. var_tpe (vd_v vd)) vds = ty # map (\<lambda>vd. var_tpe (vd_v vd)) rest"
    by (auto simp: bind_Inr_iff Let_def split: prod.splits)
  have "typed ty"
    by (rule extract_ty_typed [OF Cons.prems(1) ty no_errors_run_to [OF runsD [OF extract_fields_runs rest] Cons.prems(3)]])
  with Cons.IH [OF Cons.prems(1) rest Cons.prems(3)] vds
  have "list_all typed (map (\<lambda>vd. var_tpe (vd_v vd)) vds)"
    by (simp only: vds) (simp add: list_all_iff)
  then show ?case
    by (simp add: list_all_iff)
qed simp

lemma extract_variants_typed:
  "typed_params txtcx \<Longrightarrow> extract_variants env adt_id txtcx sid vs fm s = Inr ((cs, fm'), t) \<Longrightarrow> no_errors t \<Longrightarrow>
    list_all (\<lambda>c. list_all (\<lambda>vd. typed (var_tpe (vd_v vd))) (cons_fields c)) cs"
proof (induction vs arbitrary: fm s cs)
  case (Cons w ws)
  from Cons.prems(2) obtain u vds fm1 v rest where
    vds: "extract_fields env adt_id txtcx (variant_fields w) fm u = Inr ((vds, fm1), v)"
    and rest: "extract_variants env adt_id txtcx sid ws fm1 v = Inr ((rest, fm'), t)"
    and cs: "map cons_fields cs = vds # map cons_fields rest"
    by (auto simp: bind_Inr_iff split: prod.splits)
  have "list_all (\<lambda>vd. typed (var_tpe (vd_v vd))) vds"
    by (rule extract_fields_typed [OF Cons.prems(1) vds no_errors_run_to [OF runsD [OF extract_variants_runs rest] Cons.prems(3)]])
  with Cons.IH [OF Cons.prems(1) rest Cons.prems(3)]
  have "list_all (list_all (\<lambda>vd. typed (var_tpe (vd_v vd)))) (map cons_fields cs)"
    by (simp only: cs) (simp add: list_all_iff)
  then show ?case
    by (simp add: list_all_iff)
qed simp

lemma extract_adt_typed:
  assumes "extract_adt_with env adt_id def_id s = Inr (adt, t)" and "known_sort (xtor s) def_id = None"
    and "no_errors t"
  shows "typed_sort adt"
proof -
  from assms(1,2) obtain u tparams txtcx v fm cs unused w sid where
    gen: "extract_generics_with env adt_id def_id u = Inr ((tparams, txtcx), v)"
    and cs: "extract_variants env adt_id txtcx sid (adt_variants (adt_def (tcx env) def_id)) fm v = Inr ((cs, unused), w)"
    and report: "(if is_local def_id then x_report_unused_flags unused else ret ()) w = Inr ((), t)"
    and adt: "sort_constructors adt = cs"
    by (auto simp: extract_adt_with_def bind_Inr_iff split: prod.splits)
  have "runs env (if is_local def_id then x_report_unused_flags unused else ret ())"
    by (intro run_intros)
  from no_errors_run_to [OF runsD [OF this report] assms(3)] have w: "no_errors w" .
  then have "no_errors v"
    using no_errors_run_to [OF runsD [OF extract_variants_runs cs]] by simp
  from extract_variants_typed [OF extract_generics_typed [OF gen this] cs w] adt show ?thesis
    by (simp add: typed_sort_def)
qed

end

end
