(* ===== verification/Type_Fuel.thy ===== *)
theory Type_Fuel
  imports Type_Spec
begin

text \<open>
  The fuel of the extraction of data types. Every new level of nesting registers a data
  type that was not registered before, so when the data types that can be reached lie in a
  finite set, the number of its unregistered elements is enough fuel: no recursion of the
  source is cut off.
\<close>

section \<open>Steps that do not run out of fuel\<close>

named_theorems fuel_intros \<open>steps with enough fuel\<close>

definition fuel_ok :: "DefId set \<Rightarrow> nat \<Rightarrow> (Session, 'a) step \<Rightarrow> bool" where
  "fuel_ok U n m \<longleftrightarrow> (\<forall>s. finite U \<longrightarrow> card (U - dom (did_ids s)) \<le> n \<longrightarrow> m s \<noteq> Inl Out_of_fuel)"

lemma fuel_okI: "(\<And>s. m s \<noteq> Inl Out_of_fuel) \<Longrightarrow> fuel_ok U n m"
  by (simp add: fuel_ok_def)

lemma unregistered_mono: "finite U \<Longrightarrow> run_to env s t \<Longrightarrow> card (U - dom (did_ids t)) \<le> card (U - dom (did_ids s))"
  using run_to_ids [of env s t] map_le_implies_dom_le [of "did_ids s" "did_ids t"] by (intro card_mono) auto

lemma fuel_ok_bind:
  assumes "runs env m" and "fuel_ok U n m" and "\<And>a s t. m s = Inr (a, t) \<Longrightarrow> fuel_ok U n (f a)"
  shows "fuel_ok U n (bind m f)"
  unfolding fuel_ok_def
proof (intro allI impI)
  fix s
  assume U: "finite U" "card (U - dom (did_ids s)) \<le> n"
  show "bind m f s \<noteq> Inl Out_of_fuel"
  proof (cases "m s")
    case (Inl e)
    with assms(2) U show ?thesis
      by (auto simp: bind_def fuel_ok_def)
  next
    case (Inr p)
    obtain a t where p: "p = (a, t)" by (cases p)
    with Inr assms(1) have "run_to env s t"
      by (auto intro: runsD)
    from unregistered_mono [OF U(1) this] U(2) have "card (U - dom (did_ids t)) \<le> n"
      by simp
    with assms(3) [of s a t] Inr p U(1) show ?thesis
      by (auto simp: bind_def fuel_ok_def)
  qed
qed

lemma fuel_ok_simple [fuel_intros]:
  "fuel_ok U n (ret a)" "fuel_ok U n (panic msg)" "fuel_ok U n (report d)" "fuel_ok U n (unsupported msg)"
  "fuel_ok U n (insert_new k v m)"
  by (auto intro!: fuel_okI simp: unsupported_def insert_new_def)

lemma fuel_ok_if [fuel_intros]:
  "(b \<Longrightarrow> fuel_ok U n m) \<Longrightarrow> (\<not> b \<Longrightarrow> fuel_ok U n m') \<Longrightarrow> fuel_ok U n (if b then m else m')"
  by simp

lemma fuel_ok_map_steps:
  "(\<And>x. x \<in> set xs \<Longrightarrow> runs env (f x)) \<Longrightarrow> (\<And>x. x \<in> set xs \<Longrightarrow> fuel_ok U n (f x)) \<Longrightarrow>
    fuel_ok U n (map_steps f xs)"
  by (induction xs) (auto intro!: fuel_intros run_intros fuel_ok_bind [where env = env])

lemma fresh_id_fuel: "fresh_id oc name path s \<noteq> Inl Out_of_fuel"
  by (auto simp: fresh_id_def UniqueCounter_fresh_def i32_add_def split: option.splits)

lemma register_def_fuel: "register_def num oc path_str d s \<noteq> Inl Out_of_fuel"
  using fresh_id_fuel
  by (auto simp: register_def_def bind_def res_bind_def insert_did_def split: prod.splits sum.splits)

lemma fuel_ok_operations [fuel_intros]:
  "fuel_ok U n (x_register_def env d)" "fuel_ok U n (x_get_or_register_def env d)"
  using register_def_fuel
  by (auto intro!: fuel_okI simp: x_register_def_def x_get_or_register_def_def on_xtor_def res_bind_def
      get_or_register_def_def split: sum.splits option.splits)

lemma fuel_ok_flags [fuel_intros]:
  "fuel_ok U n (report_flag_warnings ws)" "fuel_ok U n (x_extract_flags env h)" "fuel_ok U n (x_report_unused_flags fm)"
proof -
  have "fuel_ok U n (report_flag_warnings ws)" for ws
    unfolding report_flag_warnings_def
    by (intro fuel_intros run_intros fuel_ok_bind [where env = env] fuel_ok_map_steps [where env = env])
  then show "fuel_ok U n (report_flag_warnings ws)" "fuel_ok U n (x_extract_flags env h)"
    by (auto simp: x_extract_flags_def split: prod.split
        intro!: fuel_intros run_intros fuel_ok_bind [where env = env])
  show "fuel_ok U n (x_report_unused_flags fm)"
    by (auto simp: x_report_unused_flags_def split: option.split intro!: fuel_intros)
qed

section \<open>The data types that can be reached\<close>

fun adts_in :: "Ty \<Rightarrow> DefId set" and adts_in_arg :: "GenericArg \<Rightarrow> DefId set" where
  "adts_in (TTuple tys) = (\<Union>ty \<in> set tys. adts_in ty)"
| "adts_in (TAdt did substs) = insert did (\<Union>arg \<in> set substs. adts_in_arg arg)"
| "adts_in (TRef ty mut) = adts_in ty"
| "adts_in ty = {}"
| "adts_in_arg (GType ty) = adts_in ty"
| "adts_in_arg arg = {}"

lemma adts_in_subst_types: "ty \<in> set (subst_types substs) \<Longrightarrow> adts_in ty \<subseteq> (\<Union>arg \<in> set substs. adts_in_arg arg)"
  by (induction substs) (auto simp: subst_types_def map_filter_simps split: GenericArg.splits option.splits)

fun predicate_adts :: "Predicate \<Rightarrow> DefId set" where
  "predicate_adts (PTrait _ substs) = (\<Union>arg \<in> set substs. adts_in_arg arg)"
| "predicate_adts (PProjection _ substs ty) = adts_in ty"
| "predicate_adts POther = {}"

text \<open>A set of data types that is closed under what their definitions mention.\<close>

definition closed_adts :: "Env \<Rightarrow> DefId set \<Rightarrow> bool" where
  "closed_adts env U \<longleftrightarrow> (\<forall>d \<in> U.
     (\<forall>v \<in> set (adt_variants (adt_def (tcx env) d)). \<forall>f \<in> set (variant_fields v). adts_in (field_ty f) \<subseteq> U) \<and>
     (\<forall>p \<in> set (predicates_of (tcx env) d). predicate_adts p \<subseteq> U) \<and>
     all_generic_params_of (tcx env) d \<noteq> None)"

text \<open>The parents of a definition end when there is no infinite chain of parents.\<close>

lemma generics_chain_terminates:
  assumes "wfP (\<lambda>p d. gen_parent (gens d) = Some p)"
  shows "generics_chain gens d \<noteq> None"
  using assms
proof (induction d rule: wfp_induct_rule)
  case (less d)
  then show ?case
    by (subst generics_chain.simps) (auto simp: Let_def split: option.splits)
qed

section \<open>Enough fuel for types, generics and data types\<close>

locale fuelled_adt_ids = adt_ids +
  fixes U :: "DefId set" and n :: nat
  assumes finite_reachable: "finite U"
    and adt_id_fuel: "d \<in> U \<Longrightarrow> fuel_ok U n (adt_id d)"
begin

lemmas fuel_binds = fuel_ok_bind [where env = env] fuel_ok_map_steps [where env = env]

lemma extract_ty_fuel: "adts_in ty \<subseteq> U \<Longrightarrow> fuel_ok U n (extract_ty_with env adt_id txtcx ty)"
proof (induction "size ty" arbitrary: ty rule: less_induct)
  case less
  have "size a < Suc (size_list size tys)" if "a \<in> set tys" for a and tys :: "Ty list"
    using that by (induction tys) auto
  then have tuple: "fuel_ok U n (extract_ty_with env adt_id txtcx a)" if "ty = TTuple tys" "a \<in> set tys" for a tys
    using that less(2) by (intro less(1)) auto
  have adt: "fuel_ok U n (extract_ty_with env adt_id txtcx a)"
    if "ty = TAdt did substs" "a \<in> set (subst_types substs)" for a did substs
    using that less(2) subst_types_size [of a substs] adts_in_subst_types [of a substs] by (intro less(1)) auto
  have head: "fuel_ok U n (extract_ty_with env adt_id txtcx a)" if "ty = TAdt did (GType a # substs)" for a did substs
    using that less(2) by (intro less(1)) auto
  have did: "fuel_ok U n (adt_id did)" if "ty = TAdt did substs" for did substs
    using that less(2) by (intro adt_id_fuel) auto
  have ref: "fuel_ok U n (extract_ty_with env adt_id txtcx a)" if "ty = TRef a mut" for a mut
    using that less(2) by (intro less(1)) auto
  show ?case
    by (subst extract_ty_with.simps)
      (auto intro!: fuel_intros fuel_binds run_intros adt_id_runs extract_ty_runs
        intro: tuple adt head did ref
        split: Ty.split IntTy.split UintTy.split list.split GenericArg.split Mutability.split option.split)
qed

lemma extract_tys_fuel: "(\<Union>ty \<in> set tys. adts_in ty) \<subseteq> U \<Longrightarrow> fuel_ok U n (extract_tys_with env adt_id txtcx tys)"
  unfolding extract_tys_with_def
  by (intro fuel_binds extract_ty_runs extract_ty_fuel) auto

lemma replace_fun_params_fuel:
  "\<forall>(i, tys) \<in> set ps. (\<Union>ty \<in> set tys. adts_in ty) \<subseteq> U \<Longrightarrow> \<forall>(i, ty) \<in> set fun_return. adts_in ty \<subseteq> U \<Longrightarrow>
    fuel_ok U n (replace_fun_params env adt_id ps fun_return txtcx)"
proof (induction ps arbitrary: fun_return txtcx)
  case (Cons p ps)
  obtain i tys where p: "p = (i, tys)" by (cases p)
  have ret: "adts_in return_ty \<subseteq> U" if "map_of fun_return i = Some return_ty" for return_ty
    using map_of_SomeD [OF that] Cons.prems(2) by auto
  have rest: "fuel_ok U n (replace_fun_params env adt_id ps (AList.delete i fun_return) txtcx')" for txtcx'
    using Cons.prems by (intro Cons.IH) (auto simp: AList.delete_eq)
  show ?case
    using Cons.prems(1)
    by (auto simp: p split: option.split intro!: fuel_intros fuel_binds run_intros extract_tys_runs
        extract_ty_runs extract_ty_fuel [OF ret] extract_tys_fuel replace_fun_params_runs rest)
qed (auto intro: fuel_intros)

end

text \<open>The predicates contribute only types that they mention.\<close>

definition maps_within :: "DefId set \<Rightarrow> hof_params \<times> hof_returns \<Rightarrow> bool" where
  "maps_within U maps \<longleftrightarrow>
     (\<forall>(i, tys) \<in> set (fst maps). (\<Union>ty \<in> set tys. adts_in ty) \<subseteq> U) \<and> (\<forall>(i, ty) \<in> set (snd maps). adts_in ty \<subseteq> U)"

lemma type_at_Inr: "type_at substs i = Inr ty \<Longrightarrow> GType ty \<in> set substs"
  by (auto simp: type_at_def split: if_splits GenericArg.splits) (metis nth_mem)

lemma self_param_fuel: "self_param substs \<noteq> Inl Out_of_fuel"
  by (auto simp: self_param_def type_at_def res_bind_def split: sum.splits GenericArg.splits if_splits)

lemma params_ty_fuel: "res_bind (type_at substs i) tuple_fields \<noteq> Inl Out_of_fuel"
  by (auto simp: tuple_fields_def type_at_def res_bind_def split: sum.splits GenericArg.splits if_splits Ty.splits)

lemma fuel_ok_lift: "r \<noteq> Inl Out_of_fuel \<Longrightarrow> fuel_ok U n (lift_res r)"
  by (rule fuel_okI) (cases r; auto)

lemma fuel_ok_scan_predicate: "fuel_ok U n (scan_predicate env p maps)"
  by (cases p; cases maps)
    (auto intro!: fuel_intros fuel_ok_bind [where env = env] run_intros fuel_ok_lift self_param_fuel
        params_ty_fuel split: option.split)

lemma fuel_ok_scan_predicates: "fuel_ok U n (scan_predicates env ps maps)"
  by (induction ps arbitrary: maps) (auto intro!: fuel_intros fuel_ok_bind [where env = env] run_intros fuel_ok_scan_predicate)

lemma tuple_fields_Inr: "tuple_fields ty = Inr tys \<longleftrightarrow> ty = TTuple tys"
  by (cases ty) (auto simp: tuple_fields_def)

lemma params_ty_adts:
  assumes "res_bind (type_at substs i) tuple_fields = Inr tys"
  shows "(\<Union>ty \<in> set tys. adts_in ty) \<subseteq> (\<Union>arg \<in> set substs. adts_in_arg arg)"
proof -
  from assms have "GType (TTuple tys) \<in> set substs"
    by (auto simp: res_bind_Inr_iff tuple_fields_Inr dest: type_at_Inr)
  then show ?thesis by force
qed

lemma scan_predicate_result:
  assumes "scan_predicate env p (fps, frs) s = Inr (maps', t)"
  shows "maps' = (fps, frs) \<or>
    (\<exists>d substs i tys. p = PTrait d substs \<and> res_bind (type_at substs 1) tuple_fields = Inr tys \<and>
       maps' = (fps @ [(i, tys)], frs)) \<or>
    (\<exists>d substs i ty. p = PProjection d substs ty \<and> maps' = (fps, frs @ [(i, ty)]))"
proof (cases "\<exists>self. (\<exists>d substs. p = PTrait d substs \<and> self_param substs = Inr self) \<or>
    (\<exists>d substs ty. p = PProjection d substs ty \<and> self_param substs = Inr self)")
  case True
  then obtain self where self: "(\<exists>d substs. p = PTrait d substs \<and> self_param substs = Inr self) \<or>
    (\<exists>d substs ty. p = PProjection d substs ty \<and> self_param substs = Inr self)" ..
  with assms show ?thesis
    by (cases self; cases p) (auto simp: bind_Inr_iff lift_res_Inr_iff insert_new_def split: if_splits)
next
  case False
  with assms show ?thesis
    by (cases p) (auto simp: bind_Inr_iff lift_res_Inr_iff split: if_splits)
qed

lemma scan_predicate_within:
  assumes "scan_predicate env p maps s = Inr (maps', t)" and "predicate_adts p \<subseteq> U" and "maps_within U maps"
  shows "maps_within U maps'"
proof -
  obtain fps frs where maps: "maps = (fps, frs)" by (cases maps)
  from scan_predicate_result [OF assms(1) [unfolded maps]] show ?thesis
  proof (elim disjE exE conjE)
    fix d substs i tys
    assume "p = PTrait d substs" "res_bind (type_at substs 1) tuple_fields = Inr tys" "maps' = (fps @ [(i, tys)], frs)"
    with assms(2,3) params_ty_adts [of substs 1 tys] show ?thesis
      by (auto simp: maps maps_within_def dest!: subsetD)
  qed (use assms(2,3) in \<open>auto simp: maps maps_within_def\<close>)
qed

lemma scan_predicates_within:
  "scan_predicates env ps maps s = Inr (maps', t) \<Longrightarrow> \<forall>p \<in> set ps. predicate_adts p \<subseteq> U \<Longrightarrow>
    maps_within U maps \<Longrightarrow> maps_within U maps'"
proof (induction ps arbitrary: maps s)
  case (Cons p ps)
  then obtain m u where "scan_predicate env p maps s = Inr (m, u)" "scan_predicates env ps m u = Inr (maps', t)"
    by (fastforce simp: bind_Inr_iff)
  with Cons scan_predicate_within show ?case
    by (metis list.set_intros)
qed simp

lemma in_order_subset: "set (in_order order m) \<subseteq> set m"
  by (auto simp: in_order_def List.map_filter_def dest: map_of_SomeD)

lemma fuel_ok_check: "fuel_ok U n (check b msg)"
  by (auto simp: check_def intro: fuel_intros)

lemma fuel_ok_extract_param: "fuel_ok U n (extract_param env fun_params param)"
  by (auto simp: extract_param_def intro!: fuel_intros fuel_ok_bind [where env = env] run_intros)

context fuelled_adt_ids
begin

lemma extract_generics_fuel:
  assumes "\<forall>p \<in> set (predicates_of (tcx env) d). predicate_adts p \<subseteq> U"
    and "all_generic_params_of (tcx env) d \<noteq> None"
  shows "fuel_ok U n (extract_generics_with env adt_id d)"
proof (cases "is_closure (tcx env) d")
  case True
  then show ?thesis
    by (auto simp: extract_generics_with_def Let_def
        intro!: fuel_intros fuel_binds run_intros fuel_ok_check)
next
  case False
  from assms(2) obtain all_params where all: "all_generic_params_of (tcx env) d = Some all_params"
    by blast
  have replace: "fuel_ok U n (replace_fun_params env adt_id (in_order order fps) frs txtcx)"
    if "scan_predicates env (predicates_of (tcx env) d) ([], []) s = Inr ((fps, frs), t)" for order fps frs s t txtcx
  proof -
    have "maps_within U (fps, frs)"
      by (rule scan_predicates_within [OF that assms(1)]) (simp add: maps_within_def)
    then have "\<forall>(i, tys) \<in> set fps. (\<Union>ty \<in> set tys. adts_in ty) \<subseteq> U" "\<forall>(i, ty) \<in> set frs. adts_in ty \<subseteq> U"
      by (simp_all add: maps_within_def)
    with in_order_subset [of order fps] show ?thesis
      by (intro replace_fun_params_fuel) (meson subsetD)+
  qed
  let ?f = "\<lambda>(fun_params, fun_return).
      bind (map_steps (extract_param env fun_params) all_params) (\<lambda>entries.
      bind (replace_fun_params env adt_id
          (in_order (hash_order env ''tparam_to_fun_params'' d (map fst fun_params)) fun_params)
          fun_return \<lparr>tx_def_id = d, index_to_tparam = collect_params entries\<rparr>) (\<lambda>txtcx.
      ret (tparam_defs (in_order (hash_order env ''index_to_tparam'' d
          (map fst (index_to_tparam txtcx))) (index_to_tparam txtcx)), txtcx)))"
  have "fuel_ok U n (?f maps)" if "scan_predicates env (predicates_of (tcx env) d) ([], []) s = Inr (maps, t)"
    for maps s t
    using that
    by (cases maps)
      (auto intro!: fuel_intros fuel_binds run_intros fuel_ok_extract_param replace_fun_params_runs replace)
  then have "fuel_ok U n (bind (scan_predicates env (predicates_of (tcx env) d) ([], [])) ?f)"
    by (intro fuel_binds run_intros fuel_ok_scan_predicates)
  with False all show ?thesis
    by (simp add: extract_generics_with_def Let_def)
qed

lemma extract_fields_fuel:
  "\<forall>f \<in> set fs. adts_in (field_ty f) \<subseteq> U \<Longrightarrow> fuel_ok U n (extract_fields env adt_id txtcx fs fm)"
  by (induction fs arbitrary: fm)
    (auto simp: Let_def split: prod.split
      intro!: fuel_intros fuel_binds run_intros extract_ty_fuel extract_ty_runs extract_fields_runs)

lemma extract_variants_fuel:
  "\<forall>v \<in> set vs. \<forall>f \<in> set (variant_fields v). adts_in (field_ty f) \<subseteq> U \<Longrightarrow>
    fuel_ok U n (extract_variants env adt_id txtcx sid vs fm)"
  by (induction vs arbitrary: fm)
    (auto split: prod.split
      intro!: fuel_intros fuel_binds run_intros extract_fields_fuel extract_fields_runs extract_variants_runs)

lemma build_adt_fuel:
  assumes "closed_adts env U" and "d \<in> U"
  shows "fuel_ok U n (build_adt env adt_id d sid)"
proof -
  have gen: "fuel_ok U n (extract_generics_with env adt_id d)"
    using assms by (intro extract_generics_fuel) (auto simp: closed_adts_def)
  have var: "fuel_ok U n (extract_variants env adt_id txtcx sid (adt_variants (adt_def (tcx env) d)) fm)" for txtcx fm
    using assms by (intro extract_variants_fuel) (auto simp: closed_adts_def)
  show ?thesis
    by (auto split: prod.split intro!: fuel_intros fuel_binds run_intros gen var extract_generics_runs extract_variants_runs)
qed

lemma extract_adt_fuel:
  assumes "closed_adts env U" and "d \<in> U"
  shows "fuel_ok U n (extract_adt_with env adt_id d)"
proof -
  have "fuel_ok U n (bind (x_register_def env d) (build_adt env adt_id d))"
    by (intro fuel_intros fuel_binds run_intros build_adt_fuel assms)
  then show ?thesis
    by (auto simp: fuel_ok_def extract_adt_with_def split: option.split)
qed

text \<open>Registering a data type of the set leaves fewer to register.\<close>

lemma registered_fewer:
  assumes "x_register_def env d s = Inr (sid, t)" and "d \<in> U" "d \<notin> dom (did_ids s)"
    and "finite U" and "card (U - dom (did_ids s)) \<le> Suc n"
  shows "card (U - dom (did_ids t)) \<le> n"
proof -
  from map_le_implies_dom_le [OF run_to_ids [OF runsD [OF runs_operations(2) assms(1)]]]
    x_register_def_registers [OF assms(1)]
  have "insert d (dom (did_ids s)) \<subseteq> dom (did_ids t)"
    by auto
  with assms(2,3) have "U - dom (did_ids t) \<subset> U - dom (did_ids s)"
    by auto
  with assms(4,5) show ?thesis
    by (meson finite_Diff leD less_Suc_eq_le not_le_imp_less order.strict_trans2 psubset_card_mono)
qed

lemma extract_new_adt_fuel:
  assumes "closed_adts env U" and "d \<in> U"
  shows "fuel_ok U (Suc n) (extract_adt_id_with (extract_adt_with env adt_id) d)"
  unfolding fuel_ok_def
proof (intro allI impI)
  fix s
  assume U: "finite U" "card (U - dom (did_ids s)) \<le> Suc n"
  show "extract_adt_id_with (extract_adt_with env adt_id) d s \<noteq> Inl Out_of_fuel"
  proof (cases "get_id_from_def (xtor s) d")
    case None
    then have known: "known_sort (xtor s) d = None" and new: "d \<notin> dom (did_ids s)"
      by (auto simp: known_sort_def get_id_from_def_def)
    have "bind (x_register_def env d) (build_adt env adt_id d) s \<noteq> Inl Out_of_fuel"
    proof (cases "x_register_def env d s")
      case (Inl e)
      with fuel_ok_operations(1) [of U "Suc n" env d] U show ?thesis
        by (auto simp: bind_def fuel_ok_def)
    next
      case (Inr p)
      then obtain sid u where p: "p = (sid, u)" and reg: "x_register_def env d s = Inr (sid, u)"
        by (cases p) simp
      from registered_fewer [OF reg assms(2) new U] build_adt_fuel [OF assms, of sid] U(1) Inr p
      show ?thesis
        by (auto simp: bind_def fuel_ok_def)
    qed
    with known None show ?thesis
      by (auto simp: extract_adt_id_with_def extract_adt_with_def bind_def res_bind_def split: sum.splits)
  qed (simp add: extract_adt_id_with_def)
qed

end

text \<open>The set of data types to consider: a finite closed set, or none.\<close>

definition reach :: "Env \<Rightarrow> DefId set \<Rightarrow> DefId set" where
  "reach env U = (if finite U \<and> closed_adts env U then U else {})"

lemma reach_closed: "finite (reach env U)" "closed_adts env (reach env U)"
  by (simp_all add: reach_def closed_adts_def)

lemma fuelled_extract: "fuelled_adt_ids env (extract_adt_id env n) (reach env U) n"
proof (induction n)
  case 0
  show ?case
  proof (intro fuelled_adt_ids.intro adt_ids_extract fuelled_adt_ids_axioms.intro)
    show "fuel_ok (reach env U) 0 (extract_adt_id env 0 d)" if "d \<in> reach env U" for d
      using that
      by (auto simp: fuel_ok_def extract_adt_id_def extract_adt_id_with_def get_id_from_def_def
          split: option.splits)
  qed (rule reach_closed)
next
  case (Suc n)
  have "fuel_ok (reach env U) (Suc n) (extract_adt_id env (Suc n) d)" if "d \<in> reach env U" for d
    using fuelled_adt_ids.extract_new_adt_fuel [OF Suc reach_closed(2) that]
    by (simp add: extract_adt_id_def)
  then show ?case
    by (intro fuelled_adt_ids.intro adt_ids_extract fuelled_adt_ids_axioms.intro reach_closed)
qed

interpretation fuelled: fuelled_adt_ids env "extract_adt_id env n" "reach env U" n for env n U
  by (rule fuelled_extract)

section \<open>More fuel does not change a result\<close>

named_theorems approx_intros \<open>steps that differ only where the fuel ends\<close>

definition approx :: "('s, 'a) step \<Rightarrow> ('s, 'a) step \<Rightarrow> bool" where
  "approx m m' \<longleftrightarrow> (\<forall>s. m s = Inl Out_of_fuel \<or> m s = m' s)"

lemma approx_refl [approx_intros]: "approx m m"
  by (simp add: approx_def)

lemma approx_bind [approx_intros]: "approx m m' \<Longrightarrow> (\<And>a. approx (f a) (f' a)) \<Longrightarrow> approx (bind m f) (bind m' f')"
proof -
  assume m: "approx m m'" and f: "\<And>a. approx (f a) (f' a)"
  have "bind m f s = Inl Out_of_fuel \<or> bind m f s = bind m' f' s" for s
  proof (cases "m s = Inl Out_of_fuel")
    case True
    then show ?thesis by (simp add: bind_def)
  next
    case False
    with m have "m' s = m s"
      by (metis approx_def)
    then show ?thesis
      using f by (cases "m s") (auto simp: bind_def approx_def)
  qed
  then show ?thesis
    by (simp add: approx_def)
qed

lemma approx_map_steps [approx_intros]:
  "(\<And>x. x \<in> set xs \<Longrightarrow> approx (f x) (f' x)) \<Longrightarrow> approx (map_steps f xs) (map_steps f' xs)"
  by (induction xs) (auto intro!: approx_intros)

lemma approx_if [approx_intros]:
  "(b \<Longrightarrow> approx m m') \<Longrightarrow> (\<not> b \<Longrightarrow> approx k k') \<Longrightarrow> approx (if b then m else k) (if b then m' else k')"
  by simp

lemma extract_ty_approx:
  assumes "\<And>d. approx (adt_id d) (adt_id' d)"
  shows "approx (extract_ty_with env adt_id txtcx ty) (extract_ty_with env adt_id' txtcx ty)"
proof (induction "size ty" arbitrary: ty rule: less_induct)
  case less
  have "size a < Suc (size_list size tys)" if "a \<in> set tys" for a and tys :: "Ty list"
    using that by (induction tys) auto
  then have tuple: "approx (extract_ty_with env adt_id txtcx a) (extract_ty_with env adt_id' txtcx a)"
    if "ty = TTuple tys" "a \<in> set tys" for a tys
    using that by (intro less(1)) auto
  have adt: "approx (extract_ty_with env adt_id txtcx a) (extract_ty_with env adt_id' txtcx a)"
    if "ty = TAdt did substs" "a \<in> set (subst_types substs)" for a did substs
    using that subst_types_size [of a substs] by (intro less(1)) auto
  show ?case
    unfolding extract_ty_with.simps [of env _ txtcx ty]
    by (cases ty)
      (auto intro!: approx_intros assms intro: less(1) tuple adt split: list.split GenericArg.split Mutability.split)
qed

lemma replace_fun_params_approx:
  assumes "\<And>d. approx (adt_id d) (adt_id' d)"
  shows "approx (replace_fun_params env adt_id ps frs txtcx) (replace_fun_params env adt_id' ps frs txtcx)"
proof (induction ps arbitrary: frs txtcx)
  case (Cons p ps)
  then show ?case
    by (cases p) (auto simp: extract_tys_with_def intro!: approx_intros extract_ty_approx assms split: option.split)
qed (simp add: approx_refl)

lemma extract_generics_approx:
  assumes "\<And>d. approx (adt_id d) (adt_id' d)"
  shows "approx (extract_generics_with env adt_id d) (extract_generics_with env adt_id' d)"
  by (auto simp: extract_generics_with_def Let_def split: option.split prod.split
      intro!: approx_intros replace_fun_params_approx assms)

lemma extract_fields_approx:
  assumes "\<And>d. approx (adt_id d) (adt_id' d)"
  shows "approx (extract_fields env adt_id txtcx fs fm) (extract_fields env adt_id' txtcx fs fm)"
  by (induction fs arbitrary: fm)
    (auto simp: Let_def split: prod.split intro!: approx_intros extract_ty_approx assms)

lemma extract_variants_approx:
  assumes "\<And>d. approx (adt_id d) (adt_id' d)"
  shows "approx (extract_variants env adt_id txtcx sid vs fm) (extract_variants env adt_id' txtcx sid vs fm)"
  by (induction vs arbitrary: fm)
    (auto split: prod.split intro!: approx_intros extract_fields_approx assms)

lemma extract_adt_approx:
  assumes "\<And>d. approx (adt_id d) (adt_id' d)"
  shows "approx (extract_adt_with env adt_id d) (extract_adt_with env adt_id' d)"
proof -
  have "approx (build_adt env adt_id d sid) (build_adt env adt_id' d sid)" for sid
    by (rule approx_bind [OF approx_refl], clarify, rule approx_bind [OF extract_generics_approx [OF assms]], clarify,
        rule approx_bind [OF extract_variants_approx [OF assms] approx_refl])
  then have "approx (bind (x_register_def env d) (build_adt env adt_id d))
      (bind (x_register_def env d) (build_adt env adt_id' d))"
    by (rule approx_bind [OF approx_refl])
  then show ?thesis
    unfolding approx_def extract_adt_with_def by (metis (no_types, lifting) option.case_eq_if)
qed

lemma extract_adt_id_with_approx:
  assumes "\<And>d. approx (extract d) (extract' d)"
  shows "approx (extract_adt_id_with extract d) (extract_adt_id_with extract' d)"
proof -
  have "approx (bind (extract d) (\<lambda>adt. ret (sort_id adt))) (bind (extract' d) (\<lambda>adt. ret (sort_id adt)))"
    by (intro approx_intros assms)
  then show ?thesis
    by (auto simp: approx_def extract_adt_id_with_def split: option.split)
qed

lemma extract_adt_id_more_fuel: "approx (extract_adt_id env n d) (extract_adt_id env (n + k) d)"
proof -
  have "approx (extract_adt env n d) (extract_adt env (n + k) d)" for d
  proof (induction n arbitrary: d)
    case (Suc n)
    then show ?case
      by (auto intro!: extract_adt_approx extract_adt_id_with_approx)
  qed (simp add: approx_def)
  then show ?thesis
    unfolding extract_adt_id_def by (rule extract_adt_id_with_approx)
qed

section \<open>A small program\<close>

text \<open>\<open>struct Node { next: Box<Node>, val: i32 }\<close> in the crate \<open>m\<close>.\<close>

definition local_def :: "nat \<Rightarrow> DefId" where
  "local_def i = \<lparr>krate = 0, def_index = i\<rparr>"

definition box_def :: DefId where
  "box_def = \<lparr>krate = 1, def_index = 9\<rparr>"

definition node_fields :: "FieldDef list" where
  "node_fields =
     [\<lparr>field_did = local_def 5, field_name = ''next'', field_ty = TAdt box_def [GType (TAdt (local_def 3) [])]\<rparr>,
      \<lparr>field_did = local_def 6, field_name = ''val'', field_ty = TInt I32\<rparr>]"

definition sample_tcx :: TyCtxt where
  "sample_tcx = \<lparr>crates = [], crate_name = (\<lambda>_. ''m''), num_defs = (\<lambda>_. 0), def_name = (\<lambda>_. None),
     require_lang_item = (\<lambda>_. box_def),
     def_path_str = (\<lambda>d. if d = local_def 3 then ''m::Node'' else if d = local_def 5 then ''m::Node::next'' else ''m::x''),
     parent_of = (\<lambda>_. None),
     generics_of = (\<lambda>_. \<lparr>gen_parent = None, gen_parent_count = 0, gen_params = []\<rparr>),
     predicates_of = (\<lambda>_. []), is_closure = (\<lambda>_. False),
     adt_def = (\<lambda>d. \<lparr>adt_is_box = (d = box_def), adt_variants = (if d = local_def 3 then
        [\<lparr>variant_did = local_def 4, variant_fields = node_fields\<rparr>] else [])\<rparr>),
     hir_id_of = (\<lambda>d. \<lparr>hir_owner = def_index d, hir_local_id = 0\<rparr>), hir_attrs = (\<lambda>_. []),
     fn_sig = (\<lambda>_. ([], TBool)), int_bit_width = (\<lambda>_. None), uint_bit_width = (\<lambda>_. None)\<rparr>"

definition sample_env :: Env where
  "sample_env = \<lparr>tcx = sample_tcx, std_items = \<lparr>item_defs = [], def_items = Map.empty\<rparr>,
     overflow_checks = True, numeric = ascii_numeric, hash_order = (\<lambda>_ _ ks. ks)\<rparr>"

definition sample_session :: Session where
  "sample_session = \<lparr>xtor = Extraction_new, diags = []\<rparr>"

lemma sample_simps [simp]:
  "numeric sample_env = ascii_numeric" "overflow_checks sample_env = True" "tcx sample_env = sample_tcx"
  "def_path_str sample_tcx (local_def 3) = ''m::Node''" "def_path_str sample_tcx (local_def 5) = ''m::Node::next''"
  "def_path_str sample_tcx box_def = ''m::x''" "def_path_str sample_tcx (local_def 4) = ''m::x''"
  "def_path_str sample_tcx (local_def 6) = ''m::x''"
  "adt_is_box (adt_def sample_tcx d) = (d = box_def)" "def_to_item_opt (std_items sample_env) d = None"
  "adt_variants (adt_def sample_tcx (local_def 3)) = [\<lparr>variant_did = local_def 4, variant_fields = node_fields\<rparr>]"
  "adt_variants (adt_def sample_tcx box_def) = []"
  "is_closure sample_tcx d = False" "predicates_of sample_tcx d = []" "hir_attrs sample_tcx h = []"
  "generics_of sample_tcx d = \<lparr>gen_parent = None, gen_parent_count = 0, gen_params = []\<rparr>"
  "hash_order sample_env v d ks = ks" "is_local (local_def i)" "local_def i = local_def j \<longleftrightarrow> i = j"
  "box_def \<noteq> local_def i" "local_def i \<noteq> box_def"
  by (simp_all add: sample_env_def sample_tcx_def def_to_item_opt_def local_def_def box_def_def is_local_def)

lemma sample_node:
  "\<exists>adt t. extract_adt sample_env 1 (local_def 3) sample_session = Inr (adt, t) \<and> no_errors t \<and>
     map (\<lambda>vd. var_tpe (vd_v vd)) (concat (map cons_fields (sort_constructors adt))) =
       [ADTType (sort_id adt) [], BV True 32]"
  by (simp add: extract_adt_with_def known_sort_def sample_session_def Extraction_new_def bind_def
      x_register_def_def on_xtor_def register_def_def symbol_path_from_def_id_def compatible_name_def
      fresh_id_def UniqueCounter_fresh_def insert_did_def x_extract_flags_def extract_flags_def Flags_new_def
      report_flag_warnings_def extract_generics_with_def all_generic_params_of_def generics_chain.simps
      collect_params_def map_filter_simps in_order_def tparam_defs_def x_get_or_register_def_def
      get_or_register_def_def get_id_from_def_def node_fields_def extract_ty_with.simps is_bigint_def
      extract_adt_id_with_def subst_types_def take_flags_def i32_add_def x_report_unused_flags_def
      report_unused_flags_def no_errors_def to_stainless_def Let_def ascii_numeric_def is_digit_def)

definition no_params :: TyExtractionCtxt where
  "no_params = \<lparr>tx_def_id = local_def 1, index_to_tparam = []\<rparr>"

abbreviation node_ty :: Ty where
  "node_ty \<equiv> TAdt (local_def 3) []"

lemma sample_node_ty:
  "\<exists>stid t. extract_ty sample_env 1 no_params (TRef (TAdt box_def [GType node_ty]) Not_mut) sample_session =
     Inr (ADTType stid [], t)"
proof -
  obtain adt t where "extract_adt sample_env 1 (local_def 3) sample_session = Inr (adt, t)"
    using sample_node by blast
  then have "extract_adt_id sample_env 1 (local_def 3) sample_session = Inr (sort_id adt, t)"
    by (simp add: extract_adt_id_def extract_adt_id_with_Inr_iff sample_session_def Extraction_new_def
        get_id_from_def_def)
  then show ?thesis
    by (simp add: extract_ty_def extract_ty_with.simps is_bigint_def subst_types_def map_filter_simps bind_def)
qed

section \<open>Properties\<close>

text \<open>
  C16: The extraction of a type implements the stateless translation: whatever state it
  starts in and whatever it registers on the way, its result is the translation of the type
  under the ids registered at the end. Boxes and immutable references are erased, sets and
  big integers become the built-in types, and data types refer to their registered ids.
\<close>

theorem extracted_types_translate:
  assumes "extract_ty env fuel txtcx ty s = Inr (tpe, t)"
  shows "translates env (did_to_stid (mapping (xtor t))) (map_of (index_to_tparam txtcx)) ty tpe"
  using adts.extract_ty_translates [OF assms [unfolded extract_ty_def]] .

lemma extracted_types_translate_witness:
  "\<exists>stid t. translates sample_env (did_ids t) Map.empty
     (TRef (TAdt box_def [GType node_ty]) Not_mut) (ADTType stid [])"
proof -
  obtain stid t where "extract_ty sample_env 1 no_params (TRef (TAdt box_def [GType node_ty]) Not_mut)
      sample_session = Inr (ADTType stid [], t)"
    using sample_node_ty by blast
  from extracted_types_translate [OF this] show ?thesis
    by (auto simp: no_params_def)
qed

text \<open>
  A Rust type is extracted to the same Stainless type wherever it occurs: two
  extractions of it in one run of the program, however far apart, give equal results.
\<close>

lemma same_type_same_translation:
  assumes "extract_ty env fuel txtcx ty s = Inr (tpe, t)" and "run_to env t u"
    and "extract_ty env fuel' txtcx ty u = Inr (tpe', v)"
  shows "tpe = tpe'"
proof -
  have "translates env (did_ids t) (map_of (index_to_tparam txtcx)) ty tpe"
    "translates env (did_ids v) (map_of (index_to_tparam txtcx)) ty tpe'"
    using assms(1,3) adts.extract_ty_translates by (simp_all add: extract_ty_def)
  moreover have "run_to env u v"
    using runsD [OF adts.extract_ty_runs assms(3) [unfolded extract_ty_def]] .
  then have "run_to env t v"
    using run_to_trans assms(2) by blast
  ultimately show ?thesis
    using translates_unique translates_run_to by blast
qed

lemma same_type_same_translation_witness:
  "\<exists>tpe t. extract_ty sample_env 1 no_params (TRef (TAdt box_def [GType node_ty]) Not_mut) sample_session =
       Inr (tpe, t) \<and>
     (\<forall>tpe' v. extract_ty sample_env 7 no_params (TRef (TAdt box_def [GType node_ty]) Not_mut) t = Inr (tpe', v) \<longrightarrow>
       tpe = tpe')"
  using sample_node_ty same_type_same_translation [OF _ run_to_refl] by blast

text \<open>
  C17: If the extraction of a new data type reports no error, then no field of it has a type
  that contains \<open>Untyped\<close>, the placeholder for what could not be extracted.
\<close>

theorem sorts_without_errors_are_typed:
  assumes "extract_adt env fuel d s = Inr (adt, t)" and "known_sort (xtor s) d = None" and "no_errors t"
  shows "typed_sort adt"
proof (cases fuel)
  case (Suc n)
  have "extract_adt_with env (extract_adt_id env n) d s = Inr (adt, t)"
    using assms(1) by (simp add: Suc extract_adt_id_def)
  from adts.extract_adt_typed [OF this assms(2,3)] show ?thesis .
qed (use assms(1) in simp)

lemma sorts_without_errors_are_typed_witness:
  "\<exists>adt t. extract_adt sample_env 1 (local_def 3) sample_session = Inr (adt, t) \<and> typed_sort adt"
proof -
  obtain adt t where *: "extract_adt sample_env 1 (local_def 3) sample_session = Inr (adt, t)" "no_errors t"
    using sample_node by blast
  have "known_sort (xtor sample_session) (local_def 3) = None"
    by (simp add: known_sort_def sample_session_def Extraction_new_def)
  from sorts_without_errors_are_typed [OF *(1) this *(2)] * show ?thesis by blast
qed

text \<open>
  The mutual recursion of types and data types ends. If the data types that a type can
  reach lie in a finite set that is closed under the definitions of its members, then fuel
  for the members that are not registered yet is enough, for recursive data types too, and
  any more fuel gives the same result.
\<close>

lemma enough_fuel_for_types:
  assumes "finite U" and "closed_adts env U" and "adts_in ty \<subseteq> U"
    and "card (U - dom (did_to_stid (mapping (xtor s)))) \<le> fuel"
  shows "extract_ty env fuel txtcx ty s \<noteq> Inl Out_of_fuel \<and>
    extract_ty env (fuel + extra) txtcx ty s = extract_ty env fuel txtcx ty s"
proof -
  have reach: "reach env U = U"
    using assms(1,2) by (simp add: reach_def)
  have enough: "extract_ty env fuel txtcx ty s \<noteq> Inl Out_of_fuel"
    using fuelled.extract_ty_fuel [of ty env U fuel txtcx] assms
    by (simp add: reach extract_ty_def fuel_ok_def)
  have "approx (extract_ty env fuel txtcx ty) (extract_ty env (fuel + extra) txtcx ty)"
    unfolding extract_ty_def by (rule extract_ty_approx) (rule extract_adt_id_more_fuel)
  with enough show ?thesis
    by (auto simp: approx_def)
qed

lemma enough_fuel_for_types_witness:
  "extract_ty sample_env 2 no_params node_ty sample_session \<noteq> Inl Out_of_fuel"
proof -
  have "closed_adts sample_env {box_def, local_def 3}"
    by (auto simp: closed_adts_def node_fields_def all_generic_params_of_def generics_chain.simps)
  moreover have "card ({box_def, local_def 3} - dom (did_to_stid (mapping (xtor sample_session)))) \<le> 2"
    by (simp add: sample_session_def Extraction_new_def)
  ultimately show ?thesis
    using enough_fuel_for_types [of "{box_def, local_def 3}" sample_env node_ty sample_session 2 no_params 0] by simp
qed

end
