(* ===== verification/Literals.thy ===== *)
theory Literals
  imports Type_Fuel
begin

text \<open>
  Literals, \<open>stainless_extraction/src/literal.rs\<close>: from the constants of the compiler to
  Stainless literals. A constant is known by its type, by the bits that \<open>try_to_bits\<close>
  returns at the width of its type, and, for a string slice, by its bytes.
\<close>

record Const =
  const_ty :: Ty
  const_bits :: "nat option"
  const_slice :: "string option"

datatype Literal =
    Lit_Unit
  | Lit_Bool bool
  | Lit_Int "128 word" "64 word"
  | Lit_Uint "128 word" "64 word"
  | Lit_String string

text \<open>\<open>value as i128\<close> keeps the bits; \<open>*size as Int\<close> keeps the low 32.\<close>

definition as_st_literal :: "Literal \<Rightarrow> Expr" where
  "as_st_literal lit = (case lit of
       Lit_Unit \<Rightarrow> UnitLiteral
     | Lit_Bool value \<Rightarrow> BooleanLiteral value
     | Lit_Int value width \<Rightarrow> BVLiteral \<lparr>bvl_signed = True, bvl_value = sint value, bvl_size = ucast width\<rparr>
     | Lit_Uint value width \<Rightarrow> BVLiteral \<lparr>bvl_signed = False, bvl_value = uint value, bvl_size = ucast width\<rparr>
     | Lit_String value \<Rightarrow> StringLiteral value)"

section \<open>UTF-8\<close>

text \<open>
  \<open>std::str::from_utf8\<close> accepts the well-formed sequences: no overlong encodings, no
  surrogates, nothing above \<open>U+10FFFF\<close>.
\<close>

definition continuation :: "char \<Rightarrow> bool" where
  "continuation c \<longleftrightarrow> 0x80 \<le> (of_char c :: nat) \<and> (of_char c :: nat) \<le> 0xBF"

definition second_of_three :: "nat \<Rightarrow> nat \<Rightarrow> bool" where
  "second_of_three a b \<longleftrightarrow> (a = 0xE0 \<longrightarrow> 0xA0 \<le> b) \<and> (a = 0xED \<longrightarrow> b \<le> 0x9F)"

definition second_of_four :: "nat \<Rightarrow> nat \<Rightarrow> bool" where
  "second_of_four a b \<longleftrightarrow> (a = 0xF0 \<longrightarrow> 0x90 \<le> b) \<and> (a = 0xF4 \<longrightarrow> b \<le> 0x8F)"

fun valid_utf8 :: "string \<Rightarrow> bool" where
  "valid_utf8 [] \<longleftrightarrow> True"
| "valid_utf8 (c # cs) \<longleftrightarrow>
     (let a = (of_char c :: nat) in
      if a < 0x80 then valid_utf8 cs
      else if 0xC2 \<le> a \<and> a \<le> 0xDF then
        (case cs of c1 # cs' \<Rightarrow> continuation c1 \<and> valid_utf8 cs' | _ \<Rightarrow> False)
      else if 0xE0 \<le> a \<and> a \<le> 0xEF then
        (case cs of c1 # c2 # cs' \<Rightarrow>
           continuation c1 \<and> continuation c2 \<and> second_of_three a (of_char c1) \<and> valid_utf8 cs' | _ \<Rightarrow> False)
      else if 0xF0 \<le> a \<and> a \<le> 0xF4 then
        (case cs of c1 # c2 # c3 # cs' \<Rightarrow>
           continuation c1 \<and> continuation c2 \<and> continuation c3 \<and> second_of_four a (of_char c1) \<and> valid_utf8 cs'
         | _ \<Rightarrow> False)
      else False)"

section \<open>Reading constants\<close>

text \<open>\<open>TryFrom<&Const> for Literal\<close>: \<open>Inr None\<close> is \<open>Err(())\<close>.\<close>

definition Literal_try_from :: "TyCtxt \<Rightarrow> Const \<Rightarrow> Literal option res" where
  "Literal_try_from cx konst = (case const_ty konst of
       TTuple [] \<Rightarrow> Inr (Some Lit_Unit)
     | TBool \<Rightarrow>
         (case const_bits konst of
            None \<Rightarrow> Inl (Panic ''called `Option::unwrap()` on a `None` value'')
          | Some bits \<Rightarrow> Inr (Some (Lit_Bool (bits = 1))))
     | TInt int_ty \<Rightarrow>
         Inr (Option.bind (int_bit_width cx int_ty) (\<lambda>width.
           map_option (\<lambda>bits. Lit_Int (of_nat bits) (of_nat width)) (const_bits konst)))
     | TUint uint_ty \<Rightarrow>
         Inr (Option.bind (uint_bit_width cx uint_ty) (\<lambda>width.
           map_option (\<lambda>bits. Lit_Uint (of_nat bits) (of_nat width)) (const_bits konst)))
     | TRef TStr _ \<Rightarrow>
         (case const_slice konst of
            None \<Rightarrow> Inr None
          | Some data \<Rightarrow>
              if valid_utf8 data then Inr (Some (Lit_String data))
              else Inl (Panic ''Expected UTF8 str in ConstValue''))
     | _ \<Rightarrow> Inr None)"

section \<open>Lemmas\<close>

lemma signed_take_bit_unsigned:
  fixes x :: int
  assumes "0 \<le> x" and "x < 2 ^ Suc n"
  shows "signed_take_bit n x = (if x < 2 ^ n then x else x - 2 ^ Suc n)"
proof (cases "x < 2 ^ n")
  case True
  then have "(x + 2 ^ n) mod 2 ^ Suc n = x + 2 ^ n"
    using assms by (intro mod_pos_pos_trivial) simp_all
  with True show ?thesis
    by (simp add: signed_take_bit_eq_take_bit_shift take_bit_eq_mod)
next
  case False
  have "(x + 2 ^ n) mod 2 ^ Suc n = (x + 2 ^ n - 2 ^ Suc n) mod 2 ^ Suc n"
    by (rule minus_mod_self2 [symmetric])
  also have "\<dots> = x + 2 ^ n - 2 ^ Suc n"
    using assms False by (intro mod_pos_pos_trivial) simp_all
  finally show ?thesis
    using False by (simp add: signed_take_bit_eq_take_bit_shift take_bit_eq_mod)
qed

lemma of_nat_less_power: "int n < 2 ^ k \<longleftrightarrow> n < 2 ^ k"
  by (metis of_nat_less_iff of_nat_numeral of_nat_power)

lemma sint_of_nat_128:
  assumes "bits < 2 ^ 128"
  shows "sint (of_nat bits :: 128 word) = (if bits < 2 ^ 127 then int bits else int bits - 2 ^ 128)"
proof -
  have "sint (of_nat bits :: 128 word) = signed_take_bit 127 (int bits)"
    by (simp add: signed_of_nat)
  also have "\<dots> = (if int bits < 2 ^ 127 then int bits else int bits - 2 ^ Suc 127)"
    using assms of_nat_less_power [of bits 128] by (intro signed_take_bit_unsigned) simp_all
  finally show ?thesis
    using of_nat_less_power [of bits 127] by simp
qed

text \<open>\<open>bit_width\<close> as rustc documents it: the bits of the type, none for the pointer-sized types.\<close>

locale bit_widths =
  fixes int_width :: "IntTy \<Rightarrow> nat option" and uint_width :: "UintTy \<Rightarrow> nat option"
  assumes int_widths: "int_width I8 = Some 8" "int_width I16 = Some 16" "int_width I32 = Some 32"
      "int_width I64 = Some 64" "int_width I128 = Some 128" "int_width Isize = None"
    and uint_widths: "uint_width U8 = Some 8" "uint_width U16 = Some 16" "uint_width U32 = Some 32"
      "uint_width U64 = Some 64" "uint_width U128 = Some 128" "uint_width Usize = None"
begin

lemma int_width_le: "int_width i = Some w \<Longrightarrow> 8 \<le> w \<and> w \<le> 128 \<and> BV True (of_nat w) = BV True (int_bits i)"
  by (cases i) (auto simp: int_widths)

lemma uint_width_le: "uint_width u = Some w \<Longrightarrow> 8 \<le> w \<and> w \<le> 128 \<and> BV False (of_nat w) = BV False (uint_bits u)"
  by (cases u) (auto simp: uint_widths)

end

fun rust_int_width :: "IntTy \<Rightarrow> nat option" where
  "rust_int_width I8 = Some 8" | "rust_int_width I16 = Some 16" | "rust_int_width I32 = Some 32"
| "rust_int_width I64 = Some 64" | "rust_int_width I128 = Some 128" | "rust_int_width Isize = None"

fun rust_uint_width :: "UintTy \<Rightarrow> nat option" where
  "rust_uint_width U8 = Some 8" | "rust_uint_width U16 = Some 16" | "rust_uint_width U32 = Some 32"
| "rust_uint_width U64 = Some 64" | "rust_uint_width U128 = Some 128" | "rust_uint_width Usize = None"

interpretation rust: bit_widths rust_int_width rust_uint_width
  by unfold_locales simp_all

lemma of_nat_width: "w \<le> 128 \<Longrightarrow> (ucast (of_nat w :: 64 word) :: i32) = of_nat w"
  by (simp add: unsigned_of_nat take_bit_nat_eq_self)

text \<open>The value of a bit pattern of \<open>w\<close> bits in the 128-bit literal, and when it is the signed number.\<close>

lemma bits_in_128:
  assumes "0 < w" and "w \<le> 128" and "bits < 2 ^ w"
  shows "sint (of_nat bits :: 128 word) = (if bits < 2 ^ 127 then int bits else int bits - 2 ^ 128)"
    and "\<not> bits < 2 ^ 127 \<Longrightarrow> w = 128"
proof -
  have "bits < 2 ^ 128"
    using assms by (meson less_le_trans one_le_numeral power_increasing)
  then show "sint (of_nat bits :: 128 word) = (if bits < 2 ^ 127 then int bits else int bits - 2 ^ 128)"
    by (rule sint_of_nat_128)
  show "w = 128" if "\<not> bits < 2 ^ 127"
  proof (rule ccontr)
    assume "w \<noteq> 128"
    with assms have "(2 :: nat) ^ w \<le> 2 ^ 127"
      by (intro power_increasing) auto
    with that assms(3) show False by simp
  qed
qed

lemma literal_value_mod:
  assumes "0 < w" and "w \<le> 128" and "bits < 2 ^ w"
  shows "sint (of_nat bits :: 128 word) mod 2 ^ w = int bits"
proof -
  have bits: "int bits < 2 ^ w"
    using assms(3) by (metis of_nat_less_iff of_nat_numeral of_nat_power)
  show ?thesis
  proof (cases "bits < 2 ^ 127")
    case False
    then have "w = 128"
      by (rule bits_in_128(2) [OF assms])
    then have "(int bits - 2 ^ 128) mod 2 ^ w = int bits mod 2 ^ w"
      by (simp only: minus_mod_self2)
    with False bits_in_128(1) [OF assms] bits show ?thesis by simp
  qed (use bits_in_128(1) [OF assms] bits in simp)
qed

lemma literal_value_signed:
  assumes "0 < w" and "w \<le> 128" and "bits < 2 ^ w"
  shows "sint (of_nat bits :: 128 word) = signed_take_bit (w - 1) (int bits) \<longleftrightarrow> bits < 2 ^ (w - 1) \<or> w = 128"
proof -
  note v = bits_in_128(1) [OF assms] and big = bits_in_128(2) [OF assms]
  obtain k where k: "w = Suc k"
    using assms(1) by (cases w) auto
  have bits: "int bits < 2 ^ w"
    using assms(3) by (metis of_nat_less_iff of_nat_numeral of_nat_power)
  have sg: "signed_take_bit k (int bits) = (if bits < 2 ^ k then int bits else int bits - 2 ^ w)"
    using signed_take_bit_unsigned [of "int bits" k] bits of_nat_less_power [of bits k] by (simp add: k)
  have "bits < 2 ^ 127" if "bits < 2 ^ k"
    using that big k by (cases "bits < 2 ^ 127") auto
  moreover have "w \<noteq> 128" if "\<not> bits < 2 ^ k" "bits < 2 ^ 127"
    using that k by auto
  ultimately consider "bits < 2 ^ k" "bits < 2 ^ 127" | "\<not> bits < 2 ^ k" "bits < 2 ^ 127" "w \<noteq> 128"
    | "\<not> bits < 2 ^ 127" "w = 128" "\<not> bits < 2 ^ k"
    using big by blast
  then show ?thesis
  proof cases
    case 2
    have "(2 :: int) ^ w \<noteq> 0" by simp
    with 2 v sg show ?thesis by (simp add: k del: power_Suc)
  qed (use v sg k in auto)
qed

section \<open>Properties\<close>



end
