(* ===== verification/Hair.thy ===== *)
theory Hair
  imports Literals
begin

text \<open>
  The bodies that the extraction reads: the compiler's HAIR, as far as
  \<open>stainless_extraction/src/expr.rs\<close> and \<open>bindings.rs\<close> match on it. An \<open>ExprRef\<close> of the
  source is mirrored into an expression before use; here a body is the tree of the mirrored
  expressions. Spans are left out.
\<close>

datatype UnOp = Op_Not | Op_Neg

datatype BinOp =
    Op_Add | Op_Sub | Op_Mul | Op_Div | Op_Rem | Op_BitXor | Op_BitAnd | Op_BitOr | Op_Shl | Op_Shr
  | Op_Eq | Op_Lt | Op_Le | Op_Ne | Op_Ge | Op_Gt | Op_Offset

datatype LogicalOp = Log_And | Log_Or

datatype BorrowKind = Shared | Other_borrow

datatype BindingMode = ByValue | ByRef BorrowKind

datatype HPat =
    PWild
  | PBinding Mutability BindingMode HirId "HPat option"
  | PVariant DefId nat "GenericArg list" "(nat \<times> HPat) list"
  | PLeaf Ty "(nat \<times> HPat) list"
  | PConstant Const
  | PDeref HPat
  | PAscribe HPat
  | PUnsupported

datatype HExpr = HExpr (he_ty: Ty) (he_kind: HKind)
and HKind =
    KLiteral Const
  | KUnary UnOp HExpr
  | KBinary BinOp HExpr HExpr
  | KLogicalOp LogicalOp HExpr HExpr
  | KTuple "HExpr list"
  | KField HExpr nat
  | KVarRef HirId
  | KCall Ty "HExpr list"
  | KAdt DefId nat "GenericArg list" "(nat \<times> HExpr) list" bool
  | KBlock HBlock
  | KMatch HExpr "HArm list"
  | KScope HExpr
  | KUse HExpr
  | KNeverToAny HExpr
  | KDeref HExpr
  | KBorrow BorrowKind HExpr
  | KUnsupported
and HBlock = HBlock (hb_safe: bool) (hb_stmts: "HStmt list") (hb_expr: "HExpr option")
and HStmt = SLet HPat "HExpr option" | SExpr HExpr
and HArm = HArm (arm_pattern: HPat) (arm_guard: "HExpr option") (arm_body: HExpr)

text \<open>What the collection of bindings reads of the HIR: nodes, and the patterns of a body.\<close>

datatype BindMode = BindByValue Mutability | BindByReference Mutability

datatype HirNode = Binding_node string | Other_node

datatype HirPat = Binding_pat HirId "HirPat option" | Other_pat "HirPat list"

record Param =
  param_hir_id :: HirId
  param_simple_ident :: "string option"
  param_pat :: HirPat

text \<open>
  A body: its parameters, the patterns that a walk over the body's expression visits, in
  their order, and the expression in HAIR; with the tables of its type check.
\<close>

record Body =
  body_params :: "Param list"
  body_is_generator :: bool
  body_pats :: "HirPat list"
  body_value :: HExpr
  find_node :: "HirId \<Rightarrow> HirNode option"
  binding_mode :: "HirId \<Rightarrow> BindMode option"
  node_type :: "HirId \<Rightarrow> Ty"

end
