(* ===== verification/Bindings.thy ===== *)
theory Bindings
  imports Hair
begin

text \<open>
  Bindings, \<open>stainless_extraction/src/bindings.rs\<close>: the variables of a body are extracted
  before the body itself, from its parameters and from every pattern in it.
\<close>

section \<open>The context of bindings\<close>

type_synonym DefContext = "HirId \<rightharpoonup> Variable"

definition DefContext_new :: DefContext where
  "DefContext_new = Map.empty"

definition add_var :: "HirId \<Rightarrow> Variable \<Rightarrow> DefContext \<Rightarrow> ('s, DefContext) step" where
  "add_var hir_id v dcx =
     (if dcx hir_id = None then ret (dcx(hir_id \<mapsto> v))
      else panic ''assertion failed: !self.vars.contains_key(&hir_id)'')"

definition get_var :: "DefContext \<Rightarrow> HirId \<Rightarrow> Variable option" where
  "get_var dcx hir_id = dcx hir_id"

text \<open>\<open>fetch_var\<close> of \<open>lib.rs\<close>.\<close>

definition fetch_var :: "DefContext \<Rightarrow> HirId \<Rightarrow> Variable res" where
  "fetch_var dcx hir_id =
     (case get_var dcx hir_id of
        Some v \<Rightarrow> Inr v
      | None \<Rightarrow> Inl (Panic ''Unexpected tree: unregistered variable''))"

section \<open>Extracting bindings\<close>

fun immutable_mode :: "BindMode option \<Rightarrow> bool" where
  "immutable_mode (Some (BindByValue Not_mut)) \<longleftrightarrow> True"
| "immutable_mode (Some (BindByReference Not_mut)) \<longleftrightarrow> True"
| "immutable_mode _ \<longleftrightarrow> False"

definition extract_binding ::
  "Env \<Rightarrow> nat \<Rightarrow> TyExtractionCtxt \<Rightarrow> Body \<Rightarrow> HirId \<Rightarrow> Flags option \<Rightarrow> DefContext \<Rightarrow> (Session, DefContext) step" where
  "extract_binding env fuel txtcx body hir_id flags dcx =
     (case dcx hir_id of
        Some _ \<Rightarrow> ret dcx
      | None \<Rightarrow>
          (case find_node body hir_id of
             None \<Rightarrow> panic ''called `Option::unwrap()` on a `None` value''
           | Some Other_node \<Rightarrow>
               bind (unsupported ''Cannot extract complex pattern in binding (cannot recover from this)'')
                 (\<lambda>_. panic ''internal error: entered unreachable code'')
           | Some (Binding_node ident) \<Rightarrow>
               bind (if immutable_mode (binding_mode body hir_id) then ret ()
                 else unsupported ''Only immutable bindings are supported'') (\<lambda>_.
               bind (x_register_hir env hir_id ident) (\<lambda>stid.
               bind (extract_ty env fuel txtcx (node_type body hir_id)) (\<lambda>tpe.
               add_var hir_id \<lparr>var_id = stid, var_tpe = tpe,
                 var_flags = (case flags of None \<Rightarrow> [] | Some fs \<Rightarrow> to_stainless fs)\<rparr> dcx)))))"

text \<open>\<open>BindingsCollector\<close>: a walk over the patterns.\<close>

fun visit_pat ::
  "(HirId \<Rightarrow> DefContext \<Rightarrow> (Session, DefContext) step) \<Rightarrow> HirPat \<Rightarrow> DefContext \<Rightarrow> (Session, DefContext) step"
and visit_pats ::
  "(HirId \<Rightarrow> DefContext \<Rightarrow> (Session, DefContext) step) \<Rightarrow> HirPat list \<Rightarrow> DefContext \<Rightarrow> (Session, DefContext) step" where
  "visit_pat bnd (Binding_pat hir_id None) dcx = bnd hir_id dcx"
| "visit_pat bnd (Binding_pat hir_id (Some sub)) dcx = bind (bnd hir_id dcx) (visit_pat bnd sub)"
| "visit_pat bnd (Other_pat pats) dcx = visit_pats bnd pats dcx"
| "visit_pats bnd [] dcx = ret dcx"
| "visit_pats bnd (pat # pats) dcx = bind (visit_pat bnd pat dcx) (visit_pats bnd pats)"

definition BindingsCollector_run ::
  "Env \<Rightarrow> nat \<Rightarrow> TyExtractionCtxt \<Rightarrow> Body \<Rightarrow> DefContext \<Rightarrow> (Session, DefContext) step" where
  "BindingsCollector_run env fuel txtcx body dcx =
     bind (check (\<not> body_is_generator body) ''assertion failed: body.generator_kind.is_none()'') (\<lambda>_.
     let bnd = (\<lambda>hir_id. extract_binding env fuel txtcx body hir_id None) in
     bind (visit_pats bnd (map param_pat (body_params body)) dcx)
       (visit_pats bnd (body_pats body)))"

fun populate_params ::
  "Env \<Rightarrow> nat \<Rightarrow> TyExtractionCtxt \<Rightarrow> Body \<Rightarrow> Param list \<Rightarrow> flag_map \<Rightarrow> DefContext \<Rightarrow>
     (Session, flag_map \<times> DefContext) step" where
  "populate_params env fuel txtcx body [] fm dcx = ret (fm, dcx)"
| "populate_params env fuel txtcx body (param # params) fm dcx =
     (let (flags, fm') = (case param_simple_ident param of
          None \<Rightarrow> (None, fm)
        | Some name \<Rightarrow> (map_of fm name, AList.delete name fm)) in
      bind (extract_binding env fuel txtcx body (param_hir_id param) flags dcx)
        (populate_params env fuel txtcx body params fm'))"

definition populate_def_context ::
  "Env \<Rightarrow> nat \<Rightarrow> TyExtractionCtxt \<Rightarrow> Body \<Rightarrow> flag_map \<Rightarrow> DefContext \<Rightarrow> (Session, flag_map \<times> DefContext) step" where
  "populate_def_context env fuel txtcx body flags_by_symbol dcx =
     bind (populate_params env fuel txtcx body (body_params body) flags_by_symbol dcx) (\<lambda>(fm, dcx).
     bind (BindingsCollector_run env fuel txtcx body dcx) (\<lambda>dcx. ret (fm, dcx)))"

section \<open>Lemmas\<close>

lemma runs_add_var [run_intros]: "runs env (add_var h v dcx)"
  by (auto simp: add_var_def intro: run_intros)

lemma runs_extract_ty [run_intros]: "runs env (extract_ty env fuel txtcx ty)" "runs env (extract_tys env fuel txtcx tys)"
  "runs env (extract_generics env fuel d)"
  by (simp_all add: extract_ty_def extract_tys_def extract_generics_def adts.extract_ty_runs adts.extract_tys_runs
      adts.extract_generics_runs)

lemma runs_extract_adt [run_intros]: "runs env (extract_adt env fuel d)"
  using adts.extract_adt_runs by (cases fuel) (auto simp: extract_adt_id_def runs_panic)

lemma runs_extract_binding [run_intros]: "runs env (extract_binding env fuel txtcx body h flags dcx)"
  by (auto simp: extract_binding_def intro!: run_intros split: option.split HirNode.split)

lemma runs_visit_pats:
  "(\<And>h dcx. runs env (bnd h dcx)) \<Longrightarrow> runs env (visit_pat bnd p dcx)"
  "(\<And>h dcx. runs env (bnd h dcx)) \<Longrightarrow> runs env (visit_pats bnd ps dcx)"
  by (induction bnd p dcx and bnd ps dcx rule: visit_pat_visit_pats.induct) (auto intro!: run_intros)

lemma runs_populate [run_intros]:
  "runs env (BindingsCollector_run env fuel txtcx body dcx)"
  "runs env (populate_params env fuel txtcx body params fm dcx)"
  "runs env (populate_def_context env fuel txtcx body fm dcx)"
proof -
  show collector: "runs env (BindingsCollector_run env fuel txtcx body dcx)" for dcx
    by (auto simp: BindingsCollector_run_def Let_def intro!: run_intros runs_visit_pats)
  show params: "runs env (populate_params env fuel txtcx body params fm dcx)" for params fm dcx
    by (induction params arbitrary: fm dcx) (auto intro!: run_intros simp: Let_def split: option.split)
  show "runs env (populate_def_context env fuel txtcx body fm dcx)"
    by (auto simp: populate_def_context_def intro!: run_intros collector params)
qed

section \<open>The variables of a body\<close>

fun pat_ids :: "HirPat \<Rightarrow> HirId set" where
  "pat_ids (Binding_pat h None) = {h}"
| "pat_ids (Binding_pat h (Some sub)) = insert h (pat_ids sub)"
| "pat_ids (Other_pat pats) = (\<Union>p \<in> set pats. pat_ids p)"

definition binder_ids :: "Body \<Rightarrow> HirId set" where
  "binder_ids body = param_hir_id ` set (body_params body) \<union>
     (\<Union>p \<in> set (map param_pat (body_params body) @ body_pats body). pat_ids p)"

text \<open>
  \<open>vars_ok\<close>: the new variables of a context are registered under their ids and have the
  translations of the types of their nodes.
\<close>

definition vars_ok ::
  "Env \<Rightarrow> TyExtractionCtxt \<Rightarrow> Body \<Rightarrow> DefContext \<Rightarrow> DefContext \<Rightarrow> Session \<Rightarrow> bool" where
  "vars_ok env txtcx body old dcx s \<longleftrightarrow> old \<subseteq>\<^sub>m dcx \<and> (\<forall>h v. dcx h = Some v \<longrightarrow> h \<notin> dom old \<longrightarrow>
     hid_to_stid (mapping (xtor s)) h = Some (var_id v) \<and>
     translates env (did_ids s) (map_of (index_to_tparam txtcx)) (node_type body h) (var_tpe v))"

lemma run_to_hid:
  "run_to env s t \<Longrightarrow> hid_to_stid (mapping (xtor s)) h = Some i \<Longrightarrow> hid_to_stid (mapping (xtor t)) h = Some i"
  using run_to_extends [of env s t] by (auto simp: extends_def map_le_def dom_def)

lemma vars_ok_run_to: "vars_ok env txtcx body old dcx s \<Longrightarrow> run_to env s t \<Longrightarrow> vars_ok env txtcx body old dcx t"
  using run_to_hid translates_run_to unfolding vars_ok_def by blast

lemma x_register_hir_registers:
  "x_register_hir env h name s = Inr (i, t) \<Longrightarrow> hid_to_stid (mapping (xtor t)) h = Some i"
  by (auto simp: x_register_hir_def on_xtor_Inr_iff register_hir_def bind_Inr_iff insert_hid_def split: if_splits)

lemma extract_binding_dom:
  "extract_binding env fuel txtcx body h flags dcx s = Inr (dcx', t) \<Longrightarrow> dom dcx' = insert h (dom dcx)"
  by (auto simp: extract_binding_def bind_Inr_iff add_var_def split: option.splits HirNode.splits if_splits)

lemma extract_binding_vars:
  assumes "extract_binding env fuel txtcx body h flags dcx s = Inr (dcx', t)"
    and "vars_ok env txtcx body old dcx s"
  shows "vars_ok env txtcx body old dcx' t"
proof -
  have run: "run_to env s t"
    using runsD [OF runs_extract_binding assms(1)] .
  show ?thesis
  proof (cases "dcx h")
    case (Some v)
    with assms show ?thesis by (simp add: extract_binding_def)
  next
    case None
    with assms(1) obtain ident u stid w tpe fl where reg: "x_register_hir env h ident u = Inr (stid, w)"
      and ty: "extract_ty env fuel txtcx (node_type body h) w = Inr (tpe, t)"
      and dcx': "dcx' = dcx(h \<mapsto> \<lparr>var_id = stid, var_tpe = tpe, var_flags = fl\<rparr>)"
      by (auto simp: extract_binding_def bind_Inr_iff add_var_def split: option.splits HirNode.splits if_splits)
    have "run_to env w t"
      using runsD [OF runs_extract_ty(1) ty] .
    from run_to_hid [OF this x_register_hir_registers [OF reg]]
    have "hid_to_stid (mapping (xtor t)) h = Some stid" .
    moreover have "translates env (did_ids t) (map_of (index_to_tparam txtcx)) (node_type body h) tpe"
      by (rule adts.extract_ty_translates [OF ty [unfolded extract_ty_def]])
    moreover have "old \<subseteq>\<^sub>m dcx'"
      using assms(2) None dcx' by (auto simp: vars_ok_def map_le_def dom_def)
    ultimately show ?thesis
      using vars_ok_run_to [OF assms(2) run] dcx' by (auto simp: vars_ok_def)
  qed
qed

definition binds :: "(DefContext \<Rightarrow> Session \<Rightarrow> bool) \<Rightarrow> (HirId \<Rightarrow> DefContext \<Rightarrow> (Session, DefContext) step) \<Rightarrow> bool" where
  "binds Q bnd \<longleftrightarrow> (\<forall>h dcx s dcx' t. bnd h dcx s = Inr (dcx', t) \<longrightarrow> Q dcx s \<longrightarrow>
     Q dcx' t \<and> dom dcx' = insert h (dom dcx))"

lemma bindsD: "binds Q bnd \<Longrightarrow> bnd h dcx s = Inr (dcx', t) \<Longrightarrow> Q dcx s \<Longrightarrow> Q dcx' t \<and> dom dcx' = insert h (dom dcx)"
  by (auto simp: binds_def)

lemma visit_pats_vars:
  "visit_pat bnd p dcx s = Inr (dcx', t) \<Longrightarrow> binds Q bnd \<Longrightarrow> Q dcx s \<Longrightarrow>
    Q dcx' t \<and> dom dcx' = dom dcx \<union> pat_ids p"
  "visit_pats bnd ps dcx s = Inr (dcx', t) \<Longrightarrow> binds Q bnd \<Longrightarrow> Q dcx s \<Longrightarrow>
    Q dcx' t \<and> dom dcx' = dom dcx \<union> (\<Union>p \<in> set ps. pat_ids p)"
proof (induction bnd p dcx and bnd ps dcx arbitrary: s dcx' t and s dcx' t rule: visit_pat_visit_pats.induct)
  case (1 bnd h dcx)
  from bindsD [OF 1(2), of h dcx s dcx' t] 1 show ?case by simp
next
  case (2 bnd h sub dcx)
  from 2(2) obtain d u where d: "bnd h dcx s = Inr (d, u)" and rest: "visit_pat bnd sub d u = Inr (dcx', t)"
    by (auto simp: bind_Inr_iff)
  from bindsD [OF 2(3) d 2(4)] 2(1) [OF rest 2(3)] show ?case by auto
next
  case (5 bnd p ps dcx)
  from 5(3) obtain d u where d: "visit_pat bnd p dcx s = Inr (d, u)" and rest: "visit_pats bnd ps d u = Inr (dcx', t)"
    by (auto simp: bind_Inr_iff)
  from 5(1) [OF d 5(4,5)] 5(2) [OF rest 5(4)] show ?case by auto
qed auto

lemma populate_params_vars:
  "populate_params env fuel txtcx body params fm dcx s = Inr ((fm', dcx'), t) \<Longrightarrow>
    vars_ok env txtcx body old dcx s \<Longrightarrow>
    vars_ok env txtcx body old dcx' t \<and> dom dcx' = dom dcx \<union> param_hir_id ` set params"
proof (induction params arbitrary: fm dcx s)
  case (Cons p ps)
  from Cons.prems(1) obtain flags fm1 d u where
    d: "extract_binding env fuel txtcx body (param_hir_id p) flags dcx s = Inr (d, u)"
    and rest: "populate_params env fuel txtcx body ps fm1 d u = Inr ((fm', dcx'), t)"
    by (cases "param_simple_ident p") (auto simp: bind_Inr_iff)
  from Cons.IH [OF rest] extract_binding_vars [OF d Cons.prems(2)] extract_binding_dom [OF d] show ?case
    by auto
qed simp

lemma populate_vars:
  assumes "populate_def_context env fuel txtcx body fm dcx s = Inr ((fm', dcx'), t)"
    and "vars_ok env txtcx body old dcx s"
  shows "vars_ok env txtcx body old dcx' t \<and> dom dcx' = dom dcx \<union> binder_ids body"
proof -
  let ?e = "\<lambda>h. extract_binding env fuel txtcx body h None"
  from assms(1) obtain d u d2 v where
    p: "populate_params env fuel txtcx body (body_params body) fm dcx s = Inr ((fm', d), u)"
    and v1: "visit_pats ?e (map param_pat (body_params body)) d u = Inr (d2, v)"
    and v2: "visit_pats ?e (body_pats body) d2 v = Inr (dcx', t)"
    by (auto simp: populate_def_context_def BindingsCollector_run_def Let_def bind_Inr_iff check_Inr_iff
        split: prod.splits)
  have e: "binds (vars_ok env txtcx body old) ?e"
    using extract_binding_vars extract_binding_dom by (simp add: binds_def)
  from populate_params_vars [OF p assms(2)] visit_pats_vars(2) [OF v1 e] visit_pats_vars(2) [OF v2 e]
  show ?thesis
    by (auto simp: binder_ids_def)
qed

section \<open>Properties\<close>

text \<open>
  C19: Once the bindings of a body are populated, the context has a variable for exactly the
  parameters and the pattern bindings of the body, so looking one of them up does not panic;
  every variable is registered under the id of its binding and has the translation of its
  binding's type.
\<close>

theorem bindings_are_available:
  assumes "populate_def_context env fuel txtcx body fm DefContext_new s = Inr ((fm', dcx), t)"
  shows "((\<exists>v. fetch_var dcx h = Inr v) \<longleftrightarrow> h \<in> binder_ids body) \<and>
    (\<forall>v. fetch_var dcx h = Inr v \<longrightarrow> hid_to_stid (mapping (xtor t)) h = Some (var_id v) \<and>
       translates env (did_ids t) (map_of (index_to_tparam txtcx)) (node_type body h) (var_tpe v))"
proof -
  have "vars_ok env txtcx body DefContext_new DefContext_new s"
    by (simp add: vars_ok_def DefContext_new_def)
  from populate_vars [OF assms this] have ok: "vars_ok env txtcx body DefContext_new dcx t"
    and dom: "dom dcx = binder_ids body"
    by (simp_all add: DefContext_new_def)
  have "h \<in> binder_ids body \<longleftrightarrow> dcx h \<noteq> None"
    using dom by (auto simp: dom_def)
  with ok show ?thesis
    by (auto simp: fetch_var_def get_var_def vars_ok_def DefContext_new_def split: option.splits)
qed

definition sample_hid :: "nat \<Rightarrow> HirId" where
  "sample_hid i = \<lparr>hir_owner = 1, hir_local_id = i\<rparr>"

definition sample_body :: Body where
  "sample_body = \<lparr>body_params = [\<lparr>param_hir_id = sample_hid 0, param_simple_ident = Some ''x'',
       param_pat = Binding_pat (sample_hid 0) None\<rparr>],
     body_is_generator = False, body_pats = [], body_value = HExpr TBool (KVarRef (sample_hid 0)),
     find_node = (\<lambda>_. Some (Binding_node ''x'')), binding_mode = (\<lambda>_. Some (BindByValue Not_mut)),
     node_type = (\<lambda>_. TBool)\<rparr>"

lemma sample_populate:
  "\<exists>dcx t. populate_def_context sample_env 0 no_params sample_body [] DefContext_new sample_session =
     Inr (([], dcx), t) \<and> map_option var_tpe (dcx (sample_hid 0)) = Some BooleanType \<and> no_errors t"
  by (simp add: populate_def_context_def sample_body_def extract_binding_def DefContext_new_def bind_def
      x_register_hir_def on_xtor_def register_hir_def fresh_id_def UniqueCounter_fresh_def insert_hid_def
      sample_session_def Extraction_new_def extract_ty_def extract_ty_with.simps add_var_def
      BindingsCollector_run_def check_def no_errors_def)

lemma bindings_are_available_witness:
  "\<exists>dcx t v. populate_def_context sample_env 0 no_params sample_body [] DefContext_new sample_session =
     Inr (([], dcx), t) \<and> fetch_var dcx (sample_hid 0) = Inr v"
proof -
  obtain dcx t where *: "populate_def_context sample_env 0 no_params sample_body [] DefContext_new sample_session =
      Inr (([], dcx), t)"
    using sample_populate by blast
  have "sample_hid 0 \<in> binder_ids sample_body"
    by (simp add: binder_ids_def sample_body_def)
  with bindings_are_available [OF *, of "sample_hid 0"] * show ?thesis by blast
qed

end
