(* ===== verification/Exprs.thy ===== *)
theory Exprs
  imports Bindings
begin

text \<open>
  Extraction of bodies, \<open>stainless_extraction/src/expr.rs\<close>. An \<open>ExprRef\<close> is an expression
  still to be extracted: the step that extracts it. The helpers take the references of the
  subexpressions, and \<open>extract_expr\<close> recurses over the tree of the mirrored expressions.
\<close>

section \<open>The context of a body\<close>

record BodyEnv =
  be_env :: Env
  be_fuel :: nat
  be_txtcx :: TyExtractionCtxt
  be_dcx :: DefContext

type_synonym ExprRef = "(Session, Expr) step"

abbreviation body_ty :: "BodyEnv \<Rightarrow> Ty \<Rightarrow> (Session, Type) step" where
  "body_ty be \<equiv> extract_ty (be_env be) (be_fuel be) (be_txtcx be)"

definition unsupported_expr :: "string \<Rightarrow> ExprRef" where
  "unsupported_expr msg = bind (unsupported msg) (\<lambda>_. ret (NoTree Untyped))"

definition unsupported_pattern :: "string \<Rightarrow> (Session, Pattern) step" where
  "unsupported_pattern msg = bind (unsupported msg) (\<lambda>_. ret (WildcardPattern None))"

definition keep_for_effects :: "Expr \<Rightarrow> Expr list \<Rightarrow> Expr" where
  "keep_for_effects expr exprs = Block exprs expr"

definition extract_expr_refs :: "ExprRef list \<Rightarrow> (Session, Expr list) step" where
  "extract_expr_refs args = map_steps (\<lambda>arg. arg) args"

section \<open>Operators\<close>

definition extract_unary :: "BodyEnv \<Rightarrow> UnOp \<Rightarrow> Ty \<Rightarrow> ExprRef \<Rightarrow> ExprRef" where
  "extract_unary be op arg_ty arg =
     (let arg_is_bv = is_bv_type arg_ty; arg_is_int = (arg_is_bv \<or> is_bigint_type (be_env be) arg_ty) in
      bind arg (\<lambda>arg.
      case op of
        Op_Not \<Rightarrow>
          if arg_is_bv then ret (BVNot arg)
          else if arg_ty = TBool then ret (Not_e arg)
          else unexpected ''Cannot extract unary op''
      | Op_Neg \<Rightarrow> if arg_is_int then ret (UMinus arg) else unexpected ''Cannot extract unary op''))"

text \<open>
  Stainless requires matching bit-vector types on all operations, so shifts insert a widening
  of the shift amount where possible.
\<close>

definition widen_shift ::
  "bool \<Rightarrow> nat option \<Rightarrow> nat option \<Rightarrow> Expr \<Rightarrow> (Expr \<Rightarrow> ExprRef) \<Rightarrow> ExprRef" where
  "widen_shift is_signed width1 width2 arg2 finish =
     (case (width1, width2) of
        (Some w1, Some w2) \<Rightarrow>
          if w2 < w1 then finish (BVWideningCast arg2 \<lparr>bvt_signed = is_signed, bvt_size = of_nat w1\<rparr>)
          else unsupported_expr ''Adapting lhs shift argument would change result type''
      | _ \<Rightarrow> unsupported_expr ''Cannot adapt shift arguments of unknown bit widths'')"

definition extract_shift :: "BodyEnv \<Rightarrow> Expr \<Rightarrow> Expr \<Rightarrow> Ty \<Rightarrow> Ty \<Rightarrow> bool \<Rightarrow> ExprRef" where
  "extract_shift be arg1 arg2 arg1_ty arg2_ty is_shl =
     (let finish = (\<lambda>arg2. ret
            (if is_shl then BVShiftLeft arg1 arg2
             else if is_signed_bv_type arg1_ty then BVAShiftRight arg1 arg2
             else BVLShiftRight arg1 arg2)) in
      if arg1_ty = arg2_ty then finish arg2
      else
        (case (arg1_ty, arg2_ty) of
           (TInt int_ty1, TInt int_ty2) \<Rightarrow>
             widen_shift True (int_bit_width (tcx (be_env be)) int_ty1) (int_bit_width (tcx (be_env be)) int_ty2) arg2 finish
         | (TUint uint_ty1, TUint uint_ty2) \<Rightarrow>
             widen_shift False (uint_bit_width (tcx (be_env be)) uint_ty1) (uint_bit_width (tcx (be_env be)) uint_ty2) arg2 finish
         | _ \<Rightarrow> unsupported_expr ''Cannot extract shift mixing signed and unsigned operands''))"

definition extract_binary :: "BodyEnv \<Rightarrow> BinOp \<Rightarrow> Ty \<Rightarrow> Ty \<Rightarrow> ExprRef \<Rightarrow> ExprRef \<Rightarrow> ExprRef" where
  "extract_binary be op arg1_ty arg2_ty arg1 arg2 =
     (let args_are_bv = (is_bv_type arg1_ty \<and> is_bv_type arg2_ty);
          args_are_bool = (arg1_ty = TBool \<and> arg2_ty = TBool) in
      bind arg1 (\<lambda>arg1. bind arg2 (\<lambda>arg2.
      if \<not> args_are_bv \<and> \<not> args_are_bool then unsupported_expr ''Cannot extract binary op''
      else
        (case op of
           Op_Eq \<Rightarrow> ret (Equals arg1 arg2)
         | Op_Ne \<Rightarrow> ret (Not_e (Equals arg1 arg2))
         | _ \<Rightarrow>
             if \<not> args_are_bv then unsupported_expr ''Cannot extract binary op''
             else
               (case op of
                  Op_Add \<Rightarrow> ret (Plus_e arg1 arg2)
                | Op_Sub \<Rightarrow> ret (Minus arg1 arg2)
                | Op_Mul \<Rightarrow> ret (Times arg1 arg2)
                | Op_Div \<Rightarrow> ret (Division arg1 arg2)
                | Op_Rem \<Rightarrow> ret (Remainder arg1 arg2)
                | Op_Lt \<Rightarrow> ret (LessThan arg1 arg2)
                | Op_Le \<Rightarrow> ret (LessEquals arg1 arg2)
                | Op_Ge \<Rightarrow> ret (GreaterEquals arg1 arg2)
                | Op_Gt \<Rightarrow> ret (GreaterThan arg1 arg2)
                | Op_BitXor \<Rightarrow> ret (BVXor arg1 arg2)
                | Op_BitAnd \<Rightarrow> ret (BVAnd arg1 arg2)
                | Op_BitOr \<Rightarrow> ret (BVOr arg1 arg2)
                | Op_Shl \<Rightarrow> extract_shift be arg1 arg2 arg1_ty arg2_ty True
                | Op_Shr \<Rightarrow> extract_shift be arg1 arg2 arg1_ty arg2_ty False
                | _ \<Rightarrow> unsupported_expr ''Cannot extract binary op'')))))"

definition extract_logical_op :: "LogicalOp \<Rightarrow> Ty \<Rightarrow> Ty \<Rightarrow> ExprRef \<Rightarrow> ExprRef \<Rightarrow> ExprRef" where
  "extract_logical_op op arg1_ty arg2_ty arg1 arg2 =
     bind (check (arg1_ty = TBool \<and> arg2_ty = TBool) ''assertion failed: arg1.ty.is_bool() && arg2.ty.is_bool()'') (\<lambda>_.
     bind arg1 (\<lambda>arg1. bind arg2 (\<lambda>arg2.
     ret (case op of Log_And \<Rightarrow> And [arg1, arg2] | Log_Or \<Rightarrow> Or [arg1, arg2]))))"

section \<open>Tuples, fields and data types\<close>

definition extract_tuple :: "ExprRef list \<Rightarrow> ExprRef" where
  "extract_tuple elems =
     (if length elems = 0 then ret UnitLiteral
      else if length elems = 1 then unsupported_expr ''Cannot extract one-tuples''
      else bind (extract_expr_refs elems) (\<lambda>args. ret (Tuple args)))"

definition get_at :: "'a list \<Rightarrow> nat \<Rightarrow> ('s, 'a) step" where
  "get_at xs i = (if i < length xs then ret (xs ! i) else panic ''index out of bounds'')"

definition extract_field :: "BodyEnv \<Rightarrow> Ty \<Rightarrow> ExprRef \<Rightarrow> nat \<Rightarrow> ExprRef" where
  "extract_field be lhs_ty lhs index =
     (case lhs_ty of
        TTuple _ \<Rightarrow>
          bind lhs (\<lambda>lhs.
          bind (lift_res (i32_add (overflow_checks (be_env be)) (of_nat index) 1)) (\<lambda>i.
          ret (TupleSelect lhs i)))
      | TAdt did _ \<Rightarrow>
          bind (extract_adt (be_env be) (be_fuel be) did) (\<lambda>adt.
          bind (check (length (sort_constructors adt) = 1) ''assertion failed: left == right'') (\<lambda>_.
          bind (get_at (sort_constructors adt) 0) (\<lambda>constructor.
          bind (check (index < length (cons_fields constructor)) ''assertion failed: index < fields.len()'') (\<lambda>_.
          bind lhs (\<lambda>lhs.
          bind (get_at (cons_fields constructor) index) (\<lambda>field.
          ret (ADTSelector lhs (var_id (vd_v field)))))))))
      | _ \<Rightarrow> unexpected ''Unexpected kind of field selection'')"

text \<open>Closure type arguments are removed: they were already replaced by function types.\<close>

definition extract_arg_types :: "BodyEnv \<Rightarrow> GenericArg list \<Rightarrow> (Session, Type list) step" where
  "extract_arg_types be substs =
     extract_tys (be_env be) (be_fuel be) (be_txtcx be)
       (filter (\<lambda>ty. case ty of TClosure _ \<Rightarrow> False | _ \<Rightarrow> True) (subst_types substs))"

definition extract_adt_construction ::
  "BodyEnv \<Rightarrow> DefId \<Rightarrow> nat \<Rightarrow> GenericArg list \<Rightarrow> (nat \<times> ExprRef) list \<Rightarrow> bool \<Rightarrow> ExprRef" where
  "extract_adt_construction be did variant_index substs field_refs has_base =
     (if has_base then unsupported_expr ''Cannot extract ADT constructions with bases''
      else
        bind (extract_adt (be_env be) (be_fuel be) did) (\<lambda>adt.
        bind (get_at (sort_constructors adt) variant_index) (\<lambda>constructor.
        bind (extract_arg_types be substs) (\<lambda>arg_tps.
        bind (map_steps snd (sort_key fst field_refs)) (\<lambda>args.
        ret (ADT (cons_id constructor) arg_tps args))))))"

section \<open>Calls\<close>

definition extract_panic :: "ExprRef list \<Rightarrow> bool \<Rightarrow> ExprRef" where
  "extract_panic args is_fmt =
     bind (check (length args = 1) ''assertion failed: left == right'') (\<lambda>_.
     if is_fmt then unsupported_expr ''Cannot extract panic with formatted message''
     else
       bind (get_at args 0) (\<lambda>arg.
       bind arg (\<lambda>arg.
       ret (keep_for_effects (Error UnitType ''Panic'') [arg]))))"

definition extract_set_creation :: "BodyEnv \<Rightarrow> ExprRef list \<Rightarrow> GenericArg list \<Rightarrow> ExprRef" where
  "extract_set_creation be args substs =
     bind (extract_expr_refs args) (\<lambda>args.
     bind (lift_res (type_at substs 0)) (\<lambda>ty.
     bind (body_ty be ty) (\<lambda>tpe.
     ret (FiniteSet args tpe))))"

definition extract_set_op :: "StdItem \<Rightarrow> ExprRef list \<Rightarrow> ExprRef" where
  "extract_set_op std_item args =
     bind (extract_expr_refs args) (\<lambda>args.
     case args of
       s # arg # _ \<Rightarrow>
         (case std_item of
            SetAddFn \<Rightarrow> ret (SetAdd s arg)
          | SetDifferenceFn \<Rightarrow> ret (SetDifference s arg)
          | SetIntersectionFn \<Rightarrow> ret (SetIntersection s arg)
          | SetUnionFn \<Rightarrow> ret (SetUnion s arg)
          | SubsetOfFn \<Rightarrow> ret (SubsetOf s arg)
          | _ \<Rightarrow> panic ''internal error: entered unreachable code'')
     | _ \<Rightarrow> panic ''range end index 2 out of range for slice'')"

definition extract_call :: "BodyEnv \<Rightarrow> Ty \<Rightarrow> ExprRef list \<Rightarrow> ExprRef" where
  "extract_call be ty args =
     (case ty of
        TFnDef def_id substs \<Rightarrow>
          bind (x_extract_fn_ref (be_env be) def_id) (\<lambda>fd_id.
          if symbol_path fd_id = [''std'', ''boxed'', ''Box'', ''<T>'', ''new''] then
            (case args of arg # _ \<Rightarrow> arg | [] \<Rightarrow> panic ''called `Option::unwrap()` on a `None` value'')
          else
            bind (extract_arg_types be substs) (\<lambda>arg_tps.
            bind (extract_expr_refs args) (\<lambda>args.
            ret (FunctionInvocation fd_id arg_tps args))))
      | _ \<Rightarrow> unsupported_expr ''Cannot extract call without statically known target'')"

definition extract_call_like :: "BodyEnv \<Rightarrow> Ty \<Rightarrow> ExprRef list \<Rightarrow> ExprRef" where
  "extract_call_like be ty args =
     (case ty of
        TFnDef def_id substs \<Rightarrow>
          (case def_to_item_opt (std_items (be_env be)) def_id of
             Some std_item \<Rightarrow>
               if std_item = BeginPanicFn then extract_panic args False
               else if std_item = BeginPanicFmtFn then extract_panic args True
               else if std_item \<in> {SetEmptyFn, SetSingletonFn} then extract_set_creation be args substs
               else if std_item \<in> {SetAddFn, SetDifferenceFn, SetIntersectionFn, SetUnionFn, SubsetOfFn}
                 then extract_set_op std_item args
               else extract_call be ty args
           | None \<Rightarrow> extract_call be ty args)
      | _ \<Rightarrow> extract_call be ty args)"

section \<open>Patterns\<close>

text \<open>A pattern as a variable: the reason why not, or the variable; a panic if it is not registered.\<close>

fun try_pattern_to_var :: "DefContext \<Rightarrow> HPat \<Rightarrow> bool \<Rightarrow> (string + Variable) res" where
  "try_pattern_to_var dcx (PBinding mutability mode hir_id subpattern) allow_subpattern =
     (if mutability = Mut then Inr (Inl ''Mutable bindings are not supported'')
      else if subpattern \<noteq> None \<and> \<not> allow_subpattern then Inr (Inl ''Subpatterns are not supported here'')
      else if mode = ByValue \<or> mode = ByRef Shared then res_bind (fetch_var dcx hir_id) (\<lambda>v. Inr (Inr v))
      else Inr (Inl ''Binding mode not allowed''))"
| "try_pattern_to_var dcx (PAscribe subpattern) allow_subpattern = try_pattern_to_var dcx subpattern allow_subpattern"
| "try_pattern_to_var dcx _ allow_subpattern = Inr (Inl ''Expected a top-level binding'')"

text \<open>The fields in order, with a wildcard for every field that has no pattern.\<close>

fun take_subpatterns :: "nat \<Rightarrow> nat \<Rightarrow> (nat \<times> (Session, Pattern) step) list \<Rightarrow> (Session, Pattern list) step" where
  "take_subpatterns i 0 field_pats = ret []"
| "take_subpatterns i (Suc k) [] = bind (take_subpatterns (Suc i) k []) (\<lambda>ps. ret (WildcardPattern None # ps))"
| "take_subpatterns i (Suc k) ((index, pattern) # rest) =
     (if index = i then bind pattern (\<lambda>p. bind (take_subpatterns (Suc i) k rest) (\<lambda>ps. ret (p # ps)))
      else bind (take_subpatterns (Suc i) k ((index, pattern) # rest)) (\<lambda>ps. ret (WildcardPattern None # ps)))"

definition extract_subpatterns :: "(nat \<times> (Session, Pattern) step) list \<Rightarrow> nat \<Rightarrow> (Session, Pattern list) step" where
  "extract_subpatterns field_pats num_fields = take_subpatterns 0 num_fields (sort_key fst field_pats)"

definition extract_adt_pattern ::
  "BodyEnv \<Rightarrow> ADTConstructor \<Rightarrow> GenericArg list \<Rightarrow> (nat \<times> (Session, Pattern) step) list \<Rightarrow> ValDef option \<Rightarrow>
     (Session, Pattern) step" where
  "extract_adt_pattern be constructor substs subpatterns bnd =
     bind (extract_arg_types be substs) (\<lambda>arg_tps.
     bind (extract_subpatterns subpatterns (length (cons_fields constructor))) (\<lambda>ps.
     ret (ADTPattern bnd (cons_id constructor) arg_tps ps)))"

fun extract_pattern :: "BodyEnv \<Rightarrow> HPat \<Rightarrow> ValDef option \<Rightarrow> (Session, Pattern) step" where
  "extract_pattern be PWild bnd = ret (WildcardPattern bnd)"
| "extract_pattern be (PBinding mutability mode hir_id subpattern) bnd =
     bind (check (bnd = None) ''assertion failed: binder.is_none()'') (\<lambda>_.
     bind (lift_res (try_pattern_to_var (be_dcx be) (PBinding mutability mode hir_id subpattern) True)) (\<lambda>r.
     case r of
       Inl reason \<Rightarrow> unsupported_pattern (''Unsupported pattern binding: '' @ reason)
     | Inr v \<Rightarrow>
         (case subpattern of
            Some sub \<Rightarrow> extract_pattern be sub (Some (ValDef v))
          | None \<Rightarrow> ret (WildcardPattern (Some (ValDef v))))))"
| "extract_pattern be (PVariant did variant_index substs subpatterns) bnd =
     bind (extract_adt (be_env be) (be_fuel be) did) (\<lambda>adt.
     bind (get_at (sort_constructors adt) variant_index) (\<lambda>constructor.
     extract_adt_pattern be constructor substs
       (map (\<lambda>(i, p). (i, extract_pattern be p None)) subpatterns) bnd))"
| "extract_pattern be (PLeaf ty subpatterns) bnd =
     (case ty of
        TAdt did substs \<Rightarrow>
          bind (extract_adt (be_env be) (be_fuel be) did) (\<lambda>adt.
          bind (check (length (sort_constructors adt) = 1) ''assertion failed: left == right'') (\<lambda>_.
          bind (get_at (sort_constructors adt) 0) (\<lambda>constructor.
          extract_adt_pattern be constructor substs
            (map (\<lambda>(i, p). (i, extract_pattern be p None)) subpatterns) bnd)))
      | TTuple tys \<Rightarrow>
          bind (extract_subpatterns (map (\<lambda>(i, p). (i, extract_pattern be p None)) subpatterns) (length tys))
            (\<lambda>ps. ret (TuplePattern bnd ps))
      | _ \<Rightarrow> unsupported_pattern ''Encountered Leaf pattern, but type is not an ADT'')"
| "extract_pattern be (PConstant konst) bnd =
     bind (lift_res (Literal_try_from (tcx (be_env be)) konst)) (\<lambda>r.
     case r of
       Some lit \<Rightarrow> ret (LiteralPattern bnd (as_st_literal lit))
     | None \<Rightarrow> unsupported_pattern ''Unsupported kind of literal in pattern'')"
| "extract_pattern be (PDeref subpattern) bnd = extract_pattern be subpattern bnd"
| "extract_pattern be _ bnd = unsupported_pattern ''Unsupported kind of pattern''"

section \<open>Conditionals, matches and blocks\<close>

definition extract_if :: "ExprRef \<Rightarrow> ExprRef \<Rightarrow> ExprRef option \<Rightarrow> ExprRef" where
  "extract_if cond thn elze_opt =
     bind cond (\<lambda>cond. bind thn (\<lambda>thn.
     bind (case elze_opt of Some e \<Rightarrow> e | None \<Rightarrow> ret UnitLiteral) (\<lambda>elze.
     ret (IfExpr cond thn elze))))"

definition extract_arm :: "BodyEnv \<Rightarrow> HPat \<Rightarrow> ExprRef option \<Rightarrow> ExprRef \<Rightarrow> (Session, MatchCase) step" where
  "extract_arm be pattern guard body =
     bind (extract_pattern be pattern None) (\<lambda>p.
     bind (option_step (\<lambda>g. g) guard) (\<lambda>g.
     bind body (\<lambda>b.
     ret (MkMatchCase p g b))))"

definition extract_match :: "ExprRef \<Rightarrow> (Session, MatchCase) step list \<Rightarrow> ExprRef" where
  "extract_match scrutinee arms =
     bind scrutinee (\<lambda>scrutinee.
     bind (map_steps (\<lambda>arm. arm) arms) (\<lambda>cases.
     ret (MatchExpr scrutinee cases)))"

fun strip_scopes :: "HExpr \<Rightarrow> HExpr" where
  "strip_scopes (HExpr ty (KScope v)) = strip_scopes v"
| "strip_scopes e = e"

text \<open>Does a match correspond to an \<open>if\<close>? Then, does it have an else branch?\<close>

definition if_patterns :: "Env \<Rightarrow> HPat \<Rightarrow> HPat \<Rightarrow> bool res" where
  "if_patterns env p1 p2 =
     (case (p1, p2) of
        (PConstant konst, PWild) \<Rightarrow>
          res_bind (Literal_try_from (tcx env) konst) (\<lambda>lit. Inr (lit = Some (Lit_Bool True)))
      | _ \<Rightarrow> Inr False)"

definition looks_like_if :: "Env \<Rightarrow> HExpr \<Rightarrow> HArm list \<Rightarrow> bool option res" where
  "looks_like_if env cond arms =
     res_bind
       (if length arms = 2 \<and> he_ty cond = TBool
        then if_patterns env (arm_pattern (arms ! 0)) (arm_pattern (arms ! 1)) else Inr False) (\<lambda>is_if.
     if is_if then
       (case he_kind (strip_scopes (arm_body (arms ! 1))) of
          KBlock block \<Rightarrow>
            (let elze_missing = (hb_stmts block = [] \<and> hb_expr block = None) in Inr (Some (\<not> elze_missing)))
        | _ \<Rightarrow> Inl (Panic ''internal error: entered unreachable code''))
     else Inr None)"

datatype StmtRef = Let_ref HPat "ExprRef option" | Expr_ref ExprRef

definition finish :: "Expr list \<Rightarrow> Expr \<Rightarrow> Expr" where
  "finish exprs final_expr = (if exprs = [] then final_expr else Block exprs final_expr)"

definition bail :: "Expr list \<Rightarrow> string \<Rightarrow> ExprRef" where
  "bail acc_exprs msg = bind (unsupported msg) (\<lambda>_. ret (Block acc_exprs (NoTree Untyped)))"

fun extract_stmts :: "BodyEnv \<Rightarrow> StmtRef list \<Rightarrow> Expr list \<Rightarrow> Expr \<Rightarrow> ExprRef" where
  "extract_stmts be [] acc_exprs final_expr = ret (finish acc_exprs final_expr)"
| "extract_stmts be (Let_ref pattern initializer # stmts) acc_exprs final_expr =
     bind (lift_res (try_pattern_to_var (be_dcx be) pattern False)) (\<lambda>var_result.
     case var_result of
       Inl reason \<Rightarrow> bail acc_exprs (''Cannot extract complex pattern in let: '' @ reason)
     | Inr v \<Rightarrow>
         (case initializer of
            None \<Rightarrow> bail acc_exprs ''Cannot extract let without initializer''
          | Some init \<Rightarrow>
              bind init (\<lambda>init.
              bind (extract_stmts be stmts [] final_expr) (\<lambda>body_expr.
              ret (finish acc_exprs (Let_e (ValDef v) init body_expr))))))"
| "extract_stmts be (Expr_ref expr # stmts) acc_exprs final_expr =
     bind expr (\<lambda>expr. extract_stmts be stmts (acc_exprs @ [expr]) final_expr)"

definition extract_block :: "BodyEnv \<Rightarrow> StmtRef list \<Rightarrow> ExprRef option \<Rightarrow> ExprRef" where
  "extract_block be stmts final_expr =
     bind (case final_expr of Some e \<Rightarrow> e | None \<Rightarrow> ret UnitLiteral) (\<lambda>final_expr.
     extract_stmts be stmts [] final_expr)"

section \<open>Expressions\<close>

fun extract_expr :: "BodyEnv \<Rightarrow> HExpr \<Rightarrow> ExprRef"
and stmt_ref :: "BodyEnv \<Rightarrow> HStmt \<Rightarrow> StmtRef"
and arm_ref :: "BodyEnv \<Rightarrow> HArm \<Rightarrow> (Session, MatchCase) step" where
  "extract_expr be (HExpr ty kind) =
     (case kind of
        KLiteral konst \<Rightarrow>
          bind (lift_res (Literal_try_from (tcx (be_env be)) konst)) (\<lambda>r.
          case r of
            Some lit \<Rightarrow> ret (as_st_literal lit)
          | None \<Rightarrow> unsupported_expr ''Unsupported kind of literal'')
      | KUnary op arg \<Rightarrow> extract_unary be op (he_ty arg) (extract_expr be arg)
      | KBinary op lhs rhs \<Rightarrow>
          extract_binary be op (he_ty lhs) (he_ty rhs) (extract_expr be lhs) (extract_expr be rhs)
      | KLogicalOp op lhs rhs \<Rightarrow>
          extract_logical_op op (he_ty lhs) (he_ty rhs) (extract_expr be lhs) (extract_expr be rhs)
      | KTuple elems \<Rightarrow> extract_tuple (map (extract_expr be) elems)
      | KField lhs index \<Rightarrow> extract_field be (he_ty lhs) (extract_expr be lhs) index
      | KVarRef hir_id \<Rightarrow> bind (lift_res (fetch_var (be_dcx be) hir_id)) (\<lambda>v. ret (Variable v))
      | KCall fn_ty args \<Rightarrow> extract_call_like be fn_ty (map (extract_expr be) args)
      | KAdt did variant_index substs field_exprs has_base \<Rightarrow>
          extract_adt_construction be did variant_index substs
            (map (\<lambda>(i, e). (i, extract_expr be e)) field_exprs) has_base
      | KBlock (HBlock safe stmts final_expr) \<Rightarrow>
          if safe then extract_block be (map (stmt_ref be) stmts) (map_option (extract_expr be) final_expr)
          else unsupported_expr ''Cannot extract unsafe block''
      | KMatch scrutinee arms \<Rightarrow>
          bind (lift_res (looks_like_if (be_env be) scrutinee arms)) (\<lambda>r.
          case r of
            Some has_elze \<Rightarrow>
              (case map (\<lambda>arm. case arm of HArm _ _ body \<Rightarrow> extract_expr be body) arms of
                 [thn, elze] \<Rightarrow> extract_if (extract_expr be scrutinee) thn (if has_elze then Some elze else None)
               | _ \<Rightarrow> panic ''called `Option::unwrap()` on a `None` value'')
          | None \<Rightarrow> extract_match (extract_expr be scrutinee) (map (arm_ref be) arms))
      | KScope v \<Rightarrow> extract_expr be v
      | KUse source \<Rightarrow> extract_expr be source
      | KNeverToAny source \<Rightarrow> extract_expr be source
      | KDeref arg \<Rightarrow> extract_expr be arg
      | KBorrow borrow_kind arg \<Rightarrow>
          if borrow_kind = Shared then extract_expr be arg else unsupported_expr ''Cannot extract expr kind''
      | KUnsupported \<Rightarrow> unsupported_expr ''Cannot extract expr kind'')"
| "stmt_ref be (SLet pattern initializer) = Let_ref pattern (map_option (extract_expr be) initializer)"
| "stmt_ref be (SExpr expr) = Expr_ref (extract_expr be expr)"
| "arm_ref be (HArm pattern guard body) =
     extract_arm be pattern (map_option (extract_expr be) guard) (extract_expr be body)"

end
