(* ===== verification/Krate.thy ===== *)
theory Krate
  imports Exprs Symbols
begin

text \<open>
  Extraction of a crate, \<open>stainless_extraction/src/krate.rs\<close> and the entry point of
  \<open>lib.rs\<close>: the discovery of the items, the extraction of the data types, of the functions
  with their specification functions, and of stubs for the external functions.
\<close>

section \<open>Items\<close>

text \<open>Identifiers are equal when their names and the syntax contexts of their spans are.\<close>

record Ident =
  id_name :: string
  id_ctxt :: nat

definition Ident_from_str :: "string \<Rightarrow> Ident" where
  "Ident_from_str s = \<lparr>id_name = s, id_ctxt = 0\<rparr>"

text \<open>Of the span, only whether it is from a macro expansion is read.\<close>

record FnItem =
  fi_def_id :: DefId
  fi_from_expansion :: bool
  fi_spec_type :: "SpecType option"
  fi_spec_fn_name :: "Ident option"

definition FnItem_new :: "(string \<Rightarrow> bool) \<Rightarrow> DefId \<Rightarrow> Ident \<Rightarrow> bool \<Rightarrow> FnItem" where
  "FnItem_new num def_id ident from_expansion =
     (case parse_spec_type_fn_name num (id_name ident) of
        Some (spec_type, spec_fn_name) \<Rightarrow>
          \<lparr>fi_def_id = def_id, fi_from_expansion = from_expansion, fi_spec_type = Some spec_type,
           fi_spec_fn_name = Some (Ident_from_str spec_fn_name)\<rparr>
      | None \<Rightarrow>
          \<lparr>fi_def_id = def_id, fi_from_expansion = from_expansion, fi_spec_type = None, fi_spec_fn_name = None\<rparr>)"

definition is_spec_fn :: "FnItem \<Rightarrow> bool" where
  "is_spec_fn fn_item \<longleftrightarrow> fi_from_expansion fn_item \<and> fi_spec_type fn_item \<noteq> None"

text \<open>The items of the HIR; a \<open>use\<close> has its pretty-printed path.\<close>

record ImplItemRef =
  ii_ident :: Ident
  ii_is_fn :: bool
  ii_def_id :: DefId
  ii_from_expansion :: bool

datatype ItemKind =
    ItExternCrate | ItUse string | ItEnum | ItStruct | ItFn | ItImpl "ImplItemRef list" | ItOther

record HirItem =
  item_ident :: Ident
  item_kind :: ItemKind
  item_def_id :: DefId
  item_from_expansion :: bool

datatype ItemLike = An_item HirItem | Trait_item | Impl_item bool

definition should_ignore :: "HirItem \<Rightarrow> bool" where
  "should_ignore item \<longleftrightarrow>
     (case item_kind item of
        ItExternCrate \<Rightarrow>
          (let name = id_name (item_ident item) in name = ''std'' \<or> name = ''stainless'')
      | ItUse path_str \<Rightarrow> starts_with path_str ''::std::prelude::v'' \<or> starts_with path_str ''stainless''
      | _ \<Rightarrow> False)"

section \<open>The crate\<close>

text \<open>
  What the extraction of a crate asks the compiler beyond \<open>TyCtxt\<close>: the items in the order
  of the visit, the bodies with their type check, and the outputs of the checked signatures.
  The iteration orders of a map of functions and of the set of references are arbitrary.
\<close>

record KrateEnv =
  k_env :: Env
  k_fuel :: nat
  k_items :: "ItemLike list"
  k_body :: "HirId \<Rightarrow> Body option"
  k_output :: "HirId \<Rightarrow> Ty option"
  values_order :: "FnItem list \<Rightarrow> FnItem list"
  refs_order :: "DefId set \<Rightarrow> DefId list"

record ItemVisitor =
  iv_adts :: "DefId list"
  iv_functions :: "FnItem list"
  iv_specs :: "DefId \<rightharpoonup> FnItem list"

definition push_spec :: "DefId \<Rightarrow> FnItem \<Rightarrow> ItemVisitor \<Rightarrow> ItemVisitor" where
  "push_spec def_id spec_item iv =
     (let old = (case iv_specs iv def_id of None \<Rightarrow> [] | Some l \<Rightarrow> l) in
      iv\<lparr>iv_specs := (iv_specs iv)(def_id \<mapsto> old @ [spec_item])\<rparr>)"

definition visit_fn :: "Env \<Rightarrow> FnItem \<Rightarrow> ItemVisitor \<Rightarrow> ItemVisitor" where
  "visit_fn env fn_item iv =
     (case parent_of (tcx env) (fi_def_id fn_item) of
        Some parent_def_id \<Rightarrow>
          if is_spec_fn fn_item then push_spec parent_def_id fn_item iv
          else iv\<lparr>iv_functions := iv_functions iv @ [fn_item]\<rparr>
      | None \<Rightarrow> iv\<lparr>iv_functions := iv_functions iv @ [fn_item]\<rparr>)"

definition fns_by_identifier :: "(string \<Rightarrow> bool) \<Rightarrow> ImplItemRef list \<Rightarrow> (Ident \<times> FnItem) list" where
  "fns_by_identifier num items =
     fold (\<lambda>item. AList.update (ii_ident item) (FnItem_new num (ii_def_id item) (ii_ident item) (ii_from_expansion item)))
       (filter ii_is_fn items) []"

definition visit_impl :: "KrateEnv \<Rightarrow> ImplItemRef list \<Rightarrow> ItemVisitor \<Rightarrow> ItemVisitor" where
  "visit_impl ke items iv =
     (let by_ident = fns_by_identifier (numeric (k_env ke)) items;
          (specs, fns) = partition is_spec_fn (values_order ke (map snd by_ident));
          iv = iv\<lparr>iv_functions := iv_functions iv @ fns\<rparr> in
      fold (\<lambda>spec_item iv.
          case Option.bind (fi_spec_fn_name spec_item) (map_of by_ident) of
            Some fn_item \<Rightarrow> push_spec (fi_def_id fn_item) spec_item iv
          | None \<Rightarrow> iv) specs iv)"

definition visit_item :: "KrateEnv \<Rightarrow> HirItem \<Rightarrow> ItemVisitor \<Rightarrow> (Session, ItemVisitor) step" where
  "visit_item ke item iv =
     (if should_ignore item then ret iv
      else
        (case item_kind item of
           ItFn \<Rightarrow> ret (visit_fn (k_env ke) (FnItem_new (numeric (k_env ke)) (item_def_id item) (item_ident item)
               (item_from_expansion item)) iv)
         | ItEnum \<Rightarrow> ret (iv\<lparr>iv_adts := iv_adts iv @ [item_def_id item]\<rparr>)
         | ItStruct \<Rightarrow> ret (iv\<lparr>iv_adts := iv_adts iv @ [item_def_id item]\<rparr>)
         | ItImpl items \<Rightarrow> ret (visit_impl ke items iv)
         | _ \<Rightarrow> bind (unsupported ''Other kind of item'') (\<lambda>_. ret iv)))"

definition visit_trait_item :: "ItemVisitor \<Rightarrow> (Session, ItemVisitor) step" where
  "visit_trait_item iv = bind (unsupported ''Trait item'') (\<lambda>_. ret iv)"

definition visit_impl_item :: "bool \<Rightarrow> ItemVisitor \<Rightarrow> (Session, ItemVisitor) step" where
  "visit_impl_item is_fn iv =
     (if is_fn then ret iv else bind (unsupported ''Impl item other than function'') (\<lambda>_. ret iv))"

fun visit_all :: "KrateEnv \<Rightarrow> ItemLike list \<Rightarrow> ItemVisitor \<Rightarrow> (Session, ItemVisitor) step" where
  "visit_all ke [] iv = ret iv"
| "visit_all ke (An_item item # rest) iv = bind (visit_item ke item iv) (visit_all ke rest)"
| "visit_all ke (Trait_item # rest) iv = bind (visit_trait_item iv) (visit_all ke rest)"
| "visit_all ke (Impl_item is_fn # rest) iv = bind (visit_impl_item is_fn iv) (visit_all ke rest)"

section \<open>Functions\<close>

text \<open>\<open>enter_body\<close> of \<open>lib.rs\<close>: the new \<open>BodyExtractor\<close> has the state of its creator.\<close>

definition enter_body :: "KrateEnv \<Rightarrow> HirId \<Rightarrow> (Body \<Rightarrow> DefContext \<Rightarrow> (Session, 'a) step) \<Rightarrow> (Session, 'a) step" where
  "enter_body ke hir_id f =
     (case k_body ke hir_id of
        None \<Rightarrow> panic ''assertion failed: tcx.has_typeck_tables(def_id)''
      | Some body \<Rightarrow> f body DefContext_new)"

definition body_env :: "KrateEnv \<Rightarrow> TyExtractionCtxt \<Rightarrow> DefContext \<Rightarrow> BodyEnv" where
  "body_env ke txtcx dcx = \<lparr>be_env = k_env ke, be_fuel = k_fuel ke, be_txtcx = txtcx, be_dcx = dcx\<rparr>"

fun extern_params ::
  "Env \<Rightarrow> nat \<Rightarrow> TyExtractionCtxt \<Rightarrow> nat \<Rightarrow> Ty list \<Rightarrow> (Session, ValDef list) step" where
  "extern_params env fuel txtcx i [] = ret []"
| "extern_params env fuel txtcx i (ty # tys) =
     bind (x_fresh_id env (''param'' @ dec i)) (\<lambda>param.
     bind (extract_ty env fuel txtcx ty) (\<lambda>tpe.
     bind (extern_params env fuel txtcx (Suc i) tys) (\<lambda>vds.
     ret (ValDef \<lparr>var_id = param, var_tpe = tpe, var_flags = []\<rparr> # vds))))"

definition extract_extern_fn :: "KrateEnv \<Rightarrow> DefId \<Rightarrow> (Session, FunDef) step" where
  "extract_extern_fn ke def_id =
     (let env = k_env ke; fuel = k_fuel ke in
      bind (check (\<not> is_local def_id) ''Expected non-local def id'') (\<lambda>_.
      bind (extract_generics env fuel def_id) (\<lambda>(tparams, txtcx).
      bind (extern_params env fuel txtcx 0 (fst (fn_sig (tcx env) def_id))) (\<lambda>params.
      bind (extract_ty env fuel txtcx (snd (fn_sig (tcx env) def_id))) (\<lambda>return_tpe.
      bind (x_extract_fn_ref env def_id) (\<lambda>fun_id.
      ret \<lparr>fd_id = fun_id, fd_tparams = tparams, fd_params = params, fd_returnType = return_tpe,
           fd_fullBody = NoTree return_tpe, fd_flags = [Extern]\<rparr>))))))"

fun add_vars :: "(HirId \<times> Variable) list \<Rightarrow> DefContext \<Rightarrow> (Session, DefContext) step" where
  "add_vars [] dcx = ret dcx"
| "add_vars ((hir_id, v) # rest) dcx = bind (add_var hir_id v dcx) (add_vars rest)"

definition correlate_tparams ::
  "(nat \<times> TyParam) list \<Rightarrow> GenericParamDef list \<Rightarrow> (Session, (nat \<times> TyParam) list) step" where
  "correlate_tparams original generic_params =
     bind (map_steps (\<lambda>param. case map_of original (gp_index param) of
         None \<Rightarrow> panic ''no entry found for key''
       | Some tparam \<Rightarrow> ret (Some (gp_index param, tparam))) generic_params) (\<lambda>entries. ret (collect_params entries))"

text \<open>The term parameters of a specification function stand for those of its function.\<close>

definition spec_context ::
  "Body \<Rightarrow> ValDef list \<Rightarrow> Variable option \<Rightarrow> DefContext \<Rightarrow> (Session, DefContext) step" where
  "spec_context body original_params return_var dcx =
     (let param_hir_ids = map param_hir_id (body_params body) in
      bind (check (return_var = None \<or> param_hir_ids \<noteq> []) ''No return parameter on post spec function'') (\<lambda>_.
      let term_ids = (if return_var = None then param_hir_ids else butlast param_hir_ids) in
      bind (check (length original_params = length term_ids) ''assertion failed: left == right'') (\<lambda>_.
      bind (add_vars (zip term_ids (map vd_v original_params)) dcx) (\<lambda>dcx.
      case return_var of None \<Rightarrow> ret dcx | Some v \<Rightarrow> add_var (last param_hir_ids) v dcx))))"

text \<open>
  A specification function: its type and term parameters are those of the function that it
  specifies, and a post-condition's last parameter is the return variable.
\<close>

definition extract_spec_fn ::
  "KrateEnv \<Rightarrow> TyExtractionCtxt \<Rightarrow> ValDef list \<Rightarrow> Variable option \<Rightarrow> DefId \<Rightarrow> (Session, Expr) step" where
  "extract_spec_fn ke original_txtcx original_params return_var def_id =
     (let env = k_env ke; cx = tcx env in
      case all_generic_params_of cx def_id of
        None \<Rightarrow> out_of_fuel
      | Some generic_params \<Rightarrow>
          bind (check (gen_parent (generics_of cx def_id) = gen_parent (generics_of cx (tx_def_id original_txtcx)))
            ''assertion failed: left == right'') (\<lambda>_.
          bind (check (length generic_params = length (index_to_tparam original_txtcx))
            ''assertion failed: left == right'') (\<lambda>_.
          bind (correlate_tparams (index_to_tparam original_txtcx) generic_params) (\<lambda>tparams.
          let txtcx = \<lparr>tx_def_id = def_id, index_to_tparam = tparams\<rparr> in
          bind (check (is_local def_id) ''DefId::expect_local'') (\<lambda>_.
          enter_body ke (hir_id_of cx def_id) (\<lambda>body dcx.
          bind (spec_context body original_params return_var dcx) (\<lambda>dcx.
          bind (populate_def_context env (k_fuel ke) txtcx body [] dcx) (\<lambda>(_, dcx).
          extract_expr (body_env ke txtcx dcx) (body_value body)))))))))"

definition with_measure :: "Expr \<Rightarrow> Expr \<Rightarrow> (Session, Expr) step" where
  "with_measure spec body_expr =
     (case spec of
        Block exprs UnitLiteral \<Rightarrow>
          if exprs = [] then panic ''No measure provided.''
          else ret (Decreases (Block (butlast exprs) (last exprs)) body_expr)
      | _ \<Rightarrow> ret body_expr)"

definition extract_signature_and_body ::
  "KrateEnv \<Rightarrow> HirId \<Rightarrow> TyExtractionCtxt \<Rightarrow> flag_map \<Rightarrow>
     (Session, flag_map \<times> ValDef list \<times> Type \<times> Expr) step" where
  "extract_signature_and_body ke hir_id txtcx flags_by_symbol =
     enter_body ke hir_id (\<lambda>body dcx.
     bind (populate_def_context (k_env ke) (k_fuel ke) txtcx body flags_by_symbol dcx) (\<lambda>(flags_by_symbol, dcx).
     case k_output ke hir_id of
       None \<Rightarrow> panic ''called `Option::unwrap()` on a `None` value''
     | Some output \<Rightarrow>
         bind (extract_ty (k_env ke) (k_fuel ke) txtcx output) (\<lambda>return_tpe.
         bind (map_steps (\<lambda>param. bind (lift_res (fetch_var dcx (param_hir_id param))) (\<lambda>v. ret (ValDef v)))
           (body_params body)) (\<lambda>params.
         bind (extract_expr (body_env ke txtcx dcx) (body_value body)) (\<lambda>body_expr.
         ret (flags_by_symbol, params, return_tpe, body_expr))))))"

definition extract_local_fn ::
  "KrateEnv \<Rightarrow> DefId \<Rightarrow> DefId list \<Rightarrow> DefId list \<Rightarrow> DefId option \<Rightarrow> (Session, FunDef) step" where
  "extract_local_fn ke def_id pre_fns post_fns measure_fn =
     (let env = k_env ke; hir_id = hir_id_of (tcx env) def_id in
      bind (check (is_local def_id) ''assertion failed: def_id.is_local()'') (\<lambda>_.
      bind (x_extract_flags env hir_id) (\<lambda>(carrier_flags, flags_by_symbol).
      bind (extract_generics env (k_fuel ke) def_id) (\<lambda>(tparams, txtcx).
      bind (extract_signature_and_body ke hir_id txtcx flags_by_symbol) (\<lambda>(unused, params, return_tpe, body_expr).
      bind (x_report_unused_flags unused) (\<lambda>_.
      bind (case measure_fn of
          None \<Rightarrow> ret body_expr
        | Some spec_id \<Rightarrow> bind (extract_spec_fn ke txtcx params None spec_id) (\<lambda>spec. with_measure spec body_expr)) (\<lambda>body_expr.
      bind (map_steps (extract_spec_fn ke txtcx params None) pre_fns) (\<lambda>spec_exprs.
      let body_expr = (if spec_exprs = [] then body_expr else Require (make_and spec_exprs) body_expr) in
      bind (x_fresh_id env ''ret'') (\<lambda>ret_id.
      let return_var = \<lparr>var_id = ret_id, var_tpe = return_tpe, var_flags = []\<rparr> in
      bind (map_steps (extract_spec_fn ke txtcx params (Some return_var)) post_fns) (\<lambda>spec_exprs.
      let body_expr = (if spec_exprs = [] then body_expr
        else Ensuring body_expr (MkLambda [ValDef return_var] (make_and spec_exprs))) in
      bind (x_extract_fn_ref env def_id) (\<lambda>fun_id.
      ret \<lparr>fd_id = fun_id, fd_tparams = tparams, fd_params = params, fd_returnType = return_tpe,
           fd_fullBody = body_expr, fd_flags = to_stainless carrier_flags\<rparr>)))))))))))"

section \<open>The whole crate\<close>

definition process_adt :: "KrateEnv \<Rightarrow> DefId \<Rightarrow> (Session, unit) step" where
  "process_adt ke def_id =
     bind (extract_adt (k_env ke) (k_fuel ke) def_id) (\<lambda>adt. on_xtor (add_adt (sort_id adt) adt))"

definition fn_specs :: "ItemVisitor \<Rightarrow> DefId \<Rightarrow> (SpecType \<times> DefId) list" where
  "fn_specs iv def_id =
     List.map_filter (\<lambda>spec_item. map_option (\<lambda>s. (s, fi_def_id spec_item)) (fi_spec_type spec_item))
       (case iv_specs iv def_id of None \<Rightarrow> [] | Some l \<Rightarrow> l)"

definition process_fn :: "KrateEnv \<Rightarrow> ItemVisitor \<Rightarrow> FnItem \<Rightarrow> (Session, unit) step" where
  "process_fn ke iv fn_item =
     (let (measure_fns, other_spec_fns) = partition (\<lambda>(spec_type, _). spec_type = Measure) (fn_specs iv (fi_def_id fn_item));
          (pre_fns, post_fns) = partition (\<lambda>(spec_type, _). spec_type = Pre) other_spec_fns in
      bind (if length measure_fns > 1 then report (Span_err ''Multiple measures.'') else ret ()) (\<lambda>_.
      bind (extract_local_fn ke (fi_def_id fn_item) (map snd pre_fns) (map snd post_fns)
        (case measure_fns of [] \<Rightarrow> None | (_, m) # _ \<Rightarrow> Some m)) (\<lambda>fd.
      on_xtor (add_function (fd_id fd) fd))))"

definition process_extern :: "KrateEnv \<Rightarrow> DefId \<Rightarrow> (Session, unit) step" where
  "process_extern ke def_id =
     bind (extract_extern_fn ke def_id) (\<lambda>fd. on_xtor (add_function (fd_id fd) fd))"

definition external_functions :: "KrateEnv \<Rightarrow> Session \<Rightarrow> DefId list" where
  "external_functions ke s = filter (\<lambda>d. \<not> is_local d) (refs_order ke (function_refs (xtor s)))"

definition process_crate :: "KrateEnv \<Rightarrow> (Session, unit) step" where
  "process_crate ke =
     bind (visit_all ke (k_items ke) \<lparr>iv_adts = [], iv_functions = [], iv_specs = Map.empty\<rparr>) (\<lambda>iv.
     bind (map_steps (process_adt ke) (iv_adts iv)) (\<lambda>_.
     bind (map_steps (process_fn ke iv) (iv_functions iv)) (\<lambda>_.
     bind (\<lambda>s. Inr (external_functions ke s, s)) (\<lambda>external.
     bind (map_steps (process_extern ke) external) (\<lambda>_. ret ())))))"

definition extract_crate :: "KrateEnv \<Rightarrow> (Symbols \<times> diag list) res" where
  "extract_crate ke =
     res_bind (StdItems_collect (crate_store.truncate (tcx (k_env ke)))) (\<lambda>items.
     res_bind (process_crate (ke\<lparr>k_env := (k_env ke)\<lparr>std_items := items\<rparr>\<rparr>) \<lparr>xtor = Extraction_new, diags = []\<rparr>)
       (\<lambda>(_, s). let (adts, functions) = into_result (xtor s) in Inr (Symbols_new adts functions, diags s)))"

end
