(* ===== verification/Triples.thy ===== *)
theory Triples
  imports Exprs
begin

text \<open>
  Triples for steps: \<open>gives env K m J\<close> says that \<open>m\<close> is a run of the extraction which, from
  a state with \<open>K\<close>, ends with a result and a state in the relation \<open>J\<close>, when it does not
  panic. Facts that survive runs of the extraction (\<open>stable\<close>) may be framed.
\<close>

section \<open>Rules\<close>

definition gives ::
  "Env \<Rightarrow> (Session \<Rightarrow> bool) \<Rightarrow> (Session, 'a) step \<Rightarrow> ('a \<Rightarrow> Session \<Rightarrow> bool) \<Rightarrow> bool" where
  "gives env K m J \<longleftrightarrow> runs env m \<and> (\<forall>s a t. K s \<longrightarrow> m s = Inr (a, t) \<longrightarrow> J a t)"

definition stable :: "Env \<Rightarrow> (Session \<Rightarrow> bool) \<Rightarrow> bool" where
  "stable env F \<longleftrightarrow> (\<forall>s t. F s \<longrightarrow> run_to env s t \<longrightarrow> F t)"

named_theorems gives_intros \<open>triples of the operations of the extraction\<close>

lemma givesD: "gives env K m J \<Longrightarrow> K s \<Longrightarrow> m s = Inr (a, t) \<Longrightarrow> J a t"
  by (auto simp: gives_def)

lemma gives_runs: "gives env K m J \<Longrightarrow> runs env m"
  by (simp add: gives_def)

lemma givesI: "runs env m \<Longrightarrow> (\<And>s a t. K s \<Longrightarrow> m s = Inr (a, t) \<Longrightarrow> J a t) \<Longrightarrow> gives env K m J"
  by (auto simp: gives_def)

lemma stableD: "stable env F \<Longrightarrow> F s \<Longrightarrow> run_to env s t \<Longrightarrow> F t"
  by (auto simp: stable_def)

lemma stable_simps [simp]: "stable env (\<lambda>s. True)" "stable env (\<lambda>s. c)"
  by (simp_all add: stable_def)

lemma stable_conj [intro]: "stable env F \<Longrightarrow> stable env G \<Longrightarrow> stable env (\<lambda>s. F s \<and> G s)"
  by (auto simp: stable_def)

lemma stable_ball [intro]: "(\<And>x. x \<in> A \<Longrightarrow> stable env (F x)) \<Longrightarrow> stable env (\<lambda>s. \<forall>x \<in> A. F x s)"
  by (auto simp: stable_def)

lemma gives_weaken:
  "gives env K m J \<Longrightarrow> (\<And>s. K' s \<Longrightarrow> K s) \<Longrightarrow> (\<And>a t. J a t \<Longrightarrow> J' a t) \<Longrightarrow> gives env K' m J'"
  unfolding gives_def by blast

lemma gives_bind:
  assumes "gives env K m J" and "\<And>a. gives env (J a) (f a) L"
  shows "gives env K (bind m f) L"
proof (rule givesI)
  show "runs env (bind m f)"
    by (rule runs_bind) (rule gives_runs [OF assms(1)], rule gives_runs [OF assms(2)])
  show "L b u" if "K s" "bind m f s = Inr (b, u)" for s b u
    using that assms by (auto simp: bind_Inr_iff dest: givesD)
qed

lemma gives_frame:
  assumes "gives env K m J" and "stable env F"
  shows "gives env (\<lambda>s. K s \<and> F s) m (\<lambda>a t. J a t \<and> F t)"
proof (rule givesI)
  fix s a t
  assume "K s \<and> F s" and m: "m s = Inr (a, t)"
  with givesD [OF assms(1)] stableD [OF assms(2)] runsD [OF gives_runs [OF assms(1)] m] show "J a t \<and> F t"
    by blast
qed (rule gives_runs [OF assms(1)])

lemma gives_bind_frame:
  assumes "gives env (\<lambda>s. True) m J" and "stable env F" and "\<And>a. gives env (\<lambda>s. J a s \<and> F s) (f a) L"
  shows "gives env F (bind m f) L"
  by (rule gives_bind [OF gives_weaken [OF gives_frame [OF assms(1,2)]] assms(3)]) simp_all

lemma gives_ret: "(\<And>s. K s \<Longrightarrow> J a s) \<Longrightarrow> gives env K (ret a) J"
  by (auto simp: gives_def run_intros)

lemma gives_stops [gives_intros]:
  "gives env K (panic msg) J" "gives env K (unexpected msg) J" "gives env K out_of_fuel J"
  by (auto simp: gives_def run_intros)

lemma gives_check: "gives env K (check b msg) (\<lambda>_ t. b \<and> K t)"
  by (auto simp: gives_def check_Inr_iff run_intros)

lemma gives_lift: "gives env K (lift_res r) (\<lambda>a t. r = Inr a \<and> K t)"
  by (auto simp: gives_def lift_res_Inr_iff run_intros)

lemma gives_bind_lift: "(\<And>a. r = Inr a \<Longrightarrow> gives env K (f a) L) \<Longrightarrow> gives env K (bind (lift_res r) f) L"
  by (cases r) (auto simp: gives_def runs_def bind_def lift_res_def)

lemma gives_runs_only: "runs env m \<Longrightarrow> gives env K m (\<lambda>a t. True)"
  by (simp add: gives_def)

lemma gives_any:
  "runs env m \<Longrightarrow> stable env F \<Longrightarrow> (\<And>a. gives env F (f a) L) \<Longrightarrow> gives env F (bind m f) L"
  by (rule gives_bind_frame [OF gives_runs_only]) (auto elim: gives_weaken)

lemma gives_map_steps:
  assumes "\<And>x. x \<in> set xs \<Longrightarrow> gives env (\<lambda>s. True) (f x) J" and "\<And>a. stable env (J a)"
  shows "gives env (\<lambda>s. True) (map_steps f xs) (\<lambda>ys t. length ys = length xs \<and> (\<forall>y \<in> set ys. J y t))"
proof (rule givesI)
  show "runs env (map_steps f xs)"
    by (rule runs_map_steps) (rule gives_runs [OF assms(1)])
  fix s ys t
  assume "map_steps f xs s = Inr (ys, t)"
  then have "list_all2 (\<lambda>x y. J y t) xs ys"
    by (rule map_steps_list_all2 [where R = "\<lambda>t x y. J y t"])
      (auto intro: assms(1) [THEN gives_runs] stableD [OF assms(2)] givesD [OF assms(1)])
  then show "length ys = length xs \<and> (\<forall>y \<in> set ys. J y t)"
    by (auto simp: list_all2_conv_all_nth in_set_conv_nth)
qed

section \<open>Subexpressions\<close>

fun case_children :: "MatchCase \<Rightarrow> Expr list" where
  "case_children (MkMatchCase p g b) = (case g of None \<Rightarrow> [b] | Some g \<Rightarrow> [g, b])"

fun children :: "Expr \<Rightarrow> Expr list" where
  "children (ADT stid tps args) = args"
| "children (ADTSelector a stid) = [a]"
| "children (And es) = es"
| "children (BVAShiftRight a b) = [a, b]"
| "children (BVAnd a b) = [a, b]"
| "children (BVLShiftRight a b) = [a, b]"
| "children (BVLiteral l) = []"
| "children (BVNot a) = [a]"
| "children (BVOr a b) = [a, b]"
| "children (BVShiftLeft a b) = [a, b]"
| "children (BVWideningCast a w) = [a]"
| "children (BVXor a b) = [a, b]"
| "children (Block es l) = es @ [l]"
| "children (BooleanLiteral b) = []"
| "children (Decreases a b) = [a, b]"
| "children (Division a b) = [a, b]"
| "children (Ensuring a l) = [a, lam_body l]"
| "children (Equals a b) = [a, b]"
| "children (Error tpe msg) = []"
| "children (FiniteSet es tpe) = es"
| "children (FunctionInvocation stid tps args) = args"
| "children (GreaterEquals a b) = [a, b]"
| "children (GreaterThan a b) = [a, b]"
| "children (IfExpr a b c) = [a, b, c]"
| "children (IntegerLiteral i) = []"
| "children (Lambda l) = [lam_body l]"
| "children (LessEquals a b) = [a, b]"
| "children (LessThan a b) = [a, b]"
| "children (LetVar vd a b) = [a, b]"
| "children (Let_e vd a b) = [a, b]"
| "children (MatchExpr a cs) = a # concat (map case_children cs)"
| "children (Minus a b) = [a, b]"
| "children (NoTree tpe) = []"
| "children (Not_e a) = [a]"
| "children (Or es) = es"
| "children (Plus_e a b) = [a, b]"
| "children (Remainder a b) = [a, b]"
| "children (Require a b) = [a, b]"
| "children (SetAdd a b) = [a, b]"
| "children (SetDifference a b) = [a, b]"
| "children (SetIntersection a b) = [a, b]"
| "children (SetUnion a b) = [a, b]"
| "children (StringLiteral m) = []"
| "children (SubsetOf a b) = [a, b]"
| "children (Times a b) = [a, b]"
| "children (Tuple es) = es"
| "children (TupleSelect a i) = [a]"
| "children (UMinus a) = [a]"
| "children UnitLiteral = []"
| "children (Variable v) = []"

text \<open>Every subexpression, the expression itself included, satisfies a property.\<close>

inductive all_sub :: "(Expr \<Rightarrow> bool) \<Rightarrow> Expr \<Rightarrow> bool" for P where
  all_subI: "P e \<Longrightarrow> (\<And>c. c \<in> set (children e) \<Longrightarrow> all_sub P c) \<Longrightarrow> all_sub P e"

lemma all_sub_iff: "all_sub P e \<longleftrightarrow> P e \<and> (\<forall>c \<in> set (children e). all_sub P c)"
  by (subst all_sub.simps) auto

lemma all_sub_mono: "all_sub P e \<Longrightarrow> (\<And>e. P e \<Longrightarrow> Q e) \<Longrightarrow> all_sub Q e"
  by (induction rule: all_sub.induct) (auto intro: all_sub.intros)

end
