(* ===== verification/Expr_Spec.thy ===== *)
theory Expr_Spec
  imports Triples
begin

text \<open>
  What the extraction of bodies promises, whatever the body: a property that holds of the
  nodes that the extraction builds holds of every subexpression of its result. The locale
  states what a property of nodes must provide; it is interpreted for the variables, for the
  called functions, and for the absence of placeholders.
\<close>

section \<open>Properties of nodes\<close>

definition types_ok :: "BodyEnv \<Rightarrow> Type list \<Rightarrow> Session \<Rightarrow> bool" where
  "types_ok be tps t \<longleftrightarrow> typed_params (be_txtcx be) \<longrightarrow> no_errors t \<longrightarrow> list_all typed tps"

text \<open>The nodes that refer to nothing outside themselves.\<close>

fun plain :: "Expr \<Rightarrow> bool" where
  "plain (Variable _) \<longleftrightarrow> False"
| "plain (FunctionInvocation _ _ _) \<longleftrightarrow> False"
| "plain (ADT _ _ _) \<longleftrightarrow> False"
| "plain (FiniteSet _ _) \<longleftrightarrow> False"
| "plain (NoTree _) \<longleftrightarrow> False"
| "plain (Let_e _ _ _) \<longleftrightarrow> False"
| "plain (LetVar _ _ _) \<longleftrightarrow> False"
| "plain (Error tpe _) \<longleftrightarrow> typed tpe"
| "plain (Lambda _) \<longleftrightarrow> False"
| "plain (Ensuring _ _) \<longleftrightarrow> False"
| "plain e \<longleftrightarrow> True"

lemma x_extract_fn_ref_registers: "x_extract_fn_ref env d s = Inr (i, t) \<Longrightarrow> did_ids t d = Some i"
  by (auto simp: x_extract_fn_ref_def on_xtor_Inr_iff extract_fn_ref_def get_id_from_def_def bind_Inr_iff register_def_def
      insert_did_def add_function_ref_def split: option.splits prod.splits if_splits)

lemma runs_unsupported_expr [run_intros]: "runs env (unsupported_expr msg)" "runs env (unsupported_pattern msg)"
  by (auto simp: unsupported_expr_def unsupported_pattern_def intro!: run_intros)

lemma runs_take_subpatterns:
  "(\<And>i p. (i, p) \<in> set ps \<Longrightarrow> runs env p) \<Longrightarrow> runs env (take_subpatterns i k ps)"
  by (induction i k ps rule: take_subpatterns.induct) (auto intro!: run_intros)

lemma runs_extract_subpatterns [run_intros]:
  "(\<And>i p. (i, p) \<in> set ps \<Longrightarrow> runs env p) \<Longrightarrow> runs env (extract_subpatterns ps k)"
  unfolding extract_subpatterns_def by (rule runs_take_subpatterns) auto

lemma runs_extract_adt_pattern [run_intros]:
  "(\<And>i p. (i, p) \<in> set ps \<Longrightarrow> runs (be_env be) p) \<Longrightarrow> runs (be_env be) (extract_adt_pattern be c substs ps bnd)"
  unfolding extract_adt_pattern_def extract_arg_types_def by (intro run_intros) auto

lemma runs_get_at [run_intros]: "runs env (get_at xs i)"
  by (auto simp: get_at_def intro!: run_intros)

lemma runs_extract_pattern: "runs (be_env be) (extract_pattern be p bnd)"
proof (induction be p bnd rule: extract_pattern.induct)
  case (4 be ty subpatterns bnd)
  then show ?case
    by (cases ty) (auto intro!: run_intros)
qed (auto intro!: run_intros runs_ret [unfolded ret_def] split: sum.split option.split)

lemma fetch_var_registered: "fetch_var dcx h = Inr v \<Longrightarrow> dcx h = Some v"
  by (auto simp: fetch_var_def get_var_def split: option.splits)

lemma try_pattern_to_var_registered:
  "try_pattern_to_var dcx p allowed = Inr (Inr v) \<Longrightarrow> \<exists>h. dcx h = Some v"
  by (induction dcx p allowed rule: try_pattern_to_var.induct)
    (auto simp: res_bind_Inr_iff dest: fetch_var_registered split: if_splits)

lemma gives_fn_ref: "gives env (\<lambda>s. True) (x_extract_fn_ref env d) (\<lambda>f t. did_ids t d = Some f)"
  by (rule givesI) (auto simp: run_intros dest: x_extract_fn_ref_registers)

lemma did_stable: "stable env (\<lambda>t. did_ids t d = Some f)"
  by (auto simp: stable_def dest!: run_to_ids simp: map_le_def dom_def)

locale node_property =
  fixes be :: BodyEnv and P :: "Expr \<Rightarrow> Session \<Rightarrow> bool"
  assumes node_run: "stable (be_env be) (P e)"
    and node_var: "be_dcx be h = Some v \<Longrightarrow> P (Variable v) t \<and> P (Let_e (ValDef v) a b) t"
    and node_call: "did_ids t d = Some f \<Longrightarrow> types_ok be tps t \<Longrightarrow> P (FunctionInvocation f tps args) t"
    and node_adt: "types_ok be tps t \<Longrightarrow> P (ADT c tps args) t"
    and node_set: "types_ok be [tpe] t \<Longrightarrow> P (FiniteSet args tpe) t"
    and node_none: "\<not> no_errors t \<Longrightarrow> P (NoTree Untyped) t"
    and node_plain: "plain e \<Longrightarrow> P e t"
begin

abbreviation env :: Env where "env \<equiv> be_env be"

definition sub :: "Expr \<Rightarrow> Session \<Rightarrow> bool" where
  "sub e t \<longleftrightarrow> all_sub (\<lambda>e. P e t) e"

definition ref_ok :: "ExprRef \<Rightarrow> bool" where
  "ref_ok m \<longleftrightarrow> gives env (\<lambda>s. True) m sub"

lemma sub_stable: "stable env (sub e)"
  unfolding stable_def sub_def using node_run all_sub_mono unfolding stable_def by metis

lemma subs_stable: "stable env (\<lambda>t. c \<and> (\<forall>e \<in> set es. sub e t))"
  by (intro stable_conj stable_simps stable_ball sub_stable)

lemma sub_iff: "sub e t \<longleftrightarrow> P e t \<and> (\<forall>c \<in> set (children e). sub c t)"
  unfolding sub_def by (subst all_sub_iff) simp

lemma sub_and_stable: "stable env (\<lambda>s. sub a s \<and> True)" "stable env (\<lambda>s. sub a s \<and> sub b s \<and> True)"
  by (intro stable_conj sub_stable stable_simps)+

lemma sub_plain: "plain e \<Longrightarrow> (\<And>c. c \<in> set (children e) \<Longrightarrow> sub c t) \<Longrightarrow> sub e t"
  by (subst sub_iff) (simp add: node_plain)

lemma ref_okD: "ref_ok m \<Longrightarrow> gives env (\<lambda>s. True) m sub"
  by (simp add: ref_ok_def)

lemma ref_ok_unsupported: "ref_ok (unsupported_expr msg)"
  unfolding ref_ok_def unsupported_expr_def
  by (rule givesI) (auto intro!: run_intros simp: bind_Inr_iff sub_iff [of "NoTree Untyped"]
      dest!: unsupported_errors intro: node_none)

lemma gives_unsupported: "gives env K (unsupported_expr msg) sub"
  using ref_ok_unsupported by (auto simp: ref_ok_def intro: gives_weaken)

lemma gives_ret_plain:
  "plain e \<Longrightarrow> (\<And>s c. K s \<Longrightarrow> c \<in> set (children e) \<Longrightarrow> sub c s) \<Longrightarrow> gives env K (ret e) sub"
  by (rule gives_ret) (auto intro: sub_plain)

text \<open>Binding an expression: its subexpressions are kept, together with what held before.\<close>

lemma gives_ref:
  "ref_ok m \<Longrightarrow> stable env F \<Longrightarrow> (\<And>a. gives env (\<lambda>s. sub a s \<and> F s) (f a) L) \<Longrightarrow> gives env F (bind m f) L"
  by (rule gives_bind_frame [OF ref_okD])

lemma gives_refs:
  assumes "\<And>m. m \<in> set ms \<Longrightarrow> ref_ok m"
  shows "gives env (\<lambda>s. True) (extract_expr_refs ms) (\<lambda>es t. length es = length ms \<and> (\<forall>e \<in> set es. sub e t))"
  unfolding extract_expr_refs_def using assms sub_stable
  by (intro gives_map_steps) (auto simp: ref_ok_def)

lemma extract_unary_ok:
  assumes "ref_ok arg"
  shows "ref_ok (extract_unary be op ty arg)"
  unfolding ref_ok_def extract_unary_def Let_def
  by (rule gives_ref [OF assms stable_simps(1)])
    (auto split: UnOp.split intro!: gives_ret_plain gives_intros)

lemma widen_shift_ok:
  assumes "\<And>c. (\<And>s. K s \<Longrightarrow> sub c s) \<Longrightarrow> gives env K (fin c) sub" and "\<And>s. K s \<Longrightarrow> sub b s"
  shows "gives env K (widen_shift sg w1 w2 b fin) sub"
proof -
  have "sub (BVWideningCast b w) s" if "K s" for w s
    using assms(2) [OF that] by (auto intro: sub_plain)
  then show ?thesis
    unfolding widen_shift_def by (auto split: option.split intro: gives_unsupported assms(1))
qed

lemma extract_shift_ok:
  assumes "\<And>s. K s \<Longrightarrow> sub a s" and "\<And>s. K s \<Longrightarrow> sub b s"
  shows "gives env K (extract_shift be a b ty1 ty2 is_shl) sub"
proof -
  let ?fin = "\<lambda>c. ret (if is_shl then BVShiftLeft a c else if is_signed_bv_type ty1 then BVAShiftRight a c
      else BVLShiftRight a c)"
  have fin: "gives env K (?fin c) sub" if "\<And>s. K s \<Longrightarrow> sub c s" for c
    using assms(1) that by (intro gives_ret_plain) (auto split: if_splits)
  have widen: "\<forall>sg w1 w2. gives env K (widen_shift sg w1 w2 b ?fin) sub"
    by (intro allI) (rule widen_shift_ok [OF fin assms(2)])
  have unsup: "gives env K (unsupported_expr m) sub" for m
    by (rule gives_unsupported)
  show ?thesis
  proof (cases "ty1 = ty2")
    case True
    with fin [OF assms(2)] show ?thesis
      by (auto simp: extract_shift_def split: if_splits)
  next
    case False
    with widen unsup show ?thesis
      by (cases ty1; cases ty2) (auto simp: extract_shift_def Let_def)
  qed
qed

lemma extract_binary_ok:
  assumes "ref_ok a" and "ref_ok b"
  shows "ref_ok (extract_binary be op ty1 ty2 a b)"
proof -
  have eq: "sub (Equals x y) s" if "sub x s" "sub y s" for x y s
    using that by (auto intro: sub_plain)
  show ?thesis
    unfolding ref_ok_def extract_binary_def Let_def
    by (rule gives_ref [OF assms(1) stable_simps(1)], rule gives_ref [OF assms(2)];
        cases op; simp add: sub_stable stable_conj)
      (auto intro!: gives_ret_plain gives_unsupported extract_shift_ok simp: eq)
qed

lemma extract_logical_op_ok:
  assumes "ref_ok a" and "ref_ok b"
  shows "ref_ok (extract_logical_op op ty1 ty2 a b)"
  unfolding ref_ok_def extract_logical_op_def
  by (rule gives_any [OF runs_lift(2) stable_simps(1)], rule gives_ref [OF assms(1) stable_simps(1)],
      rule gives_ref [OF assms(2)])
    (auto split: LogicalOp.split intro!: gives_ret_plain sub_stable stable_conj)

lemma extract_tuple_ok:
  assumes "\<And>m. m \<in> set ms \<Longrightarrow> ref_ok m"
  shows "ref_ok (extract_tuple ms)"
  unfolding ref_ok_def extract_tuple_def
  by (auto intro!: gives_ret_plain gives_unsupported gives_bind [OF gives_refs [OF assms]])

lemma extract_field_ok:
  assumes "ref_ok lhs"
  shows "ref_ok (extract_field be lhs_ty lhs index)"
proof (cases lhs_ty)
  case (TTuple tys)
  show ?thesis
    unfolding ref_ok_def extract_field_def TTuple Ty.case
    by (rule gives_ref [OF assms stable_simps(1)], rule gives_any [OF runs_lift(1) stable_conj [OF sub_stable stable_simps(1)]])
      (auto intro!: gives_ret_plain)
next
  case (TAdt did substs)
  show ?thesis
    unfolding ref_ok_def extract_field_def TAdt Ty.case get_at_def
    by (rule gives_any [OF runs_extract_adt stable_simps(1)], rule gives_any [OF runs_lift(2) stable_simps(1)],
        rule gives_any [OF _ stable_simps(1)], simp add: run_intros, rule gives_any [OF runs_lift(2) stable_simps(1)],
        rule gives_ref [OF assms stable_simps(1)], rule gives_any [OF _ stable_conj [OF sub_stable stable_simps(1)]],
        simp add: run_intros)
      (auto intro!: gives_ret_plain)
qed (auto simp: ref_ok_def extract_field_def intro: gives_intros)

lemma gives_arg_types: "gives env (\<lambda>s. True) (extract_arg_types be substs) (types_ok be)"
  unfolding extract_arg_types_def
  by (rule givesI, rule runs_extract_ty) (auto simp: types_ok_def extract_tys_def dest: adts.extract_tys_typed)

lemma types_ok_stable: "stable env (types_ok be tps)"
  by (auto simp: stable_def types_ok_def dest: no_errors_run_to)

lemma extract_adt_construction_ok:
  assumes "\<And>m. m \<in> snd ` set field_refs \<Longrightarrow> ref_ok m"
  shows "ref_ok (extract_adt_construction be did variant_index substs field_refs has_base)"
proof -
  have args: "gives env (\<lambda>s. True) (map_steps snd (sort_key fst field_refs))
      (\<lambda>es t. length es = length (sort_key fst field_refs) \<and> (\<forall>e \<in> set es. sub e t))"
    using assms sub_stable by (intro gives_map_steps) (auto simp: ref_ok_def)
  have "gives env (\<lambda>s. True) (bind (extract_adt env (be_fuel be) did) (\<lambda>adt.
        bind (get_at (sort_constructors adt) variant_index) (\<lambda>constructor.
        bind (extract_arg_types be substs) (\<lambda>arg_tps.
        bind (map_steps snd (sort_key fst field_refs)) (\<lambda>args.
        ret (ADT (cons_id constructor) arg_tps args)))))) sub"
    unfolding get_at_def
    by (rule gives_any [OF runs_extract_adt stable_simps(1)], rule gives_any [OF _ stable_simps(1)], simp add: run_intros,
        rule gives_bind_frame [OF gives_arg_types stable_simps(1)], rule gives_bind_frame [OF args])
      (auto intro!: gives_ret stable_conj types_ok_stable simp: sub_iff [of "ADT _ _ _"] node_adt)
  then show ?thesis
    by (auto simp: ref_ok_def extract_adt_construction_def intro: gives_unsupported)
qed

lemma extract_panic_ok:
  assumes "\<And>m. m \<in> set ms \<Longrightarrow> ref_ok m"
  shows "ref_ok (extract_panic ms is_fmt)"
proof -
  have err: "sub (Error UnitType ''Panic'') t" for t
    by (rule sub_plain) simp_all
  have "gives env (\<lambda>s. True) (bind (get_at ms 0) (\<lambda>arg. bind arg (\<lambda>arg. ret (keep_for_effects (Error UnitType ''Panic'') [arg])))) sub"
  proof (cases ms)
    case (Cons m ms')
    have "gives env (\<lambda>s. True) (bind m (\<lambda>arg. ret (keep_for_effects (Error UnitType ''Panic'') [arg]))) sub"
      by (rule gives_bind [OF ref_okD]) (use assms Cons in \<open>auto intro!: gives_ret_plain simp: keep_for_effects_def err\<close>)
    then show ?thesis
      by (simp add: Cons get_at_def bind_def ret_def)
  qed (auto simp: get_at_def gives_def panic_def bind_def runs_def)
  then show ?thesis
    unfolding ref_ok_def extract_panic_def
    by (intro gives_any [OF runs_lift(2) stable_simps(1)]) (auto intro: gives_unsupported)
qed

lemma extract_set_creation_ok:
  assumes "\<And>m. m \<in> set ms \<Longrightarrow> ref_ok m"
  shows "ref_ok (extract_set_creation be ms substs)"
proof -
  have ty: "gives env (\<lambda>s. True) (body_ty be ty) (\<lambda>tpe. types_ok be [tpe])" for ty
    by (rule givesI, rule runs_extract_ty) (auto simp: types_ok_def extract_ty_def dest: adts.extract_ty_typed)
  show ?thesis
    unfolding ref_ok_def extract_set_creation_def
    by (rule gives_bind [OF gives_refs [OF assms]], simp,
        rule gives_any [OF runs_lift(1) subs_stable], rule gives_bind_frame [OF ty subs_stable])
      (auto intro!: gives_ret simp: sub_iff [of "FiniteSet _ _"] node_set)
qed

lemma extract_set_op_ok:
  assumes "\<And>m. m \<in> set ms \<Longrightarrow> ref_ok m"
  shows "ref_ok (extract_set_op item ms)"
  unfolding ref_ok_def extract_set_op_def
  by (rule gives_bind [OF gives_refs [OF assms]], simp)
    (auto split: list.split StdItem.split intro!: gives_ret_plain gives_intros)

lemma extract_call_ok:
  assumes "\<And>m. m \<in> set ms \<Longrightarrow> ref_ok m"
  shows "ref_ok (extract_call be ty ms)"
proof (cases ty)
  case (TFnDef d substs)
  have call: "gives env (\<lambda>s. did_ids s d = Some f)
      (bind (extract_arg_types be substs) (\<lambda>tps. bind (extract_expr_refs ms) (\<lambda>args. ret (FunctionInvocation f tps args)))) sub" for f
    by (rule gives_bind_frame [OF gives_arg_types did_stable],
        rule gives_bind_frame [OF gives_refs [OF assms] stable_conj [OF types_ok_stable did_stable]])
      (auto intro!: gives_ret simp: sub_iff [of "FunctionInvocation _ _ _"] node_call)
  have box: "gives env (\<lambda>s. did_ids s d = Some f)
      (case ms of arg # _ \<Rightarrow> arg | [] \<Rightarrow> panic ''called `Option::unwrap()` on a `None` value'') sub" for f
    using assms by (cases ms) (auto intro!: gives_intros intro: gives_weaken [OF ref_okD])
  show ?thesis
    unfolding ref_ok_def extract_call_def TFnDef Ty.case
    by (rule gives_bind [OF gives_fn_ref]) (auto intro: call box)
qed (auto simp: ref_ok_def extract_call_def intro: gives_unsupported)

lemma extract_call_like_ok:
  assumes "\<And>m. m \<in> set ms \<Longrightarrow> ref_ok m"
  shows "ref_ok (extract_call_like be ty ms)"
  using extract_call_ok [OF assms] extract_panic_ok [OF assms] extract_set_creation_ok [OF assms]
    extract_set_op_ok [OF assms]
  by (cases ty) (auto simp: extract_call_like_def split: option.split)

section \<open>Patterns, conditionals, matches and blocks\<close>

definition case_ok :: "MatchCase \<Rightarrow> Session \<Rightarrow> bool" where
  "case_ok c t \<longleftrightarrow> (\<forall>e \<in> set (case_children c). sub e t)"

definition arm_ok :: "(Session, MatchCase) step \<Rightarrow> bool" where
  "arm_ok m \<longleftrightarrow> gives env (\<lambda>s. True) m case_ok"

definition stmt_ok :: "StmtRef \<Rightarrow> bool" where
  "stmt_ok r \<longleftrightarrow> (case r of Let_ref p i \<Rightarrow> (\<forall>m. i = Some m \<longrightarrow> ref_ok m) | Expr_ref m \<Rightarrow> ref_ok m)"

lemma case_stable: "stable env (case_ok c)"
  unfolding case_ok_def by (intro stable_ball sub_stable)

lemma gives_opt:
  assumes "\<And>m. r = Some m \<Longrightarrow> ref_ok m"
  shows "gives env (\<lambda>s. True) (case r of Some e \<Rightarrow> e | None \<Rightarrow> ret UnitLiteral) sub"
  using assms by (cases r) (auto intro!: gives_ret_plain dest: ref_okD)

lemma extract_if_ok:
  assumes "ref_ok c" and "ref_ok thn" and "\<And>m. elze = Some m \<Longrightarrow> ref_ok m"
  shows "ref_ok (extract_if c thn elze)"
  unfolding ref_ok_def extract_if_def
  by (rule gives_ref [OF assms(1) stable_simps(1)], rule gives_ref [OF assms(2) sub_and_stable(1)],
      rule gives_bind_frame [OF gives_opt [OF assms(3)] sub_and_stable(2)])
    (auto intro!: gives_ret_plain)

lemma extract_match_ok:
  assumes "ref_ok m" and "\<And>a. a \<in> set arms \<Longrightarrow> arm_ok a"
  shows "ref_ok (extract_match m arms)"
proof -
  have cases: "gives env (\<lambda>s. True) (map_steps (\<lambda>arm. arm) arms) (\<lambda>cs t. length cs = length arms \<and> (\<forall>c \<in> set cs. case_ok c t))"
    using assms(2) case_stable by (intro gives_map_steps) (auto simp: arm_ok_def)
  show ?thesis
    unfolding ref_ok_def extract_match_def
    by (rule gives_ref [OF assms(1) stable_simps(1)], rule gives_bind_frame [OF cases sub_and_stable(1)])
      (auto intro!: gives_ret_plain simp: case_ok_def)
qed

lemma extract_arm_ok:
  assumes "\<And>m. guard = Some m \<Longrightarrow> ref_ok m" and "ref_ok body"
  shows "arm_ok (extract_arm be p guard body)"
proof -
  have guard: "gives env (\<lambda>s. True) (option_step (\<lambda>g. g) guard) (\<lambda>g t. \<forall>e \<in> set_option g. sub e t)"
    using assms(1) by (cases guard) (auto simp: option_step_def intro!: gives_ret gives_bind [OF ref_okD])
  show ?thesis
    unfolding arm_ok_def extract_arm_def
    by (rule gives_any [OF runs_extract_pattern stable_simps(1)], rule gives_bind [OF guard],
        rule gives_ref [OF assms(2)], intro stable_ball sub_stable)
      (auto intro!: gives_ret simp: case_ok_def split: option.splits)
qed

lemma sub_block: "(\<And>e. e \<in> set es \<Longrightarrow> sub e t) \<Longrightarrow> sub e t \<Longrightarrow> sub (Block es e) t"
  by (rule sub_plain) auto

lemma finish_ok: "(\<And>e. e \<in> set es \<Longrightarrow> sub e t) \<Longrightarrow> sub e t \<Longrightarrow> sub (finish es e) t"
  by (simp add: finish_def sub_block)

lemma bail_ok: "gives env (\<lambda>s. \<forall>e \<in> set es. sub e s) (bail es msg) sub"
proof -
  have "gives env (\<lambda>s. \<forall>e \<in> set es. sub e s) (unsupported msg) (\<lambda>_ t. \<not> no_errors t \<and> (\<forall>e \<in> set es. sub e t))"
  proof (rule gives_weaken [OF gives_frame])
    show "gives env (\<lambda>s. True) (unsupported msg) (\<lambda>_ t. \<not> no_errors t)"
      by (rule givesI) (auto simp: run_intros dest: unsupported_errors)
    show "stable env (\<lambda>s. \<forall>e \<in> set es. sub e s)"
      by (intro stable_ball sub_stable)
  qed simp_all
  then show ?thesis
    unfolding bail_def
    by (rule gives_bind) (auto intro!: gives_ret sub_block simp: sub_iff [of "NoTree Untyped"] node_none)
qed

lemma extract_let_ok:
  assumes "ref_ok m" and "gives env (sub e) rest sub" and "be_dcx be h = Some v"
  shows "gives env (\<lambda>s. sub e s \<and> (\<forall>e \<in> set acc. sub e s))
    (bind m (\<lambda>init. bind rest (\<lambda>body. ret (finish acc (Let_e (ValDef v) init body))))) sub"
proof (rule gives_ref [OF assms(1)])
  show keep: "stable env (\<lambda>s. sub e s \<and> (\<forall>e \<in> set acc. sub e s))" for e
    by (intro stable_conj stable_ball sub_stable)
  fix init
  have frame: "gives env (\<lambda>s. sub init s \<and> sub e s \<and> (\<forall>e \<in> set acc. sub e s)) rest
      (\<lambda>body s. sub body s \<and> sub init s \<and> (\<forall>e \<in> set acc. sub e s))"
    by (rule gives_weaken [OF gives_frame [OF assms(2) keep [of init]]]) auto
  show "gives env (\<lambda>s. sub init s \<and> sub e s \<and> (\<forall>e \<in> set acc. sub e s))
      (bind rest (\<lambda>body. ret (finish acc (Let_e (ValDef v) init body)))) sub"
    by (rule gives_bind [OF frame], rule gives_ret)
      (auto intro!: finish_ok simp: sub_iff [of "Let_e _ _ _"] node_var [OF assms(3)])
qed

lemma extract_stmts_ok:
  "\<forall>r \<in> set stmts. stmt_ok r \<Longrightarrow>
    gives env (\<lambda>s. sub e s \<and> (\<forall>e \<in> set acc. sub e s)) (extract_stmts be stmts acc e) sub"
proof (induction stmts arbitrary: acc)
  case Nil
  show ?case
    unfolding extract_stmts.simps by (rule gives_ret) (auto intro: finish_ok)
next
  case (Cons r stmts)
  then have rest: "gives env (\<lambda>s. sub e s \<and> (\<forall>e \<in> set acc. sub e s)) (extract_stmts be stmts acc e) sub" for acc
    by simp
  from Cons.prems have r: "stmt_ok r"
    by simp
  show ?case
  proof (cases r)
    case (Let_ref p init)
    have bail: "gives env (\<lambda>s. sub e s \<and> (\<forall>e \<in> set acc. sub e s)) (bail acc msg) sub" for msg
      by (rule gives_weaken [OF bail_ok]) simp_all
    have var: "gives env (\<lambda>s. sub e s \<and> (\<forall>e \<in> set acc. sub e s))
       (case init of None \<Rightarrow> bail acc ''Cannot extract let without initializer''
        | Some init \<Rightarrow> bind init (\<lambda>init. bind (extract_stmts be stmts [] e) (\<lambda>body_expr.
              ret (finish acc (Let_e (ValDef v) init body_expr))))) sub" if "be_dcx be h = Some v" for h v
      using r rest [of "[]"] that by (cases init) (auto simp: Let_ref stmt_ok_def intro: bail extract_let_ok)
    show ?thesis
      unfolding Let_ref extract_stmts.simps
      by (rule gives_bind_lift) (auto simp: var intro: bail split: sum.split dest!: try_pattern_to_var_registered)
  next
    case (Expr_ref m)
    show ?thesis
      unfolding Expr_ref extract_stmts.simps
    proof (rule gives_ref)
      show "ref_ok m"
        using r by (simp add: Expr_ref stmt_ok_def)
      show "gives env (\<lambda>s. sub a s \<and> sub e s \<and> (\<forall>e \<in> set acc. sub e s)) (extract_stmts be stmts (acc @ [a]) e) sub" for a
        by (rule gives_weaken [OF rest]) auto
    qed (intro stable_conj stable_ball sub_stable)
  qed
qed

lemma extract_block_ok:
  assumes "\<forall>r \<in> set stmts. stmt_ok r" and "\<And>m. final_expr = Some m \<Longrightarrow> ref_ok m"
  shows "ref_ok (extract_block be stmts final_expr)"
  unfolding ref_ok_def extract_block_def
  by (rule gives_bind [OF gives_opt [OF assms(2)]], simp)
    (rule gives_weaken [OF extract_stmts_ok [OF assms(1)]], auto)

section \<open>All expressions\<close>

lemma as_st_literal_plain: "plain (as_st_literal l)" "children (as_st_literal l) = []"
  by (simp_all add: as_st_literal_def split: Literal.split)

lemma two_arms_ok:
  assumes "ref_ok c" and "\<And>m. m \<in> set ms \<Longrightarrow> ref_ok m"
  shows "gives env (\<lambda>s. True) (case ms of
      [thn, elze] \<Rightarrow> extract_if c thn (if has_elze then Some elze else None)
    | _ \<Rightarrow> panic ''called `Option::unwrap()` on a `None` value'') sub"
  using assms by (auto split: list.split intro!: gives_intros extract_if_ok [THEN ref_okD])

lemma match_kind_ok:
  assumes "ref_ok (extract_expr be m)" and "\<And>a. a \<in> set arms \<Longrightarrow> arm_ok (arm_ref be a)"
    and "\<And>m. m \<in> set (map (\<lambda>arm. case arm of HArm _ _ body \<Rightarrow> extract_expr be body) arms) \<Longrightarrow> ref_ok m"
  shows "ref_ok (extract_expr be (HExpr ty (KMatch m arms)))"
proof -
  have match: "ref_ok (extract_match (extract_expr be m) (map (arm_ref be) arms))"
    by (rule extract_match_ok [OF assms(1)]) (auto intro: assms(2))
  have alternatives: "gives env (\<lambda>s. True) (case r of
      Some has_elze \<Rightarrow> (case map (\<lambda>arm. case arm of HArm _ _ body \<Rightarrow> extract_expr be body) arms of
         [thn, elze] \<Rightarrow> extract_if (extract_expr be m) thn (if has_elze then Some elze else None)
       | _ \<Rightarrow> panic ''called `Option::unwrap()` on a `None` value'')
    | None \<Rightarrow> extract_match (extract_expr be m) (map (arm_ref be) arms)) sub" for r
  proof (cases r)
    case (Some has_elze)
    show ?thesis
      unfolding Some option.case by (rule two_arms_ok [OF assms(1,3)])
  qed (simp add: ref_okD [OF match])
  show ?thesis
    unfolding ref_ok_def extract_expr.simps HKind.case by (rule gives_bind_lift) (rule alternatives)
qed

lemma extract_kinds_ok:
  "be' = be \<Longrightarrow> ref_ok (extract_expr be' e)"
  "be' = be \<Longrightarrow> stmt_ok (stmt_ref be' st)"
  "be' = be \<Longrightarrow> arm_ok (arm_ref be' arm)"
proof (induction be' e and be' st and be' arm rule: extract_expr_stmt_ref_arm_ref.induct)
  case (1 be' ty kind)
  show ?case
  proof (cases kind)
    case (KLiteral k)
    then show ?thesis
      using 1 by (auto simp: ref_ok_def intro!: gives_bind_lift gives_unsupported gives_ret_plain simp: as_st_literal_plain
          split: option.split)
  next
    case (KTuple es)
    then show ?thesis
      using 1 by (auto intro!: extract_tuple_ok)
  next
    case (KCall fty es)
    then show ?thesis
      using 1 by (auto intro!: extract_call_like_ok)
  next
    case (KAdt d vi ss fs b)
    then show ?thesis
      using 1 by (auto intro!: extract_adt_construction_ok)
  next
    case (KBlock b)
    then show ?thesis
      using 1 by (cases b) (auto intro!: extract_block_ok ref_ok_unsupported)
  next
    case (KMatch m arms)
    have arms: "\<And>a. a \<in> set arms \<Longrightarrow> arm_ok (arm_ref be a)"
      using 1 KMatch by auto
    have bodies: "\<And>m. m \<in> set (map (\<lambda>arm. case arm of HArm _ _ body \<Rightarrow> extract_expr be body) arms) \<Longrightarrow> ref_ok m"
      using 1 KMatch by (auto split: HArm.splits)
    have m: "ref_ok (extract_expr be m)"
      using 1 KMatch by simp
    have "be' = be"
      using 1 by simp
    with match_kind_ok [OF m arms bodies] show ?thesis
      by (simp add: KMatch)
  next
    case (KVarRef h)
    then show ?thesis
      using 1 by (auto simp: ref_ok_def sub_iff [of "Variable _"] node_var intro!: gives_bind_lift gives_ret
          dest!: fetch_var_registered)
  qed (use 1 in \<open>auto simp: intro!: extract_unary_ok extract_binary_ok extract_logical_op_ok extract_field_ok ref_ok_unsupported\<close>)
next
  case (2 be' p init)
  then show ?case
    by (auto simp: stmt_ok_def)
next
  case (3 be' e)
  then show ?case
    by (auto simp: stmt_ok_def)
next
  case (4 be' p guard body)
  then show ?case
    by (auto intro!: extract_arm_ok)
qed

lemma extract_expr_sub: "extract_expr be e s = Inr (x, t) \<Longrightarrow> sub x t"
  using givesD [OF ref_okD [OF extract_kinds_ok(1) [OF refl]]] by blast

end

end
