(* ===== verification/Body_Spec.thy ===== *)
theory Body_Spec
  imports Expr_Spec
begin

text \<open>
  The properties of extracted bodies: variables, called functions and types, by
  interpretations of \<open>node_property\<close>; and the functional behaviour of blocks, patterns,
  conditionals and shifts.
\<close>

section \<open>Variables, functions, types\<close>

fun node_vars :: "Expr \<Rightarrow> Variable set" where
  "node_vars (Variable v) = {v}"
| "node_vars (Let_e vd a b) = {vd_v vd}"
| "node_vars e = {}"

fun node_calls :: "Expr \<Rightarrow> SymbolIdentifier set" where
  "node_calls (FunctionInvocation f tps args) = {f}"
| "node_calls e = {}"

fun complete_node :: "Expr \<Rightarrow> bool" where
  "complete_node (NoTree tpe) \<longleftrightarrow> False"
| "complete_node (FunctionInvocation f tps args) \<longleftrightarrow> list_all typed tps"
| "complete_node (ADT c tps args) \<longleftrightarrow> list_all typed tps"
| "complete_node (FiniteSet args tpe) \<longleftrightarrow> typed tpe"
| "complete_node (Error tpe msg) \<longleftrightarrow> typed tpe"
| "complete_node (Let_e vd a b) \<longleftrightarrow> typed (var_tpe (vd_v vd))"
| "complete_node e \<longleftrightarrow> True"

definition typed_context :: "BodyEnv \<Rightarrow> bool" where
  "typed_context be \<longleftrightarrow> typed_params (be_txtcx be) \<and> (\<forall>v \<in> ran (be_dcx be). typed (var_tpe v))"

lemma ran_map_le: "m \<subseteq>\<^sub>m m' \<Longrightarrow> ran m \<subseteq> ran m'"
  by (fastforce simp: ran_def map_le_def dom_def)

interpretation bound: node_property be "\<lambda>e t. node_vars e \<subseteq> ran (be_dcx be)" for be
proof
  show "node_vars e \<subseteq> ran (be_dcx be)" if "plain e" for e
    using that by (cases e) auto
qed (auto intro: ranI)

interpretation called: node_property be "\<lambda>e t. node_calls e \<subseteq> ran (did_ids t)" for be
proof
  show "node_calls e \<subseteq> ran (did_ids t)" if "plain e" for e and t :: Session
    using that by (cases e) auto
  show "Triples.stable (be_env be) (\<lambda>t. node_calls e \<subseteq> ran (did_ids t))" for e
    unfolding stable_def using run_to_ids ran_map_le by blast
qed (auto intro: ranI)

interpretation complete: node_property be "\<lambda>e t. typed_context be \<longrightarrow> no_errors t \<longrightarrow> complete_node e" for be
proof
  show "typed_context be \<longrightarrow> no_errors t \<longrightarrow> complete_node e" if "plain e" for e and t :: Session
    using that by (cases e) auto
  show "Triples.stable (be_env be) (\<lambda>t. typed_context be \<longrightarrow> no_errors t \<longrightarrow> complete_node e)" for e
    by (auto simp: stable_def dest: no_errors_run_to)
qed (auto simp: types_ok_def typed_context_def intro: ranI)

lemma runs_extract_expr [run_intros]: "runs (be_env be) (extract_expr be e)"
  by (rule gives_runs [OF bound.ref_okD [OF bound.extract_kinds_ok(1) [OF refl]]])

lemma did_ids_unique:
  assumes "xrun num True path_str ids (xtor s)" and "did_ids s d = Some i" and "did_ids s d' = Some i"
  shows "d = d'"
proof -
  have "inj_on (\<lambda>d. map_option global_id (did_ids s d)) (dom (did_ids s))"
    using run_ok_xrun [OF assms(1)] by (simp add: run_ok_def mapping_ok_def)
  from inj_onD [OF this, of d d'] assms(2,3) show ?thesis
    by (simp add: domI)
qed

text \<open>Without errors, every variable of a context is typed.\<close>

definition vars_typed :: "DefContext \<Rightarrow> Session \<Rightarrow> bool" where
  "vars_typed dcx s \<longleftrightarrow> no_errors s \<longrightarrow> (\<forall>v \<in> ran dcx. typed (var_tpe v))"

lemma vars_typed_new: "vars_typed DefContext_new s"
  by (simp add: vars_typed_def DefContext_new_def)

lemma extract_binding_typed:
  assumes "extract_binding env fuel txtcx body h flags dcx s = Inr (dcx', t)" and "vars_typed dcx s"
    and "typed_params txtcx"
  shows "vars_typed dcx' t"
proof (cases "dcx h")
  case (Some v)
  with assms show ?thesis by (simp add: extract_binding_def)
next
  case None
  with assms(1) obtain u stid w tpe fl where 
    ty: "extract_ty env fuel txtcx (node_type body h) w = Inr (tpe, t)"
    and dcx': "dcx' = dcx(h \<mapsto> \<lparr>var_id = stid, var_tpe = tpe, var_flags = fl\<rparr>)"
    by (auto simp: extract_binding_def bind_Inr_iff add_var_def split: option.splits HirNode.splits if_splits)
  have "no_errors t \<Longrightarrow> typed tpe"
    using adts.extract_ty_typed [OF assms(3) ty [unfolded extract_ty_def]] .
  moreover have "no_errors t \<Longrightarrow> no_errors s"
    using no_errors_run_to [OF runsD [OF runs_extract_binding assms(1)]] .
  ultimately show ?thesis
    using assms(2) None by (auto simp: vars_typed_def dcx')
qed

lemma populate_params_typed:
  "populate_params env fuel txtcx body params fm dcx s = Inr ((fm', dcx'), t) \<Longrightarrow> typed_params txtcx \<Longrightarrow>
    vars_typed dcx s \<Longrightarrow> vars_typed dcx' t"
proof (induction params arbitrary: fm dcx s)
  case (Cons p ps)
  from Cons.prems(1) obtain flags fm1 d u where
    d: "extract_binding env fuel txtcx body (param_hir_id p) flags dcx s = Inr (d, u)"
    and rest: "populate_params env fuel txtcx body ps fm1 d u = Inr ((fm', dcx'), t)"
    by (cases "param_simple_ident p") (auto simp: bind_Inr_iff)
  show ?case
    by (rule Cons.IH [OF rest Cons.prems(2) extract_binding_typed [OF d Cons.prems(3,2)]])
qed simp

lemma populate_typed:
  assumes "populate_def_context env fuel txtcx body fm dcx0 s = Inr ((fm', dcx), t)" and "typed_params txtcx"
    and "vars_typed dcx0 s"
  shows "vars_typed dcx t"
proof -
  let ?e = "\<lambda>h. extract_binding env fuel txtcx body h None"
  from assms(1) obtain d u d2 v where
    p: "populate_params env fuel txtcx body (body_params body) fm dcx0 s = Inr ((fm', d), u)"
    and v1: "visit_pats ?e (map param_pat (body_params body)) d u = Inr (d2, v)"
    and v2: "visit_pats ?e (body_pats body) d2 v = Inr (dcx, t)"
    by (auto simp: populate_def_context_def BindingsCollector_run_def Let_def bind_Inr_iff check_Inr_iff
        split: prod.splits)
  have e: "binds vars_typed ?e"
    using extract_binding_typed [OF _ _ assms(2)] extract_binding_dom by (simp add: binds_def)
  from populate_params_typed [OF p assms(2,3)] visit_pats_vars(2) [OF v1 e] visit_pats_vars(2) [OF v2 e]
  show ?thesis
    by blast
qed

section \<open>Properties of bodies\<close>

text \<open>
  C20: Every variable in an extracted body, used or bound by a let, is the variable of a
  parameter or pattern binding of that body and is registered under the binding's id.
\<close>

theorem body_variables_are_bound:
  assumes "populate_def_context env fuel txtcx body fm DefContext_new s = Inr ((fm', dcx), t)"
    and "extract_expr \<lparr>be_env = env, be_fuel = fuel, be_txtcx = txtcx, be_dcx = dcx\<rparr> (body_value body) t = Inr (e, u)"
  shows "all_sub (\<lambda>e. \<forall>v \<in> node_vars e. \<exists>h \<in> binder_ids body.
     dcx h = Some v \<and> hid_to_stid (mapping (xtor u)) h = Some (var_id v)) e"
proof -
  let ?be = "\<lparr>be_env = env, be_fuel = fuel, be_txtcx = txtcx, be_dcx = dcx\<rparr>"
  have "vars_ok env txtcx body DefContext_new DefContext_new s"
    by (simp add: vars_ok_def DefContext_new_def)
  from populate_vars [OF assms(1) this] have ok: "vars_ok env txtcx body DefContext_new dcx t"
    and dom: "dom dcx = binder_ids body"
    by (simp_all add: DefContext_new_def)
  have run: "run_to env t u"
    using runsD [OF runs_extract_expr assms(2)] by simp
  have "\<exists>h \<in> binder_ids body. dcx h = Some v \<and> hid_to_stid (mapping (xtor u)) h = Some (var_id v)"
    if "v \<in> ran dcx" for v
  proof -
    from that obtain h where h: "dcx h = Some v"
      by (auto simp: ran_def)
    with ok have "hid_to_stid (mapping (xtor t)) h = Some (var_id v)"
      by (auto simp: vars_ok_def DefContext_new_def)
    from run_to_hid [OF run this] h dom show ?thesis
      by blast
  qed
  moreover have "all_sub (\<lambda>e. node_vars e \<subseteq> ran dcx) e"
    using bound.extract_expr_sub [OF assms(2)] unfolding bound.sub_def by simp
  ultimately show ?thesis
    by (blast intro: all_sub_mono)
qed

lemma sample_extract:
  "\<exists>dcx t v. populate_def_context sample_env 0 no_params sample_body [] DefContext_new sample_session = Inr (([], dcx), t) \<and>
     extract_expr \<lparr>be_env = sample_env, be_fuel = 0, be_txtcx = no_params, be_dcx = dcx\<rparr> (body_value sample_body) t =
       Inr (Variable v, t) \<and> no_errors t"
proof -
  obtain dcx t where *: "populate_def_context sample_env 0 no_params sample_body [] DefContext_new sample_session =
      Inr (([], dcx), t)" "map_option var_tpe (dcx (sample_hid 0)) = Some BooleanType" "no_errors t"
    using sample_populate by blast
  then obtain v where "dcx (sample_hid 0) = Some v"
    by auto
  then have "extract_expr \<lparr>be_env = sample_env, be_fuel = 0, be_txtcx = no_params, be_dcx = dcx\<rparr> (body_value sample_body) t =
      Inr (Variable v, t)"
    by (simp add: sample_body_def fetch_var_def get_var_def bind_def)
  with * show ?thesis
    by blast
qed

lemma body_variables_are_bound_witness:
  "\<exists>v dcx. dcx (sample_hid 0) = Some v \<and> all_sub (\<lambda>e. \<forall>v \<in> node_vars e. \<exists>h \<in> {sample_hid 0}. dcx h = Some v) (Variable v)"
proof -
  obtain dcx t v where p: "populate_def_context sample_env 0 no_params sample_body [] DefContext_new sample_session = Inr (([], dcx), t)"
    and x: "extract_expr \<lparr>be_env = sample_env, be_fuel = 0, be_txtcx = no_params, be_dcx = dcx\<rparr> (body_value sample_body) t =
       Inr (Variable v, t)"
    using sample_extract by blast
  from body_variables_are_bound [OF p x] have *: "all_sub (\<lambda>e. \<forall>v \<in> node_vars e. \<exists>h \<in> {sample_hid 0}. dcx h = Some v) (Variable v)"
    by (rule all_sub_mono) (auto simp: binder_ids_def sample_body_def)
  then have "dcx (sample_hid 0) = Some v"
    by (subst (asm) all_sub_iff) simp
  with * show ?thesis by blast
qed

text \<open>
  When the extraction of a body reports no error, the result has no placeholder: no
  subexpression is missing and every type argument in it is a type.
\<close>

lemma bodies_without_errors_are_complete:
  assumes "typed_params txtcx"
    and "populate_def_context env fuel txtcx body fm DefContext_new s = Inr ((fm', dcx), t)"
    and "extract_expr \<lparr>be_env = env, be_fuel = fuel, be_txtcx = txtcx, be_dcx = dcx\<rparr> (body_value body) t = Inr (e, u)"
    and "no_errors u"
  shows "all_sub complete_node e"
proof -
  let ?be = "\<lparr>be_env = env, be_fuel = fuel, be_txtcx = txtcx, be_dcx = dcx\<rparr>"
  have "no_errors t"
    using no_errors_run_to [OF runsD [OF runs_extract_expr assms(3)] assms(4)] .
  with populate_typed [OF assms(2,1) vars_typed_new] assms(1) have "typed_context ?be"
    by (simp add: vars_typed_def typed_context_def)
  then show ?thesis
    using complete.extract_expr_sub [OF assms(3)] assms(4) unfolding complete.sub_def by simp
qed

lemma bodies_without_errors_are_complete_witness: "\<exists>v. all_sub complete_node (Variable v)"
proof -
  obtain dcx t v where p: "populate_def_context sample_env 0 no_params sample_body [] DefContext_new sample_session = Inr (([], dcx), t)"
    and x: "extract_expr \<lparr>be_env = sample_env, be_fuel = 0, be_txtcx = no_params, be_dcx = dcx\<rparr> (body_value sample_body) t =
       Inr (Variable v, t)" and ok: "no_errors t"
    using sample_extract by blast
  have "typed_params no_params"
    by (simp add: typed_params_def no_params_def)
  from bodies_without_errors_are_complete [OF this p x ok] show ?thesis by blast
qed

text \<open>
  C21: Every function called in an extracted body is registered, and for exactly one
  definition of the program.
\<close>

theorem called_functions_have_one_definition:
  assumes "xrun (numeric (be_env be)) True (def_path_str (tcx (be_env be))) ids (xtor s)"
    and "overflow_checks (be_env be)"
    and "extract_expr be body s = Inr (e, t)"
  shows "all_sub (\<lambda>e. \<forall>f \<in> node_calls e. \<exists>!d. did_to_stid (mapping (xtor t)) d = Some f) e"
proof -
  have "run_to (be_env be) s t"
    using runsD [OF runs_extract_expr assms(3)] .
  then obtain new where "xsteps (be_env be) (xtor s) new (xtor t)"
    by (auto simp: run_to_def)
  from xsteps_xrun [OF this] assms(1,2) have "xrun (numeric (be_env be)) True (def_path_str (tcx (be_env be))) (ids @ new) (xtor t)"
    by simp
  note unique = did_ids_unique [OF this]
  have one: "\<exists>!d. did_ids t d = Some f" if "f \<in> ran (did_ids t)" for f
  proof -
    from that obtain d where d: "did_ids t d = Some f"
      by (auto simp: ran_def)
    show ?thesis
      by (rule ex1I, rule d) (rule unique [OF _ d])
  qed
  have "all_sub (\<lambda>e. node_calls e \<subseteq> ran (did_ids t)) e"
    using called.extract_expr_sub [OF assms(3)] unfolding called.sub_def .
  then show ?thesis
    by (rule all_sub_mono) (meson one subsetD)
qed

definition sample_be :: BodyEnv where
  "sample_be = \<lparr>be_env = sample_env, be_fuel = 0, be_txtcx = no_params, be_dcx = DefContext_new\<rparr>"

lemma sample_call:
  "\<exists>f t. extract_expr sample_be (HExpr TBool (KCall (TFnDef (local_def 4) []) [])) sample_session =
     Inr (FunctionInvocation f [] [], t)"
  by (simp add: sample_be_def extract_call_like_def extract_call_def x_extract_fn_ref_def on_xtor_def extract_fn_ref_def
      get_id_from_def_def register_def_def add_function_ref_def fresh_id_def UniqueCounter_fresh_def insert_did_def
      sample_session_def Extraction_new_def bind_def extract_arg_types_def extract_tys_def extract_tys_with_def
      extract_expr_refs_def compatible_name_def symbol_path_from_def_id_def Let_def ascii_numeric_def is_digit_def
      i32_add_def subst_types_def map_filter_simps)

lemma called_functions_have_one_definition_witness:
  "\<exists>f (t :: Session). \<exists>!d. did_to_stid (mapping (xtor t)) d = Some f"
proof -
  obtain f t where x: "extract_expr sample_be (HExpr TBool (KCall (TFnDef (local_def 4) []) [])) sample_session =
     Inr (FunctionInvocation f [] [], t)"
    using sample_call by blast
  have "xrun (numeric (be_env sample_be)) True (def_path_str (tcx (be_env sample_be))) [] (xtor sample_session)"
    by (simp add: sample_session_def xrun.start)
  from called_functions_have_one_definition [OF this _ x]
  have *: "all_sub (\<lambda>e. \<forall>f \<in> node_calls e. \<exists>!d. did_to_stid (mapping (xtor t)) d = Some f) (FunctionInvocation f [] [])"
    by (simp add: sample_be_def)
  have "\<exists>!d. did_to_stid (mapping (xtor t)) d = Some f"
    using * by (subst (asm) all_sub_iff) simp
  then show ?thesis
    by (intro exI)
qed

end
