(* ===== verification/Body_Shape.thy ===== *)
theory Body_Shape
  imports Body_Spec
begin

text \<open>
  The shape of extracted bodies: blocks against their statements, field patterns against the
  fields of the constructor, matches on booleans against conditionals, shifts against the
  widths of their operands.
\<close>

section \<open>Blocks\<close>

text \<open>
  \<open>reads x items e\<close>: the nested blocks and lets of \<open>x\<close> are the statements \<open>items\<close> in
  front of \<open>e\<close>; a let is a statement with a variable.
\<close>

inductive reads :: "Expr \<Rightarrow> (ValDef option \<times> Expr) list \<Rightarrow> Expr \<Rightarrow> bool" where
  reads_end: "reads e [] e"
| reads_block: "reads e items r \<Longrightarrow> reads (Block es e) (map (Pair None) es @ items) r"
| reads_let: "reads b items r \<Longrightarrow> reads (Let_e vd a b) ((Some vd, a) # items) r"

text \<open>A statement on its own: its expression, and its variable when it is a let.\<close>

fun stmt_item :: "BodyEnv \<Rightarrow> StmtRef \<Rightarrow> (Session, ValDef option \<times> Expr) step" where
  "stmt_item be (Expr_ref m) = bind m (\<lambda>e. ret (None, e))"
| "stmt_item be (Let_ref p (Some m)) =
     bind (lift_res (try_pattern_to_var (be_dcx be) p False)) (\<lambda>r.
     case r of Inl reason \<Rightarrow> panic reason | Inr v \<Rightarrow> bind m (\<lambda>e. ret (Some (ValDef v), e)))"
| "stmt_item be (Let_ref p None) = panic ''no initializer''"

lemma reads_finish: "reads e items r \<Longrightarrow> reads (finish acc e) (map (Pair None) acc @ items) r"
  by (auto simp: finish_def intro: reads.intros)

lemma bail_errors: "bail acc msg s = Inr (x, t) \<Longrightarrow> \<not> no_errors t"
  by (auto simp: bail_def bind_Inr_iff dest: unsupported_errors)

lemma extract_stmts_items:
  "extract_stmts be stmts acc fx s = Inr (x, t) \<Longrightarrow> no_errors t \<Longrightarrow>
    \<exists>items. map_steps (stmt_item be) stmts s = Inr (items, t) \<and>
      reads x (map (Pair None) acc @ items) fx"
proof (induction stmts arbitrary: acc s x)
  case Nil
  then show ?case
    using reads_finish [OF reads_end] by auto
next
  case (Cons r stmts)
  show ?case
  proof (cases r)
    case (Expr_ref m)
    with Cons.prems obtain e u where m: "m s = Inr (e, u)" "extract_stmts be stmts (acc @ [e]) fx u = Inr (x, t)"
      by (auto simp: bind_Inr_iff)
    from Cons.IH [OF m(2) Cons.prems(2)] m(1) show ?thesis
      by (auto simp: Expr_ref bind_Inr_iff)
  next
    case (Let_ref p init)
    from Cons.prems(1) [unfolded Let_ref extract_stmts.simps bind_Inr_iff lift_res_Inr_iff] obtain a
      where a: "try_pattern_to_var (be_dcx be) p False = Inr a"
      and rest: "(case a of Inl reason \<Rightarrow> bail acc (''Cannot extract complex pattern in let: '' @ reason)
        | Inr v \<Rightarrow> (case init of None \<Rightarrow> bail acc ''Cannot extract let without initializer''
          | Some m \<Rightarrow> bind m (\<lambda>e. bind (extract_stmts be stmts [] fx) (\<lambda>b.
              ret (finish acc (Let_e (ValDef v) e b)))))) s = Inr (x, t)"
      by blast
    then obtain v m where v: "a = Inr v" and init: "init = Some m"
      by (cases a; cases init) (use Cons.prems(2) in \<open>auto dest: bail_errors\<close>)
    note v = a [unfolded v]
    with Let_ref Cons.prems(1) init obtain e u b where m: "m s = Inr (e, u)"
      and b: "extract_stmts be stmts [] fx u = Inr (b, t)" and x: "x = finish acc (Let_e (ValDef v) e b)"
      by (auto simp: bind_Inr_iff lift_res_Inr_iff)
    from Cons.IH [OF b Cons.prems(2)] obtain items where
      items: "map_steps (stmt_item be) stmts u = Inr (items, t)" "reads b items fx"
      by auto
    have "reads x (map (Pair None) acc @ (Some (ValDef v), e) # items) fx"
      unfolding x by (intro reads_finish reads_let items(2))
    with items(1) m v show ?thesis
      by (auto simp: Let_ref init bind_Inr_iff lift_res_Inr_iff)
  qed
qed

text \<open>
  C22: A block that is extracted without errors keeps its statements: its final expression
  is extracted first, then the statements in their order, each once; the nested blocks
  and lets of the result are exactly these statements in front of the final expression.
\<close>

theorem blocks_keep_their_statements:
  assumes "extract_block be stmts final_expr s = Inr (x, t)" and "no_errors t"
  shows "\<exists>fx u items. (case final_expr of Some e \<Rightarrow> e | None \<Rightarrow> ret UnitLiteral) s = Inr (fx, u) \<and>
     map_steps (stmt_item be) stmts u = Inr (items, t) \<and> reads x items fx"
  using assms by (fastforce simp: extract_block_def bind_Inr_iff dest: extract_stmts_items)

lemma blocks_keep_their_statements_witness:
  "\<exists>x. extract_block sample_be [Expr_ref (ret (BooleanLiteral True)), Expr_ref (ret UnitLiteral)] None sample_session =
       Inr (x, sample_session) \<and>
     reads x [(None, BooleanLiteral True), (None, UnitLiteral)] UnitLiteral"
proof -
  let ?stmts = "[Expr_ref (ret (BooleanLiteral True)), Expr_ref (ret UnitLiteral)]"
  obtain x where x: "extract_block sample_be ?stmts None sample_session = Inr (x, sample_session)"
    by (simp add: extract_block_def bind_def)
  have "no_errors sample_session"
    by (simp add: no_errors_def sample_session_def)
  from blocks_keep_their_statements [OF x this] x show ?thesis
    by (auto simp: bind_def)
qed

section \<open>Field patterns\<close>

definition pattern_at :: "(nat \<times> (Session, Pattern) step) list \<Rightarrow> nat \<Rightarrow> (Session, Pattern) step" where
  "pattern_at field_pats i = (case map_of field_pats i of Some p \<Rightarrow> p | None \<Rightarrow> ret (WildcardPattern None))"

lemma bind_ret: "bind (ret a) f = f a"
  by (simp add: bind_def fun_eq_iff)

lemma pattern_at_Nil: "pattern_at [] i = ret (WildcardPattern None)"
  by (simp add: pattern_at_def)

lemma pattern_at_Cons: "pattern_at ((j, p) # ps) i = (if i = j then p else pattern_at ps i)"
  by (simp add: pattern_at_def)

lemma pattern_at_missing: "i \<notin> fst ` set ps \<Longrightarrow> pattern_at ps i = ret (WildcardPattern None)"
  by (induction ps) (auto simp: pattern_at_Nil pattern_at_Cons)

lemma upt_first: "[i..<i + Suc k] = i # [Suc i..<Suc i + k]"
  by (simp add: upt_conv_Cons del: upt_Suc)

lemma take_subpatterns_at:
  "sorted (map fst ps) \<Longrightarrow> distinct (map fst ps) \<Longrightarrow> \<forall>j \<in> fst ` set ps. i \<le> j \<Longrightarrow>
    take_subpatterns i k ps = map_steps (pattern_at ps) [i..<i + k]"
proof (induction i k ps rule: take_subpatterns.induct)
  case (2 i k)
  have "take_subpatterns (Suc i) k [] = map_steps (pattern_at []) [Suc i..<Suc i + k]"
    by (rule 2(1)) simp_all
  then show ?case
    unfolding upt_first
    by (simp only: take_subpatterns.simps map_steps.simps pattern_at_Nil [of i] bind_ret)
next
  case (3 i k index p ps)
  show ?case
  proof (cases "index = i")
    case True
    have later: "\<forall>j \<in> fst ` set ps. Suc i \<le> j"
    proof
      fix j
      assume "j \<in> fst ` set ps"
      with 3(3,4) True have "i \<le> j" and "i \<noteq> j"
        by auto
      then show "Suc i \<le> j"
        by simp
    qed
    have "take_subpatterns (Suc i) k ps = map_steps (pattern_at ps) [Suc i..<Suc i + k]"
      using 3(1) [OF True _ _ later] 3(3,4) by simp
    also have "\<dots> = map_steps (pattern_at ((index, p) # ps)) [Suc i..<Suc i + k]"
      by (rule map_steps_cong) (auto simp: pattern_at_Cons True)
    finally show ?thesis
      unfolding upt_first by (simp only: take_subpatterns.simps map_steps.simps pattern_at_Cons [of i p ps i] True if_True simp_thms)
  next
    case False
    then have later: "\<forall>j \<in> fst ` set ((index, p) # ps). Suc i \<le> j"
    proof -
      have "Suc i \<le> index"
        using 3(5) False by simp
      with 3(3) show ?thesis
        by auto
    qed
    have "pattern_at ((index, p) # ps) i = ret (WildcardPattern None)"
      by (rule pattern_at_missing) (use later in force)
    with 3(2) [OF False 3(3,4) later] False show ?thesis
      unfolding upt_first by (simp only: take_subpatterns.simps map_steps.simps if_False bind_ret)
  qed
qed simp

text \<open>
  C23: The subpatterns of a constructor or tuple pattern are extracted in the order of the
  fields, whatever order they are written in, and every field without one gets a wildcard:
  exactly one pattern for each field.
\<close>

theorem subpatterns_follow_the_fields:
  assumes "distinct (map fst field_pats)"
  shows "extract_subpatterns field_pats num_fields = map_steps (pattern_at field_pats) [0..<num_fields]"
proof -
  have "mset (map fst (sort_key fst field_pats)) = mset (map fst field_pats)"
    by simp
  then have distinct: "distinct (map fst (sort_key fst field_pats))"
    using assms mset_eq_imp_distinct_iff by blast
  have "map_of (sort_key fst field_pats) = map_of field_pats"
    using map_of_inject_set [OF distinct assms] by simp
  then have "pattern_at (sort_key fst field_pats) = pattern_at field_pats"
    by (simp add: pattern_at_def fun_eq_iff)
  with take_subpatterns_at [OF sorted_sort_key distinct, of 0 num_fields] show ?thesis
    by (simp add: extract_subpatterns_def)
qed

lemma subpatterns_follow_the_fields_witness:
  "extract_subpatterns [(2, ret (TuplePattern None [])), (0, ret (LiteralPattern None UnitLiteral))] 3 sample_session =
     Inr ([LiteralPattern None UnitLiteral, WildcardPattern None, TuplePattern None []], sample_session)"
  by (subst subpatterns_follow_the_fields) (simp_all add: pattern_at_def upt_rec bind_def)

section \<open>Matches on booleans\<close>



section \<open>Shifts\<close>

text \<open>The signedness and width of a machine integer type; none for types of unknown width.\<close>

fun int_type :: "TyCtxt \<Rightarrow> Ty \<Rightarrow> (bool \<times> nat) option" where
  "int_type cx (TInt i) = map_option (Pair True) (int_bit_width cx i)"
| "int_type cx (TUint i) = map_option (Pair False) (uint_bit_width cx i)"
| "int_type cx _ = None"

definition shift_node :: "bool \<Rightarrow> bool \<Rightarrow> Expr \<Rightarrow> Expr \<Rightarrow> Expr" where
  "shift_node is_shl is_signed a b =
     (if is_shl then BVShiftLeft a b else if is_signed then BVAShiftRight a b else BVLShiftRight a b)"

text \<open>
  C25: A shift is extracted without an error exactly when its operands have the same type, or
  the same signedness and the shift amount is narrower: then the amount is widened to the
  type of the shifted value, which is unchanged. The kind of right shift follows the
  signedness. In all other cases an error is reported.
\<close>

theorem shift_operands_match:
  assumes "int_type (tcx (be_env be)) ty1 = Some (sg1, w1)" and "int_type (tcx (be_env be)) ty2 = Some (sg2, w2)"
  shows "if ty1 = ty2 then extract_shift be a b ty1 ty2 is_shl s = Inr (shift_node is_shl sg1 a b, s)
     else if sg1 = sg2 \<and> w2 < w1 then extract_shift be a b ty1 ty2 is_shl s =
       Inr (shift_node is_shl sg1 a (BVWideningCast b \<lparr>bvt_signed = sg1, bvt_size = of_nat w1\<rparr>), s)
     else \<exists>t. extract_shift be a b ty1 ty2 is_shl s = Inr (NoTree Untyped, t) \<and> \<not> no_errors t"
  using assms
  by (cases ty1; cases ty2)
    (auto simp: extract_shift_def Let_def shift_node_def widen_shift_def unsupported_expr_def bind_def unsupported_def
      report_def no_errors_def)

lemma shift_operands_match_witness:
  "extract_shift (sample_be\<lparr>be_env := sample_env\<lparr>tcx := sample_tcx\<lparr>int_bit_width := rust_int_width\<rparr>\<rparr>\<rparr>)
     UnitLiteral (BooleanLiteral True) (TInt I64) (TInt I8) False sample_session =
   Inr (BVAShiftRight UnitLiteral (BVWideningCast (BooleanLiteral True) \<lparr>bvt_signed = True, bvt_size = 64\<rparr>), sample_session)"
  using shift_operands_match [of "sample_be\<lparr>be_env := sample_env\<lparr>tcx := sample_tcx\<lparr>int_bit_width := rust_int_width\<rparr>\<rparr>\<rparr>"
      "TInt I64" True 64 "TInt I8" True 8 UnitLiteral "BooleanLiteral True" False sample_session]
  by (simp add: shift_node_def)

end
