(* ===== verification/Krate_Spec.thy ===== *)
theory Krate_Spec
  imports Krate Body_Shape
begin

text \<open>
  What the extraction of a crate promises: its results are complete when no error is
  reported, specifications speak about the variables of their function, every function has
  one definition, and the symbol table that is serialized does not depend on the iteration
  order of the hash maps.
\<close>

section \<open>Runs\<close>

lemma runs_return [run_intros]: "runs env (\<lambda>s. Inr (a, s))"
  by (simp add: runs_def)

lemma runs_add_vars [run_intros]: "runs env (add_vars vs dcx)"
  by (induction vs dcx rule: add_vars.induct) (auto intro!: run_intros)

lemma runs_correlate [run_intros]: "runs env (correlate_tparams original ps)"
  unfolding correlate_tparams_def by (intro run_intros)

lemma runs_enter_body [run_intros]:
  "(\<And>body. k_body ke h = Some body \<Longrightarrow> runs env (f body DefContext_new)) \<Longrightarrow> runs env (enter_body ke h f)"
  by (auto simp: enter_body_def intro!: run_intros split: option.split)

lemma runs_body [run_intros]: "runs (k_env ke) (extract_expr (body_env ke txtcx dcx) e)"
  using runs_extract_expr [of "body_env ke txtcx dcx" e] by (simp add: body_env_def)

lemma runs_extern_params [run_intros]: "runs env (extern_params env fuel txtcx i tys)"
  by (induction env fuel txtcx i tys rule: extern_params.induct) (auto intro!: run_intros)

lemma runs_extract_extern_fn [run_intros]: "runs (k_env ke) (extract_extern_fn ke d)"
  unfolding extract_extern_fn_def Let_def by (intro run_intros)

lemma runs_spec_context [run_intros]: "runs env (spec_context body params rv dcx)"
  unfolding spec_context_def Let_def by (intro run_intros)

lemma runs_extract_spec_fn [run_intros]: "runs (k_env ke) (extract_spec_fn ke otx params rv d)"
  unfolding extract_spec_fn_def Let_def by (intro run_intros)

lemma runs_with_measure [run_intros]: "runs env (with_measure spec e)"
  by (cases spec) (auto simp: with_measure_def intro!: run_intros split: Expr.split)

lemma runs_signature_and_body [run_intros]: "runs (k_env ke) (extract_signature_and_body ke h txtcx fm)"
  unfolding extract_signature_and_body_def by (intro run_intros)

lemma runs_extract_local_fn [run_intros]: "runs (k_env ke) (extract_local_fn ke d pres posts m)"
  unfolding extract_local_fn_def Let_def by (intro run_intros)

lemma runs_visit_item [run_intros]: "runs env (visit_item ke item iv)"
  by (auto simp: visit_item_def Let_def intro!: run_intros split: ItemKind.split)

lemma runs_visit_all [run_intros]: "runs env (visit_all ke items iv)"
  by (induction ke items iv rule: visit_all.induct)
    (auto simp: visit_trait_item_def visit_impl_item_def intro!: run_intros)

section \<open>Completeness of functions\<close>

definition complete_fun :: "FunDef \<Rightarrow> bool" where
  "complete_fun fd \<longleftrightarrow> typed (fd_returnType fd) \<and> (\<forall>vd \<in> set (fd_params fd). typed (var_tpe (vd_v vd))) \<and>
     (fd_fullBody fd = NoTree (fd_returnType fd) \<or> all_sub complete_node (fd_fullBody fd))"

lemma body_complete:
  assumes "extract_expr (body_env ke txtcx dcx) e s = Inr (x, t)" and "no_errors t" and "typed_params txtcx"
    and "vars_typed dcx s"
  shows "all_sub complete_node x"
proof -
  have "no_errors s"
    using no_errors_run_to [OF runsD [OF runs_body assms(1)] assms(2)] .
  with assms(3,4) have "typed_context (body_env ke txtcx dcx)"
    by (simp add: typed_context_def vars_typed_def body_env_def)
  then show ?thesis
    using complete.extract_expr_sub [OF assms(1)] assms(2) unfolding complete.sub_def by simp
qed

lemma vars_typed_run_to: "vars_typed dcx s \<Longrightarrow> run_to env s t \<Longrightarrow> vars_typed dcx t"
  using no_errors_run_to by (auto simp: vars_typed_def)

lemma fetch_var_typed: "fetch_var dcx h = Inr v \<Longrightarrow> vars_typed dcx s \<Longrightarrow> no_errors s \<Longrightarrow> typed (var_tpe v)"
  by (auto simp: vars_typed_def ran_def dest!: fetch_var_registered)

lemma correlate_entries:
  "map_steps (\<lambda>param. case map_of original (gp_index param) of
      None \<Rightarrow> panic msg | Some tparam \<Rightarrow> ret (Some (gp_index param, tparam))) ps s = Inr (entries, t) \<Longrightarrow>
    t = s \<and> snd ` set (List.map_filter id entries) \<subseteq> snd ` set original"
proof (induction ps arbitrary: entries)
  case Nil
  then show ?case
    by (simp add: map_filter_simps)
next
  case (Cons p ps)
  then obtain tp where tp: "map_of original (gp_index p) = Some tp"
    by (cases "map_of original (gp_index p)") (auto simp: bind_Inr_iff)
  with Cons.prems obtain es where es: "entries = Some (gp_index p, tp) # es"
    and rest: "map_steps (\<lambda>param. case map_of original (gp_index param) of
      None \<Rightarrow> panic msg | Some tparam \<Rightarrow> ret (Some (gp_index param, tparam))) ps s = Inr (es, t)"
    by (auto simp: bind_Inr_iff)
  from map_of_SomeD [OF tp] have "tp \<in> snd ` set original"
    by force
  with Cons.IH [OF rest] show ?case
    by (simp add: es map_filter_simps)
qed

lemma correlate_tparams_subset:
  assumes "correlate_tparams original ps s = Inr (tps, t)"
  shows "t = s \<and> snd ` set tps \<subseteq> snd ` set original"
proof -
  from assms obtain entries u where *: "map_steps (\<lambda>param. case map_of original (gp_index param) of
      None \<Rightarrow> panic ''no entry found for key'' | Some tparam \<Rightarrow> ret (Some (gp_index param, tparam))) ps s = Inr (entries, u)"
    and "ret (collect_params entries) u = Inr (tps, t)"
    unfolding correlate_tparams_def bind_Inr_iff by blast
  with correlate_entries [OF *] adts.collect_params_values [of entries] show ?thesis
    by auto
qed

lemma fetch_params:
  "map_steps (\<lambda>param. bind (lift_res (fetch_var dcx (param_hir_id param))) (\<lambda>v. ret (ValDef v))) ps s = Inr (params, t) \<Longrightarrow>
    t = s \<and> list_all2 (\<lambda>p vd. dcx (param_hir_id p) = Some (vd_v vd)) ps params"
  by (induction ps arbitrary: params) (auto simp: bind_Inr_iff lift_res_Inr_iff dest!: fetch_var_registered)

lemma extract_ty_no_errors:
  "extract_ty env fuel txtcx ty s = Inr (tpe, t) \<Longrightarrow> typed_params txtcx \<Longrightarrow> no_errors t \<Longrightarrow> typed tpe"
  unfolding extract_ty_def by (rule adts.extract_ty_typed)

lemma signature_and_body_complete:
  assumes "extract_signature_and_body ke h txtcx fm s = Inr ((fm', params, tpe, e), t)"
    and "typed_params txtcx" and "no_errors t"
  shows "all_sub complete_node e" and "typed tpe" and "\<forall>vd \<in> set params. typed (var_tpe (vd_v vd))"
proof -
  from assms(1) obtain body dcx u out_ty v w where
    p: "populate_def_context (k_env ke) (k_fuel ke) txtcx body fm DefContext_new s = Inr ((fm', dcx), u)"
    and tpe: "extract_ty (k_env ke) (k_fuel ke) txtcx out_ty u = Inr (tpe, v)"
    and params: "map_steps (\<lambda>param. bind (lift_res (fetch_var dcx (param_hir_id param))) (\<lambda>v. ret (ValDef v)))
           (body_params body) v = Inr (params, w)"
    and e: "extract_expr (body_env ke txtcx dcx) (body_value body) w = Inr (e, t)"
    by (auto simp: extract_signature_and_body_def enter_body_def bind_Inr_iff split: option.splits)
  have vw: "w = v"
    using fetch_params [OF params] by simp
  have uw: "run_to (k_env ke) u w"
    unfolding vw by (rule runsD [OF runs_extract_ty(1) tpe])
  have w: "no_errors w"
    using no_errors_run_to [OF runsD [OF runs_body e] assms(3)] .
  note typed_u = populate_typed [OF p assms(2) vars_typed_new]
  show "all_sub complete_node e"
    by (rule body_complete [OF e assms(3,2) vars_typed_run_to [OF typed_u uw]])
  show "typed tpe"
    by (rule extract_ty_no_errors [OF tpe assms(2) w [unfolded vw]])
  show "\<forall>vd \<in> set params. typed (var_tpe (vd_v vd))"
  proof
    fix vd
    assume "vd \<in> set params"
    with fetch_params [OF params] have "vd_v vd \<in> ran dcx"
      by (auto simp: list_all2_conv_all_nth in_set_conv_nth intro: ranI)
    with vars_typed_run_to [OF typed_u uw] w show "typed (var_tpe (vd_v vd))"
      by (auto simp: vars_typed_def)
  qed
qed

section \<open>Specification functions\<close>

definition spec_vars :: "ValDef list \<Rightarrow> Variable option \<Rightarrow> Variable list" where
  "spec_vars params rv = map vd_v params @ (case rv of None \<Rightarrow> [] | Some v \<Rightarrow> [v])"

lemma add_vars_Inr:
  "add_vars kvs dcx s = Inr (dcx', t) \<Longrightarrow>
    t = s \<and> distinct (map fst kvs) \<and> fst ` set kvs \<inter> dom dcx = {} \<and> dcx' = dcx ++ map_of kvs"
proof (induction kvs arbitrary: dcx)
  case (Cons kv kvs)
  obtain k v where kv: "kv = (k, v)"
    by (cases kv)
  with Cons.prems have new: "dcx k = None" and rest: "add_vars kvs (dcx(k \<mapsto> v)) s = Inr (dcx', t)"
    by (auto simp: bind_Inr_iff add_var_def split: if_splits)
  note IH = Cons.IH [OF rest]
  then have none: "map_of kvs k = None"
    by (auto simp: map_of_eq_None_iff)
  have "dcx(k \<mapsto> v) ++ map_of kvs = dcx ++ map_of (kv # kvs)"
    unfolding kv using none by (intro ext) (simp add: map_add_def split: option.split)
  with IH have "dcx' = dcx ++ map_of (kv # kvs)"
    by (simp only:)
  moreover have "k \<notin> fst ` set kvs"
    using none by (simp add: map_of_eq_None_iff)
  then have "distinct (map fst (kv # kvs))"
    using IH by (simp add: kv)
  moreover have "fst ` set kvs \<inter> dom dcx = {}"
    using IH by auto
  then have "fst ` set (kv # kvs) \<inter> dom dcx = {}"
    using new by (auto simp: kv)
  ultimately show ?case
    using IH by blast
qed simp

lemma spec_context_Inr:
  assumes "spec_context body params rv DefContext_new s = Inr (dcx, t)"
  shows "t = s \<and> length (body_params body) = length (spec_vars params rv) \<and>
    distinct (map param_hir_id (body_params body)) \<and>
    dcx = map_of (zip (map param_hir_id (body_params body)) (spec_vars params rv))"
proof -
  define ids where "ids = map param_hir_id (body_params body)"
  note unfold = assms [unfolded spec_context_def Let_def ids_def [symmetric] bind_Inr_iff check_Inr_iff]
  have len: "length (body_params body) = length ids"
    by (simp add: ids_def)
  show ?thesis
  proof (cases rv)
    case None
    with unfold show ?thesis
      unfolding ids_def [symmetric] len by (auto simp: spec_vars_def DefContext_new_def dest!: add_vars_Inr)
  next
    case (Some v)
    with unfold obtain dcx1 u where ids: "ids \<noteq> []" and length: "length params = length (butlast ids)"
      and vars: "add_vars (zip (butlast ids) (map vd_v params)) DefContext_new s = Inr (dcx1, u)"
      and last: "add_var (last ids) v dcx1 u = Inr (dcx, t)"
      by auto
    from add_vars_Inr [OF vars] length have u: "u = s" and dist: "distinct (butlast ids)"
      and dcx1: "dcx1 = map_of (zip (butlast ids) (map vd_v params))"
      by (simp_all add: DefContext_new_def)
    from last dcx1 have t: "t = u" and new: "last ids \<notin> set (butlast ids)" and dcx: "dcx = dcx1(last ids \<mapsto> v)"
      using length by (auto simp: add_var_def map_of_zip_is_None split: if_splits)
    have split: "ids = butlast ids @ [last ids]"
      using ids by simp
    have none: "\<forall>k. k \<notin> set (butlast ids) \<longrightarrow> map_of (zip (butlast ids) (map vd_v params)) k = None"
      using length by simp
    have "map_of (zip ids (map vd_v params @ [v])) = map_of (zip (butlast ids) (map vd_v params) @ [(last ids, v)])"
      using length by (subst split) simp
    also have "\<dots> = dcx"
      using new none by (auto simp: dcx dcx1 fun_eq_iff map_add_def split: option.split)
    finally have "dcx = map_of (zip ids (spec_vars params rv))"
      by (simp add: spec_vars_def Some)
    moreover have "distinct ids"
      using dist new by (subst split) simp
    moreover have "length ids = length (spec_vars params rv)"
      using length ids by (simp add: spec_vars_def Some)
    ultimately show ?thesis
      unfolding ids_def [symmetric] len using t u by blast
  qed
qed

lemma spec_fn_parts:
  assumes "extract_spec_fn ke otx params rv d s = Inr (e, t)"
  obtains tps body dcx fm v where
    "snd ` set tps \<subseteq> snd ` set (index_to_tparam otx)"
    and "k_body ke (hir_id_of (tcx (k_env ke)) d) = Some body"
    and "length (body_params body) = length (spec_vars params rv)" and "distinct (map param_hir_id (body_params body))"
    and "populate_def_context (k_env ke) (k_fuel ke) \<lparr>tx_def_id = d, index_to_tparam = tps\<rparr> body []
       (map_of (zip (map param_hir_id (body_params body)) (spec_vars params rv))) s = Inr ((fm, dcx), v)"
    and "extract_expr (body_env ke \<lparr>tx_def_id = d, index_to_tparam = tps\<rparr> dcx) (body_value body) v = Inr (e, t)"
  using assms
  by (auto simp: extract_spec_fn_def Let_def enter_body_def bind_Inr_iff check_Inr_iff
      split: option.splits prod.splits dest!: correlate_tparams_subset spec_context_Inr)

lemma spec_fn_complete:
  assumes "extract_spec_fn ke otx params rv d s = Inr (e, t)" and "typed_params otx" and "no_errors t"
    and "\<forall>v \<in> set (spec_vars params rv). typed (var_tpe v)"
  shows "all_sub complete_node e"
proof -
  obtain tps body dcx fm v where tps: "snd ` set tps \<subseteq> snd ` set (index_to_tparam otx)"
    and p: "populate_def_context (k_env ke) (k_fuel ke) \<lparr>tx_def_id = d, index_to_tparam = tps\<rparr> body []
       (map_of (zip (map param_hir_id (body_params body)) (spec_vars params rv))) s = Inr ((fm, dcx), v)"
    and e: "extract_expr (body_env ke \<lparr>tx_def_id = d, index_to_tparam = tps\<rparr> dcx) (body_value body) v = Inr (e, t)"
    by (rule spec_fn_parts [OF assms(1)])
  have txtcx: "typed_params \<lparr>tx_def_id = d, index_to_tparam = tps\<rparr>"
    using assms(2) tps unfolding typed_params_def TyExtractionCtxt.select_convs by blast
  have "vars_typed (map_of (zip (map param_hir_id (body_params body)) (spec_vars params rv))) s"
    using assms(4) by (auto simp: vars_typed_def ran_def dest!: map_of_SomeD set_zip_rightD)
  from body_complete [OF e assms(3) txtcx populate_typed [OF p txtcx this]] show ?thesis .
qed

section \<open>Functions without errors\<close>

definition clean :: "bool \<Rightarrow> Session \<Rightarrow> bool" where
  "clean Q t \<longleftrightarrow> (no_errors t \<longrightarrow> Q)"

lemma stable_clean [intro]: "stable env (clean Q)" "stable env (\<lambda>t. clean Q t \<and> clean R t)"
  using no_errors_run_to by (auto simp: stable_def clean_def)

lemma gives_generics:
  "gives env (\<lambda>s. True) (extract_generics env fuel d) (\<lambda>g t. clean (typed_params (snd g)) t)"
  by (rule givesI, rule runs_extract_ty(3)) (auto simp: clean_def extract_generics_def intro: adts.extract_generics_typed)

lemma gives_signature:
  "gives (k_env ke) (clean (typed_params txtcx)) (extract_signature_and_body ke h txtcx fm)
     (\<lambda>(fm', params, tpe, e) t. clean (typed_params txtcx \<and> all_sub complete_node e \<and> typed tpe \<and>
        (\<forall>vd \<in> set params. typed (var_tpe (vd_v vd)))) t)"
proof (rule givesI)
  fix s r t
  assume K: "clean (typed_params txtcx) s" and r: "extract_signature_and_body ke h txtcx fm s = Inr (r, t)"
  obtain fm' params tpe e where *: "r = (fm', params, tpe, e)"
    by (cases r) auto
  have "no_errors t \<Longrightarrow> typed_params txtcx"
    using no_errors_run_to [OF runsD [OF runs_signature_and_body r]] K by (simp add: clean_def)
  then show "(\<lambda>(fm', params, tpe, e) t. clean (typed_params txtcx \<and> all_sub complete_node e \<and> typed tpe \<and>
        (\<forall>vd \<in> set params. typed (var_tpe (vd_v vd)))) t) r t"
    using signature_and_body_complete [OF r [unfolded *]] by (simp add: * clean_def)
qed (rule runs_signature_and_body)

definition spec_ready :: "TyExtractionCtxt \<Rightarrow> ValDef list \<Rightarrow> Variable option \<Rightarrow> bool" where
  "spec_ready txtcx params rv \<longleftrightarrow> typed_params txtcx \<and> (\<forall>v \<in> set (spec_vars params rv). typed (var_tpe v))"

lemma gives_spec_fn:
  "gives (k_env ke) (\<lambda>s. True) (extract_spec_fn ke txtcx params rv d)
     (\<lambda>e t. clean (spec_ready txtcx params rv \<longrightarrow> all_sub complete_node e) t)"
  by (rule givesI) (auto simp: clean_def spec_ready_def intro: runs_extract_spec_fn spec_fn_complete)

lemma gives_spec_fns:
  "gives (k_env ke) (\<lambda>s. True) (map_steps (extract_spec_fn ke txtcx params rv) ds)
     (\<lambda>es t. clean (spec_ready txtcx params rv \<longrightarrow> (\<forall>e \<in> set es. all_sub complete_node e)) t)"
  by (rule gives_weaken [OF gives_map_steps [OF gives_spec_fn stable_clean(1)]]) (auto simp: clean_def)

lemma with_measure_complete:
  assumes "with_measure spec e s = Inr (x, t)" and "all_sub complete_node spec" and "all_sub complete_node e"
  shows "all_sub complete_node x \<and> t = s"
proof (cases "\<exists>es. spec = Block es UnitLiteral")
  case True
  then obtain es where spec: "spec = Block es UnitLiteral" ..
  with assms(1) have es: "es \<noteq> []" and x: "x = Decreases (Block (butlast es) (last es)) e" and t: "t = s"
    by (auto simp: with_measure_def split: if_splits)
  have "all_sub complete_node c" if "c \<in> set es" for c
    using assms(2) that unfolding spec by (subst (asm) all_sub_iff) simp
  then have "all_sub complete_node (Block (butlast es) (last es))"
    using es by (subst all_sub_iff) (auto dest: in_set_butlastD)
  with assms(3) t show ?thesis
    unfolding x by (subst all_sub_iff) simp
next
  case False
  with assms(1,3) show ?thesis
    by (auto simp: with_measure_def split: Expr.splits)
qed

lemma make_and_complete: "es \<noteq> [] \<Longrightarrow> \<forall>e \<in> set es. all_sub complete_node e \<Longrightarrow> all_sub complete_node (make_and es)"
  by (cases es; cases "tl es") (auto simp: make_and_def all_sub_iff [of _ "And _"])

lemma gives_measure:
  "gives (k_env ke) (\<lambda>s. True)
     (case measure_fn of None \<Rightarrow> ret e
      | Some d \<Rightarrow> bind (extract_spec_fn ke txtcx params None d) (\<lambda>spec. with_measure spec e))
     (\<lambda>x t. clean (spec_ready txtcx params None \<longrightarrow> all_sub complete_node e \<longrightarrow> all_sub complete_node x) t)"
proof (cases measure_fn)
  case None
  then show ?thesis
    by (auto simp: clean_def intro: gives_ret)
next
  case (Some d)
  have "gives (k_env ke) (clean (spec_ready txtcx params None \<longrightarrow> all_sub complete_node spec)) (with_measure spec e)
      (\<lambda>x t. clean (spec_ready txtcx params None \<longrightarrow> all_sub complete_node e \<longrightarrow> all_sub complete_node x) t)" for spec
  proof (rule givesI [OF runs_with_measure])
    fix s x t
    assume K: "clean (spec_ready txtcx params None \<longrightarrow> all_sub complete_node spec) s" and x: "with_measure spec e s = Inr (x, t)"
    have "t = s"
      using x by (auto simp: with_measure_def split: Expr.splits if_splits)
    with K with_measure_complete [OF x]
    show "clean (spec_ready txtcx params None \<longrightarrow> all_sub complete_node e \<longrightarrow> all_sub complete_node x) t"
      by (auto simp: clean_def)
  qed
  then show ?thesis
    unfolding Some option.case by (rule gives_bind [OF gives_spec_fn])
qed

text \<open>The ready facts, for pre-conditions and for post-conditions.\<close>

lemma spec_ready_vars:
  "spec_ready txtcx params None \<longleftrightarrow> typed_params txtcx \<and> (\<forall>vd \<in> set params. typed (var_tpe (vd_v vd)))"
  "spec_ready txtcx params (Some v) \<longleftrightarrow> spec_ready txtcx params None \<and> typed (var_tpe v)"
  by (auto simp: spec_ready_def spec_vars_def)

lemma complete_require: "all_sub complete_node a \<Longrightarrow> all_sub complete_node b \<Longrightarrow> all_sub complete_node (Require a b)"
  by (subst all_sub_iff) simp

lemma complete_ensuring:
  "all_sub complete_node a \<Longrightarrow> all_sub complete_node (lam_body l) \<Longrightarrow> all_sub complete_node (Ensuring a l)"
  by (subst all_sub_iff) simp

text \<open>A function is registered when its definition is built.\<close>

definition built :: "DefId \<Rightarrow> FunDef \<Rightarrow> Session \<Rightarrow> bool" where
  "built d fd t \<longleftrightarrow> did_ids t d = Some (fd_id fd) \<and> clean (complete_fun fd) t"

lemma gives_local_fn: "gives (k_env ke) (\<lambda>s. True) (extract_local_fn ke d pres posts m) (built d)"
  unfolding extract_local_fn_def Let_def
  apply (rule gives_any [OF runs_lift(2) stable_simps(1)])
  apply (rule gives_any [OF runs_flags(2) stable_simps(1)], clarify)
  apply (rule gives_bind [OF gives_generics], clarsimp)
  apply (rule gives_bind [OF gives_signature], clarsimp)
  apply (rule gives_any [OF runs_flags(3) stable_clean(1)])
  apply (rule gives_bind_frame [OF gives_measure stable_clean(1)])
  apply (rule gives_bind_frame [OF gives_spec_fns], intro stable_conj stable_clean)
  apply (rule gives_any [OF runs_operations(1)], intro stable_conj stable_clean)
  apply (rule gives_bind_frame [OF gives_spec_fns], intro stable_conj stable_clean)
  apply (rule gives_bind_frame [OF gives_fn_ref], intro stable_conj stable_clean)
  apply (rule gives_ret)
  apply (auto simp: built_def clean_def complete_fun_def spec_ready_vars
      intro!: complete_ensuring complete_require make_and_complete)
  done

lemma gives_ty:
  "gives env (\<lambda>s. True) (extract_ty env fuel txtcx ty) (\<lambda>tpe t. clean (typed_params txtcx \<longrightarrow> typed tpe) t)"
  by (rule givesI, rule runs_extract_ty) (auto simp: clean_def intro: extract_ty_no_errors)

lemma gives_extern_params:
  "gives env (\<lambda>s. True) (extern_params env fuel txtcx i tys)
     (\<lambda>vds t. clean (typed_params txtcx \<longrightarrow> (\<forall>vd \<in> set vds. typed (var_tpe (vd_v vd)))) t)"
proof (induction tys arbitrary: i)
  case Nil
  show ?case
    unfolding extern_params.simps by (rule gives_ret) (simp add: clean_def)
next
  case (Cons ty tys)
  show ?case
    unfolding extern_params.simps
    by (rule gives_any [OF runs_operations(1) stable_simps(1)], rule gives_bind_frame [OF gives_ty stable_simps(1)],
        rule gives_bind_frame [OF Cons.IH], intro stable_conj stable_clean stable_simps, rule gives_ret)
      (auto simp: clean_def)
qed

lemma gives_extern_fn: "gives (k_env ke) (\<lambda>s. True) (extract_extern_fn ke d)
    (\<lambda>fd t. built d fd t \<and> fd_fullBody fd = NoTree (fd_returnType fd) \<and> fd_flags fd = [Extern])"
  unfolding extract_extern_fn_def Let_def
  by (rule gives_any [OF runs_lift(2) stable_simps(1)], rule gives_bind [OF gives_generics], clarsimp,
      rule gives_bind_frame [OF gives_extern_params], intro stable_clean,
      rule gives_bind_frame [OF gives_ty], intro stable_conj stable_clean,
      rule gives_bind_frame [OF gives_fn_ref], intro stable_conj stable_clean, rule gives_ret)
    (auto simp: built_def clean_def complete_fun_def)

section \<open>The results of a crate\<close>

definition crate_to :: "Env \<Rightarrow> Session \<Rightarrow> Session \<Rightarrow> bool" where
  "crate_to env s t \<longleftrightarrow> (\<exists>new. xsteps env (xtor s) new (xtor t)) \<and> (\<exists>ds. diags t = diags s @ ds)"

lemma crate_to_refl [simp]: "crate_to env s s"
  by (auto simp: crate_to_def intro: xsteps.no_step)

lemma crate_to_trans: "crate_to env s t \<Longrightarrow> crate_to env t u \<Longrightarrow> crate_to env s u"
  unfolding crate_to_def by (metis append.assoc xsteps_trans)

lemma run_to_crate_to: "run_to env s t \<Longrightarrow> crate_to env s t"
  by (auto simp: run_to_def crate_to_def)

lemma crate_to_errors: "crate_to env s t \<Longrightarrow> no_errors t \<Longrightarrow> no_errors s"
  by (auto simp: crate_to_def no_errors_def)

lemma crate_to_ids: "crate_to env s t \<Longrightarrow> did_ids s \<subseteq>\<^sub>m did_ids t"
  by (auto simp: crate_to_def extends_def dest!: xsteps_extends)

text \<open>The invariant of the results: the tables are well-formed, every entry is registered and complete.\<close>

definition results_ok :: "Session \<Rightarrow> bool" where
  "results_ok s \<longleftrightarrow>
     map_ok sort_id (xt_adts (xtor s)) \<and> map_ok fd_id (xt_functions (xtor s)) \<and>
     (\<forall>fd \<in> snd ` set (xt_functions (xtor s)). fd_id fd \<in> ran (did_ids s)) \<and>
     (\<forall>adt \<in> snd ` set (xt_adts (xtor s)). sort_id adt \<in> ran (did_ids s)) \<and>
     (no_errors s \<longrightarrow> (\<forall>fd \<in> snd ` set (xt_functions (xtor s)). complete_fun fd) \<and>
       (\<forall>adt \<in> snd ` set (xt_adts (xtor s)). typed_sort adt))"

lemma results_ok_run:
  assumes "results_ok s" and "run_to env s t"
  shows "results_ok t"
proof -
  have "xt_adts (xtor t) = xt_adts (xtor s)" "xt_functions (xtor t) = xt_functions (xtor s)"
    using assms(2) by (simp_all add: run_to_def same_results_def)
  moreover have "ran (did_ids s) \<subseteq> ran (did_ids t)"
    by (rule ran_map_le [OF run_to_ids [OF assms(2)]])
  moreover have "no_errors t \<Longrightarrow> no_errors s"
    by (rule no_errors_run_to [OF assms(2)])
  ultimately show ?thesis
    using assms(1) unfolding results_ok_def by (simp only:) blast
qed

lemma values_Map_insert: "snd ` set (Map_insert k v m) \<subseteq> insert v (snd ` set m)"
  by (induction k v m rule: Map_insert.induct) auto

lemma Map_get_keys: "Map_get m k = None \<longleftrightarrow> global_id k \<notin> keys m"
  by (induction m) (auto simp: SymbolIdentifier_eq_def split: if_splits)

lemma Map_get_same: "global_id k = global_id k' \<Longrightarrow> Map_get m k = Map_get m k'"
  by (induction m) (auto simp: SymbolIdentifier_eq_def)

text \<open>A function item, or an external function, ends up in the table under its id.\<close>

definition defined :: "Session \<Rightarrow> DefId \<Rightarrow> bool" where
  "defined s d \<longleftrightarrow> (\<exists>fd. Map_get (xt_functions (xtor s)) (fd_id fd) = Some fd \<and> did_ids s d = Some (fd_id fd))"

lemma Map_get_other:
  assumes "Map_get m k = Some v" and "Map_get m k' = None"
  shows "Map_get (Map_insert k' v' m) k = Some v"
proof -
  from assms have "global_id k' \<noteq> global_id k"
    using Map_get_same [of k' k m] by auto
  with assms(1) show ?thesis
    by (simp add: Map_get_insert)
qed

lemma results_ok_insert:
  assumes "results_ok w" and "built d fd w"
  shows "results_ok (w\<lparr>xtor := (xtor w)\<lparr>xt_functions := Map_insert (fd_id fd) fd (xt_functions (xtor w))\<rparr>\<rparr>)"
proof -
  have reg: "fd_id fd \<in> ran (did_ids w)" and complete: "no_errors w \<Longrightarrow> complete_fun fd"
    using assms(2) by (auto simp: built_def clean_def intro: ranI)
  let ?m = "Map_insert (fd_id fd) fd (xt_functions (xtor w))"
  have new: "fd' = fd \<or> fd' \<in> snd ` set (xt_functions (xtor w))" if "fd' \<in> snd ` set ?m" for fd'
    using that values_Map_insert [of "fd_id fd" fd "xt_functions (xtor w)"] by blast
  have "\<forall>fd' \<in> snd ` set ?m. fd_id fd' \<in> ran (did_ids w)"
    using reg assms(1) new unfolding results_ok_def by metis
  moreover have "\<forall>fd' \<in> snd ` set ?m. complete_fun fd'" if "no_errors w"
    using complete [OF that] that assms(1) new unfolding results_ok_def by metis
  moreover have "map_ok fd_id ?m"
    using assms(1) by (simp add: results_ok_def map_ok_Map_insert)
  ultimately show ?thesis
    using assms(1) by (simp add: results_ok_def no_errors_def)
qed

text \<open>Adding a definition that was built.\<close>

lemma added_function:
  assumes "gives env (\<lambda>s. True) m (built d)" and "bind m (\<lambda>fd. on_xtor (add_function (fd_id fd) fd)) s = Inr (u, t)"
    and "results_ok s"
  shows "results_ok t" and "crate_to env s t"
    and "defined t d" and "defined s d' \<Longrightarrow> defined t d'"
proof -
  from assms(2) obtain fd w where m: "m s = Inr (fd, w)" and add: "add_function (fd_id fd) fd (xtor w) = Inr ((), xtor t)"
    and t: "t = w\<lparr>xtor := xtor t\<rparr>"
    by (auto simp: bind_Inr_iff on_xtor_Inr_iff)
  have fd: "built d fd w"
    by (rule givesD [OF assms(1) _ m]) simp
  have run: "run_to env s w"
    by (rule runsD [OF gives_runs [OF assms(1)] m])
  have ok: "results_ok w"
    by (rule results_ok_run [OF assms(3) run])
  from add have "(xtor w)\<lparr>xt_functions := Map_insert (fd_id fd) fd (xt_functions (xtor w))\<rparr> = xtor t"
    by (simp add: add_function_def split: if_splits)
  note x = this [symmetric]
  have same: "did_ids t = did_ids w" "xt_adts (xtor t) = xt_adts (xtor w)" "diags t = diags w"
    and fns: "xt_functions (xtor t) = Map_insert (fd_id fd) fd (xt_functions (xtor w))"
    by (simp_all add: x) (subst t, simp)
  show "results_ok t"
    using results_ok_insert [OF ok fd] by (simp add: results_ok_def same fns no_errors_def)
  have "xsteps env (xtor w) [] (xtor t)"
    by (rule xsteps_single) (rule xstep.add_fn [OF add])
  then have "crate_to env w t"
    by (auto simp: crate_to_def same)
  then show "crate_to env s t"
    by (rule crate_to_trans [OF run_to_crate_to [OF run]])
  show "defined t d"
    using fd by (auto simp: defined_def fns Map_get_insert same built_def)
  show "defined t d'" if "defined s d'"
  proof -
    from that obtain fd' where fd': "Map_get (xt_functions (xtor s)) (fd_id fd') = Some fd'" "did_ids s d' = Some (fd_id fd')"
      by (auto simp: defined_def)
    have "xt_functions (xtor w) = xt_functions (xtor s)"
      using run by (simp add: run_to_def same_results_def)
    with fd'(1) have old: "Map_get (xt_functions (xtor w)) (fd_id fd') = Some fd'"
      by simp
    moreover have "Map_get (xt_functions (xtor w)) (fd_id fd) = None"
      using add by (simp add: add_function_def split: if_splits)
    ultimately have "Map_get (xt_functions (xtor t)) (fd_id fd') = Some fd'"
      unfolding fns by (rule Map_get_other)
    moreover have "did_ids t d' = Some (fd_id fd')"
      using fd'(2) run_to_ids [OF run] by (auto simp: same map_le_def dom_def)
    ultimately show ?thesis
      by (auto simp: defined_def)
  qed
qed

text \<open>A data type is extracted and added only when it was not registered before.\<close>

lemma x_register_def_new: "x_register_def env d s = Inr (i, t) \<Longrightarrow> did_ids s d = None"
  by (auto simp: x_register_def_def on_xtor_Inr_iff register_def_def bind_Inr_iff insert_did_def fresh_id_def
      res_bind_Inr_iff split: prod.splits if_splits)

lemma extract_unknown_adt:
  assumes "extract_adt env fuel d s = Inr (adt, t)" and "known_sort (xtor s) d = None"
  shows "did_ids s d = None" and "did_ids t d = Some (sort_id adt)" and "no_errors t \<Longrightarrow> typed_sort adt"
proof -
  obtain n where fuel: "fuel = Suc n"
    using assms(1) by (cases fuel) auto
  have ext: "extract_adt_with env (extract_adt_id env n) d s = Inr (adt, t)"
    using assms(1) by (simp add: fuel extract_adt_id_def)
  then show new: "did_ids s d = None"
    using assms(2) by (auto simp: extract_adt_with_def bind_Inr_iff dest: x_register_def_new)
  show "did_ids t d = Some (sort_id adt)"
    using adts.extract_adt_registers [OF _ ext] new by (simp add: get_id_from_def_def)
  show "typed_sort adt" if "no_errors t"
    by (rule adts.extract_adt_typed [OF ext assms(2) that])
qed

lemma process_adt_unknown:
  assumes "process_adt ke d s = Inr (u, t)" and "map_ok sort_id (xt_adts (xtor s))"
  shows "known_sort (xtor s) d = None"
proof (rule ccontr)
  assume "known_sort (xtor s) d \<noteq> None"
  then obtain i adt where i: "did_ids s d = Some i" and adt: "Map_get (xt_adts (xtor s)) i = Some adt"
    by (auto simp: known_sort_def bind_eq_Some_conv)
  obtain n where "k_fuel ke = Suc n"
    using assms(1) by (cases "k_fuel ke") (auto simp: process_adt_def bind_Inr_iff)
  then have "extract_adt (k_env ke) (k_fuel ke) d s = Inr (adt, s)"
    using i adt by (simp add: extract_adt_with_def known_sort_def)
  moreover have "Map_get (xt_adts (xtor s)) (sort_id adt) = Some adt"
    by (rule map_ok_get [OF assms(2) Map_get_in [OF adt]])
  ultimately show False
    using assms(1) by (simp add: process_adt_def bind_Inr_iff on_xtor_Inr_iff add_adt_def)
qed

lemma process_adt_ok:
  assumes "process_adt ke d s = Inr (u, t)" and "results_ok s"
  shows "results_ok t" and "crate_to (k_env ke) s t" and "did_ids s d = None" and "did_ids t d \<noteq> None"
proof -
  from assms(1) obtain adt w where m: "extract_adt (k_env ke) (k_fuel ke) d s = Inr (adt, w)"
    and add: "add_adt (sort_id adt) adt (xtor w) = Inr ((), xtor t)" and t: "t = w\<lparr>xtor := xtor t\<rparr>"
    by (auto simp: process_adt_def bind_Inr_iff on_xtor_Inr_iff)
  have "map_ok sort_id (xt_adts (xtor s))"
    using assms(2) by (simp add: results_ok_def)
  note adt = extract_unknown_adt [OF m process_adt_unknown [OF assms(1) this]]
  have run: "run_to (k_env ke) s w"
    by (rule runsD [OF runs_extract_adt m])
  have ok: "results_ok w"
    by (rule results_ok_run [OF assms(2) run])
  from add have "(xtor w)\<lparr>xt_adts := Map_insert (sort_id adt) adt (xt_adts (xtor w))\<rparr> = xtor t"
    by (simp add: add_adt_def split: if_splits)
  note x = this [symmetric]
  have same: "did_ids t = did_ids w" "xt_functions (xtor t) = xt_functions (xtor w)" "diags t = diags w"
    and adts: "xt_adts (xtor t) = Map_insert (sort_id adt) adt (xt_adts (xtor w))"
    by (simp_all add: x) (subst t, simp)
  have errors: "no_errors t \<longleftrightarrow> no_errors w"
    by (simp add: no_errors_def same)
  let ?m = "Map_insert (sort_id adt) adt (xt_adts (xtor w))"
  have new: "a = adt \<or> a \<in> snd ` set (xt_adts (xtor w))" if "a \<in> snd ` set ?m" for a
    using that values_Map_insert [of "sort_id adt" adt "xt_adts (xtor w)"] by blast
  have "\<forall>a \<in> snd ` set ?m. sort_id a \<in> ran (did_ids w)"
    using ranI [of "did_ids w", OF adt(2)] ok new unfolding results_ok_def by metis
  moreover have "\<forall>a \<in> snd ` set ?m. typed_sort a" if "no_errors w"
    using adt(3) [OF that] that ok new unfolding results_ok_def by metis
  moreover have "map_ok sort_id ?m"
    using ok by (simp add: results_ok_def map_ok_Map_insert)
  ultimately show "results_ok t"
    using ok unfolding results_ok_def same adts errors by simp
  have "xsteps (k_env ke) (xtor w) [] (xtor t)"
    by (rule xsteps_single) (rule xstep.adt [OF add])
  then have "crate_to (k_env ke) w t"
    by (auto simp: crate_to_def same)
  then show "crate_to (k_env ke) s t"
    by (rule crate_to_trans [OF run_to_crate_to [OF run]])
  show "did_ids s d = None"
    by (rule adt(1))
  show "did_ids t d \<noteq> None"
    using adt(2) by (simp add: same)
qed

lemma process_fn_ok:
  assumes "process_fn ke iv f s = Inr (u, t)" and "results_ok s"
  shows "results_ok t" and "crate_to (k_env ke) s t" and "defined t (fi_def_id f)" and "defined s d' \<Longrightarrow> defined t d'"
proof -
  note steps = assms(1) [unfolded process_fn_def Let_def partition_filter_conv prod.case]
  from iffD1 [OF bind_Inr_iff steps] obtain a v pres posts m where
    r: "(if length (filter (\<lambda>(spec_type, _). spec_type = Measure) (fn_specs iv (fi_def_id f))) > 1
       then report (Span_err ''Multiple measures.'') else ret ()) s = Inr (a, v)"
    and rest: "bind (extract_local_fn ke (fi_def_id f) pres posts m) (\<lambda>fd. on_xtor (add_function (fd_id fd) fd)) v = Inr (u, t)"
    by blast
  have "runs (k_env ke) (if length (filter (\<lambda>(spec_type, _). spec_type = Measure) (fn_specs iv (fi_def_id f))) > 1
       then report (Span_err ''Multiple measures.'') else ret ())"
    by (intro run_intros)
  from runsD [OF this r] have run: "run_to (k_env ke) s v" .
  have "defined v d'" if "defined s d'" for d'
    using that run_to_ids [OF run] run by (auto simp: defined_def run_to_def same_results_def map_le_def dom_def)
  note added = added_function [OF gives_local_fn rest results_ok_run [OF assms(2) run]]
  show "results_ok t"
    by (rule added(1))
  show "crate_to (k_env ke) s t"
    by (rule crate_to_trans [OF run_to_crate_to [OF run] added(2)])
  show "defined t (fi_def_id f)"
    by (rule added(3))
  show "defined t d'" if "defined s d'"
    using added(4) \<open>defined s d' \<Longrightarrow> defined v d'\<close> that by blast
qed

lemma process_extern_ok:
  assumes "process_extern ke d s = Inr (u, t)" and "results_ok s"
  shows "results_ok t" and "crate_to (k_env ke) s t" and "defined t d" and "defined s d' \<Longrightarrow> defined t d'"
proof -
  have "gives (k_env ke) (\<lambda>s. True) (extract_extern_fn ke d) (built d)"
    by (rule gives_weaken [OF gives_extern_fn]) simp_all
  note added = added_function [OF this assms(1) [unfolded process_extern_def] assms(2)]
  from added show "results_ok t" "crate_to (k_env ke) s t" "defined t d" "defined s d' \<Longrightarrow> defined t d'"
    by simp_all
qed

lemma map_steps_invariant:
  assumes "map_steps f xs s = Inr (ys, t)" and "Q s" and "\<And>x s y t. x \<in> set xs \<Longrightarrow> f x s = Inr (y, t) \<Longrightarrow> Q s \<Longrightarrow> Q t"
  shows "Q t"
  using assms
proof (induction xs arbitrary: s ys)
  case (Cons x xs)
  from Cons.prems(1) obtain y u zs where "f x s = Inr (y, u)" and rest: "map_steps f xs u = Inr (zs, t)"
    by (auto simp: bind_Inr_iff)
  with Cons.prems have "Q u"
    by auto
  from Cons.IH [OF rest this] Cons.prems(3) show ?case
    by auto
qed simp

end
