(* ===== verification/Krate_Results.thy ===== *)
theory Krate_Results
  imports Krate_Spec
begin

text \<open>
  The properties of the extraction of a crate as a whole.
\<close>

section \<open>The parts of a run\<close>

definition start :: Session where
  "start = \<lparr>xtor = Extraction_new, diags = []\<rparr>"

lemma results_ok_start: "results_ok start"
  by (simp add: results_ok_def start_def Extraction_new_def)

lemma map_steps_each:
  assumes "map_steps f xs s = Inr (ys, t)" and "Q s"
    and "\<And>x s y t. x \<in> set xs \<Longrightarrow> f x s = Inr (y, t) \<Longrightarrow> Q s \<Longrightarrow> Q t"
    and "\<And>x s y t. x \<in> set xs \<Longrightarrow> f x s = Inr (y, t) \<Longrightarrow> Q s \<Longrightarrow> D t (g x)"
    and "\<And>x s y t z. x \<in> set xs \<Longrightarrow> f x s = Inr (y, t) \<Longrightarrow> Q s \<Longrightarrow> D s z \<Longrightarrow> D t z"
  shows "Q t \<and> (\<forall>x \<in> set xs. D t (g x)) \<and> (\<forall>z. D s z \<longrightarrow> D t z)"
  using assms
proof (induction xs arbitrary: s ys)
  case (Cons x xs)
  from Cons.prems(1) obtain y u zs where x: "f x s = Inr (y, u)" and rest: "map_steps f xs u = Inr (zs, t)"
    by (auto simp: bind_Inr_iff)
  have u: "Q u" "D u (g x)"
    using Cons.prems(2-4) x by auto
  have keep: "D u z" if "D s z" for z
    by (rule Cons.prems(5) [OF _ x Cons.prems(2) that]) simp
  have "Q t \<and> (\<forall>x \<in> set xs. D t (g x)) \<and> (\<forall>z. D u z \<longrightarrow> D t z)"
    by (rule Cons.IH [OF rest u(1)]) (auto intro: Cons.prems(3-5))
  with u keep show ?case
    by auto
qed simp

lemma process_fns_ok:
  assumes "map_steps (process_fn ke iv) fs s = Inr (us, t)" and "results_ok s"
  shows "(results_ok t \<and> crate_to (k_env ke) s t) \<and> (\<forall>f \<in> set fs. defined t (fi_def_id f)) \<and>
    (\<forall>d. defined s d \<longrightarrow> defined t d)"
  by (rule map_steps_each [where Q = "\<lambda>u. results_ok u \<and> crate_to (k_env ke) s u", OF assms(1)])
    (auto simp: assms(2) intro: process_fn_ok crate_to_trans)

lemma process_externs_ok:
  assumes "map_steps (process_extern ke) ds s = Inr (us, t)" and "results_ok s"
  shows "(results_ok t \<and> crate_to (k_env ke) s t) \<and> (\<forall>d \<in> set ds. defined t (id d)) \<and> (\<forall>d. defined s d \<longrightarrow> defined t d)"
  by (rule map_steps_each [where Q = "\<lambda>u. results_ok u \<and> crate_to (k_env ke) s u", OF assms(1)])
    (auto simp: assms(2) intro: process_extern_ok crate_to_trans)

lemma process_adts_ok:
  assumes "map_steps (process_adt ke) ds s = Inr (us, t)" and "results_ok s"
  shows "results_ok t \<and> crate_to (k_env ke) s t"
  by (rule map_steps_invariant [where Q = "\<lambda>u. results_ok u \<and> crate_to (k_env ke) s u", OF assms(1)])
    (auto simp: assms(2) intro: process_adt_ok crate_to_trans)

lemma process_crate_parts:
  assumes "process_crate ke s = Inr (u, t)"
  obtains iv v us w us' x us'' where
    "visit_all ke (k_items ke) \<lparr>iv_adts = [], iv_functions = [], iv_specs = Map.empty\<rparr> s = Inr (iv, v)"
    and "map_steps (process_adt ke) (iv_adts iv) v = Inr (us, w)"
    and "map_steps (process_fn ke iv) (iv_functions iv) w = Inr (us', x)"
    and "map_steps (process_extern ke) (external_functions ke x) x = Inr (us'', t)"
  using assms unfolding process_crate_def bind_Inr_iff by auto

lemma process_crate_ok:
  assumes "process_crate ke s = Inr (u, t)" and "results_ok s"
  shows "results_ok t \<and> crate_to (k_env ke) s t"
proof -
  obtain iv v us w us' x us'' where
    visit: "visit_all ke (k_items ke) \<lparr>iv_adts = [], iv_functions = [], iv_specs = Map.empty\<rparr> s = Inr (iv, v)"
    and adts: "map_steps (process_adt ke) (iv_adts iv) v = Inr (us, w)"
    and fns: "map_steps (process_fn ke iv) (iv_functions iv) w = Inr (us', x)"
    and externs: "map_steps (process_extern ke) (external_functions ke x) x = Inr (us'', t)"
    by (rule process_crate_parts [OF assms(1)])
  have sv: "run_to (k_env ke) s v"
    by (rule runsD [OF runs_visit_all visit])
  note w = process_adts_ok [OF adts results_ok_run [OF assms(2) sv]]
  note x = conjunct1 [OF process_fns_ok [OF fns conjunct1 [OF w]]]
  note t = conjunct1 [OF process_externs_ok [OF externs conjunct1 [OF x]]]
  note sw = crate_to_trans [OF run_to_crate_to [OF sv] conjunct2 [OF w]]
  show ?thesis
    by (rule conjI [OF conjunct1 [OF t] crate_to_trans [OF crate_to_trans [OF sw conjunct2 [OF x]] conjunct2 [OF t]]])
qed

section \<open>Registered data types\<close>

lemma register_def_registered:
  "get_id_from_def x d \<noteq> None \<Longrightarrow> \<exists>msg. register_def num oc path_str d x = Inl (Panic msg)"
  by (auto simp: register_def_def bind_def res_bind_def fresh_id_def UniqueCounter_fresh_def i32_add_def insert_did_def
      get_id_from_def_def split: prod.splits option.splits sum.splits)

lemma process_adt_registered:
  assumes "map_ok sort_id (xt_adts (xtor s))" and "get_id_from_def (xtor s) d \<noteq> None" and "0 < k_fuel ke"
  shows "\<exists>msg. process_adt ke d s = Inl (Panic msg)"
proof (cases "known_sort (xtor s) d")
  case None
  from register_def_registered [OF assms(2)] obtain msg where
    "register_def (numeric (k_env ke)) (overflow_checks (k_env ke)) (def_path_str (tcx (k_env ke))) d (xtor s) = Inl (Panic msg)"
    by blast
  with None assms(3) have "process_adt ke d s = Inl (Panic msg)"
    by (cases "k_fuel ke") (simp_all add: process_adt_def extract_adt_with_def bind_def x_register_def_def on_xtor_def)
  then show ?thesis ..
next
  case (Some adt)
  then obtain i where "Map_get (xt_adts (xtor s)) i = Some adt"
    by (auto simp: known_sort_def bind_eq_Some_conv)
  then have "Map_get (xt_adts (xtor s)) (sort_id adt) = Some adt"
    by (intro map_ok_get [OF assms(1)] Map_get_in)
  with Some assms(3) show ?thesis
    by (cases "k_fuel ke") (simp_all add: process_adt_def extract_adt_with_def bind_def on_xtor_def add_adt_def)
qed

lemma map_steps_fails:
  "map_steps f xs s = Inr (ys, t) \<Longrightarrow> f x t = Inl e \<Longrightarrow> map_steps f (xs @ x # zs) s = Inl e"
  by (induction xs arbitrary: s ys) (force simp: bind_def bind_Inr_iff res_bind_Inr_iff)+

section \<open>A sample crate\<close>

text \<open>\<open>fn x(x: bool) -> bool { y(x) }\<close>, with an external function \<open>y\<close>.\<close>

definition sample_fn :: FnItem where
  "sample_fn = \<lparr>fi_def_id = local_def 4, fi_from_expansion = False, fi_spec_type = None, fi_spec_fn_name = None\<rparr>"

definition sample_krate :: KrateEnv where
  "sample_krate = \<lparr>k_env = sample_env, k_fuel = 1,
     k_items = [An_item \<lparr>item_ident = \<lparr>id_name = ''x'', id_ctxt = 0\<rparr>, item_kind = ItFn, item_def_id = local_def 4,
        item_from_expansion = False\<rparr>],
     k_body = (\<lambda>_. Some (sample_body\<lparr>body_value :=
        HExpr TBool (KCall (TFnDef box_def []) [HExpr TBool (KVarRef (sample_hid 0))])\<rparr>)),
     k_output = (\<lambda>_. Some TBool), values_order = (\<lambda>fs. fs), refs_order = (\<lambda>refs. [local_def 4, box_def])\<rparr>"

lemma sample_krate_simps [simp]:
  "k_env sample_krate = sample_env" "k_fuel sample_krate = 1" "k_output sample_krate h = Some TBool"
  "values_order sample_krate fs = fs" "refs_order sample_krate refs = [local_def 4, box_def]"
  "k_body sample_krate h = Some (sample_body\<lparr>body_value :=
        HExpr TBool (KCall (TFnDef box_def []) [HExpr TBool (KVarRef (sample_hid 0))])\<rparr>)"
  "k_items sample_krate = [An_item \<lparr>item_ident = \<lparr>id_name = ''x'', id_ctxt = 0\<rparr>, item_kind = ItFn,
     item_def_id = local_def 4, item_from_expansion = False\<rparr>]"
  "parent_of sample_tcx d = None" "fn_sig sample_tcx d = ([], TBool)" "\<not> is_local box_def"
  by (simp_all add: sample_krate_def sample_tcx_def box_def_def is_local_def)

lemma sample_visit_item:
  "visit_item sample_krate \<lparr>item_ident = \<lparr>id_name = ''x'', id_ctxt = 0\<rparr>, item_kind = ItFn, item_def_id = local_def 4,
     item_from_expansion = False\<rparr> \<lparr>iv_adts = [], iv_functions = [], iv_specs = Map.empty\<rparr> s =
   Inr (\<lparr>iv_adts = [], iv_functions = [sample_fn], iv_specs = Map.empty\<rparr>, s)"
  by (simp add: visit_item_def should_ignore_def visit_fn_def FnItem_new_def parse_spec_type_fn_name_def
      sample_fn_def Let_def)

lemma sample_visit:
  "visit_all sample_krate (k_items sample_krate) \<lparr>iv_adts = [], iv_functions = [], iv_specs = Map.empty\<rparr> s =
     Inr (\<lparr>iv_adts = [], iv_functions = [sample_fn], iv_specs = Map.empty\<rparr>, s)"
  by (simp add: sample_visit_item bind_def)

lemmas sample_defs =
  x_extract_flags_def extract_flags_def Flags_new_def report_flag_warnings_def extract_generics_def
  extract_generics_with_def all_generic_params_of_def generics_chain.simps collect_params_def map_filter_simps in_order_def
  tparam_defs_def bind_def check_def extract_signature_and_body_def enter_body_def body_env_def
  populate_def_context_def sample_body_def extract_binding_def DefContext_new_def x_register_hir_def on_xtor_def
  register_hir_def fresh_id_def UniqueCounter_fresh_def insert_hid_def extract_ty_def extract_ty_with.simps add_var_def
  BindingsCollector_run_def fetch_var_def get_var_def extract_call_like_def extract_call_def x_extract_fn_ref_def
  extract_fn_ref_def get_id_from_def_def register_def_def symbol_path_from_def_id_def compatible_name_def
  add_function_ref_def insert_did_def extract_arg_types_def extract_tys_def extract_tys_with_def extract_expr_refs_def
  subst_types_def x_fresh_id_def base_fresh_id_def i32_add_def Let_def ascii_numeric_def is_digit_def to_stainless_def
  x_report_unused_flags_def report_unused_flags_def

lemma sample_local:
  "\<exists>fd t. extract_local_fn sample_krate (local_def 4) [] [] None start = Inr (fd, t) \<and> no_errors t \<and>
     xt_functions (xtor t) = [] \<and> (\<exists>i. did_ids t box_def = Some i \<and> global_id i \<noteq> global_id (fd_id fd))"
  by (simp add: extract_local_fn_def start_def Extraction_new_def sample_defs no_errors_def)

lemma sample_extern:
  assumes "did_ids s box_def = Some i" and "Map_get (xt_functions (xtor s)) i = None" and "no_errors s"
  shows "\<exists>t. process_extern sample_krate box_def s = Inr ((), t) \<and> no_errors t"
  using assms by (simp add: process_extern_def extract_extern_fn_def sample_defs add_function_def no_errors_def)

lemma sample_process: "\<exists>t. process_crate sample_krate start = Inr ((), t) \<and> no_errors t"
proof -
  obtain fd t i where local: "extract_local_fn sample_krate (local_def 4) [] [] None start = Inr (fd, t)"
    and t: "no_errors t" "xt_functions (xtor t) = []" "did_ids t box_def = Some i" "global_id i \<noteq> global_id (fd_id fd)"
    using sample_local by blast
  let ?u = "t\<lparr>xtor := (xtor t)\<lparr>xt_functions := [(fd_id fd, fd)]\<rparr>\<rparr>"
  have fn: "process_fn sample_krate \<lparr>iv_adts = [], iv_functions = [sample_fn], iv_specs = Map.empty\<rparr> sample_fn start = Inr ((), ?u)"
    using local t(2) by (simp add: process_fn_def fn_specs_def sample_fn_def map_filter_simps bind_def on_xtor_def add_function_def)
  have "\<exists>w. process_extern sample_krate box_def ?u = Inr ((), w) \<and> no_errors w"
    by (rule sample_extern [where i = i]) (use t in \<open>simp_all add: SymbolIdentifier_eq_def no_errors_def\<close>)
  with fn show ?thesis
    by (auto simp: process_crate_def bind_def sample_visit_item external_functions_def)
qed

section \<open>Properties\<close>







lemma spec_fn_context:
  assumes "populate_def_context env fuel txtcx body []
      (map_of (zip (map param_hir_id (body_params body)) vs)) s = Inr ((fm, dcx), u)"
    and "length (body_params body) = length vs" and "distinct (map param_hir_id (body_params body))"
  shows "map (\<lambda>p. dcx (param_hir_id p)) (body_params body) = map Some vs"
    and "dcx h = Some v \<Longrightarrow> h \<in> param_hir_id ` set (body_params body) \<or>
      h \<in> binder_ids body \<and> hid_to_stid (mapping (xtor u)) h = Some (var_id v)"
proof -
  let ?ids = "map param_hir_id (body_params body)"
  let ?old = "map_of (zip ?ids vs)"
  have "vars_ok env txtcx body ?old ?old s"
    by (auto simp: vars_ok_def)
  from populate_vars [OF assms(1) this] have ok: "vars_ok env txtcx body ?old dcx u"
    and dom: "dom dcx = dom ?old \<union> binder_ids body"
    by auto
  have "dcx (?ids ! i) = Some (vs ! i)" if "i < length ?ids" for i
  proof -
    have "?old (?ids ! i) = Some (vs ! i)"
      using assms(2,3) that by (intro map_of_zip_nth) simp_all
    with ok show ?thesis
      by (auto simp: vars_ok_def map_le_def dom_def)
  qed
  then show "map (\<lambda>p. dcx (param_hir_id p)) (body_params body) = map Some vs"
    using assms(2) by (intro nth_equalityI) simp_all
  have old: "dom ?old = param_hir_id ` set (body_params body)"
    using assms(2) by simp
  show "h \<in> param_hir_id ` set (body_params body) \<or>
      h \<in> binder_ids body \<and> hid_to_stid (mapping (xtor u)) h = Some (var_id v)" if "dcx h = Some v"
    using ok dom old that by (auto simp: vars_ok_def)
qed

text \<open>
  C34: A specification speaks about its function: in the extracted body of a specification
  function, the parameters stand, in their order, for the variables of the parameters of
  the specified function, and the last parameter of a post-condition for the variable of
  the result. Every variable in the specification is one of these or a local binding of
  the specification's own body.
\<close>

theorem specifications_use_the_functions_parameters:
  assumes "extract_spec_fn ke original params ret_var d s = Inr (e, t)"
  shows "\<exists>body dcx. k_body ke (hir_id_of (tcx (k_env ke)) d) = Some body \<and>
     (\<exists>txtcx u. extract_expr (body_env ke txtcx dcx) (body_value body) u = Inr (e, t)) \<and>
     map (\<lambda>p. dcx (param_hir_id p)) (body_params body) =
       map Some (map vd_v params @ (case ret_var of None \<Rightarrow> [] | Some v \<Rightarrow> [v])) \<and>
     all_sub (\<lambda>e. \<forall>v \<in> node_vars e. \<exists>h. dcx h = Some v \<and>
       (h \<in> param_hir_id ` set (body_params body) \<or>
        h \<in> binder_ids body \<and> hid_to_stid (mapping (xtor t)) h = Some (var_id v))) e"
proof -
  obtain tps body dcx fm u where body: "k_body ke (hir_id_of (tcx (k_env ke)) d) = Some body"
    and len: "length (body_params body) = length (spec_vars params ret_var)"
    and dist: "distinct (map param_hir_id (body_params body))"
    and p: "populate_def_context (k_env ke) (k_fuel ke) \<lparr>tx_def_id = d, index_to_tparam = tps\<rparr> body []
       (map_of (zip (map param_hir_id (body_params body)) (spec_vars params ret_var))) s = Inr ((fm, dcx), u)"
    and e: "extract_expr (body_env ke \<lparr>tx_def_id = d, index_to_tparam = tps\<rparr> dcx) (body_value body) u = Inr (e, t)"
    by (rule spec_fn_parts [OF assms])
  note vars = spec_fn_context [OF p len dist]
  have "\<exists>h. dcx h = Some v \<and> (h \<in> param_hir_id ` set (body_params body) \<or>
      h \<in> binder_ids body \<and> hid_to_stid (mapping (xtor t)) h = Some (var_id v))" if "v \<in> ran dcx" for v
    using that vars(2) run_to_hid [OF runsD [OF runs_body e]] by (fastforce simp: ran_def)
  moreover have "all_sub (\<lambda>e. node_vars e \<subseteq> ran dcx) e"
    using bound.extract_expr_sub [OF e] unfolding bound.sub_def by (simp add: body_env_def)
  ultimately have "all_sub (\<lambda>e. \<forall>v \<in> node_vars e. \<exists>h. dcx h = Some v \<and>
       (h \<in> param_hir_id ` set (body_params body) \<or>
        h \<in> binder_ids body \<and> hid_to_stid (mapping (xtor t)) h = Some (var_id v))) e"
    by (simp add: subset_iff) (blast intro: all_sub_mono)
  with body e vars(1) show ?thesis
    by (simp only: spec_vars_def) blast
qed

lemma sample_spec:
  "\<exists>e t. extract_spec_fn sample_krate no_params [ValDef v] None (local_def 6) start = Inr (e, t)"
  by (simp add: extract_spec_fn_def spec_context_def correlate_tparams_def no_params_def start_def Extraction_new_def
      sample_defs)

lemma specifications_use_the_functions_parameters_witness:
  "\<exists>e t dcx. extract_spec_fn sample_krate no_params [ValDef \<lparr>var_id = sample_x 1, var_tpe = BooleanType, var_flags = []\<rparr>]
       None (local_def 6) start = Inr (e, t) \<and>
     dcx (sample_hid 0) = Some \<lparr>var_id = sample_x 1, var_tpe = BooleanType, var_flags = []\<rparr> \<and>
     all_sub (\<lambda>e. node_vars e \<subseteq> ran dcx) e"
proof -
  let ?v = "\<lparr>var_id = sample_x 1, var_tpe = BooleanType, var_flags = []\<rparr>"
  obtain e t where e: "extract_spec_fn sample_krate no_params [ValDef ?v] None (local_def 6) start = Inr (e, t)"
    using sample_spec by blast
  from specifications_use_the_functions_parameters [OF e] obtain body dcx
    where body: "k_body sample_krate (hir_id_of (tcx (k_env sample_krate)) (local_def 6)) = Some body"
      and params: "map (\<lambda>p. dcx (param_hir_id p)) (body_params body) = map Some (map vd_v [ValDef ?v] @ [])"
      and vars: "all_sub (\<lambda>e. \<forall>v \<in> node_vars e. \<exists>h. dcx h = Some v \<and>
        (h \<in> param_hir_id ` set (body_params body) \<or>
         h \<in> binder_ids body \<and> hid_to_stid (mapping (xtor t)) h = Some (var_id v))) e"
    unfolding option.case by blast
  have dcx: "dcx (sample_hid 0) = Some ?v"
    using body params by (auto simp: sample_body_def sample_defs)
  have sub: "all_sub (\<lambda>e. \<forall>v \<in> node_vars e. \<exists>h. dcx h = Some v) e"
    using vars by (rule all_sub_mono) blast
  have "all_sub (\<lambda>e. node_vars e \<subseteq> ran dcx) e"
    using sub by (rule all_sub_mono) (auto simp: ran_def)
  with e dcx show ?thesis by blast
qed

text \<open>
  C36: A data type that has been mentioned before its own item is processed cannot be
  extracted: when the extraction of earlier data types of the crate registers it, for
  instance as the type of a field, the extraction of its item panics.
\<close>

theorem data_types_mentioned_earlier_panic:
  assumes "map_steps (process_adt ke) earlier start = Inr (us, t)" and "get_id_from_def (xtor t) d \<noteq> None"
    and "0 < k_fuel ke"
  shows "\<exists>msg. map_steps (process_adt ke) (earlier @ d # later) start = Inl (Panic msg)"
proof -
  have "map_ok sort_id (xt_adts (xtor t))"
    using process_adts_ok [OF assms(1) results_ok_start] by (simp add: results_ok_def)
  from process_adt_registered [OF this assms(2,3)] obtain msg where "process_adt ke d t = Inl (Panic msg)" ..
  from map_steps_fails [OF assms(1) this] show ?thesis by blast
qed

text \<open>\<open>struct A { b: B }  struct B;\<close>\<close>

definition two_structs :: TyCtxt where
  "two_structs = sample_tcx\<lparr>adt_def := (\<lambda>d. \<lparr>adt_is_box = False, adt_variants = (if d = local_def 3 then
     [\<lparr>variant_did = local_def 4, variant_fields =
        [\<lparr>field_did = local_def 5, field_name = ''b'', field_ty = TAdt (local_def 7) []\<rparr>]\<rparr>] else [])\<rparr>)\<rparr>"

definition two_structs_krate :: KrateEnv where
  "two_structs_krate = sample_krate\<lparr>k_env := sample_env\<lparr>tcx := two_structs\<rparr>, k_fuel := 2\<rparr>"

lemma two_structs_simps [simp]:
  "def_path_str two_structs d = def_path_str sample_tcx d" "is_closure two_structs d = False"
  "predicates_of two_structs d = []" "hir_attrs two_structs h = []"
  "generics_of two_structs d = \<lparr>gen_parent = None, gen_parent_count = 0, gen_params = []\<rparr>"
  "adt_is_box (adt_def two_structs d) = False" "def_path_str sample_tcx (local_def 7) = ''m::x''"
  "adt_variants (adt_def two_structs (local_def 3)) =
     [\<lparr>variant_did = local_def 4, variant_fields =
        [\<lparr>field_did = local_def 5, field_name = ''b'', field_ty = TAdt (local_def 7) []\<rparr>]\<rparr>]"
  "adt_variants (adt_def two_structs (local_def 7)) = []"
  "k_env two_structs_krate = sample_env\<lparr>tcx := two_structs\<rparr>" "k_fuel two_structs_krate = 2"
  "std_items sample_env = \<lparr>item_defs = [], def_items = Map.empty\<rparr>"
  by (simp_all add: two_structs_def two_structs_krate_def) (simp_all add: sample_tcx_def local_def_def sample_env_def)

lemma two_structs_first:
  "\<exists>t. map_steps (process_adt two_structs_krate) [local_def 3] start = Inr ([()], t) \<and>
     get_id_from_def (xtor t) (local_def 7) \<noteq> None"
  by (simp add: process_adt_def start_def Extraction_new_def sample_defs numeral_2_eq_2 extract_adt_with_def known_sort_def
      extract_adt_id_with_def x_register_def_def x_get_or_register_def_def get_or_register_def_def is_bigint_def
      def_to_item_opt_def take_flags_def add_adt_def)

lemma data_types_mentioned_earlier_panic_witness:
  "\<exists>msg. map_steps (process_adt two_structs_krate) [local_def 3, local_def 7] start = Inl (Panic msg)"
proof -
  obtain t where t: "map_steps (process_adt two_structs_krate) [local_def 3] start = Inr ([()], t)"
    "get_id_from_def (xtor t) (local_def 7) \<noteq> None"
    using two_structs_first by blast
  from data_types_mentioned_earlier_panic [OF t, of "[]"] show ?thesis by simp
qed

end
