(* ===== verification/Frontend.thy ===== *)
theory Frontend
  imports Backend Krate_Results Ast_Limits
begin

text \<open>
  The compiler driver, \<open>stainless_frontend/src/lib.rs\<close> and \<open>bin/rustc_to_stainless.rs\<close>: it
  runs the compiler with a callback after the analysis, extracts the crate, and exports
  the serialized program or has it verified.

  The compiler is the parameter \<open>Compiler\<close>: whether it gets to the callback (it has nothing
  to compile when asked for its version, and raises the fatal error for a crate with
  errors), whether the analysis succeeds there, and the crate it shows to the extraction. Diagnostics of the
  extraction stay in the session, and \<open>abort_if_errors\<close> raises the fatal error when one of
  them is an error.
\<close>

section \<open>The driver\<close>

datatype Compile_end = No_program | Compile_errors | Reaches_analysis

record Compiler =
  compile_end :: Compile_end
  analysis_ok :: bool
  the_krate :: KrateEnv

type_synonym 'a callback = "(Machine, 'a) proc"

text \<open>
  \<open>ExtractionCallbacks\<close> holds the function to call on the extracted program until it has
  been called: the second run of the callback panics.
\<close>

type_synonym ExtractionCallbacks = "(Symbols \<Rightarrow> diag list \<Rightarrow> unit callback) option"

definition ExtractionCallbacks_new :: "(Symbols \<Rightarrow> diag list \<Rightarrow> unit callback) \<Rightarrow> ExtractionCallbacks" where
  "ExtractionCallbacks_new on_extraction = Some on_extraction"

definition after_analysis :: "Compiler \<Rightarrow> ExtractionCallbacks \<Rightarrow> (Machine, ExtractionCallbacks) proc" where
  "after_analysis c callbacks =
     (if \<not> analysis_ok c then panics ''called `Result::unwrap()` on an `Err` value: ErrorReported''
      else
        and_then (of_res (extract_crate (the_krate c))) (\<lambda>(symbols, ds).
        and_then (expect ''Already ran extraction'' callbacks) (\<lambda>on_extraction.
        and_then (on_extraction symbols ds) (\<lambda>_. returns None))))"

text \<open>The compiler calls the callback at most once, and stops after it.\<close>

definition run_compiler :: "Compiler \<Rightarrow> ExtractionCallbacks \<Rightarrow> (Machine, ExtractionCallbacks) proc" where
  "run_compiler c callbacks = (case compile_end c of
       No_program \<Rightarrow> returns callbacks
     | Compile_errors \<Rightarrow> fatal
     | Reaches_analysis \<Rightarrow> after_analysis c callbacks)"

definition catch_fatal_errors :: "(Machine, 'a) proc \<Rightarrow> (Machine, unit + 'a) proc" where
  "catch_fatal_errors p = (\<lambda>m. case p m of
       (Returns x, m') \<Rightarrow> (Returns (Inr x), m')
     | (Fatal, m') \<Rightarrow> (Returns (Inl ()), m')
     | (Exits code, m') \<Rightarrow> (Exits code, m')
     | (Panics msg, m') \<Rightarrow> (Panics msg, m')
     | (No_fuel, m') \<Rightarrow> (No_fuel, m'))"

definition run :: "Compiler \<Rightarrow> (Symbols \<Rightarrow> diag list \<Rightarrow> unit callback) \<Rightarrow> (Machine, unit + unit) proc" where
  "run c on_extraction =
     and_then (catch_fatal_errors (run_compiler c (ExtractionCallbacks_new on_extraction))) (\<lambda>r.
     returns (map_sum (\<lambda>_. ()) (\<lambda>_. ()) r))"

section \<open>Export and verification\<close>

definition output_program :: "Host \<Rightarrow> (int \<Rightarrow> bytes) \<Rightarrow> string \<Rightarrow> Symbols \<Rightarrow> unit callback" where
  "output_program h tsb path symbols =
     and_then (of_res (serialized tsb symbols)) (\<lambda>data.
     write_file h ''Unable to write serialized stainless program'' path data)"

definition result_row :: "Host \<Rightarrow> VerificationResult \<Rightarrow> string" where
  "result_row h r =
     ''- '' @ pad_right 38 (si_name (vr_id r)) @ '' '' @ pad_centre 32 (vr_kind r) @ '' '' @
     pad_left 7 (seconds h (vr_time r)) @ '' '' @ pad_left 18 (fmt_VerificationStatus (vr_status r))"

primrec print_lines :: "string list \<Rightarrow> unit callback" where
  "print_lines [] = say (Line [])"
| "print_lines (row # rows) = and_then (say (Line row)) (\<lambda>_. print_lines rows)"

definition print_results :: "Host \<Rightarrow> VerificationResult list \<Rightarrow> unit callback" where
  "print_results h results = print_lines (map (result_row h) results)"

definition verify_program_and_report :: "Host \<Rightarrow> (int \<Rightarrow> bytes) \<Rightarrow> Symbols \<Rightarrow> unit callback" where
  "verify_program_and_report h tsb symbols =
     and_then (verify_program h tsb Config_default symbols) (\<lambda>r. case r of
       Inr (Verification results sources) \<Rightarrow>
         and_then (say (Note (''Verified '' @ dec (length sources) @ '' items.''))) (\<lambda>_.
         let invalids = filter (\<lambda>result. \<not> is_valid (vr_status result)) results in
         and_then (if invalids = [] then say (Note ''All VCs passed!'')
           else say (Warn (''Failed to prove '' @ dec (length invalids) @ '' VCs:''))) (\<lambda>_.
         print_results h results))
     | Inl msg \<Rightarrow>
         and_then (say (Fatal_error (''An error occurred while trying to verify the extracted program: '' @ msg)))
           (\<lambda>_. fatal))"

definition has_errors :: "diag list \<Rightarrow> bool" where
  "has_errors ds \<longleftrightarrow> list_ex (\<lambda>d. case d of Span_err _ \<Rightarrow> True | _ \<Rightarrow> False) ds"

definition abort_if_errors :: "diag list \<Rightarrow> unit callback" where
  "abort_if_errors ds = (if has_errors ds then fatal else returns ())"

definition on_extraction :: "Host \<Rightarrow> (int \<Rightarrow> bytes) \<Rightarrow> Symbols \<Rightarrow> diag list \<Rightarrow> unit callback" where
  "on_extraction h tsb symbols ds =
     and_then (abort_if_errors ds) (\<lambda>_.
     case env_var h ''RUSTSTAINLESS_EXPORT'' of
       Some export_path \<Rightarrow>
         and_then (say (Note (''Exporting extracted program to '' @ export_path @ ''.'')))
           (\<lambda>_. output_program h tsb export_path symbols)
     | None \<Rightarrow> verify_program_and_report h tsb symbols)"

text \<open>An argument that is not valid Unicode, here \<open>None\<close>, ends the program early.\<close>

definition main :: "Host \<Rightarrow> (int \<Rightarrow> bytes) \<Rightarrow> (string list \<Rightarrow> Compiler) \<Rightarrow> string option list \<Rightarrow> (Machine, unit + unit) proc" where
  "main h tsb compiler args =
     (if None \<in> set args then fatal else run (compiler (map the args)) (on_extraction h tsb))"

section \<open>Properties\<close>

lemma has_errors_iff: "has_errors (diags s) \<longleftrightarrow> \<not> no_errors s"
  by (auto simp: has_errors_def no_errors_def list_ex_iff list_all_iff split: diag.splits)

lemma Map_insert_values: "snd ` set (Map_insert k v m) \<subseteq> insert v (snd ` set m)"
  by (induction k v m rule: Map_insert.induct) auto

lemma foldl_insert_values: "snd ` set (foldl (\<lambda>m x. Map_insert (f x) x m) m xs) \<subseteq> snd ` set m \<union> set xs"
proof (induction xs arbitrary: m)
  case (Cons x xs)
  show ?case
    using Cons.IH [of "Map_insert (f x) x m"] Map_insert_values [of "f x" x m] by auto
qed simp

lemma Symbols_new_values:
  "set (map snd (syms_sorts (Symbols_new sorts fns))) \<subseteq> set sorts"
  "set (map snd (syms_functions (Symbols_new sorts fns))) \<subseteq> set fns"
  using foldl_insert_values [of sort_id "[]" sorts] foldl_insert_values [of fd_id "[]" fns]
  by (simp_all add: Symbols_new_def)

lemma extract_crate_complete:
  assumes "extract_crate ke = Inr (symbols, ds)" and "\<not> has_errors ds"
  shows "list_all complete_fun (map snd (syms_functions symbols)) \<and>
    list_all typed_sort (map snd (syms_sorts symbols))"
proof -
  obtain items u s where run: "process_crate (ke\<lparr>k_env := (k_env ke)\<lparr>std_items := items\<rparr>\<rparr>) start = Inr (u, s)"
    and made: "(let (adts, functions) = into_result (xtor s) in Inr (Symbols_new adts functions, diags s)) =
      (Inr (symbols, ds) :: (Symbols \<times> diag list) res)"
    using assms(1) unfolding extract_crate_def res_bind_Inr_iff start_def by auto
  obtain adts fns where "into_result (xtor s) = (adts, fns)"
    by (cases "into_result (xtor s)")
  with made have result: "into_result (xtor s) = (adts, fns)" "symbols = Symbols_new adts fns" "ds = diags s"
    by simp_all
  have "no_errors s"
    using assms(2) result(3) by (simp add: has_errors_iff)
  then have "list_all complete_fun fns \<and> list_all typed_sort adts"
    using process_crate_ok [OF run results_ok_start] result(1)
    by (auto simp: results_ok_def into_result_def list_all_iff)
  then show ?thesis
    using Symbols_new_values [of adts fns] by (auto simp: result(2) list_all_iff subset_iff)
qed

lemma print_lines_Returns: "print_lines rows m = (r, m') \<Longrightarrow> files m' = files m \<and> queries m' = queries m"
  by (induction rows arbitrary: m) (auto simp: say_def and_then_def)

lemma verify_program_and_report_Returns:
  assumes "verify_program_and_report h tsb symbols m = (Returns (), m')"
  obtains report t u where "verify_program h tsb Config_default symbols m = (Returns (Inr report), t)"
    and "files u = files t" and "queries u = queries t" and "print_results h (report_results report) u = (Returns (), m')"
proof -
  from assms obtain r t where r: "verify_program h tsb Config_default symbols m = (Returns r, t)"
    and rest: "(case r of
       Inr (Verification results sources) \<Rightarrow>
         and_then (say (Note (''Verified '' @ dec (length sources) @ '' items.''))) (\<lambda>_.
         let invalids = filter (\<lambda>result. \<not> is_valid (vr_status result)) results in
         and_then (if invalids = [] then say (Note ''All VCs passed!'')
           else say (Warn (''Failed to prove '' @ dec (length invalids) @ '' VCs:''))) (\<lambda>_.
         print_results h results))
     | Inl msg \<Rightarrow>
         and_then (say (Fatal_error (''An error occurred while trying to verify the extracted program: '' @ msg)))
           (\<lambda>_. fatal)) t = (Returns (), m')"
    unfolding verify_program_and_report_def and_then_Returns by blast
  show thesis
  proof (cases r)
    case (Inl msg)
    with rest show ?thesis by (simp add: and_then_Returns)
  next
    case (Inr report)
    obtain results sources where report: "report = Verification results sources"
      by (cases report)
    from rest have "\<exists>said'. print_results h results (t\<lparr>said := said'\<rparr>) = (Returns (), m')"
      by (auto simp: Inr report and_then_Returns say_def Let_def split: if_splits)
    then obtain said' where "print_results h results (t\<lparr>said := said'\<rparr>) = (Returns (), m')" ..
    then show ?thesis
      using r by (intro that [of report t]) (simp_all add: Inr report)
  qed
qed

text \<open>What a successful call of the function on the extracted program has done.\<close>

lemma on_extraction_Returns:
  assumes "on_extraction h tsb symbols ds m = (Returns (), m')" and "temp_fresh h"
  shows "\<not> has_errors ds \<and> (\<exists>data. out (ser_Symbols tsb symbols) = Some data \<and>
    (case env_var h ''RUSTSTAINLESS_EXPORT'' of
       Some path \<Rightarrow> files m' = (files m)(path \<mapsto> data) \<and> queries m' = queries m
     | None \<Rightarrow> files m' = files m \<and> (\<exists>path. queries m' = queries m @ [(path, Some data)])))"
proof (cases "env_var h ''RUSTSTAINLESS_EXPORT''")
  case (Some path)
  with assms(1) show ?thesis
    by (auto simp: on_extraction_def abort_if_errors_def and_then_Returns say_def output_program_def write_file_def
        dest!: serialized_out split: if_splits)
next
  case None
  with assms(1) have ok: "\<not> has_errors ds" and run: "verify_program_and_report h tsb symbols m = (Returns (), m')"
    by (auto simp: on_extraction_def abort_if_errors_def split: if_splits)
  from run obtain report t u where verified: "verify_program h tsb Config_default symbols m = (Returns (Inr report), t)"
    and u: "files u = files t" "queries u = queries t" and print: "print_results h (report_results report) u = (Returns (), m')"
    by (rule verify_program_and_report_Returns)
  from verify_program_Inr [OF verified assms(2)] obtain path data where "serialized tsb symbols = Inr data"
    and "files t = files m" and "queries t = queries m @ [(path, Some data)]" by metis
  with print_lines_Returns [OF print [unfolded print_results_def]] u ok None show ?thesis
    by (auto dest: serialized_out)
qed

text \<open>The paths through the driver.\<close>

lemma main_Returns:
  assumes "main h tsb compiler args m = (Returns (Inr ()), m')"
    and "compile_end (compiler (map the args)) = Reaches_analysis"
  obtains symbols ds where "extract_crate (the_krate (compiler (map the args))) = Inr (symbols, ds)"
    and "on_extraction h tsb symbols ds m = (Returns (), m')"
proof -
  let ?c = "compiler (map the args)"
  from assms(1) obtain callbacks where
    "run_compiler ?c (ExtractionCallbacks_new (on_extraction h tsb)) m = (Returns callbacks, m')"
    by (auto simp: main_def run_def and_then_Returns catch_fatal_errors_def split: if_splits outcome.splits prod.splits)
  then have "after_analysis ?c (ExtractionCallbacks_new (on_extraction h tsb)) m = (Returns callbacks, m')"
    using assms(2) by (simp add: run_compiler_def)
  then show thesis
    using that by (auto simp: after_analysis_def ExtractionCallbacks_new_def and_then_Returns split: if_splits)
qed

lemma main_errors:
  assumes "extract_crate (the_krate (compiler (map the args))) = Inr (symbols, ds)" and "has_errors ds"
    and "main h tsb compiler args m = (r, m')"
  shows "m' = m"
  using assms(3)
  by (auto simp: main_def run_def run_compiler_def after_analysis_def and_then_def of_res_def assms(1,2) expect_def
      ExtractionCallbacks_new_def on_extraction_def abort_if_errors_def catch_fatal_errors_def fatal_def panics_def
      returns_def split: if_splits Compile_end.splits)

text \<open>A computation that changes no file unless it returns.\<close>

definition fails_clean :: "(Machine, 'a) proc \<Rightarrow> bool" where
  "fails_clean p \<longleftrightarrow> (\<forall>m r m'. p m = (r, m') \<longrightarrow> (\<forall>x. r \<noteq> Returns x) \<longrightarrow> files m' = files m)"

lemma fails_clean_touches: "touches {} p \<Longrightarrow> fails_clean p"
  by (auto simp: touches_def fails_clean_def fun_eq_iff)

lemma fails_clean_and_then:
  assumes "touches {} p" and "\<And>x. fails_clean (f x)"
  shows "fails_clean (and_then p f)"
  unfolding fails_clean_def
proof (intro allI impI)
  fix m r m'
  assume run: "and_then p f m = (r, m')" and fails: "\<forall>x. r \<noteq> Returns x"
  obtain r1 t where p: "p m = (r1, t)"
    by (cases "p m")
  then have t: "files t = files m"
    using assms(1) by (auto simp: touches_def fun_eq_iff)
  show "files m' = files m"
  proof (cases r1)
    case (Returns x)
    with p run have "f x t = (r, m')" by (simp add: and_then_eval)
    with assms(2) [of x] fails t show ?thesis by (auto simp: fails_clean_def)
  qed (use p run t in \<open>auto simp: and_then_def\<close>)
qed

lemma fails_clean_write_file: "fails_clean (write_file h msg path data)"
  by (auto simp: fails_clean_def write_file_def panics_def)

lemma touches_print_results: "touches {} (print_results h results)"
proof -
  have "touches {} (print_lines rows)" for rows
    by (induction rows) (auto intro: touches_and_then)
  then show ?thesis by (simp add: print_results_def)
qed

lemma touches_report:
  assumes "temp_fresh h"
  shows "touches {} (verify_program_and_report h tsb symbols)"
  unfolding verify_program_and_report_def
  by (intro touches_and_then touches_verify_program [OF assms])
    (auto simp: Let_def intro!: touches_and_then touches_print_results split: sum.split Report.split)

lemma fails_clean_on_extraction:
  assumes "temp_fresh h"
  shows "fails_clean (on_extraction h tsb symbols ds)"
proof -
  have "fails_clean (and_then (say line) (\<lambda>_. output_program h tsb path symbols))" for line path
    unfolding output_program_def by (intro fails_clean_and_then fails_clean_write_file) simp_all
  moreover have "fails_clean (verify_program_and_report h tsb symbols)"
    by (intro fails_clean_touches touches_report [OF assms])
  ultimately show ?thesis
    unfolding on_extraction_def abort_if_errors_def
    by (intro fails_clean_and_then) (auto split: option.split)
qed

lemma fails_clean_returns: "fails_clean p \<Longrightarrow> fails_clean (and_then p (\<lambda>_. returns x))"
  unfolding fails_clean_def and_then_def returns_def by (auto split: prod.splits outcome.splits)

lemma fails_clean_run_compiler:
  assumes "temp_fresh h"
  shows "fails_clean (run_compiler c (ExtractionCallbacks_new (on_extraction h tsb)))"
proof -
  have "fails_clean (after_analysis c (ExtractionCallbacks_new (on_extraction h tsb)))"
    unfolding after_analysis_def ExtractionCallbacks_new_def
    by (auto intro!: fails_clean_and_then fails_clean_returns fails_clean_on_extraction [OF assms]
        simp: expect_def fails_clean_touches)
  then show ?thesis
    by (auto simp: run_compiler_def fails_clean_touches split: Compile_end.split)
qed

lemma main_fails_clean:
  assumes "temp_fresh h" and "main h tsb compiler args m = (r, m')" and "r \<noteq> Returns (Inr ())"
  shows "files m' = files m"
proof (cases "None \<in> set args")
  case True
  with assms(2) show ?thesis by (simp add: main_def fatal_def)
next
  case False
  obtain r1 t where run: "run_compiler (compiler (map the args)) (ExtractionCallbacks_new (on_extraction h tsb)) m = (r1, t)"
    by fastforce
  have "m' = t" "\<forall>x. r1 \<noteq> Returns x"
    using assms(2,3) False run
    by (auto simp: main_def run_def catch_fatal_errors_def and_then_def returns_def split: outcome.splits)
  with fails_clean_run_compiler [OF assms(1)] run show ?thesis
    by (auto simp: fails_clean_def)
qed

text \<open>
  C37: Only complete programs leave the front end. When a run that reaches the analysis
  succeeds, the extraction has reported no error, every function and data type of the
  extracted symbol table is complete, and its serialization is exactly what has been
  written to the export path, or what Stainless found in the file named by the one query,
  all other files being as before.
\<close>

theorem delivered_programs_are_complete:
  assumes "main h tsb compiler args m = (Returns (Inr ()), m')" and "temp_fresh h"
    and "compile_end (compiler (map the args)) = Reaches_analysis"
  shows "\<exists>symbols ds data. extract_crate (the_krate (compiler (map the args))) = Inr (symbols, ds) \<and>
     \<not> has_errors ds \<and> list_all complete_fun (map snd (syms_functions symbols)) \<and>
     list_all typed_sort (map snd (syms_sorts symbols)) \<and> out (ser_Symbols tsb symbols) = Some data \<and>
     (case env_var h ''RUSTSTAINLESS_EXPORT'' of
        Some path \<Rightarrow> files m' = (files m)(path \<mapsto> data) \<and> queries m' = queries m
      | None \<Rightarrow> files m' = files m \<and> (\<exists>path. queries m' = queries m @ [(path, Some data)]))"
proof -
  from main_Returns [OF assms(1,3)] obtain symbols ds where
    extracted: "extract_crate (the_krate (compiler (map the args))) = Inr (symbols, ds)"
    and called: "on_extraction h tsb symbols ds m = (Returns (), m')" .
  note left = on_extraction_Returns [OF called assms(2)]
  with extract_crate_complete [OF extracted] have "list_all complete_fun (map snd (syms_functions symbols))"
    "list_all typed_sort (map snd (syms_sorts symbols))" by simp_all
  with extracted left show ?thesis by blast
qed


section \<open>A run of the driver\<close>

text \<open>The crate \<open>enum Never {}\<close>, compiled against the sample store of standard items.\<close>

definition never_tcx :: TyCtxt where
  "never_tcx = sample_tcx\<lparr>crates := crates sample_store, crate_name := crate_name sample_store,
     num_defs := num_defs sample_store, def_name := def_name sample_store,
     require_lang_item := require_lang_item sample_store\<rparr>"

definition never_krate :: KrateEnv where
  "never_krate = sample_krate\<lparr>k_env := sample_env\<lparr>tcx := never_tcx\<rparr>, refs_order := (\<lambda>refs. []),
     k_items := [An_item \<lparr>item_ident = \<lparr>id_name = ''Never'', id_ctxt = 0\<rparr>, item_kind = ItEnum, item_def_id = local_def 7,
        item_from_expansion = False\<rparr>]\<rparr>"

lemma never_simps [simp]:
  "crate_store.truncate never_tcx = sample_store" "k_env never_krate = sample_env\<lparr>tcx := never_tcx\<rparr>" "k_fuel never_krate = 1"
  "refs_order never_krate refs = []" "def_path_str never_tcx (local_def 7) = ''m::x''" "predicates_of never_tcx d = []"
  "hir_attrs never_tcx h = []" "generics_of never_tcx d = \<lparr>gen_parent = None, gen_parent_count = 0, gen_params = []\<rparr>"
  "adt_variants (adt_def never_tcx (local_def 7)) = []" "is_closure never_tcx d = False"
  "k_items never_krate = [An_item \<lparr>item_ident = \<lparr>id_name = ''Never'', id_ctxt = 0\<rparr>, item_kind = ItEnum,
     item_def_id = local_def 7, item_from_expansion = False\<rparr>]"
  by (simp_all add: never_tcx_def never_krate_def crate_store.defs)
    (simp_all add: sample_tcx_def local_def_def)

lemma never_extracted: "\<exists>symbols. extract_crate never_krate = Inr (symbols, []) \<and> fits_Symbols symbols"
proof -
  obtain items where items: "StdItems_collect sample_store = Inr items"
    using StdItems_collect_total [of sample_store] sample_places by blast
  let ?ke = "never_krate\<lparr>k_env := (k_env never_krate)\<lparr>std_items := items\<rparr>\<rparr>"
  have "\<exists>t. process_crate ?ke \<lparr>xtor = Extraction_new, diags = []\<rparr> = Inr ((), t) \<and> diags t = [] \<and>
      fits_Symbols (case into_result (xtor t) of (adts, fns) \<Rightarrow> Symbols_new adts fns)"
    by (simp add: process_crate_def visit_item_def should_ignore_def external_functions_def process_adt_def
        Extraction_new_def sample_defs extract_adt_with_def known_sort_def x_register_def_def take_flags_def add_adt_def
        into_result_def Symbols_new_def fits_Symbols_def fits_Seq_def fits_ADTSort_def fits_SymbolIdentifier_def)
  then obtain t where "process_crate ?ke \<lparr>xtor = Extraction_new, diags = []\<rparr> = Inr ((), t)" and "diags t = []"
    and "fits_Symbols (case into_result (xtor t) of (adts, fns) \<Rightarrow> Symbols_new adts fns)" by blast
  with items show ?thesis
    by (cases "into_result (xtor t)") (simp add: extract_crate_def)
qed

definition export_host :: Host where
  "export_host = \<lparr>env_var = (\<lambda>name. if name = ''RUSTSTAINLESS_EXPORT'' then Some ''out.bin'' else None),
     is_file = (\<lambda>_. False), new_temp = (\<lambda>_. None), write_refused = (\<lambda>_. False), spawn_error = (\<lambda>_. None),
     query_refused = (\<lambda>_. False), answer = (\<lambda>_ _ _. None), seconds = (\<lambda>_. [])\<rparr>"

definition never_compiler :: "string list \<Rightarrow> Compiler" where
  "never_compiler args = \<lparr>compile_end = Reaches_analysis, analysis_ok = True, the_krate = never_krate\<rparr>"

definition clean_machine :: Machine where
  "clean_machine = \<lparr>files = Map.empty, queries = [], said = []\<rparr>"

lemma temp_fresh_export: "temp_fresh export_host"
  by (simp add: temp_fresh_def export_host_def)

lemma never_exported:
  "\<exists>m'. main export_host tsb never_compiler [] clean_machine = (Returns (Inr ()), m')"
proof -
  obtain symbols where symbols: "extract_crate never_krate = Inr (symbols, [])" "fits_Symbols symbols"
    using never_extracted by blast
  then obtain data where data: "serialized tsb symbols = Inr data"
    using succeeds_ser_Symbols [of tsb symbols] by (auto simp: succeeds_def serialized_def out_def split: sum.splits)
  show ?thesis
    by (simp add: main_def run_def run_compiler_def after_analysis_def never_compiler_def of_res_def symbols(1) data
        ExtractionCallbacks_new_def on_extraction_def abort_if_errors_def has_errors_def export_host_def output_program_def
        write_file_def say_def and_then_def expect_def returns_def catch_fatal_errors_def)
qed

lemma delivered_programs_are_complete_witness:
  "\<exists>symbols ds data m'. main export_host twos_complement never_compiler [] clean_machine = (Returns (Inr ()), m') \<and>
     extract_crate never_krate = Inr (symbols, ds) \<and> out (ser_Symbols twos_complement symbols) = Some data \<and>
     files m' = [''out.bin'' \<mapsto> data]"
proof -
  obtain m' where run: "main export_host twos_complement never_compiler [] clean_machine = (Returns (Inr ()), m')"
    using never_exported by blast
  have "compile_end (never_compiler (map the [])) = Reaches_analysis"
    by (simp add: never_compiler_def)
  from delivered_programs_are_complete [OF run temp_fresh_export this] run show ?thesis
    by (auto simp: never_compiler_def export_host_def clean_machine_def)
qed


end
