(* ===== verification/Cargo.thy ===== *)
theory Cargo
  imports Process
begin

text \<open>
  The cargo subcommand, \<open>stainless_frontend/src/bin/cargo-stainless.rs\<close>: it asks cargo for
  its build plan, moving the directory \<open>target/debug\<close> out of the way meanwhile, picks an
  invocation of \<open>rustc\<close> from the plan, and runs \<open>rustc_to_stainless\<close> with the arguments and
  the environment of that invocation.

  The parser of JSON and the processes are the parameter \<open>Shell\<close>; the state holds the
  directories, each with its files. Output for the user is left out.
\<close>

section \<open>JSON values\<close>

datatype Value =
    J_Null | J_Bool bool | J_Number int | J_String string | J_Array "Value list" | J_Object "(string \<times> Value) list"

text \<open>\<open>Value::pointer\<close> with a path of one key, and \<open>Map::get\<close>. An array has no such index.\<close>

fun pointer :: "string \<Rightarrow> Value \<Rightarrow> Value option" where
  "pointer key (J_Object members) = map_of members key"
| "pointer key _ = None"

section \<open>Processes and directories\<close>

record Config =
  debug :: bool
  example_opt :: "string option"
  export_path_opt :: "string option"

record Build =
  package_name :: string
  sysroot :: string
  build_env :: "string \<rightharpoonup> string"
  build_args :: "string list"

record Output =
  status_success :: bool
  stdout :: bytes

type_synonym directory = "string \<rightharpoonup> bytes"

type_synonym tree = "string \<rightharpoonup> directory"

text \<open>
  \<open>cargo\<close> is what a command does to the tree and what it outputs, \<open>rustc_to_stainless\<close> the exit
  status of that command (none when a signal ended it); both are \<open>None\<close> when the command
  cannot be started. A rename or removal can be refused for reasons of the system.
\<close>

record Shell =
  parse_json :: "bytes \<Rightarrow> string + Value"
  cargo :: "Command \<Rightarrow> tree \<Rightarrow> Output option \<times> tree"
  rustc_to_stainless :: "Command \<Rightarrow> int option option"
  shell_var :: "string \<Rightarrow> string option"
  rename_refused :: "string \<Rightarrow> string \<Rightarrow> bool"
  remove_refused :: "string \<Rightarrow> bool"

definition parsing_error :: "(tree, 'a) proc" where
  "parsing_error = exits 1"

text \<open>A directory can be renamed to a name that is free or that of an empty directory.\<close>

definition rename_dir :: "Shell \<Rightarrow> string \<Rightarrow> string \<Rightarrow> string \<Rightarrow> (tree, unit) proc" where
  "rename_dir sh msg src dst = (\<lambda>t.
     case t src of
       None \<Rightarrow> (Panics msg, t)
     | Some d \<Rightarrow>
         if rename_refused sh src dst \<or> (t dst \<noteq> None \<and> t dst \<noteq> Some Map.empty) then (Panics msg, t)
         else (Returns (), t(src := None, dst := Some d)))"

definition remove_dir_all :: "Shell \<Rightarrow> string \<Rightarrow> (tree, unit) proc" where
  "remove_dir_all sh path = (\<lambda>t. (Returns (), if remove_refused sh path then t else t(path := None)))"

section \<open>Reading the build plan\<close>

definition unpack_name :: "Value \<Rightarrow> (tree, string) proc" where
  "unpack_name value = (case value of J_String name \<Rightarrow> returns name | _ \<Rightarrow> parsing_error)"

definition string_member :: "string \<times> Value \<Rightarrow> (string \<rightharpoonup> string) \<Rightarrow> (string \<rightharpoonup> string)" where
  "string_member = (\<lambda>(k, v) m. case v of J_String s \<Rightarrow> m(k \<mapsto> s) | _ \<Rightarrow> m)"

definition unpack_build_env :: "Value \<Rightarrow> (tree, string \<rightharpoonup> string) proc" where
  "unpack_build_env value =
     (case value of J_Object env \<Rightarrow> returns (fold string_member env Map.empty) | _ \<Rightarrow> parsing_error)"

definition passed_on :: "Value \<Rightarrow> string option" where
  "passed_on arg =
     (case arg of
        J_String s \<Rightarrow> if \<not> starts_with s ''--error-format'' \<and> \<not> starts_with s ''--json'' then Some s else None
      | _ \<Rightarrow> None)"

definition unpack_build_args :: "Value \<Rightarrow> (tree, string list) proc" where
  "unpack_build_args value =
     (case value of J_Array args \<Rightarrow> returns (List.map_filter passed_on args) | _ \<Rightarrow> parsing_error)"

definition find_sysroot :: "(string \<rightharpoonup> string) \<Rightarrow> (tree, string) proc" where
  "find_sysroot env =
     and_then (expect ''Expected CARGO env to be present in build plan'' (env ''CARGO'')) (\<lambda>cargo_path.
     returns (path_pop (path_pop cargo_path)))"

definition is_example :: "string \<Rightarrow> Value \<Rightarrow> bool" where
  "is_example name value =
     (case (pointer ''target_kind'' value, pointer ''args'' value) of
        (Some (J_Array kinds), Some (J_Array args)) \<Rightarrow>
          list_ex (\<lambda>kind. case kind of J_String s \<Rightarrow> s = ''example'' | _ \<Rightarrow> False) kinds \<and>
          list_ex (\<lambda>arg. case arg of J_String s \<Rightarrow> contains_str s (name @ ''.rs'') | _ \<Rightarrow> False) args
      | _ \<Rightarrow> False)"

definition unpack_invocation :: "Config \<Rightarrow> Value list \<Rightarrow> (tree, (string \<times> Value) list) proc" where
  "unpack_invocation config invocations =
     and_then
       (case example_opt config of
          Some name \<Rightarrow>
            (case find (is_example name) invocations of Some value \<Rightarrow> returns value | None \<Rightarrow> parsing_error)
        | None \<Rightarrow>
            (if invocations = [] then panics ''Expected at least one invocation'' else returns (last invocations)))
       (\<lambda>value. case value of J_Object invocation \<Rightarrow> returns invocation | _ \<Rightarrow> parsing_error)"

definition get_member :: "(string \<times> Value) list \<Rightarrow> string \<Rightarrow> (tree, Value) proc" where
  "get_member invocation key = expect ''called `Option::unwrap()` on a `None` value'' (map_of invocation key)"

definition parse_build :: "Shell \<Rightarrow> Config \<Rightarrow> bytes \<Rightarrow> (tree, Build) proc" where
  "parse_build sh config data =
     and_then (case parse_json sh data of Inl e \<Rightarrow> parsing_error | Inr plan \<Rightarrow> returns plan) (\<lambda>plan.
     and_then (expect ''Expected 'invocations' key'' (pointer ''invocations'' plan)) (\<lambda>value.
     case value of
       J_Array invocations \<Rightarrow>
         and_then (unpack_invocation config invocations) (\<lambda>invocation.
         and_then (get_member invocation ''program'') (\<lambda>program.
         if program \<noteq> J_String ''rustc'' then panics ''assertion failed: left == right''
         else
           and_then (and_then (get_member invocation ''env'') unpack_build_env) (\<lambda>env.
           and_then (and_then (get_member invocation ''package_name'') unpack_name) (\<lambda>name.
           and_then (find_sysroot env) (\<lambda>root.
           and_then (and_then (get_member invocation ''args'') unpack_build_args) (\<lambda>args.
           returns \<lparr>package_name = name, sysroot = root, build_env = env, build_args = args\<rparr>))))))
     | _ \<Rightarrow> parsing_error))"

definition TARGET_CACHE_DIR :: string where "TARGET_CACHE_DIR = ''target/debug''"

definition TARGET_CACHE_DIR_TMP :: string where "TARGET_CACHE_DIR_TMP = ''target/debug__tmp''"

definition build_cmd :: "Config \<Rightarrow> Command" where
  "build_cmd config = \<lparr>cmd_program = ''cargo'',
     cmd_args = [''build'', ''-Z'', ''unstable-options'', ''--build-plan''] @
       (if example_opt config = None then [] else [''--all-targets'']),
     cmd_env = Map.empty\<rparr>"

definition fetch_build_plan :: "Shell \<Rightarrow> Config \<Rightarrow> (tree, Output) proc" where
  "fetch_build_plan sh config =
     and_then (rename_dir sh ''Couldn't temporarily rename target cache dir'' TARGET_CACHE_DIR TARGET_CACHE_DIR_TMP) (\<lambda>_.
     and_then (\<lambda>t. case cargo sh (build_cmd config) t of
         (None, t') \<Rightarrow> (Panics ''Couldn't start cargo build to extract plan'', t')
       | (Some build_output, t') \<Rightarrow> (Returns build_output, t')) (\<lambda>build_output.
     and_then (if status_success build_output then returns () else parsing_error) (\<lambda>_.
     and_then (remove_dir_all sh TARGET_CACHE_DIR) (\<lambda>_.
     and_then (rename_dir sh ''Couldn't move target cache dir back!'' TARGET_CACHE_DIR_TMP TARGET_CACHE_DIR) (\<lambda>_.
     returns build_output)))))"

section \<open>The subcommand\<close>

definition stainless_env :: "Shell \<Rightarrow> Config \<Rightarrow> (string \<rightharpoonup> string) \<Rightarrow> (string \<rightharpoonup> string)" where
  "stainless_env sh config env =
     (let env = (case export_path_opt config of
          Some export_path \<Rightarrow> env(''RUSTSTAINLESS_EXPORT'' \<mapsto> export_path) | None \<Rightarrow> env) in
      case shell_var sh ''STAINLESS_FLAGS'' of
        Some value \<Rightarrow> if env ''STAINLESS_FLAGS'' = None then env(''STAINLESS_FLAGS'' \<mapsto> value) else env
      | None \<Rightarrow> env)"

definition stainless_cmd :: "Shell \<Rightarrow> Config \<Rightarrow> Build \<Rightarrow> Command" where
  "stainless_cmd sh config build = \<lparr>cmd_program = ''rustc_to_stainless'',
     cmd_args = [''--sysroot'', sysroot build] @ build_args build,
     cmd_env = stainless_env sh config (build_env build)\<rparr>"

definition cargo_stainless :: "Shell \<Rightarrow> Config \<Rightarrow> (tree, unit) proc" where
  "cargo_stainless sh config =
     and_then (fetch_build_plan sh config) (\<lambda>build_output.
     and_then (parse_build sh config (stdout build_output)) (\<lambda>build.
     case rustc_to_stainless sh (stainless_cmd sh config build) of
       None \<Rightarrow> panics ''Couldn't start rustc_to_stainless''
     | Some status \<Rightarrow> exits (case status of Some code \<Rightarrow> code | None \<Rightarrow> 1)))"

section \<open>What the components do\<close>

text \<open>The members of a JSON object have different keys.\<close>

fun distinct_keys :: "Value \<Rightarrow> bool" where
  "distinct_keys (J_Array vs) \<longleftrightarrow> list_all distinct_keys vs"
| "distinct_keys (J_Object members) \<longleftrightarrow>
     distinct (map fst members) \<and> list_all (\<lambda>m. distinct_keys (snd m)) members"
| "distinct_keys _ \<longleftrightarrow> True"

lemma distinct_keys_pointer: "pointer key v = Some w \<Longrightarrow> distinct_keys v \<Longrightarrow> distinct_keys w"
  by (cases v) (auto simp: list_all_iff dest: map_of_SomeD)

lemma string_members:
  "distinct (map fst members) \<Longrightarrow> fold string_member members m k =
     (case map_of members k of Some (J_String s) \<Rightarrow> Some s | _ \<Rightarrow> m k)"
proof (induction members arbitrary: m)
  case (Cons p members)
  obtain k' v where p: "p = (k', v)" by (cases p)
  have "map_of members k' = None"
    using Cons.prems by (simp add: p map_of_eq_None_iff)
  then show ?case
    using Cons by (cases v) (auto simp: p string_member_def split: option.split Value.split)
qed simp

lemma map_filter_eq_filter:
  "List.map_filter passed_on args = [s. J_String s \<leftarrow> args, \<not> starts_with s ''--error-format'' \<and> \<not> starts_with s ''--json'']"
  by (induction args) (auto simp: passed_on_def map_filter_simps split: Value.splits)

lemma value_case_Returns:
  "(case v of J_String s \<Rightarrow> f s | _ \<Rightarrow> parsing_error) t = (Returns y, u) \<longleftrightarrow> (\<exists>s. v = J_String s \<and> f s t = (Returns y, u))"
  "(case v of J_Array vs \<Rightarrow> g vs | _ \<Rightarrow> parsing_error) t = (Returns y, u) \<longleftrightarrow> (\<exists>vs. v = J_Array vs \<and> g vs t = (Returns y, u))"
  "(case v of J_Object ms \<Rightarrow> h ms | _ \<Rightarrow> parsing_error) t = (Returns y, u) \<longleftrightarrow> (\<exists>ms. v = J_Object ms \<and> h ms t = (Returns y, u))"
  by (cases v; simp add: parsing_error_def)+

lemma unpack_invocation_Returns:
  "unpack_invocation config invocations t = (Returns members, t') \<longleftrightarrow> t' = t \<and>
     (case example_opt config of
        None \<Rightarrow> invocations \<noteq> [] \<and> last invocations = J_Object members
      | Some name \<Rightarrow> find (is_example name) invocations = Some (J_Object members))"
  by (cases "example_opt config"; cases "find (is_example (the (example_opt config))) invocations")
    (auto simp: unpack_invocation_def and_then_Returns value_case_Returns, auto simp: parsing_error_def)

lemma parse_build_Returns:
  assumes "parse_build sh config data t = (Returns build, t')"
  obtains plan invocations members env cargo_path args where "t' = t"
    and "parse_json sh data = Inr plan" and "pointer ''invocations'' plan = Some (J_Array invocations)"
    and "case example_opt config of
        None \<Rightarrow> invocations \<noteq> [] \<and> last invocations = J_Object members
      | Some name \<Rightarrow> find (is_example name) invocations = Some (J_Object members)"
    and "map_of members ''program'' = Some (J_String ''rustc'')"
    and "map_of members ''env'' = Some (J_Object env)"
    and "map_of members ''package_name'' = Some (J_String (package_name build))"
    and "build_env build = fold string_member env Map.empty" and "build_env build ''CARGO'' = Some cargo_path"
    and "sysroot build = path_pop (path_pop cargo_path)"
    and "map_of members ''args'' = Some (J_Array args)" and "build_args build = List.map_filter passed_on args"
proof -
  from assms obtain plan where plan: "parse_json sh data = Inr plan"
    by (cases "parse_json sh data") (auto simp: parse_build_def parsing_error_def)
  show thesis
    using assms that plan
    by (auto simp: parse_build_def and_then_Returns value_case_Returns unpack_invocation_Returns get_member_def
      unpack_build_env_def unpack_name_def unpack_build_args_def find_sysroot_def split: if_splits)
qed

lemma distinct_keys_members:
  assumes "parse_json sh data = Inr plan" and "distinct_keys plan"
    and "pointer ''invocations'' plan = Some (J_Array invocations)"
    and "case example_opt config of
        None \<Rightarrow> invocations \<noteq> [] \<and> last invocations = J_Object members
      | Some name \<Rightarrow> find (is_example name) invocations = Some (J_Object members)"
    and "map_of members ''env'' = Some (J_Object env)"
  shows "distinct (map fst env)"
proof -
  have "\<forall>v \<in> set invocations. distinct_keys v"
    using distinct_keys_pointer [OF assms(3,2)] by (simp add: list_all_iff)
  moreover have "J_Object members \<in> set invocations"
  proof (cases "example_opt config")
    case None
    with assms(4) show ?thesis
      using last_in_set [of invocations] by simp
  next
    case (Some name)
    with assms(4) show ?thesis by (auto simp: find_Some_iff)
  qed
  ultimately have "distinct_keys (J_Object members)" ..
  with assms(5) have "distinct_keys (J_Object env)"
    using distinct_keys_pointer [of "''env''" "J_Object members"] by simp
  then show ?thesis by simp
qed

section \<open>Properties\<close>

text \<open>
  C39: The directory \<open>target/debug\<close> is protected from cargo only when cargo succeeds. If it can be moved away and back and
  cargo leaves its copy alone, then after a successful build plan it is what it was,
  whatever cargo wrote there. But when cargo fails, the subcommand exits and leaves
  the old directory under its temporary name; the next run then panics at once without
  changing anything, unless the old directory was empty.
\<close>

theorem target_directory_restored_or_lost:
  assumes "t TARGET_CACHE_DIR = Some d" and "t TARGET_CACHE_DIR_TMP \<in> {None, Some Map.empty}"
    and "\<And>src dst. \<not> rename_refused sh src dst" and "\<not> remove_refused sh TARGET_CACHE_DIR"
    and "cargo sh (build_cmd config) (t(TARGET_CACHE_DIR := None, TARGET_CACHE_DIR_TMP \<mapsto> d)) = (Some plan, u)"
    and "u TARGET_CACHE_DIR_TMP = Some d"
  shows "(status_success plan \<longrightarrow>
      fetch_build_plan sh config t = (Returns plan, u(TARGET_CACHE_DIR_TMP := None, TARGET_CACHE_DIR \<mapsto> d))) \<and>
    (\<not> status_success plan \<longrightarrow> fetch_build_plan sh config t = (Exits 1, u) \<and>
      (d \<noteq> Map.empty \<longrightarrow> (\<exists>msg. cargo_stainless sh config u = (Panics msg, u))))"
proof (intro conjI impI)
  have names: "TARGET_CACHE_DIR \<noteq> TARGET_CACHE_DIR_TMP"
    by (simp add: TARGET_CACHE_DIR_def TARGET_CACHE_DIR_TMP_def)
  note steps = fetch_build_plan_def rename_dir_def remove_dir_all_def parsing_error_def and_then_def returns_def exits_def
  show "fetch_build_plan sh config t = (Returns plan, u(TARGET_CACHE_DIR_TMP := None, TARGET_CACHE_DIR \<mapsto> d))"
    if "status_success plan"
    using assms that names by (auto simp: steps fun_upd_twist)
  show "fetch_build_plan sh config t = (Exits 1, u)" if "\<not> status_success plan"
    using assms that names by (auto simp: steps)
  show "\<exists>msg. cargo_stainless sh config u = (Panics msg, u)" if "d \<noteq> Map.empty"
    using assms(6) that by (auto simp: cargo_stainless_def steps split: option.splits)
qed

text \<open>
  C40: The command that verifies the crate is the one invocation of the build plan that
  was asked for: the last one, or the first one whose target is an example and whose
  arguments name it. It has the invocation's string arguments in their order, without
  those that choose an output format, after the sysroot that is two levels above cargo;
  and its environment is the invocation's, with the export path and, unless the
  invocation has its own, the flags of the caller.
\<close>

theorem the_chosen_invocation_is_passed_on:
  assumes "parse_build sh config data t = (Returns build, t')"
    and "\<And>plan. parse_json sh data = Inr plan \<Longrightarrow> distinct_keys plan"
  shows "\<exists>plan invocations members env cargo_path args. t' = t \<and> parse_json sh data = Inr plan \<and>
     pointer ''invocations'' plan = Some (J_Array invocations) \<and>
     (case example_opt config of
        None \<Rightarrow> invocations \<noteq> [] \<and> last invocations = J_Object members
      | Some name \<Rightarrow> find (is_example name) invocations = Some (J_Object members)) \<and>
     map_of members ''program'' = Some (J_String ''rustc'') \<and>
     map_of members ''env'' = Some (J_Object env) \<and> map_of members ''args'' = Some (J_Array args) \<and>
     map_of env ''CARGO'' = Some (J_String cargo_path) \<and>
     cmd_args (stainless_cmd sh config build) = [''--sysroot'', path_pop (path_pop cargo_path)] @
       [s. J_String s \<leftarrow> args, \<not> starts_with s ''--error-format'' \<and> \<not> starts_with s ''--json''] \<and>
     (\<forall>key. cmd_env (stainless_cmd sh config build) key =
       (if key = ''RUSTSTAINLESS_EXPORT'' \<and> export_path_opt config \<noteq> None then export_path_opt config
        else case map_of env key of
          Some (J_String s) \<Rightarrow> Some s
        | _ \<Rightarrow> if key = ''STAINLESS_FLAGS'' then shell_var sh ''STAINLESS_FLAGS'' else None))"
proof -
  from parse_build_Returns [OF assms(1)] obtain plan invocations members env cargo_path args where facts: "t' = t"
    "parse_json sh data = Inr plan" "pointer ''invocations'' plan = Some (J_Array invocations)"
    "case example_opt config of
        None \<Rightarrow> invocations \<noteq> [] \<and> last invocations = J_Object members
      | Some name \<Rightarrow> find (is_example name) invocations = Some (J_Object members)"
    "map_of members ''program'' = Some (J_String ''rustc'')" "map_of members ''env'' = Some (J_Object env)"
    and build: "build_env build = fold string_member env Map.empty" "build_env build ''CARGO'' = Some cargo_path"
    "sysroot build = path_pop (path_pop cargo_path)" "build_args build = List.map_filter passed_on args"
    and args: "map_of members ''args'' = Some (J_Array args)" .
  have env: "build_env build key = (case map_of env key of Some (J_String s) \<Rightarrow> Some s | _ \<Rightarrow> None)" for key
    using string_members [OF distinct_keys_members [OF facts(2) assms(2) [OF facts(2)] facts(3,4,6)]] by (simp add: build(1))
  have cargo: "map_of env ''CARGO'' = Some (J_String cargo_path)"
    using build(2) by (auto simp: env split: option.splits Value.splits)
  have cmd: "cmd_args (stainless_cmd sh config build) = [''--sysroot'', path_pop (path_pop cargo_path)] @
      [s. J_String s \<leftarrow> args, \<not> starts_with s ''--error-format'' \<and> \<not> starts_with s ''--json'']"
    by (simp add: stainless_cmd_def build(3,4) map_filter_eq_filter)
  have "cmd_env (stainless_cmd sh config build) key =
      (if key = ''RUSTSTAINLESS_EXPORT'' \<and> export_path_opt config \<noteq> None then export_path_opt config
       else case map_of env key of
          Some (J_String s) \<Rightarrow> Some s
        | _ \<Rightarrow> if key = ''STAINLESS_FLAGS'' then shell_var sh ''STAINLESS_FLAGS'' else None)" for key
    by (auto simp: stainless_cmd_def stainless_env_def Let_def env split: option.splits Value.splits)
  then show ?thesis
    by (intro exI conjI) (rule facts args cargo cmd allI | assumption)+
qed

section \<open>A sample build plan\<close>

definition sample_plan :: Value where
  "sample_plan = J_Object [(''invocations'', J_Array [J_Object [(''program'', J_String ''rustc''),
     (''env'', J_Object [(''CARGO'', J_String ''/rust/bin/cargo'')]), (''package_name'', J_String ''demo''),
     (''args'', J_Array [J_String ''--json=artifacts'', J_String ''lib.rs''])]])]"

definition sample_config :: Config where
  "sample_config = \<lparr>debug = False, example_opt = None, export_path_opt = Some ''out''\<rparr>"

text \<open>A cargo that fails, and a parser that knows one build plan.\<close>

definition sample_shell :: Shell where
  "sample_shell = \<lparr>parse_json = (\<lambda>_. Inr sample_plan),
     cargo = (\<lambda>_ t. (Some \<lparr>status_success = False, stdout = []\<rparr>, t)), rustc_to_stainless = (\<lambda>_. Some (Some 0)),
     shell_var = (\<lambda>_. None), rename_refused = (\<lambda>_ _. False), remove_refused = (\<lambda>_. False)\<rparr>"

lemma target_directory_restored_or_lost_witness:
  "\<exists>u. fetch_build_plan sample_shell sample_config [TARGET_CACHE_DIR \<mapsto> [''demo'' \<mapsto> [1]]] = (Exits 1, u) \<and>
     (\<exists>msg. cargo_stainless sample_shell sample_config u = (Panics msg, u))"
proof -
  let ?d = "[''demo'' \<mapsto> [1 :: u8]]"
  let ?u = "[TARGET_CACHE_DIR_TMP \<mapsto> ?d]"
  have names: "TARGET_CACHE_DIR \<noteq> TARGET_CACHE_DIR_TMP"
    by (simp add: TARGET_CACHE_DIR_def TARGET_CACHE_DIR_TMP_def)
  have moved: "[TARGET_CACHE_DIR \<mapsto> ?d](TARGET_CACHE_DIR := None, TARGET_CACHE_DIR_TMP \<mapsto> ?d) = ?u"
    using names by (auto simp: fun_eq_iff)
  have "(\<not> status_success \<lparr>status_success = False, stdout = []\<rparr> \<longrightarrow>
      fetch_build_plan sample_shell sample_config [TARGET_CACHE_DIR \<mapsto> ?d] = (Exits 1, ?u) \<and>
      (?d \<noteq> Map.empty \<longrightarrow> (\<exists>msg. cargo_stainless sample_shell sample_config ?u = (Panics msg, ?u))))"
    by (rule conjunct2 [OF target_directory_restored_or_lost]) (use names moved in \<open>simp_all add: sample_shell_def\<close>)
  then show ?thesis by auto
qed

lemma the_chosen_invocation_is_passed_on_witness:
  "\<exists>build. parse_build sample_shell sample_config [] Map.empty = (Returns build, Map.empty) \<and>
     cmd_args (stainless_cmd sample_shell sample_config build) = [''--sysroot'', ''/rust'', ''lib.rs'']"
proof -
  obtain build where build: "parse_build sample_shell sample_config [] Map.empty = (Returns build, Map.empty)"
    by (simp add: parse_build_def sample_shell_def sample_plan_def sample_config_def unpack_invocation_def get_member_def
        expect_def unpack_build_env_def unpack_name_def unpack_build_args_def find_sysroot_def string_member_def
        passed_on_def map_filter_simps)
  have "distinct_keys plan" if "parse_json sample_shell [] = Inr plan" for plan
    using that by (auto simp: sample_shell_def sample_plan_def)
  from the_chosen_invocation_is_passed_on [OF build this] build show ?thesis
    by (auto simp: sample_shell_def sample_plan_def sample_config_def path_pop_def)
qed

end
