(* ===== verification/Spec_Discovery.thy ===== *)
theory Spec_Discovery
  imports Krate Krate_Results
begin

text \<open>
  The discovery of specifications, from the macros of \<open>libstainless_macros\<close> to the item
  visitor of \<open>krate.rs\<close>: the specs written on a function are the ones that the extraction
  finds for it, whatever the iteration order of the hash map of an \<open>impl\<close> block.
\<close>

section \<open>The specs of a function, from the items\<close>

text \<open>
  What an item of an \<open>impl\<close> block specifies, if it is a spec function: the identifier of
  the method, and the spec. The lookup of the method compares identifiers.
\<close>

definition spec_of_ref :: "(string \<Rightarrow> bool) \<Rightarrow> ImplItemRef \<Rightarrow> (Ident \<times> SpecType \<times> DefId) option" where
  "spec_of_ref num it =
     (if ii_is_fn it \<and> ii_from_expansion it then
        map_option (\<lambda>(typ, name). (Ident_from_str name, typ, ii_def_id it))
          (parse_spec_type_fn_name num (id_name (ii_ident it)))
      else None)"

definition impl_specs :: "(string \<Rightarrow> bool) \<Rightarrow> ImplItemRef list \<Rightarrow> DefId \<Rightarrow> (SpecType \<times> DefId) list" where
  "impl_specs num refs d =
     (let names = map ii_ident (filter (\<lambda>it. ii_is_fn it \<and> ii_def_id it = d) refs) in
      map snd (filter (\<lambda>(name, spec). name \<in> set names) (List.map_filter (spec_of_ref num) refs)))"

definition item_specs :: "Env \<Rightarrow> ItemLike \<Rightarrow> DefId \<Rightarrow> (SpecType \<times> DefId) list" where
  "item_specs env item_like d =
     (case item_like of
        An_item item \<Rightarrow>
          if should_ignore item then []
          else
            (case item_kind item of
               ItFn \<Rightarrow>
                 (case parse_spec_type_fn_name (numeric env) (id_name (item_ident item)) of
                    Some (typ, _) \<Rightarrow>
                      if item_from_expansion item \<and> parent_of (tcx env) (item_def_id item) = Some d
                      then [(typ, item_def_id item)] else []
                  | None \<Rightarrow> [])
             | ItImpl refs \<Rightarrow> impl_specs (numeric env) refs d
             | _ \<Rightarrow> [])
      | _ \<Rightarrow> [])"

text \<open>The functions of an \<open>impl\<close> block have different identifiers, as Rust demands.\<close>

definition distinct_fns :: "ImplItemRef list \<Rightarrow> bool" where
  "distinct_fns refs \<longleftrightarrow> distinct (map ii_ident (filter ii_is_fn refs))"

definition distinct_items :: "ItemLike list \<Rightarrow> bool" where
  "distinct_items items \<longleftrightarrow>
     (\<forall>item refs. An_item item \<in> set items \<longrightarrow> item_kind item = ItImpl refs \<longrightarrow> distinct_fns refs)"

section \<open>Pushing specs\<close>

abbreviation the_spec :: "FnItem \<Rightarrow> (SpecType \<times> DefId) list" where
  "the_spec fi \<equiv> (case fi_spec_type fi of None \<Rightarrow> [] | Some t \<Rightarrow> [(t, fi_def_id fi)])"

lemma map_filter_append [simp]: "List.map_filter f (xs @ ys) = List.map_filter f xs @ List.map_filter f ys"
  by (simp add: List.map_filter_def)

lemma fn_specs_push:
  "fn_specs (push_spec e fi iv) d = fn_specs iv d @ (if d = e then the_spec fi else [])"
  by (auto simp: fn_specs_def push_spec_def map_filter_simps Let_def split: option.split)

lemma fn_specs_more [simp]:
  "fn_specs (iv\<lparr>iv_functions := fs\<rparr>) d = fn_specs iv d" "fn_specs (iv\<lparr>iv_adts := ds\<rparr>) d = fn_specs iv d"
  by (simp_all add: fn_specs_def)

lemma fn_specs_pushes:
  "fn_specs (fold (\<lambda>fi iv. case target fi of Some fn_item \<Rightarrow> push_spec (fi_def_id fn_item) fi iv | None \<Rightarrow> iv) fis iv) d =
     fn_specs iv d @ concat (map the_spec
       (filter (\<lambda>fi. \<exists>fn_item. target fi = Some fn_item \<and> fi_def_id fn_item = d) fis))"
  by (induction fis arbitrary: iv) (auto simp: fn_specs_push split: option.split)

section \<open>The functions of an impl block\<close>

lemma FnItem_new_simps [simp]:
  "fi_def_id (FnItem_new num d i b) = d"
  "fi_from_expansion (FnItem_new num d i b) = b"
  "fi_spec_type (FnItem_new num d i b) = map_option fst (parse_spec_type_fn_name num (id_name i))"
  "fi_spec_fn_name (FnItem_new num d i b) = map_option (Ident_from_str \<circ> snd) (parse_spec_type_fn_name num (id_name i))"
  by (auto simp: FnItem_new_def split: option.split)

abbreviation fn_of_ref :: "(string \<Rightarrow> bool) \<Rightarrow> ImplItemRef \<Rightarrow> FnItem" where
  "fn_of_ref num it \<equiv> FnItem_new num (ii_def_id it) (ii_ident it) (ii_from_expansion it)"

lemma update_new: "k \<notin> fst ` set m \<Longrightarrow> AList.update k v m = m @ [(k, v)]"
  by (induction m) auto

lemma fns_by_identifier_distinct:
  assumes "distinct (map ii_ident (filter ii_is_fn refs))"
  shows "fns_by_identifier num refs = map (\<lambda>it. (ii_ident it, fn_of_ref num it)) (filter ii_is_fn refs)"
proof -
  have "fold (\<lambda>it. AList.update (ii_ident it) (fn_of_ref num it)) fs m =
      m @ map (\<lambda>it. (ii_ident it, fn_of_ref num it)) fs"
    if "distinct (map ii_ident fs)" and "ii_ident ` set fs \<inter> fst ` set m = {}" for fs m
    using that by (induction fs arbitrary: m) (auto simp: update_new)
  with assms show ?thesis
    by (simp add: fns_by_identifier_def)
qed

lemma impl_target:
  assumes "distinct_fns refs"
  shows "(\<exists>fn_item. map_of (fns_by_identifier num refs) i = Some fn_item \<and> fi_def_id fn_item = d) \<longleftrightarrow>
    i \<in> ii_ident ` {it \<in> set refs. ii_is_fn it \<and> ii_def_id it = d}"
proof -
  let ?m = "map (\<lambda>it. (ii_ident it, fn_of_ref num it)) (filter ii_is_fn refs)"
  have "map fst ?m = map ii_ident (filter ii_is_fn refs)"
    by simp
  with assms have dist: "distinct (map fst ?m)"
    by (simp only: distinct_fns_def)
  have eq: "fns_by_identifier num refs = ?m"
    using assms by (intro fns_by_identifier_distinct) (simp add: distinct_fns_def)
  show ?thesis
    unfolding eq map_of_eq_Some_iff [OF dist] by (auto simp: image_iff)
qed

lemma the_specs_of_refs:
  "concat (map the_spec (filter (\<lambda>fi. is_spec_fn fi \<and> P (fi_spec_fn_name fi)) (map (fn_of_ref num) (filter ii_is_fn refs)))) =
    map snd (filter (\<lambda>(name, spec). P (Some name)) (List.map_filter (spec_of_ref num) refs))"
proof (induction refs)
  case (Cons it refs)
  then show ?case
    by (cases "parse_spec_type_fn_name num (id_name (ii_ident it))")
      (auto simp: map_filter_simps spec_of_ref_def is_spec_fn_def)
qed (simp add: map_filter_simps)

lemma mset_concat_map: "mset (concat (map f xs)) = (\<Sum>x \<in># mset xs. mset (f x))"
  by (induction xs) auto

lemma fn_specs_visit_impl:
  assumes "distinct_fns refs" and "\<And>xs. mset (values_order ke xs) = mset xs"
  shows "mset (fn_specs (visit_impl ke refs iv) d) =
    mset (fn_specs iv d) + mset (impl_specs (numeric (k_env ke)) refs d)"
proof -
  let ?num = "numeric (k_env ke)"
  let ?fns = "map snd (fns_by_identifier ?num refs)"
  let ?P = "\<lambda>name. \<exists>fn_item. Option.bind name (map_of (fns_by_identifier ?num refs)) = Some fn_item \<and> fi_def_id fn_item = d"
  let ?names = "ii_ident ` {it \<in> set refs. ii_is_fn it \<and> ii_def_id it = d}"
  have fns: "?fns = map (fn_of_ref ?num) (filter ii_is_fn refs)"
    using assms(1) by (simp add: fns_by_identifier_distinct distinct_fns_def comp_def)
  have P: "?P (Some name) \<longleftrightarrow> name \<in> ?names" for name
    using impl_target [OF assms(1)] by simp
  have "fn_specs (visit_impl ke refs iv) d =
      fn_specs iv d @ concat (map the_spec (filter (\<lambda>fi. ?P (fi_spec_fn_name fi)) (filter is_spec_fn (values_order ke ?fns))))"
    by (simp add: visit_impl_def Let_def partition_filter_conv fn_specs_pushes)
  then have "mset (fn_specs (visit_impl ke refs iv) d) = mset (fn_specs iv d) +
      mset (concat (map the_spec (filter (\<lambda>fi. is_spec_fn fi \<and> ?P (fi_spec_fn_name fi)) ?fns)))"
    by (simp add: mset_concat_map assms(2) conj_commute)
  also have "concat (map the_spec (filter (\<lambda>fi. is_spec_fn fi \<and> ?P (fi_spec_fn_name fi)) ?fns)) =
      impl_specs ?num refs d"
    unfolding fns the_specs_of_refs [where P = ?P] P by (simp add: impl_specs_def Let_def Collect_conj_eq)
  finally show ?thesis .
qed

section \<open>The items of a crate\<close>

lemma fn_specs_visit_fn:
  "fn_specs (visit_fn env fi iv) d =
    fn_specs iv d @ (if is_spec_fn fi \<and> parent_of (tcx env) (fi_def_id fi) = Some d then the_spec fi else [])"
  by (auto simp: visit_fn_def fn_specs_push split: option.split)

lemma fn_specs_visit_item:
  assumes "visit_item ke item iv s = Inr (iv', t)" and "distinct_items [An_item item]"
    and "\<And>xs. mset (values_order ke xs) = mset xs"
  shows "mset (fn_specs iv' d) = mset (fn_specs iv d) + mset (item_specs (k_env ke) (An_item item) d)"
    and "item_specs (k_env ke) (An_item item) d = [] \<or> item_kind item = ItFn \<Longrightarrow>
      fn_specs iv' d = fn_specs iv d @ item_specs (k_env ke) (An_item item) d"
proof -
  have impl: "mset (fn_specs (visit_impl ke refs iv) d) =
      mset (fn_specs iv d) + mset (impl_specs (numeric (k_env ke)) refs d)" if "item_kind item = ItImpl refs" for refs
    using that assms(2) by (intro fn_specs_visit_impl assms(3)) (auto simp: distinct_items_def)
  show mset: "mset (fn_specs iv' d) = mset (fn_specs iv d) + mset (item_specs (k_env ke) (An_item item) d)"
    using assms(1) impl
    by (auto simp: visit_item_def item_specs_def bind_Inr_iff fn_specs_visit_fn is_spec_fn_def
        split: if_splits ItemKind.splits option.splits)
  show "fn_specs iv' d = fn_specs iv d @ item_specs (k_env ke) (An_item item) d"
    if "item_specs (k_env ke) (An_item item) d = [] \<or> item_kind item = ItFn"
  proof (cases "item_kind item")
    case (ItImpl refs)
    have prefix: "\<exists>ys. fn_specs (visit_impl ke refs iv) d = fn_specs iv d @ ys"
      by (simp add: visit_impl_def Let_def partition_filter_conv fn_specs_pushes)
    with ItImpl assms(1) that mset show ?thesis
      by (auto simp: visit_item_def split: if_splits)
  qed (use assms(1) that in \<open>auto simp: visit_item_def item_specs_def bind_Inr_iff fn_specs_visit_fn is_spec_fn_def
        split: if_splits option.splits\<close>)
qed

abbreviation crate_specs :: "Env \<Rightarrow> ItemLike list \<Rightarrow> DefId \<Rightarrow> (SpecType \<times> DefId) list" where
  "crate_specs env items d \<equiv> concat (map (\<lambda>x. item_specs env x d) items)"

lemma fn_specs_visit_all:
  "visit_all ke items iv s = Inr (iv', t) \<Longrightarrow> distinct_items items \<Longrightarrow>
    (\<And>xs. mset (values_order ke xs) = mset xs) \<Longrightarrow>
    mset (fn_specs iv' d) = mset (fn_specs iv d) + mset (crate_specs (k_env ke) items d)"
proof (induction ke items iv arbitrary: s rule: visit_all.induct)
  case (2 ke item rest iv)
  then obtain iv1 u where item: "visit_item ke item iv s = Inr (iv1, u)" and rest: "visit_all ke rest iv1 u = Inr (iv', t)"
    by (auto simp: bind_Inr_iff)
  have "mset (fn_specs iv1 d) = mset (fn_specs iv d) + mset (item_specs (k_env ke) (An_item item) d)"
    using 2(3,4) by (intro fn_specs_visit_item(1) [OF item]) (auto simp: distinct_items_def)
  moreover have "mset (fn_specs iv' d) = mset (fn_specs iv1 d) + mset (crate_specs (k_env ke) rest d)"
    using 2(3,4) by (intro 2(1) [OF rest]) (auto simp: distinct_items_def)
  ultimately show ?case
    by simp
qed (auto simp: visit_trait_item_def visit_impl_item_def item_specs_def distinct_items_def bind_Inr_iff split: if_splits)

lemma fn_specs_visit_all_fns:
  "visit_all ke items iv s = Inr (iv', t) \<Longrightarrow> distinct_items items \<Longrightarrow>
    (\<And>xs. mset (values_order ke xs) = mset xs) \<Longrightarrow>
    (\<And>item. An_item item \<in> set items \<Longrightarrow> item_specs (k_env ke) (An_item item) d = [] \<or> item_kind item = ItFn) \<Longrightarrow>
    fn_specs iv' d = fn_specs iv d @ crate_specs (k_env ke) items d"
proof (induction ke items iv arbitrary: s rule: visit_all.induct)
  case (2 ke item rest iv)
  then obtain iv1 u where item: "visit_item ke item iv s = Inr (iv1, u)" and rest: "visit_all ke rest iv1 u = Inr (iv', t)"
    by (auto simp: bind_Inr_iff)
  have "fn_specs iv1 d = fn_specs iv d @ item_specs (k_env ke) (An_item item) d"
    using 2(3,4,5) by (intro fn_specs_visit_item(2) [OF item]) (auto simp: distinct_items_def)
  moreover have "fn_specs iv' d = fn_specs iv1 d @ crate_specs (k_env ke) rest d"
    using 2(3,4,5) by (intro 2(1) [OF rest]) (auto simp: distinct_items_def)
  ultimately show ?case
    by simp
qed (auto simp: visit_trait_item_def visit_impl_item_def item_specs_def distinct_items_def bind_Inr_iff split: if_splits)

lemma concat_map_filter_nonempty: "concat (map f (filter (\<lambda>x. f x \<noteq> []) xs)) = concat (map f xs)"
  by (induction xs) auto

section \<open>The functions that the macros generate\<close>

text \<open>
  The compiler's view of a generated spec function: an item from an expansion with the
  generated identifier, in the \<open>impl\<close> block of a method or nested in a function.
\<close>

definition generated_ref :: "(string \<Rightarrow> DefId) \<Rightarrow> ItemFn \<Rightarrow> ImplItemRef" where
  "generated_ref def_of f =
     \<lparr>ii_ident = Ident_from_str (fn_ident f), ii_is_fn = True, ii_def_id = def_of (fn_ident f), ii_from_expansion = True\<rparr>"

definition generated_item :: "(string \<Rightarrow> DefId) \<Rightarrow> ItemFn \<Rightarrow> ItemLike" where
  "generated_item def_of f = An_item
     \<lparr>item_ident = Ident_from_str (fn_ident f), item_kind = ItFn, item_def_id = def_of (fn_ident f),
      item_from_expansion = True\<rparr>"

text \<open>The specs as they are written on a function, with the definitions generated for them.\<close>

definition written_specs :: "(string \<Rightarrow> DefId) \<Rightarrow> string \<Rightarrow> Spec list \<Rightarrow> (SpecType \<times> DefId) list" where
  "written_specs def_of name specs =
     map (\<lambda>(i, s). (spec_typ s, def_of (spec_ident (spec_typ s) i name))) (enumerate 0 specs)"

lemma map_filter_of_map: "List.map_filter f (map g xs) = List.map_filter (\<lambda>x. f (g x)) xs"
  by (induction xs) (simp_all add: map_filter_simps split: option.split)

lemma map_filter_Some: "List.map_filter (\<lambda>x. Some (f x)) xs = map f xs"
  by (simp add: List.map_filter_def comp_def)

lemma spec_of_generated:
  "spec_of_ref num (generated_ref def_of f) =
    map_option (\<lambda>(typ, name). (Ident_from_str name, typ, def_of (fn_ident f))) (parse_spec_type_fn_name num (fn_ident f))"
  by (simp add: spec_of_ref_def generated_ref_def Ident_from_str_def)

context numeric_strings
begin

lemma generated_specs:
  assumes "map fn_ident gen = map (\<lambda>(i, s). spec_ident (spec_typ s) i name) (enumerate 0 specs)"
  shows "List.map_filter (spec_of_ref num) (map (generated_ref def_of) gen) =
      map (Pair (Ident_from_str name)) (written_specs def_of name specs)"
    and "map (\<lambda>n. map_option (\<lambda>(typ, _). (typ, def_of n)) (parse_spec_type_fn_name num n)) (map fn_ident gen) =
      map Some (written_specs def_of name specs)"
proof -
  have "List.map_filter (spec_of_ref num) (map (generated_ref def_of) gen) =
      List.map_filter (\<lambda>n. map_option (\<lambda>(typ, name). (Ident_from_str name, typ, def_of n)) (parse_spec_type_fn_name num n))
        (map fn_ident gen)"
    by (simp add: map_filter_of_map spec_of_generated)
  then show "List.map_filter (spec_of_ref num) (map (generated_ref def_of) gen) =
      map (Pair (Ident_from_str name)) (written_specs def_of name specs)"
    by (simp add: assms map_filter_of_map map_filter_Some case_prod_beta parse_spec_ident written_specs_def)
  show "map (\<lambda>n. map_option (\<lambda>(typ, _). (typ, def_of n)) (parse_spec_type_fn_name num n)) (map fn_ident gen) =
      map Some (written_specs def_of name specs)"
    unfolding assms by (simp add: case_prod_beta parse_spec_ident written_specs_def)
qed

end

lemma with_stmts_inject: "with_stmts f xs = with_stmts f ys \<longleftrightarrow> xs = ys"
  by (cases f) simp

lemma generated_functions:
  assumes "generate_fn_with_spec item_fn specs = Inr fns"
    and "fns = gen @ [item_fn] \<and> has_self_param item_fn \<or>
      fns = [with_stmts item_fn (map Item_Fn gen @ fn_stmts item_fn)] \<and> \<not> has_self_param item_fn"
  shows "map fn_ident gen = map (\<lambda>(i, s). spec_ident (spec_typ s) i (fn_ident item_fn)) (enumerate 0 specs)"
proof -
  from assms(1) obtain made where made: "res_map (make_spec_fn item_fn) (enumerate 0 specs) = Inr made"
    and "fns = (if has_self_param item_fn then made @ [item_fn]
      else [with_stmts item_fn (map Item_Fn made @ fn_stmts item_fn)])"
    unfolding generate_fn_with_spec_def res_bind_Inr_iff by (metis Inr_inject)
  moreover have "map Item_Fn gen = map Item_Fn made \<Longrightarrow> gen = made"
    by (rule map_injective [of Item_Fn]) (simp_all add: inj_def)
  ultimately have "gen = made"
    using assms(2) by (simp split: if_splits add: with_stmts_inject)
  with generated_idents [OF made] show ?thesis by simp
qed

text \<open>A method, written outside every macro.\<close>

definition method_ref :: "DefId \<Rightarrow> ItemFn \<Rightarrow> ImplItemRef" where
  "method_ref d f = \<lparr>ii_ident = Ident_from_str (fn_ident f), ii_is_fn = True, ii_def_id = d, ii_from_expansion = False\<rparr>"

lemma expanded_method_specs:
  assumes "numeric_strings num"
    and "map fn_ident gen = map (\<lambda>(i, s). spec_ident (spec_typ s) i (fn_ident item_fn)) (enumerate 0 specs)"
    and "d \<notin> ii_def_id ` set (others @ map (generated_ref def_of) gen)"
    and "\<forall>r \<in> set others. \<forall>spec. spec_of_ref num r \<noteq> Some (Ident_from_str (fn_ident item_fn), spec)"
  shows "impl_specs num (others @ map (generated_ref def_of) gen @ [method_ref d item_fn]) d =
    written_specs def_of (fn_ident item_fn) specs"
proof -
  have names: "filter (\<lambda>r. ii_is_fn r \<and> ii_def_id r = d) (others @ map (generated_ref def_of) gen @ [method_ref d item_fn]) =
      [method_ref d item_fn]"
    using assms(3) by (auto simp: method_ref_def filter_empty_conv)
  have "filter (\<lambda>(name, spec). name = Ident_from_str (fn_ident item_fn)) (List.map_filter (spec_of_ref num) others) = []"
    using assms(4) by (auto simp: filter_empty_conv List.map_filter_def)
  moreover have "filter (\<lambda>(name, spec). name = i) (map (Pair i) xs) = map (Pair i) xs" for i :: Ident and xs :: "(SpecType \<times> DefId) list"
    by (induction xs) auto
  ultimately show ?thesis
    unfolding impl_specs_def Let_def names
    by (simp add: numeric_strings.generated_specs(1) [OF assms(1,2)] map_filter_simps spec_of_ref_def method_ref_def comp_def)
qed

lemma generated_items_specs:
  assumes "numeric_strings (numeric env)"
    and "map fn_ident gen = map (\<lambda>(i, s). spec_ident (spec_typ s) i name) (enumerate 0 specs)"
    and "\<forall>f \<in> set gen. parent_of (tcx env) (def_of (fn_ident f)) = Some d"
  shows "crate_specs env (map (generated_item def_of) gen) d = written_specs def_of name specs"
proof -
  let ?spec = "\<lambda>n. map_option (\<lambda>(typ, _). (typ, def_of n)) (parse_spec_type_fn_name (numeric env) n)"
  note gen = numeric_strings.generated_specs(2) [OF assms(1,2), of def_of]
  have "map (\<lambda>f. item_specs env (generated_item def_of f) d) gen = map (\<lambda>f. case ?spec (fn_ident f) of Some x \<Rightarrow> [x] | None \<Rightarrow> []) gen"
    using assms(3) by (auto simp: item_specs_def generated_item_def should_ignore_def Ident_from_str_def split: option.split)
  also have "\<dots> = map (\<lambda>x. case x of Some x \<Rightarrow> [x] | None \<Rightarrow> []) (map ?spec (map fn_ident gen))"
    by simp
  also have "\<dots> = map (\<lambda>x. [x]) (written_specs def_of name specs)"
    unfolding gen by simp
  finally show ?thesis
    by (simp add: comp_def)
qed

text \<open>
  A method whose identifier comes from a macro expansion has no specs: the identifier built
  from the name of a spec function has the empty syntax context.
\<close>

lemma methods_from_macros_lose_their_specs:
  assumes "\<forall>r \<in> set refs. ii_is_fn r \<longrightarrow> ii_def_id r = d \<longrightarrow> id_ctxt (ii_ident r) \<noteq> 0"
  shows "impl_specs num refs d = []"
proof -
  have "id_ctxt i = 0" if "spec_of_ref num r = Some (i, spec)" for r i spec
    using that by (auto simp: spec_of_ref_def Ident_from_str_def split: if_splits)
  with assms show ?thesis
    by (fastforce simp: impl_specs_def Let_def filter_empty_conv List.map_filter_def)
qed

section \<open>Sample items\<close>

text \<open>
  \<open>#[pre(true)] #[post(ret)] fn get(&self) -> bool { x }\<close> in an \<open>impl\<close> block, and the same
  specs on a function \<open>fn get(x: bool) -> bool\<close>.
\<close>

definition sample_method :: ItemFn where
  "sample_method = ItemFn [] [] ''get'' [] [Receiver [''&'', ''self'']] False (Some [''bool'']) [Stmt_Expr [''x'']]"

definition sample_function :: ItemFn where
  "sample_function = ItemFn [] [] ''get'' [] [Typed [''x'', '':'', ''bool'']] False (Some [''bool'']) [Stmt_Expr [''x'']]"

definition sample_specs :: "Spec list" where
  "sample_specs = [\<lparr>spec_typ = Pre, spec_expr = [''true'']\<rparr>, \<lparr>spec_typ = Post, spec_expr = [''ret'']\<rparr>]"

definition sample_defs_of :: "string \<Rightarrow> DefId" where
  "sample_defs_of n = (if n = ''__pre_1_get'' then local_def 11 else local_def 12)"

lemma sample_idents:
  "map (\<lambda>(i, s). spec_ident (spec_typ s) i ''get'') (enumerate 0 sample_specs) = [''__pre_1_get'', ''__post_2_get'']"
  by code_simp

lemma sample_names: "fn_ident sample_method = ''get''" "fn_ident sample_function = ''get''"
  "has_self_param sample_method" "\<not> has_self_param sample_function"
  by (simp_all add: sample_method_def sample_function_def has_self_param_def)

lemma sample_method_expands:
  obtains gen where "generate_fn_with_spec sample_method sample_specs = Inr (gen @ [sample_method])"
    and "map fn_ident gen = [''__pre_1_get'', ''__post_2_get'']"
proof -
  have "\<exists>fns. generate_fn_with_spec sample_method sample_specs = Inr fns"
    unfolding generate_Inr_iff by (simp add: takes_ret_def sample_method_def)
  then obtain gen where gen: "generate_fn_with_spec sample_method sample_specs = Inr (gen @ [sample_method])"
    by (auto simp: generate_fn_with_spec_def res_bind_Inr_iff sample_names)
  moreover have "map fn_ident gen = [''__pre_1_get'', ''__post_2_get'']"
    using generated_functions [OF gen, of gen] by (simp add: sample_names sample_idents)
  ultimately show thesis
    by (rule that)
qed

lemma sample_function_expands:
  obtains gen where "generate_fn_with_spec sample_function sample_specs =
      Inr [with_stmts sample_function (map Item_Fn gen @ fn_stmts sample_function)]"
    and "map fn_ident gen = [''__pre_1_get'', ''__post_2_get'']"
proof -
  have "\<exists>fns. generate_fn_with_spec sample_function sample_specs = Inr fns"
    unfolding generate_Inr_iff by (simp add: takes_ret_def sample_function_def)
  then obtain gen where gen: "generate_fn_with_spec sample_function sample_specs =
      Inr [with_stmts sample_function (map Item_Fn gen @ fn_stmts sample_function)]"
    by (auto simp: generate_fn_with_spec_def res_bind_Inr_iff sample_names)
  moreover have "map fn_ident gen = [''__pre_1_get'', ''__post_2_get'']"
    using generated_functions [OF gen, of gen] by (simp add: sample_names sample_idents)
  ultimately show thesis
    by (rule that)
qed

definition spec_krate :: KrateEnv where
  "spec_krate = \<lparr>k_env = sample_env\<lparr>tcx := sample_tcx\<lparr>parent_of := (\<lambda>_. Some (local_def 10))\<rparr>\<rparr>, k_fuel = 1,
     k_items = [], k_body = (\<lambda>_. None), k_output = (\<lambda>_. None), values_order = rev, refs_order = (\<lambda>_. [])\<rparr>"

definition impl_item :: "ImplItemRef list \<Rightarrow> HirItem" where
  "impl_item refs = \<lparr>item_ident = Ident_from_str [], item_kind = ItImpl refs, item_def_id = local_def 9,
     item_from_expansion = False\<rparr>"

lemma sample_refs:
  assumes "map fn_ident gen = [''__pre_1_get'', ''__post_2_get'']"
  shows "distinct_items [An_item (impl_item (map (generated_ref sample_defs_of) gen @ [method_ref (local_def 10) sample_method]))]"
    and "local_def 10 \<notin> ii_def_id ` set (map (generated_ref sample_defs_of) gen)"
  using assms
  by (auto simp: distinct_items_def impl_item_def distinct_fns_def generated_ref_def method_ref_def
      Ident_from_str_def sample_method_def sample_defs_of_def map_eq_Cons_conv)

lemma sample_visit_impl: "visit_all spec_krate [An_item (impl_item refs)] iv s = Inr (visit_impl spec_krate refs iv, s)"
  by (simp add: visit_item_def should_ignore_def impl_item_def bind_def)

lemma spec_krate_simps:
  "mset (values_order spec_krate xs) = mset xs" "numeric (k_env spec_krate) = ascii_numeric"
  "parent_of (tcx (k_env spec_krate)) d = Some (local_def 10)" "numeric_strings (numeric (k_env spec_krate))"
  by (simp_all add: spec_krate_def ascii.numeric_strings_axioms)

lemma sample_written: "written_specs sample_defs_of ''get'' sample_specs = [(Pre, local_def 11), (Post, local_def 12)]"
  by code_simp

lemma generated_items_nonempty:
  assumes "map fn_ident gen = [''__pre_1_get'', ''__post_2_get'']" and "x \<in> set (map (generated_item sample_defs_of) gen)"
  shows "item_specs (k_env spec_krate) x (local_def 10) \<noteq> []"
  using assms
  by (auto simp: map_eq_Cons_conv item_specs_def generated_item_def should_ignore_def Ident_from_str_def
      spec_krate_simps parse_spec_type_fn_name_def SpecType_try_from_str_def ascii_numeric_def is_digit_def)

section \<open>Properties\<close>

text \<open>
  C33: What the discovery of a crate attaches to a function is what the items say, spec by
  spec: the spec functions from macro expansions that are nested in it and, if it is a
  method, the ones of its \<open>impl\<close> blocks that are named after it. Nothing is lost, nothing is
  attached twice and nothing else is attached, for every iteration order of the hash maps.
\<close>

theorem discovery_finds_the_specs:
  assumes "visit_all ke items \<lparr>iv_adts = [], iv_functions = [], iv_specs = Map.empty\<rparr> s = Inr (iv, t)"
    and "distinct_items items" and "\<And>xs. mset (values_order ke xs) = mset xs"
  shows "mset (fn_specs iv d) = mset (concat (map (\<lambda>x. item_specs (k_env ke) x d) items))"
  using fn_specs_visit_all [OF assms] by (simp add: fn_specs_def map_filter_simps)

lemma discovery_finds_the_specs_witness:
  "\<exists>refs iv t. visit_all spec_krate [An_item (impl_item refs)]
       \<lparr>iv_adts = [], iv_functions = [], iv_specs = Map.empty\<rparr> start = Inr (iv, t) \<and>
     length refs = 3 \<and> mset (fn_specs iv (local_def 10)) =
       mset (item_specs (k_env spec_krate) (An_item (impl_item refs)) (local_def 10))"
proof -
  obtain gen where gen: "map fn_ident gen = [''__pre_1_get'', ''__post_2_get'']"
    by (rule sample_method_expands)
  let ?refs = "map (generated_ref sample_defs_of) gen @ [method_ref (local_def 10) sample_method]"
  have "length ?refs = 3"
    using arg_cong [OF gen, of length] by simp
  moreover have "mset (fn_specs (visit_impl spec_krate ?refs \<lparr>iv_adts = [], iv_functions = [], iv_specs = Map.empty\<rparr>) (local_def 10)) =
      mset (concat (map (\<lambda>x. item_specs (k_env spec_krate) x (local_def 10)) [An_item (impl_item ?refs)]))"
    by (rule discovery_finds_the_specs [OF sample_visit_impl [where s = start] sample_refs(1) [OF gen] spec_krate_simps(1)])
  ultimately show ?thesis
    using sample_visit_impl by (intro exI conjI) simp_all
qed

text \<open>
  C31: The specs that are written on a method with a receiver reach it: the macros expand the
  method to sibling spec functions in its \<open>impl\<close> block, and the extraction attaches to the
  method one spec for each written condition, of the written kind, and no other. Their
  order is that of a hash map, and the method itself must be written outside every macro.
\<close>

theorem methods_get_their_specs:
  assumes "numeric_strings (numeric (k_env ke))" and "\<And>xs. mset (values_order ke xs) = mset xs"
    and "generate_fn_with_spec item_fn specs = Inr (gen @ [item_fn])" and "has_self_param item_fn"
    and "item_kind it = ItImpl (others @ map (generated_ref def_of) gen @ [method_ref d item_fn])" and "\<not> should_ignore it"
    and "distinct_items items" and "d \<notin> ii_def_id ` set (others @ map (generated_ref def_of) gen)"
    and "\<forall>r \<in> set others. \<forall>spec. spec_of_ref (numeric (k_env ke)) r \<noteq> Some (Ident_from_str (fn_ident item_fn), spec)"
    and "items = before @ An_item it # after" and "\<forall>x \<in> set (before @ after). item_specs (k_env ke) x d = []"
    and "visit_all ke items \<lparr>iv_adts = [], iv_functions = [], iv_specs = Map.empty\<rparr> s = Inr (iv, t)"
  shows "mset (fn_specs iv d) = mset (written_specs def_of (fn_ident item_fn) specs)"
proof -
  have gen: "map fn_ident gen = map (\<lambda>(i, s). spec_ident (spec_typ s) i (fn_ident item_fn)) (enumerate 0 specs)"
    using generated_functions [OF assms(3)] assms(4) by blast
  have "item_specs (k_env ke) (An_item it) d = written_specs def_of (fn_ident item_fn) specs"
    using assms(5,6) expanded_method_specs [OF assms(1) gen assms(8,9)] by (simp add: item_specs_def)
  moreover have "crate_specs (k_env ke) before d = []" "crate_specs (k_env ke) after d = []"
    using assms(11) by simp_all
  then have "crate_specs (k_env ke) items d = item_specs (k_env ke) (An_item it) d"
    by (simp add: assms(10) del: concat_eq_Nil_conv)
  ultimately show ?thesis
    using fn_specs_visit_all [OF assms(12,7,2), of d] by (simp add: fn_specs_def map_filter_simps)
qed

lemma methods_get_their_specs_witness:
  "\<exists>gen iv. generate_fn_with_spec sample_method sample_specs = Inr (gen @ [sample_method]) \<and>
     visit_all spec_krate [An_item (impl_item (map (generated_ref sample_defs_of) gen @ [method_ref (local_def 10) sample_method]))]
       \<lparr>iv_adts = [], iv_functions = [], iv_specs = Map.empty\<rparr> start = Inr (iv, start) \<and>
     mset (fn_specs iv (local_def 10)) = mset [(Pre, local_def 11), (Post, local_def 12)]"
proof -
  obtain gen where gen: "generate_fn_with_spec sample_method sample_specs = Inr (gen @ [sample_method])"
    and idents: "map fn_ident gen = [''__pre_1_get'', ''__post_2_get'']"
    by (rule sample_method_expands)
  let ?refs = "map (generated_ref sample_defs_of) gen @ [method_ref (local_def 10) sample_method]"
  obtain iv where iv: "visit_all spec_krate [An_item (impl_item ?refs)]
      \<lparr>iv_adts = [], iv_functions = [], iv_specs = Map.empty\<rparr> start = Inr (iv, start)"
    by (rule that [OF sample_visit_impl])
  have kind: "item_kind (impl_item ?refs) = ItImpl ([] @ ?refs)" "\<not> should_ignore (impl_item ?refs)"
    by (simp_all add: impl_item_def should_ignore_def)
  have new: "local_def 10 \<notin> ii_def_id ` set ([] @ map (generated_ref sample_defs_of) gen)"
    using sample_refs(2) [OF idents] by simp
  have "mset (fn_specs iv (local_def 10)) = mset (written_specs sample_defs_of (fn_ident sample_method) sample_specs)"
    by (rule methods_get_their_specs [where before = "[]" and after = "[]", OF spec_krate_simps(4,1) gen sample_names(3)
          kind sample_refs(1) [OF idents] new _ _ _ iv]) simp_all
  then have "mset (fn_specs iv (local_def 10)) = mset [(Pre, local_def 11), (Post, local_def 12)]"
    unfolding sample_names(1) sample_written .
  then show ?thesis
    by (intro exI [of _ gen] exI [of _ iv] conjI gen iv)
qed

text \<open>
  C32: The specs that are written on a function without a receiver reach it, in the order in
  which they are written: the macros nest the spec functions in the function.
\<close>

theorem functions_get_their_specs:
  assumes "numeric_strings (numeric (k_env ke))" and "\<And>xs. mset (values_order ke xs) = mset xs"
    and "generate_fn_with_spec item_fn specs = Inr [with_stmts item_fn (map Item_Fn gen @ fn_stmts item_fn)]"
    and "\<not> has_self_param item_fn"
    and "\<forall>f \<in> set gen. parent_of (tcx (k_env ke)) (def_of (fn_ident f)) = Some d"
    and "filter (\<lambda>x. item_specs (k_env ke) x d \<noteq> []) items = map (generated_item def_of) gen" and "distinct_items items"
    and "visit_all ke items \<lparr>iv_adts = [], iv_functions = [], iv_specs = Map.empty\<rparr> s = Inr (iv, t)"
  shows "fn_specs iv d = written_specs def_of (fn_ident item_fn) specs"
proof -
  have gen: "map fn_ident gen = map (\<lambda>(i, s). spec_ident (spec_typ s) i (fn_ident item_fn)) (enumerate 0 specs)"
    using generated_functions [OF assms(3)] assms(4) by blast
  have "crate_specs (k_env ke) items d = crate_specs (k_env ke) (map (generated_item def_of) gen) d"
    unfolding assms(6) [symmetric] by (rule concat_map_filter_nonempty [symmetric])
  also have "\<dots> = written_specs def_of (fn_ident item_fn) specs"
    by (rule generated_items_specs [OF assms(1) gen assms(5)])
  finally have written: "crate_specs (k_env ke) items d = written_specs def_of (fn_ident item_fn) specs" .
  have "item_specs (k_env ke) (An_item item) d = [] \<or> item_kind item = ItFn" if "An_item item \<in> set items" for item
  proof (cases "item_specs (k_env ke) (An_item item) d = []")
    case False
    with that have "An_item item \<in> set (filter (\<lambda>x. item_specs (k_env ke) x d \<noteq> []) items)"
      by simp
    then show ?thesis
      unfolding assms(6) by (auto simp: generated_item_def)
  qed simp
  from fn_specs_visit_all_fns [OF assms(8,7,2) this] written show ?thesis
    by (simp add: fn_specs_def map_filter_simps)
qed

lemma functions_get_their_specs_witness:
  "\<exists>gen iv t. generate_fn_with_spec sample_function sample_specs =
       Inr [with_stmts sample_function (map Item_Fn gen @ fn_stmts sample_function)] \<and>
     visit_all spec_krate (map (generated_item sample_defs_of) gen)
       \<lparr>iv_adts = [], iv_functions = [], iv_specs = Map.empty\<rparr> start = Inr (iv, t) \<and>
     fn_specs iv (local_def 10) = [(Pre, local_def 11), (Post, local_def 12)]"
proof -
  obtain gen where gen: "generate_fn_with_spec sample_function sample_specs =
      Inr [with_stmts sample_function (map Item_Fn gen @ fn_stmts sample_function)]"
    and idents: "map fn_ident gen = [''__pre_1_get'', ''__post_2_get'']"
    by (rule sample_function_expands)
  let ?items = "map (generated_item sample_defs_of) gen"
  have items: "distinct_items ?items" "\<exists>iv t. visit_all spec_krate ?items
      \<lparr>iv_adts = [], iv_functions = [], iv_specs = Map.empty\<rparr> start = Inr (iv, t)"
    using idents by (auto simp: distinct_items_def generated_item_def map_eq_Cons_conv visit_item_def should_ignore_def
        Ident_from_str_def bind_def)
  then obtain iv t where iv: "visit_all spec_krate ?items
      \<lparr>iv_adts = [], iv_functions = [], iv_specs = Map.empty\<rparr> start = Inr (iv, t)" by blast
  have all: "filter (\<lambda>x. item_specs (k_env spec_krate) x (local_def 10) \<noteq> []) ?items = ?items"
    using generated_items_nonempty [OF idents] by (simp add: filter_id_conv)
  have "fn_specs iv (local_def 10) = written_specs sample_defs_of (fn_ident sample_function) sample_specs"
    by (rule functions_get_their_specs [OF spec_krate_simps(4,1) gen sample_names(4) _ all items(1) iv])
      (simp add: spec_krate_simps)
  then have "fn_specs iv (local_def 10) = [(Pre, local_def 11), (Post, local_def 12)]"
    unfolding sample_names(2) sample_written .
  then show ?thesis
    by (intro exI [of _ gen] exI [of _ iv] exI [of _ t] conjI gen iv)
qed

end
