(* ===== verification/Krate_Mirror.thy ===== *)
theory Krate_Mirror
  imports Krate_Results
begin

text \<open>
  What the extracted definitions have of the definitions of the program: a sort mirrors its
  data type, variant by variant and field by field, and a function has the parameters, the
  return type and the contract of its item.
\<close>

section \<open>Triples for lists\<close>

lemma stable_list_all2:
  "(\<And>x y. stable env (R x y)) \<Longrightarrow> stable env (\<lambda>t. list_all2 (\<lambda>x y. R x y t) xs ys)"
  unfolding stable_def by (blast intro: list_all2_mono)

lemma gives_map_steps2:
  assumes "\<And>x. x \<in> set xs \<Longrightarrow> gives env (\<lambda>s. True) (f x) (J x)" and "\<And>x a. stable env (J x a)"
  shows "gives env (\<lambda>s. True) (map_steps f xs) (\<lambda>ys t. list_all2 (\<lambda>x y. J x y t) xs ys)"
proof (rule givesI)
  show "runs env (map_steps f xs)"
    by (rule runs_map_steps) (rule gives_runs [OF assms(1)])
  show "list_all2 (\<lambda>x y. J x y t) xs ys" if "map_steps f xs s = Inr (ys, t)" for s ys t
    by (rule map_steps_list_all2 [where R = "\<lambda>t x y. J x y t", OF that])
      (auto intro: assms(1) [THEN gives_runs] stableD [OF assms(2)] givesD [OF assms(1)])
qed

lemma hid_stable: "stable env (\<lambda>t. hid_to_stid (mapping (xtor t)) h = Some i)"
  using run_to_hid by (auto simp: stable_def)

lemma translates_stable: "stable env (\<lambda>t. translates env (did_ids t) params ty tpe)"
  using translates_run_to by (auto simp: stable_def)

section \<open>Data types\<close>

definition mirrors_field :: "Env \<Rightarrow> (nat \<rightharpoonup> TyParam) \<Rightarrow> FieldDef \<Rightarrow> ValDef \<Rightarrow> Session \<Rightarrow> bool" where
  "mirrors_field env params field vd t \<longleftrightarrow>
     did_ids t (field_did field) = Some (var_id (vd_v vd)) \<and>
     translates env (did_ids t) params (field_ty field) (var_tpe (vd_v vd))"

definition mirrors_variant ::
  "Env \<Rightarrow> (nat \<rightharpoonup> TyParam) \<Rightarrow> SymbolIdentifier \<Rightarrow> VariantDef \<Rightarrow> ADTConstructor \<Rightarrow> Session \<Rightarrow> bool" where
  "mirrors_variant env params sid variant c t \<longleftrightarrow>
     did_ids t (variant_did variant) = Some (cons_id c) \<and> cons_sort c = sid \<and>
     list_all2 (\<lambda>field vd. mirrors_field env params field vd t) (variant_fields variant) (cons_fields c)"

lemma mirrors_stable:
  "stable env (mirrors_field env params field vd)" "stable env (mirrors_variant env params sid variant c)"
proof -
  show "stable env (mirrors_field env params field vd)" for field vd
    unfolding mirrors_field_def by (intro stable_conj did_stable translates_stable)
  then show "stable env (mirrors_variant env params sid variant c)"
    unfolding mirrors_variant_def by (intro stable_conj did_stable stable_simps stable_list_all2)
qed

lemma get_or_register_def_registers:
  "x_get_or_register_def env d s = Inr (i, t) \<Longrightarrow> did_ids t d = Some i"
  by (auto simp: x_get_or_register_def_def on_xtor_Inr_iff get_or_register_def_def get_id_from_def_def
      register_def_def bind_Inr_iff insert_did_def split: option.splits prod.splits if_splits)

lemma gives_get_or_register: "gives env (\<lambda>s. True) (x_get_or_register_def env d) (\<lambda>i t. did_ids t d = Some i)"
  by (rule givesI [OF runs_operations(3)]) (rule get_or_register_def_registers)

context adt_ids
begin

lemma gives_translation:
  "gives env (\<lambda>s. True) (extract_ty_with env adt_id txtcx ty)
     (\<lambda>tpe t. translates env (did_ids t) (map_of (index_to_tparam txtcx)) ty tpe)"
  by (rule givesI [OF extract_ty_runs]) (rule extract_ty_translates)

lemma gives_fields:
  "gives env (\<lambda>s. True) (extract_fields env adt_id txtcx fs fm)
     (\<lambda>(vds, fm') t. list_all2 (\<lambda>f vd. mirrors_field env (map_of (index_to_tparam txtcx)) f vd t) fs vds)"
proof (induction fs arbitrary: fm)
  case Nil
  show ?case
    unfolding extract_fields.simps by (rule gives_ret) simp
next
  case (Cons f fs)
  let ?flags = "fst (take_flags (field_name f) fm)"
  have step: "extract_fields env adt_id txtcx (f # fs) fm =
     bind (x_get_or_register_def env (field_did f)) (\<lambda>field_id.
     bind (extract_ty_with env adt_id txtcx (field_ty f)) (\<lambda>ty.
     bind (extract_fields env adt_id txtcx fs (snd (take_flags (field_name f) fm))) (\<lambda>(fields, fm'').
     ret (ValDef \<lparr>var_id = field_id, var_tpe = ty, var_flags = ?flags\<rparr> # fields, fm''))))"
    by (simp add: case_prod_beta Let_def)
  show ?case
    unfolding step
    by (rule gives_bind_frame [OF gives_get_or_register stable_simps(1)],
        rule gives_bind_frame [OF gives_translation], intro stable_conj did_stable stable_simps,
        rule gives_bind_frame [OF Cons.IH], intro stable_conj did_stable translates_stable stable_simps)
      (auto intro!: gives_ret simp: mirrors_field_def)
qed

lemma gives_variants:
  "gives env (\<lambda>s. True) (extract_variants env adt_id txtcx sid vs fm)
     (\<lambda>(cs, fm') t. list_all2 (\<lambda>v c. mirrors_variant env (map_of (index_to_tparam txtcx)) sid v c t) vs cs)"
proof (induction vs arbitrary: fm)
  case Nil
  show ?case
    unfolding extract_variants.simps by (rule gives_ret) simp
next
  case (Cons v vs)
  have fields: "stable env (\<lambda>t. list_all2 (\<lambda>f vd. mirrors_field env params f vd t) fs vds)" for params fs vds
    by (intro stable_list_all2 mirrors_stable)
  show ?case
    unfolding extract_variants.simps
    by (rule gives_bind_frame [OF gives_get_or_register stable_simps(1)],
        rule gives_bind_frame [OF gives_fields], intro stable_conj did_stable stable_simps, clarify,
        rule gives_bind_frame [OF Cons.IH], intro stable_conj did_stable fields stable_simps)
      (auto intro!: gives_ret simp: mirrors_variant_def)
qed

end

text \<open>The type parameters of a definition are the ones that its types may mention.\<close>

definition declared_params :: "(nat \<times> TyParam) list \<Rightarrow> TypeParameterDef set" where
  "declared_params m = {TypeParameterDef tp |k tp. map_of m k = Some (Extracted tp)}"

lemma set_in_order: "set (in_order ks m) = {(k, v). k \<in> set ks \<and> map_of m k = Some v}"
  by (auto simp: in_order_def List.map_filter_def image_iff) force

lemma set_tparam_defs:
  assumes "set ks = set (map fst m)"
  shows "set (tparam_defs (in_order ks m)) = declared_params m"
proof -
  have "set (in_order ks m) = {(k, v). map_of m k = Some v}"
    unfolding set_in_order assms by (force dest: map_of_SomeD)
  then show ?thesis
    unfolding tparam_defs_def List.map_filter_def declared_params_def
    by (force split: TyParam.splits)
qed

definition any_order :: "Env \<Rightarrow> bool" where
  "any_order env \<longleftrightarrow> (\<forall>v d ks. set (hash_order env v d ks) = set ks)"

lemma generics_declared:
  assumes "any_order env" and "extract_generics_with env adt_id d s = Inr ((tps, txtcx), t)"
  shows "set tps = declared_params (index_to_tparam txtcx)"
  using assms
  by (auto simp: extract_generics_with_def Let_def bind_Inr_iff any_order_def set_tparam_defs declared_params_def
      split: if_splits option.splits prod.splits)

lemma extracted_flags:
  "x_extract_flags env h s = Inr ((fs, fm), t) \<Longrightarrow> fs = fst (extract_flags (hir_attrs (tcx env) h))"
  by (auto simp: x_extract_flags_def bind_Inr_iff split: prod.splits)

lemma new_adt_parts:
  assumes "extract_adt env fuel d s = Inr (adt, t)" and "known_sort (xtor s) d = None"
  obtains sid u fs fm u1 tps txtcx u2 cs fm' u3 n where "x_register_def env d s = Inr (sid, u)"
    and "(if is_local d then x_extract_flags env (hir_id_of (tcx env) d) else ret ([], [])) u = Inr ((fs, fm), u1)"
    and "extract_generics_with env (extract_adt_id env n) d u1 = Inr ((tps, txtcx), u2)"
    and "extract_variants env (extract_adt_id env n) txtcx sid (adt_variants (adt_def (tcx env) d)) fm u2 = Inr ((cs, fm'), u3)"
    and "(if is_local d then x_report_unused_flags fm' else ret ()) u3 = Inr ((), t)"
    and "adt = \<lparr>sort_id = sid, sort_tparams = tps, sort_constructors = cs, sort_flags = to_stainless fs\<rparr>"
proof -
  from assms(1) obtain n where "fuel = Suc n"
    by (cases fuel) auto
  with assms show thesis
    using that [of _ _ _ _ _ n]
    by (auto simp: extract_adt_with_def extract_adt_id_def bind_Inr_iff split: prod.splits)
qed

section \<open>Functions\<close>

text \<open>
  The contract of a function around its body: the measure innermost, then the
  pre-conditions, and the post-conditions outermost, as a function of the return variable.
\<close>

definition measured :: "Expr option \<Rightarrow> Expr \<Rightarrow> Expr" where
  "measured meas body =
     (case meas of Some (Block es UnitLiteral) \<Rightarrow> Decreases (Block (butlast es) (last es)) body | _ \<Rightarrow> body)"

definition under_contract :: "Expr option \<Rightarrow> Expr list \<Rightarrow> Variable \<Rightarrow> Expr list \<Rightarrow> Expr \<Rightarrow> Expr" where
  "under_contract meas pres ret_var posts body =
     (let required = (if pres = [] then measured meas body else Require (make_and pres) (measured meas body)) in
      if posts = [] then required else Ensuring required (MkLambda [ValDef ret_var] (make_and posts)))"

text \<open>An expression that a step of the run gave, before the state \<open>t\<close>.\<close>

definition comes_from :: "Env \<Rightarrow> Session \<Rightarrow> (Session, Expr) step \<Rightarrow> Expr \<Rightarrow> bool" where
  "comes_from env t m e \<longleftrightarrow> (\<exists>u v. m u = Inr (e, v) \<and> run_to env v t)"

lemma comes_from_stable: "stable env (\<lambda>t. comes_from env t m e)"
  unfolding stable_def comes_from_def by (blast intro: run_to_trans)

lemma gives_comes_from: "runs env m \<Longrightarrow> gives env (\<lambda>s. True) m (\<lambda>e t. comes_from env t m e)"
  by (rule givesI) (auto simp: comes_from_def intro: run_to_refl)

definition mirrors_params ::
  "Env \<Rightarrow> (nat \<rightharpoonup> TyParam) \<Rightarrow> Body \<Rightarrow> DefContext \<Rightarrow> ValDef list \<Rightarrow> Session \<Rightarrow> bool" where
  "mirrors_params env params body dcx vds t \<longleftrightarrow>
     list_all2 (\<lambda>p vd. dcx (param_hir_id p) = Some (vd_v vd) \<and>
       hid_to_stid (mapping (xtor t)) (param_hir_id p) = Some (var_id (vd_v vd)) \<and>
       translates env (did_ids t) params (node_type body (param_hir_id p)) (var_tpe (vd_v vd)))
     (body_params body) vds"

lemma mirrors_params_stable: "stable env (mirrors_params env params body dcx vds)"
  unfolding mirrors_params_def
  by (intro stable_list_all2 stable_conj stable_simps hid_stable translates_stable)

definition mirrors_signature ::
  "KrateEnv \<Rightarrow> HirId \<Rightarrow> TyExtractionCtxt \<Rightarrow> ValDef list \<Rightarrow> Type \<Rightarrow> Expr \<Rightarrow> Session \<Rightarrow> bool" where
  "mirrors_signature ke h txtcx vds tpe e t \<longleftrightarrow>
     (\<exists>body out_ty dcx. k_body ke h = Some body \<and> k_output ke h = Some out_ty \<and>
        mirrors_params (k_env ke) (map_of (index_to_tparam txtcx)) body dcx vds t \<and>
        translates (k_env ke) (did_ids t) (map_of (index_to_tparam txtcx)) out_ty tpe \<and>
        comes_from (k_env ke) t (extract_expr (body_env ke txtcx dcx) (body_value body)) e)"

lemma mirrors_signature_stable: "stable (k_env ke) (mirrors_signature ke h txtcx vds tpe e)"
proof -
  have "stable (k_env ke) (\<lambda>t. k_body ke h = Some body \<and> k_output ke h = Some out_ty \<and>
        mirrors_params (k_env ke) (map_of (index_to_tparam txtcx)) body dcx vds t \<and>
        translates (k_env ke) (did_ids t) (map_of (index_to_tparam txtcx)) out_ty tpe \<and>
        comes_from (k_env ke) t (extract_expr (body_env ke txtcx dcx) (body_value body)) e)" for body out_ty dcx
    by (intro stable_conj stable_simps mirrors_params_stable translates_stable comes_from_stable)
  then show ?thesis
    unfolding stable_def mirrors_signature_def by meson
qed

lemma signature_mirrors:
  assumes "extract_signature_and_body ke h txtcx fm s = Inr ((fm', vds, tpe, e), t)"
  shows "mirrors_signature ke h txtcx vds tpe e t"
proof -
  let ?env = "k_env ke"
  let ?params = "map_of (index_to_tparam txtcx)"
  from assms obtain body dcx u out_ty v w where b: "k_body ke h = Some body" "k_output ke h = Some out_ty"
    and p: "populate_def_context ?env (k_fuel ke) txtcx body fm DefContext_new s = Inr ((fm', dcx), u)"
    and tpe: "extract_ty ?env (k_fuel ke) txtcx out_ty u = Inr (tpe, v)"
    and params: "map_steps (\<lambda>param. bind (lift_res (fetch_var dcx (param_hir_id param))) (\<lambda>v. ret (ValDef v)))
           (body_params body) v = Inr (vds, w)"
    and e: "extract_expr (body_env ke txtcx dcx) (body_value body) w = Inr (e, t)"
    by (auto simp: extract_signature_and_body_def enter_body_def bind_Inr_iff split: option.splits)
  have vw: "w = v" and vds: "list_all2 (\<lambda>p vd. dcx (param_hir_id p) = Some (vd_v vd)) (body_params body) vds"
    using fetch_params [OF params] by simp_all
  have run: "run_to ?env w t"
    by (rule runsD [OF runs_body e])
  have "vars_ok ?env txtcx body DefContext_new DefContext_new s"
    by (simp add: vars_ok_def DefContext_new_def)
  from populate_vars [OF p this] have "vars_ok ?env txtcx body DefContext_new dcx u"
    by auto
  then have ok: "vars_ok ?env txtcx body DefContext_new dcx t"
    using vars_ok_run_to runsD [OF runs_extract_ty(1) tpe] run vw by blast
  have "mirrors_params ?env ?params body dcx vds t"
    unfolding mirrors_params_def
    by (rule list_all2_mono [OF vds]) (use ok in \<open>auto simp: vars_ok_def DefContext_new_def\<close>)
  moreover have "translates ?env (did_ids t) ?params out_ty tpe"
    using adts.extract_ty_translates [OF tpe [unfolded extract_ty_def]] translates_run_to run vw by blast
  moreover have "comes_from ?env t (extract_expr (body_env ke txtcx dcx) (body_value body)) e"
    unfolding comes_from_def using e run_to_refl by blast
  ultimately show ?thesis
    using b unfolding mirrors_signature_def by blast
qed

lemma gives_signature_mirrors:
  "gives (k_env ke) (\<lambda>s. True) (extract_signature_and_body ke h txtcx fm)
     (\<lambda>(fm', vds, tpe, e) t. mirrors_signature ke h txtcx vds tpe e t)"
  by (rule givesI [OF runs_signature_and_body]) (auto dest: signature_mirrors)

lemma gives_specs:
  "gives (k_env ke) (\<lambda>s. True) (map_steps (extract_spec_fn ke txtcx params rv) ds)
     (\<lambda>es t. list_all2 (\<lambda>d e. comes_from (k_env ke) t (extract_spec_fn ke txtcx params rv d) e) ds es)"
  by (rule gives_map_steps2 [OF gives_comes_from comes_from_stable]) (rule runs_extract_spec_fn)

lemma specs_stable:
  "stable env (\<lambda>t. list_all2 (\<lambda>d e. comes_from env t (m d) e) ds es)"
  by (intro stable_list_all2 comes_from_stable)

definition measures :: "KrateEnv \<Rightarrow> TyExtractionCtxt \<Rightarrow> ValDef list \<Rightarrow> DefId option \<Rightarrow> Expr \<Rightarrow> Expr \<Rightarrow> Session \<Rightarrow> bool" where
  "measures ke txtcx params measure_fn body x t \<longleftrightarrow>
     (\<exists>meas. rel_option (comes_from (k_env ke) t \<circ> extract_spec_fn ke txtcx params None) measure_fn meas \<and>
        x = measured meas body)"

lemma measures_stable: "stable (k_env ke) (measures ke txtcx params measure_fn body x)"
proof -
  have "rel_option (comes_from (k_env ke) t \<circ> f) m meas"
    if "rel_option (comes_from (k_env ke) s \<circ> f) m meas" "run_to (k_env ke) s t" for s t f and m :: "DefId option" and meas
    using that(1) by (rule option.rel_mono_strong) (use stableD [OF comes_from_stable _ that(2)] in simp)
  then show ?thesis
    unfolding stable_def measures_def by blast
qed

lemma gives_measured:
  "gives (k_env ke) (\<lambda>s. True)
     (case measure_fn of None \<Rightarrow> ret body
      | Some d \<Rightarrow> bind (extract_spec_fn ke txtcx params None d) (\<lambda>spec. with_measure spec body))
     (measures ke txtcx params measure_fn body)"
proof (cases measure_fn)
  case None
  then show ?thesis
    by (auto simp: measures_def measured_def intro!: gives_ret)
next
  case (Some d)
  have "gives (k_env ke) (\<lambda>t. comes_from (k_env ke) t (extract_spec_fn ke txtcx params None d) spec)
      (with_measure spec body) (measures ke txtcx params measure_fn body)" for spec
  proof (rule givesI [OF runs_with_measure])
    fix s x t
    assume spec: "comes_from (k_env ke) s (extract_spec_fn ke txtcx params None d) spec"
      and x: "with_measure spec body s = Inr (x, t)"
    have "t = s" "x = measured (Some spec) body"
      using x by (auto simp: with_measure_def measured_def split: Expr.splits if_splits)
    with spec show "measures ke txtcx params measure_fn body x t"
      unfolding measures_def Some by (intro exI [of _ "Some spec"]) simp
  qed
  with gives_comes_from [OF runs_extract_spec_fn] show ?thesis
    unfolding Some option.case by (rule gives_bind)
qed

text \<open>What a function definition has of its item.\<close>

definition mirrors_fn ::
  "KrateEnv \<Rightarrow> DefId \<Rightarrow> DefId list \<Rightarrow> DefId list \<Rightarrow> DefId option \<Rightarrow> FunDef \<Rightarrow> Session \<Rightarrow> bool" where
  "mirrors_fn ke d pre_fns post_fns measure_fn fd t \<longleftrightarrow>
     (\<exists>txtcx body meas pres ret_var posts.
        mirrors_signature ke (hir_id_of (tcx (k_env ke)) d) txtcx (fd_params fd) (fd_returnType fd) body t \<and>
        (any_order (k_env ke) \<longrightarrow> set (fd_tparams fd) = declared_params (index_to_tparam txtcx)) \<and>
        rel_option (comes_from (k_env ke) t \<circ> extract_spec_fn ke txtcx (fd_params fd) None) measure_fn meas \<and>
        list_all2 (\<lambda>f e. comes_from (k_env ke) t (extract_spec_fn ke txtcx (fd_params fd) None f) e) pre_fns pres \<and>
        list_all2 (\<lambda>f e. comes_from (k_env ke) t (extract_spec_fn ke txtcx (fd_params fd) (Some ret_var) f) e) post_fns posts \<and>
        var_tpe ret_var = fd_returnType fd \<and>
        fd_fullBody fd = under_contract meas pres ret_var posts body)"

lemma mirrors_fnI:
  assumes "mirrors_signature ke (hir_id_of (tcx (k_env ke)) d) txtcx params tpe body t"
    and "any_order (k_env ke) \<longrightarrow> set tps = declared_params (index_to_tparam txtcx)"
    and "rel_option (comes_from (k_env ke) t \<circ> extract_spec_fn ke txtcx params None) measure_fn meas"
    and "list_all2 (\<lambda>f. comes_from (k_env ke) t (extract_spec_fn ke txtcx params None f)) pre_fns pres"
    and "list_all2 (\<lambda>f. comes_from (k_env ke) t (extract_spec_fn ke txtcx params
        (Some \<lparr>var_id = r, var_tpe = tpe, var_flags = []\<rparr>) f)) post_fns posts"
    and "e = under_contract meas pres \<lparr>var_id = r, var_tpe = tpe, var_flags = []\<rparr> posts body"
  shows "mirrors_fn ke d pre_fns post_fns measure_fn
     \<lparr>fd_id = i, fd_tparams = tps, fd_params = params, fd_returnType = tpe, fd_fullBody = e, fd_flags = fs\<rparr> t"
  using assms unfolding mirrors_fn_def FunDef.select_convs
  by (intro exI [of _ txtcx] exI [of _ body] exI [of _ meas] exI [of _ pres] exI [of _ posts]
      exI [of _ "\<lparr>var_id = r, var_tpe = tpe, var_flags = []\<rparr>"] conjI) simp_all

lemma gives_tparams:
  "gives env (\<lambda>s. True) (extract_generics env fuel d)
     (\<lambda>(tps, txtcx) t. any_order env \<longrightarrow> set tps = declared_params (index_to_tparam txtcx))"
  by (rule givesI [OF runs_extract_ty(3)]) (auto simp: extract_generics_def dest: generics_declared)

lemma gives_mirrored_fn:
  "gives (k_env ke) (\<lambda>s. True) (extract_local_fn ke d pre_fns post_fns measure_fn)
     (\<lambda>fd t. did_ids t d = Some (fd_id fd) \<and> mirrors_fn ke d pre_fns post_fns measure_fn fd t \<and>
        fd_flags fd = to_stainless (fst (extract_flags (hir_attrs (tcx (k_env ke)) (hir_id_of (tcx (k_env ke)) d)))))"
proof -
  have flags: "gives env (\<lambda>s. True) (x_extract_flags env h)
      (\<lambda>(fs, fm) t. fs = fst (extract_flags (hir_attrs (tcx env) h)))" for env h
    by (rule givesI [OF runs_flags(2)]) (auto dest: extracted_flags)
  show ?thesis
    unfolding extract_local_fn_def Let_def
    apply (rule gives_any [OF runs_lift(2) stable_simps(1)])
    apply (rule gives_bind_frame [OF flags stable_simps(1)], clarsimp)
    apply (rule gives_bind_frame [OF gives_tparams stable_simps(2)], clarsimp)
    apply (rule gives_bind_frame [OF gives_signature_mirrors stable_simps(2)], clarsimp)
    apply (rule gives_any [OF runs_flags(3)], intro stable_conj mirrors_signature_stable stable_simps)
    apply (rule gives_bind_frame [OF gives_measured], intro stable_conj mirrors_signature_stable stable_simps)
    apply (rule gives_bind_frame [OF gives_specs], intro stable_conj mirrors_signature_stable measures_stable stable_simps)
    apply (rule gives_any [OF runs_operations(1)],
        intro stable_conj mirrors_signature_stable measures_stable specs_stable stable_simps)
    apply (rule gives_bind_frame [OF gives_specs],
        intro stable_conj mirrors_signature_stable measures_stable specs_stable stable_simps)
    apply (rule gives_bind_frame [OF gives_fn_ref],
        intro stable_conj mirrors_signature_stable measures_stable specs_stable stable_simps)
    apply (rule gives_ret)
    apply (clarsimp simp: measures_def split del: if_split)
    apply (erule (4) mirrors_fnI)
    apply (simp add: under_contract_def)
    done
qed

section \<open>Properties\<close>

text \<open>
  C28: The sort that is extracted for a data type mirrors it: it has one constructor for each
  variant and one field for each field, in the order of the program, under the ids that are
  registered for them and with the translations of their types; its type parameters are the
  ones that these types may mention, and its flags are those of the attributes.
\<close>

theorem extracted_sorts_mirror_the_data_types:
  assumes "extract_adt env fuel d s = Inr (adt, t)" and "known_sort (xtor s) d = None" and "any_order env"
  shows "did_ids t d = Some (sort_id adt) \<and>
    sort_flags adt = to_stainless (if is_local d then fst (extract_flags (hir_attrs (tcx env) (hir_id_of (tcx env) d))) else []) \<and>
    (\<exists>params. set (sort_tparams adt) = declared_params params \<and>
       list_all2 (\<lambda>v c. mirrors_variant env (map_of params) (sort_id adt) v c t)
         (adt_variants (adt_def (tcx env) d)) (sort_constructors adt))"
proof -
  obtain sid u fs fm u1 tps txtcx u2 cs fm' u3 n where reg: "x_register_def env d s = Inr (sid, u)"
    and flags: "(if is_local d then x_extract_flags env (hir_id_of (tcx env) d) else ret ([], [])) u = Inr ((fs, fm), u1)"
    and gens: "extract_generics_with env (extract_adt_id env n) d u1 = Inr ((tps, txtcx), u2)"
    and variants: "extract_variants env (extract_adt_id env n) txtcx sid (adt_variants (adt_def (tcx env) d)) fm u2 = Inr ((cs, fm'), u3)"
    and last: "(if is_local d then x_report_unused_flags fm' else ret ()) u3 = Inr ((), t)"
    and adt: "adt = \<lparr>sort_id = sid, sort_tparams = tps, sort_constructors = cs, sort_flags = to_stainless fs\<rparr>"
    by (rule new_adt_parts [OF assms(1,2)])
  have "runs env (if is_local d then x_report_unused_flags fm' else ret ())"
    by (intro run_intros)
  from runsD [OF this last] have run: "run_to env u3 t" .
  have "list_all2 (\<lambda>v c. mirrors_variant env (map_of (index_to_tparam txtcx)) sid v c u3) (adt_variants (adt_def (tcx env) d)) cs"
    using givesD [OF adts.gives_variants _ variants] by simp
  then have mirror: "list_all2 (\<lambda>v c. mirrors_variant env (map_of (index_to_tparam txtcx)) sid v c t) (adt_variants (adt_def (tcx env) d)) cs"
    using stableD [OF mirrors_stable(2) _ run] by (rule list_all2_mono)
  have "did_ids t d = Some sid"
    using extract_unknown_adt(2) [OF assms(1,2)] by (simp add: adt)
  moreover have "fs = (if is_local d then fst (extract_flags (hir_attrs (tcx env) (hir_id_of (tcx env) d))) else [])"
    using flags extracted_flags by (cases "is_local d") auto
  ultimately show ?thesis
    using mirror generics_declared [OF assms(3) gens] unfolding adt ADTSort.select_convs by blast
qed

lemma extracted_sorts_mirror_the_data_types_witness:
  "\<exists>adt t params. extract_adt sample_env 1 (local_def 3) sample_session = Inr (adt, t) \<and>
     list_all2 (\<lambda>v c. mirrors_variant sample_env params (sort_id adt) v c t)
       [\<lparr>variant_did = local_def 4, variant_fields = node_fields\<rparr>] (sort_constructors adt)"
proof -
  obtain adt t where *: "extract_adt sample_env 1 (local_def 3) sample_session = Inr (adt, t)"
    using sample_node by blast
  have "known_sort (xtor sample_session) (local_def 3) = None"
    by (simp add: known_sort_def sample_session_def Extraction_new_def)
  from extracted_sorts_mirror_the_data_types [OF * this] * show ?thesis
    by (auto simp: any_order_def)
qed

text \<open>
  C27: The function that is extracted for an item mirrors it: its parameters and its return
  type are the translations of those of the body, in order and under the ids and the variables
  of the body, its flags are those of the attributes, and its body is the one that is extracted
  from the body of the item, inside the measure, the pre-conditions and the post-conditions
  that are extracted from the specification functions, one for each of them and in their order.
\<close>

theorem extracted_functions_mirror_their_items:
  assumes "extract_local_fn ke d pre_fns post_fns measure_fn s = Inr (fd, t)"
  shows "did_ids t d = Some (fd_id fd) \<and> mirrors_fn ke d pre_fns post_fns measure_fn fd t \<and>
    fd_flags fd = to_stainless (fst (extract_flags (hir_attrs (tcx (k_env ke)) (hir_id_of (tcx (k_env ke)) d))))"
  using givesD [OF gives_mirrored_fn TrueI assms] by simp

lemma extracted_functions_mirror_their_items_witness:
  "\<exists>fd t. extract_local_fn sample_krate (local_def 4) [] [] None start = Inr (fd, t) \<and>
     mirrors_fn sample_krate (local_def 4) [] [] None fd t"
proof -
  obtain fd t where *: "extract_local_fn sample_krate (local_def 4) [] [] None start = Inr (fd, t)"
    using sample_local by blast
  from extracted_functions_mirror_their_items [OF *] * show ?thesis
    by blast
qed

end
