(* ===== verification/Steady.thy ===== *)
theory Steady
  imports Body_Shape
begin

text \<open>
  The fuel above the extraction of data types. A step is steady when it does not run out of fuel
  and gives the result of the same step with more fuel, given that the unregistered data
  types are not more than a bound. Steady steps compose, and with fuel above the bound every
  operation of \<open>ty.rs\<close> and \<open>bindings.rs\<close> is steady on inputs that mention only the data
  types of a closed set.
\<close>

section \<open>Steady steps\<close>

named_theorems steady_intros \<open>steps that have enough fuel\<close>

definition steady :: "DefId set \<Rightarrow> nat \<Rightarrow> (Session, 'a) step \<Rightarrow> (Session, 'a) step \<Rightarrow> bool" where
  "steady U n m m' \<longleftrightarrow> fuel_ok U n m \<and> approx m m' \<and>
     (\<forall>s a t. m s = Inr (a, t) \<longrightarrow> dom (did_ids s) \<subseteq> dom (did_ids t))"

lemma steadyI: "runs env m \<Longrightarrow> fuel_ok U n m \<Longrightarrow> approx m m' \<Longrightarrow> steady U n m m'"
  unfolding steady_def runs_def by (blast dest: run_to_ids map_le_implies_dom_le)

lemma steady_same: "runs env m \<Longrightarrow> fuel_ok U n m \<Longrightarrow> steady U n m m"
  by (rule steadyI [OF _ _ approx_refl])

lemma steadyD:
  assumes "steady U n m m'" and "finite U" and "card (U - dom (did_ids s)) \<le> n"
  shows "m s \<noteq> Inl Out_of_fuel" and "m' s = m s"
  using assms unfolding steady_def fuel_ok_def approx_def by metis+

lemma steady_bind_fuel:
  assumes "steady U n m m'" and "\<And>a s t. m s = Inr (a, t) \<Longrightarrow> fuel_ok U n (f a)"
  shows "fuel_ok U n (bind m f)"
  unfolding fuel_ok_def
proof (intro allI impI)
  fix s
  assume U: "finite U" "card (U - dom (did_ids s)) \<le> n"
  show "bind m f s \<noteq> Inl Out_of_fuel"
  proof (cases "m s")
    case (Inr p)
    obtain a t where p: "p = (a, t)" by (cases p)
    with Inr assms(1) have "dom (did_ids s) \<subseteq> dom (did_ids t)"
      by (simp add: steady_def)
    with U have "card (U - dom (did_ids t)) \<le> n"
      by (meson Diff_mono card_mono finite_Diff order_refl order_trans)
    with assms(2) [of s a t] Inr p U(1) show ?thesis
      by (auto simp: bind_def fuel_ok_def)
  qed (use assms(1) U in \<open>auto simp: bind_def steady_def fuel_ok_def\<close>)
qed

lemma steady_bind_approx:
  assumes "approx m m'" and "\<And>a s t. m s = Inr (a, t) \<Longrightarrow> approx (f a) (f' a)"
  shows "approx (bind m f) (bind m' f')"
  unfolding approx_def
proof
  fix s
  show "bind m f s = Inl Out_of_fuel \<or> bind m f s = bind m' f' s"
  proof (cases "m s")
    case (Inr p)
    obtain a t where p: "p = (a, t)" by (cases p)
    with Inr assms(1) have "m' s = m s"
      unfolding approx_def by (metis sum.distinct(1))
    with Inr p assms(2) [of s a t] show ?thesis
      by (auto simp: bind_def approx_def)
  next
    case (Inl e)
    with assms(1) have "e = Out_of_fuel \<or> m' s = Inl e"
      unfolding approx_def by (metis sum.inject(1))
    with Inl show ?thesis
      by (auto simp: bind_def)
  qed
qed

lemma steady_bind:
  assumes "steady U n m m'" and "\<And>a s t. m s = Inr (a, t) \<Longrightarrow> steady U n (f a) (f' a)"
  shows "steady U n (bind m f) (bind m' f')"
proof -
  have "fuel_ok U n (bind m f)"
    using assms by (intro steady_bind_fuel) (auto simp: steady_def)
  moreover have "approx (bind m f) (bind m' f')"
    using assms by (intro steady_bind_approx) (auto simp: steady_def)
  moreover have "dom (did_ids s) \<subseteq> dom (did_ids t)" if "bind m f s = Inr (b, t)" for s b t
    using that assms unfolding bind_Inr_iff steady_def by blast
  ultimately show ?thesis
    by (simp add: steady_def)
qed

lemma steady_binds [steady_intros]:
  "steady U n m m' \<Longrightarrow> (\<And>a. steady U n (f a) (f' a)) \<Longrightarrow> steady U n (bind m f) (bind m' f')"
  by (rule steady_bind)

lemma steady_simple [steady_intros]:
  "steady U n (ret a) (ret a)" "steady U n (panic msg) (panic msg)" "steady U n (unexpected msg) (unexpected msg)"
  "steady U n (report d) (report d)" "steady U n (unsupported msg) (unsupported msg)"
  "steady U n (check b msg) (check b msg)" "steady U n (\<lambda>s. Inr (a, s)) (\<lambda>s. Inr (a, s))"
  by (auto intro!: steady_same [OF _ fuel_okI] run_intros runs_ret [unfolded ret_def]
      simp: unsupported_def check_def)

lemma steady_lift: "r \<noteq> Inl Out_of_fuel \<Longrightarrow> steady U n (lift_res r) (lift_res r)"
  by (rule steady_same [OF runs_lift(1) fuel_ok_lift])

lemma steady_operations [steady_intros]:
  "steady U n (x_get_or_register_def env d) (x_get_or_register_def env d)"
  "steady U n (x_fresh_id env name) (x_fresh_id env name)"
  "steady U n (x_register_hir env h name) (x_register_hir env h name)"
  "steady U n (x_extract_fn_ref env d) (x_extract_fn_ref env d)"
proof -
  have "fuel_ok U n (x_fresh_id env name)"
    using fresh_id_fuel by (auto intro!: fuel_okI simp: x_fresh_id_def on_xtor_def base_fresh_id_def res_bind_def
        split: sum.splits)
  moreover have "fuel_ok U n (x_register_hir env h name)"
    using fresh_id_fuel by (auto intro!: fuel_okI simp: x_register_hir_def on_xtor_def register_hir_def bind_def
        insert_hid_def res_bind_def Let_def split: sum.splits prod.splits if_splits)
  moreover have "fuel_ok U n (x_extract_fn_ref env d)"
    using register_def_fuel by (auto intro!: fuel_okI simp: x_extract_fn_ref_def on_xtor_def extract_fn_ref_def
        add_function_ref_def bind_def res_bind_def split: sum.splits prod.splits option.splits if_splits)
  ultimately show
    "steady U n (x_get_or_register_def env d) (x_get_or_register_def env d)"
    "steady U n (x_fresh_id env name) (x_fresh_id env name)"
    "steady U n (x_register_hir env h name) (x_register_hir env h name)"
    "steady U n (x_extract_fn_ref env d) (x_extract_fn_ref env d)"
    using fuel_ok_operations(2) by (auto intro: steady_same runs_operations)
qed

lemma steady_flags [steady_intros]:
  "steady U n (x_extract_flags env h) (x_extract_flags env h)"
  "steady U n (x_report_unused_flags fm) (x_report_unused_flags fm)"
  by (rule steady_same [OF runs_flags(2) fuel_ok_flags(2)], rule steady_same [OF runs_flags(3) fuel_ok_flags(3)])

lemma steady_map_steps [steady_intros]:
  "(\<And>x. x \<in> set xs \<Longrightarrow> steady U n (f x) (f' x)) \<Longrightarrow> steady U n (map_steps f xs) (map_steps f' xs)"
  by (induction xs) (auto intro!: steady_intros)

lemma steady_cases [steady_intros]:
  "(b \<Longrightarrow> steady U n m m') \<Longrightarrow> (\<not> b \<Longrightarrow> steady U n k k') \<Longrightarrow>
    steady U n (if b then m else k) (if b then m' else k')"
  "(\<And>a c. p = (a, c) \<Longrightarrow> steady U n (g a c) (g' a c)) \<Longrightarrow>
    steady U n (case p of (a, c) \<Rightarrow> g a c) (case p of (a, c) \<Rightarrow> g' a c)"
  "steady U n m m' \<Longrightarrow> (\<And>a. x = Some a \<Longrightarrow> steady U n (f a) (f' a)) \<Longrightarrow>
    steady U n (case x of None \<Rightarrow> m | Some a \<Rightarrow> f a) (case x of None \<Rightarrow> m' | Some a \<Rightarrow> f' a)"
  by (simp, cases p, simp, cases x, simp_all)

section \<open>Types\<close>

text \<open>
  Throughout, the fuel is one more than the bound on the unregistered members of \<open>U\<close>: a
  data type is extracted with at least one level of fuel even when it is already registered.
\<close>

lemma extract_adt_more_fuel: "approx (extract_adt env n d) (extract_adt env (n + k) d)"
proof (cases n)
  case (Suc m)
  then show ?thesis
    using extract_adt_approx [of "extract_adt_id env m" "extract_adt_id env (m + k)"] extract_adt_id_more_fuel
    by (simp add: extract_adt_id_def)
qed (simp add: approx_def)

lemma fuel_ok_finite: "(finite U \<Longrightarrow> fuel_ok U n m) \<Longrightarrow> fuel_ok U n m"
  by (auto simp: fuel_ok_def)

lemma fuel_ok_Suc: "fuel_ok U (Suc n) m \<Longrightarrow> fuel_ok U n m"
  by (auto simp: fuel_ok_def)

lemma reach_self: "closed_adts env U \<Longrightarrow> finite U \<Longrightarrow> reach env U = U"
  by (simp add: reach_def)

lemma steady_ty:
  assumes "closed_adts env U" and "adts_in ty \<subseteq> U"
  shows "steady U n (extract_ty env (Suc n) txtcx ty) (extract_ty env (Suc n + k) txtcx ty)"
proof (rule steadyI [OF runs_extract_ty(1)])
  show "fuel_ok U n (extract_ty env (Suc n) txtcx ty)"
    using fuelled.extract_ty_fuel [of ty env U "Suc n" txtcx] assms(2) reach_self [OF assms(1)]
    by (rule_tac fuel_ok_finite, rule_tac fuel_ok_Suc) (simp add: extract_ty_def)
  show "approx (extract_ty env (Suc n) txtcx ty) (extract_ty env (Suc n + k) txtcx ty)"
    unfolding extract_ty_def by (rule extract_ty_approx) (rule extract_adt_id_more_fuel)
qed

lemma steady_tys:
  assumes "closed_adts env U" and "(\<Union>ty \<in> set tys. adts_in ty) \<subseteq> U"
  shows "steady U n (extract_tys env (Suc n) txtcx tys) (extract_tys env (Suc n + k) txtcx tys)"
  unfolding extract_tys_def extract_tys_with_def
  using assms by (intro steady_map_steps steady_ty [unfolded extract_ty_def]) auto

lemma steady_generics:
  assumes "closed_adts env U" and "\<forall>p \<in> set (predicates_of (tcx env) d). predicate_adts p \<subseteq> U"
    and "all_generic_params_of (tcx env) d \<noteq> None"
  shows "steady U n (extract_generics env (Suc n) d) (extract_generics env (Suc n + k) d)"
proof (rule steadyI [OF runs_extract_ty(3)])
  show "fuel_ok U n (extract_generics env (Suc n) d)"
    using fuelled.extract_generics_fuel [of env d U "Suc n"] assms(2,3) reach_self [OF assms(1)]
    by (rule_tac fuel_ok_finite, rule_tac fuel_ok_Suc) (simp add: extract_generics_def)
  show "approx (extract_generics env (Suc n) d) (extract_generics env (Suc n + k) d)"
    unfolding extract_generics_def by (rule extract_generics_approx) (rule extract_adt_id_more_fuel)
qed

lemma steady_adt:
  assumes "closed_adts env U" and "d \<in> U"
  shows "steady U n (extract_adt env (Suc n) d) (extract_adt env (Suc n + k) d)"
proof (rule steadyI [OF runs_extract_adt _ extract_adt_more_fuel], rule fuel_ok_finite)
  assume "finite U"
  note reach = reach_self [OF assms(1) this]
  have "fuel_ok U n (extract_adt_with env (extract_adt_id env n) d)"
    using fuelled.extract_adt_fuel [of env U d n] reach_closed(2) [of env U] assms by (simp add: reach)
  then show "fuel_ok U n (extract_adt env (Suc n) d)"
    by (simp add: extract_adt_id_def)
qed

section \<open>Bindings\<close>

lemma steady_add_var [steady_intros]: "steady U n (add_var h v dcx) (add_var h v dcx)"
  by (auto simp: add_var_def intro: steady_intros)

lemma steady_binding:
  assumes "closed_adts env U" and "adts_in (node_type body h) \<subseteq> U"
  shows "steady U n (extract_binding env (Suc n) txtcx body h flags dcx)
    (extract_binding env (Suc n + k) txtcx body h flags dcx)"
  unfolding extract_binding_def
  by (auto intro!: steady_intros steady_ty [OF assms, simplified] split: option.split HirNode.split)

lemma steady_visit_pats:
  "(\<And>h dcx. h \<in> pat_ids p \<Longrightarrow> steady U n (bnd h dcx) (bnd' h dcx)) \<Longrightarrow>
    steady U n (visit_pat bnd p dcx) (visit_pat bnd' p dcx)"
  "(\<And>h dcx. h \<in> (\<Union>p \<in> set ps. pat_ids p) \<Longrightarrow> steady U n (bnd h dcx) (bnd' h dcx)) \<Longrightarrow>
    steady U n (visit_pats bnd ps dcx) (visit_pats bnd' ps dcx)"
  by (induction bnd p dcx and bnd ps dcx rule: visit_pat_visit_pats.induct) (auto intro!: steady_intros)

lemma steady_populate_params:
  assumes "closed_adts env U"
  shows "\<forall>p \<in> set params. adts_in (node_type body (param_hir_id p)) \<subseteq> U \<Longrightarrow>
    steady U n (populate_params env (Suc n) txtcx body params fm dcx)
      (populate_params env (Suc n + k) txtcx body params fm dcx)"
proof (induction params arbitrary: fm dcx)
  case (Cons param params)
  then show ?case
    using steady_binding [OF assms, of body "param_hir_id param"]
    by (auto simp: Let_def split: prod.split intro!: steady_intros)
qed (simp add: steady_intros)

definition binders_within :: "DefId set \<Rightarrow> Body \<Rightarrow> bool" where
  "binders_within U body \<longleftrightarrow> (\<forall>h \<in> binder_ids body. adts_in (node_type body h) \<subseteq> U)"

lemma steady_populate:
  assumes "closed_adts env U" and "binders_within U body"
  shows "steady U n (populate_def_context env (Suc n) txtcx body fm dcx)
    (populate_def_context env (Suc n + k) txtcx body fm dcx)"
proof -
  have bnd: "steady U n (extract_binding env (Suc n) txtcx body h None dcx)
      (extract_binding env (Suc n + k) txtcx body h None dcx)" if "h \<in> binder_ids body" for h dcx
    using assms that by (intro steady_binding) (auto simp: binders_within_def)
  have params: "\<forall>p \<in> set (body_params body). adts_in (node_type body (param_hir_id p)) \<subseteq> U"
    using assms(2) by (auto simp: binders_within_def binder_ids_def)
  show ?thesis
    unfolding populate_def_context_def BindingsCollector_run_def Let_def
    by (auto intro!: steady_intros steady_populate_params [OF assms(1) params, simplified] steady_visit_pats
        bnd [simplified] simp: binder_ids_def)
qed

end
