(* ===== verification/Body_Fuel.thy ===== *)
theory Body_Fuel
  imports Steady
begin

text \<open>
  The fuel of the extraction of bodies: the data types that a body mentions, and the proof
  that extracting the body is steady when they lie in the closed set.
\<close>

section \<open>The data types of a body\<close>

text \<open>The data types that the extraction of a pattern or of an expression asks for.\<close>

abbreviation args_adts :: "GenericArg list \<Rightarrow> DefId set" where
  "args_adts substs \<equiv> (\<Union>arg \<in> set substs. adts_in_arg arg)"

fun pat_adts :: "HPat \<Rightarrow> DefId set" where
  "pat_adts (PBinding _ _ _ (Some sub)) = pat_adts sub"
| "pat_adts (PVariant did _ substs pats) = insert did (args_adts substs \<union> (\<Union>(i, p) \<in> set pats. pat_adts p))"
| "pat_adts (PLeaf ty pats) = adts_in ty \<union> (\<Union>(i, p) \<in> set pats. pat_adts p)"
| "pat_adts (PDeref sub) = pat_adts sub"
| "pat_adts _ = {}"

definition call_adts :: "Ty \<Rightarrow> DefId set" where
  "call_adts fn_ty = (case fn_ty of TFnDef _ substs \<Rightarrow> args_adts substs | _ \<Rightarrow> {})"

fun expr_adts :: "HExpr \<Rightarrow> DefId set" and stmt_adts :: "HStmt \<Rightarrow> DefId set" and arm_adts :: "HArm \<Rightarrow> DefId set" where
  "expr_adts (HExpr ty kind) =
     (case kind of
        KUnary _ arg \<Rightarrow> expr_adts arg
      | KBinary _ lhs rhs \<Rightarrow> expr_adts lhs \<union> expr_adts rhs
      | KLogicalOp _ lhs rhs \<Rightarrow> expr_adts lhs \<union> expr_adts rhs
      | KTuple elems \<Rightarrow> (\<Union>e \<in> set elems. expr_adts e)
      | KField lhs _ \<Rightarrow> adts_in (he_ty lhs) \<union> expr_adts lhs
      | KCall fn_ty args \<Rightarrow> call_adts fn_ty \<union> (\<Union>e \<in> set args. expr_adts e)
      | KAdt did _ substs field_exprs _ \<Rightarrow> insert did (args_adts substs \<union> (\<Union>(i, e) \<in> set field_exprs. expr_adts e))
      | KBlock (HBlock _ stmts final_expr) \<Rightarrow>
          (\<Union>st \<in> set stmts. stmt_adts st) \<union> (\<Union>e \<in> set_option final_expr. expr_adts e)
      | KMatch scrutinee arms \<Rightarrow> expr_adts scrutinee \<union> (\<Union>arm \<in> set arms. arm_adts arm)
      | KScope e \<Rightarrow> expr_adts e
      | KUse e \<Rightarrow> expr_adts e
      | KNeverToAny e \<Rightarrow> expr_adts e
      | KDeref e \<Rightarrow> expr_adts e
      | KBorrow _ e \<Rightarrow> expr_adts e
      | _ \<Rightarrow> {})"
| "stmt_adts (SLet _ initializer) = (\<Union>e \<in> set_option initializer. expr_adts e)"
| "stmt_adts (SExpr e) = expr_adts e"
| "arm_adts (HArm pattern guard body) = pat_adts pattern \<union> (\<Union>e \<in> set_option guard. expr_adts e) \<union> expr_adts body"

text \<open>Sorting pairs by their keys does not look at the second components.\<close>

lemma sort_key_pairs: "sort_key fst (map (\<lambda>(i, e). (i, f e)) es) = map (\<lambda>(i, e). (i, f e)) (sort_key fst es)"
proof -
  have insert: "insort_key fst (i, f e) (map (\<lambda>(i, e). (i, f e)) es) = map (\<lambda>(i, e). (i, f e)) (insort_key fst (i, e) es)"
    for i e es
    by (induction es) auto
  show ?thesis
    by (induction es) (auto simp: insert)
qed

text \<open>The pure parts of the extraction of bodies have no fuel.\<close>

lemma fetch_fuel [simp]: "fetch_var dcx h \<noteq> Inl Out_of_fuel"
  by (simp add: fetch_var_def split: option.split)

lemma res_bind_fuel [simp]:
  "r \<noteq> Inl Out_of_fuel \<Longrightarrow> (\<And>a. f a \<noteq> Inl Out_of_fuel) \<Longrightarrow> res_bind r f \<noteq> Inl Out_of_fuel"
  by (cases r) auto

lemma try_pattern_fuel: "try_pattern_to_var dcx p allowed \<noteq> Inl Out_of_fuel"
  by (induction dcx p allowed rule: try_pattern_to_var.induct)
    auto

lemma literal_fuel [simp]: "Literal_try_from cx konst \<noteq> Inl Out_of_fuel"
  by (auto simp: Literal_try_from_def split: Ty.split option.split list.split)

lemma looks_like_if_fuel: "looks_like_if env m arms \<noteq> Inl Out_of_fuel"
proof -
  have "if_patterns env p q \<noteq> Inl Out_of_fuel" for p q
    by (simp add: if_patterns_def split: HPat.split)
  then show ?thesis
    unfolding looks_like_if_def Let_def by (intro res_bind_fuel) (simp_all split: HKind.split)
qed

section \<open>Bodies\<close>

text \<open>
  What the extraction of bodies relies on: two contexts of a body that differ in their fuel,
  for which the extraction of the types and data types of a set is steady.
\<close>

locale steady_types =
  fixes be be' :: BodyEnv and U :: "DefId set" and n :: nat
  assumes same_context: "be_env be' = be_env be" "be_txtcx be' = be_txtcx be" "be_dcx be' = be_dcx be"
    and ty_steady: "adts_in ty \<subseteq> U \<Longrightarrow> steady U n (body_ty be ty) (body_ty be' ty)"
    and adt_steady: "d \<in> U \<Longrightarrow> steady U n
      (extract_adt (be_env be) (be_fuel be) d) (extract_adt (be_env be) (be_fuel be') d)"
begin

lemma unsupported_steady [steady_intros]:
  "steady U n (unsupported_expr msg) (unsupported_expr msg)"
  "steady U n (unsupported_pattern msg) (unsupported_pattern msg)"
  "steady U n (get_at xs i) (get_at xs i)"
  unfolding unsupported_expr_def unsupported_pattern_def get_at_def by (auto intro!: steady_intros)

lemma arg_types_steady:
  assumes "args_adts substs \<subseteq> U"
  shows "steady U n (extract_arg_types be substs) (extract_arg_types be' substs)"
  unfolding extract_arg_types_def extract_tys_def extract_tys_with_def same_context
proof (intro steady_map_steps ty_steady [unfolded extract_ty_def same_context])
  fix ty
  assume "ty \<in> set (filter (\<lambda>ty. case ty of TClosure _ \<Rightarrow> False | _ \<Rightarrow> True) (subst_types substs))"
  then have "adts_in ty \<subseteq> args_adts substs"
    by (intro adts_in_subst_types) simp
  with assms show "adts_in ty \<subseteq> U"
    by blast
qed

lemma unary_steady:
  "steady U n arg arg' \<Longrightarrow> steady U n (extract_unary be op ty arg) (extract_unary be' op ty arg')"
  unfolding extract_unary_def Let_def same_context by (auto intro!: steady_intros split: UnOp.split)

lemma shift_steady: "steady U n (extract_shift be a b ty1 ty2 l) (extract_shift be' a b ty1 ty2 l)"
proof -
  have widen: "steady U n (widen_shift sg w1 w2 b fin) (widen_shift sg w1 w2 b fin)"
    if "\<And>x. steady U n (fin x) (fin x)" for sg w1 w2 b and fin :: "Expr \<Rightarrow> ExprRef"
    unfolding widen_shift_def using that by (auto intro!: steady_intros split: option.split)
  show ?thesis
    unfolding extract_shift_def Let_def same_context
    by (auto intro!: steady_intros widen split: Ty.split)
qed

lemma binary_steady:
  assumes "steady U n a a'" and "steady U n b b'"
  shows "steady U n (extract_binary be op ty1 ty2 a b) (extract_binary be' op ty1 ty2 a' b')"
  unfolding extract_binary_def Let_def using assms
  by (intro steady_binds; cases op; simp only: BinOp.case; intro steady_intros shift_steady unsupported_steady)

lemma logical_steady:
  "steady U n a a' \<Longrightarrow> steady U n b b' \<Longrightarrow>
    steady U n (extract_logical_op op ty1 ty2 a b) (extract_logical_op op ty1 ty2 a' b')"
  unfolding extract_logical_op_def by (intro steady_intros)

lemma refs_steady [steady_intros]: "list_all2 (steady U n) ms ms' \<Longrightarrow> steady U n (extract_expr_refs ms) (extract_expr_refs ms')"
  unfolding extract_expr_refs_def by (induction ms ms' rule: list_all2_induct) (auto intro!: steady_intros)

lemma tuple_steady: "list_all2 (steady U n) ms ms' \<Longrightarrow> steady U n (extract_tuple ms) (extract_tuple ms')"
  unfolding extract_tuple_def
  by (auto dest: list_all2_lengthD intro!: steady_intros refs_steady unsupported_steady)

lemma field_steady:
  assumes "adts_in ty \<subseteq> U" and "steady U n m m'"
  shows "steady U n (extract_field be ty m index) (extract_field be' ty m' index)"
proof -
  have add: "i32_add b i j \<noteq> Inl Out_of_fuel" for b i j
    by (auto simp: i32_add_def)
  show ?thesis
    using assms
    by (cases ty) (auto simp: extract_field_def same_context(1)
        intro!: steady_intros unsupported_steady adt_steady steady_lift add)
qed

lemma sorted_fields_steady:
  assumes "\<And>i e. (i, e) \<in> set es \<Longrightarrow> steady U n (f e) (f' e)"
  shows "steady U n (map_steps snd (sort_key fst (map (\<lambda>(i, e). (i, f e)) es)))
    (map_steps snd (sort_key fst (map (\<lambda>(i, e). (i, f' e)) es)))"
proof -
  have "steady U n (map_steps snd (map (\<lambda>(i, e). (i, f e)) es')) (map_steps snd (map (\<lambda>(i, e). (i, f' e)) es'))"
    if "set es' \<subseteq> set es" for es'
    using that assms by (induction es') (auto intro!: steady_intros)
  then show ?thesis
    by (simp add: sort_key_pairs)
qed

lemma adt_construction_steady:
  assumes "d \<in> U" and "args_adts substs \<subseteq> U" and "\<And>i e. (i, e) \<in> set es \<Longrightarrow> steady U n (f e) (f' e)"
  shows "steady U n (extract_adt_construction be d vi substs (map (\<lambda>(i, e). (i, f e)) es) b)
    (extract_adt_construction be' d vi substs (map (\<lambda>(i, e). (i, f' e)) es) b)"
  unfolding extract_adt_construction_def same_context
  by (intro steady_intros unsupported_steady adt_steady arg_types_steady sorted_fields_steady assms)

lemma panic_steady:
  "list_all2 (steady U n) ms ms' \<Longrightarrow> steady U n (extract_panic ms b) (extract_panic ms' b)"
proof -
  assume ms: "list_all2 (steady U n) ms ms'"
  have first: "steady U n (bind (get_at ms 0) (\<lambda>arg. bind arg f)) (bind (get_at ms' 0) (\<lambda>arg. bind arg f))"
    if "\<And>a. steady U n (f a) (f a)" for f :: "Expr \<Rightarrow> ExprRef"
    using ms that by (cases ms; cases ms') (auto simp: get_at_def bind_def [of "ret _"] bind_def [of "panic _"]
        intro!: steady_intros steady_simple [unfolded panic_def])
  show ?thesis
    unfolding extract_panic_def list_all2_lengthD [OF ms]
    by (rule steady_binds [OF steady_simple(6)], rule steady_cases(1), rule unsupported_steady(1),
        rule first, rule steady_simple(1))
qed

lemma set_creation_steady:
  assumes "list_all2 (steady U n) ms ms'" and "args_adts substs \<subseteq> U"
  shows "steady U n (extract_set_creation be ms substs) (extract_set_creation be' ms' substs)"
proof -
  have "type_at substs 0 \<noteq> Inl Out_of_fuel"
    by (auto simp: type_at_def split: GenericArg.split)
  moreover have "adts_in ty \<subseteq> U" if "type_at substs 0 = Inr ty" for ty
    using type_at_Inr [OF that] assms(2) by force
  ultimately show ?thesis
    unfolding extract_set_creation_def
    by (intro steady_binds refs_steady assms(1) steady_bind [OF steady_lift])
      (auto simp: lift_res_Inr_iff intro!: steady_intros ty_steady)
qed

lemma set_op_steady:
  "list_all2 (steady U n) ms ms' \<Longrightarrow> steady U n (extract_set_op item ms) (extract_set_op item ms')"
  unfolding extract_set_op_def
  by (intro steady_binds refs_steady) (auto intro!: steady_intros split: list.split StdItem.split)

lemma call_steady:
  assumes "list_all2 (steady U n) ms ms'" and "call_adts ty \<subseteq> U"
  shows "steady U n (extract_call be ty ms) (extract_call be' ty ms')"
proof (cases ty)
  case (TFnDef d substs)
  have "steady U n (case ms of arg # _ \<Rightarrow> arg | [] \<Rightarrow> panic e) (case ms' of arg # _ \<Rightarrow> arg | [] \<Rightarrow> panic e)" for e
    using assms(1) by (cases ms; cases ms') (auto intro: steady_intros)
  with assms show ?thesis
    by (auto simp: extract_call_def TFnDef call_adts_def same_context(1)
        intro!: steady_intros refs_steady arg_types_steady)
qed (auto simp: extract_call_def intro: unsupported_steady)

lemma call_like_steady:
  assumes "list_all2 (steady U n) ms ms'" and "call_adts ty \<subseteq> U"
  shows "steady U n (extract_call_like be ty ms) (extract_call_like be' ty ms')"
proof (cases ty)
  case (TFnDef d substs)
  with assms(2) have "args_adts substs \<subseteq> U"
    by (simp add: call_adts_def)
  then show ?thesis
    unfolding extract_call_like_def TFnDef Ty.case same_context(1)
    by (intro steady_cases panic_steady set_creation_steady set_op_steady call_steady assms
        assms(2) [unfolded TFnDef])
qed (use call_steady [OF assms] in \<open>auto simp: extract_call_like_def\<close>)

lemma subpatterns_steady:
  assumes "\<And>i p. (i, p) \<in> set ps \<Longrightarrow> steady U n (f p) (f' p)"
  shows "steady U n (extract_subpatterns (map (\<lambda>(i, p). (i, f p)) ps) k)
    (extract_subpatterns (map (\<lambda>(i, p). (i, f' p)) ps) k)"
proof -
  have "steady U n (take_subpatterns i k (map (\<lambda>(i, p). (i, f p)) qs))
      (take_subpatterns i k (map (\<lambda>(i, p). (i, f' p)) qs))" if "set qs \<subseteq> set ps" for i k qs
    using that
  proof (induction k arbitrary: i qs)
    case (Suc k)
    then show ?case
      using assms by (cases qs) (auto intro!: steady_intros simp: Suc.IH [where qs = "(_, _) # _", simplified]
          Suc.IH [where qs = "[]", simplified])
  qed (simp add: steady_intros)
  then show ?thesis
    by (simp add: extract_subpatterns_def sort_key_pairs)
qed

lemma adt_pattern_steady:
  assumes "args_adts substs \<subseteq> U" and "\<And>i p. (i, p) \<in> set ps \<Longrightarrow> steady U n (f p) (f' p)"
  shows "steady U n (extract_adt_pattern be c substs (map (\<lambda>(i, p). (i, f p)) ps) bnd)
    (extract_adt_pattern be' c substs (map (\<lambda>(i, p). (i, f' p)) ps) bnd)"
  unfolding extract_adt_pattern_def
  by (intro steady_intros arg_types_steady subpatterns_steady assms)

lemma pattern_steady:
  "b = be \<Longrightarrow> pat_adts p \<subseteq> U \<Longrightarrow> steady U n (extract_pattern b p bnd) (extract_pattern be' p bnd)"
proof (induction b p bnd rule: extract_pattern.induct)
  case (2 b mutability mode h sub bnd)
  then show ?case
    by (cases sub) (auto simp: same_context intro!: steady_intros unsupported_steady steady_lift try_pattern_fuel
        split: sum.split)
next
  case (3 b did vi substs ps bnd)
  have sub: "steady U n (extract_pattern be p None) (extract_pattern be' p None)" if "(i, p) \<in> set ps" for i p
  proof -
    have "pat_adts p \<subseteq> U"
      using that 3(3) by force
    with that 3(1) 3(2) show ?thesis by blast
  qed
  show ?case
    unfolding extract_pattern.simps same_context 3(2)
    using 3(3) by (intro steady_intros unsupported_steady adt_steady adt_pattern_steady sub) auto
next
  case (4 b ty ps bnd)
  have within: "pat_adts p \<subseteq> U" if "(i, p) \<in> set ps" for i p
    using that 4(4) by force
  show ?case
  proof (cases ty)
    case (TAdt d substs)
    have sub: "steady U n (extract_pattern be p None) (extract_pattern be' p None)" if "(i, p) \<in> set ps" for i p
      using 4(2) [OF TAdt that] 4(3) within [OF that] by blast
    show ?thesis
      using 4(3,4) by (auto simp: TAdt same_context intro!: steady_intros adt_steady adt_pattern_steady
          unsupported_steady sub)
  next
    case (TTuple tys)
    have sub: "steady U n (extract_pattern be p None) (extract_pattern be' p None)" if "(i, p) \<in> set ps" for i p
      using 4(1) [OF TTuple that] 4(3) within [OF that] by blast
    show ?thesis
      using 4(3) by (auto simp: TTuple intro!: steady_intros subpatterns_steady sub)
  qed (auto intro: unsupported_steady)
next
  case (5 b konst bnd)
  then show ?case
    by (auto simp: same_context intro!: steady_intros unsupported_steady steady_lift literal_fuel split: option.split)
qed (auto intro!: steady_intros unsupported_steady)

lemma if_steady:
  assumes "steady U n c c'" and "steady U n t t'" and "rel_option (steady U n) e e'"
  shows "steady U n (extract_if c t e) (extract_if c' t' e')"
  unfolding extract_if_def using assms
  by (intro steady_binds; cases e; cases e') (auto intro: steady_intros)

lemma arm_steady:
  assumes "pat_adts p \<subseteq> U" and "rel_option (steady U n) g g'" and "steady U n b b'"
  shows "steady U n (extract_arm be p g b) (extract_arm be' p g' b')"
  unfolding extract_arm_def option_step_def using assms
  by (intro steady_binds pattern_steady; cases g; cases g') (auto intro!: steady_intros)

lemma match_steady:
  assumes "steady U n m m'" and "list_all2 (steady U n) arms arms'"
  shows "steady U n (extract_match m arms) (extract_match m' arms')"
proof -
  have "steady U n (map_steps (\<lambda>arm. arm) arms) (map_steps (\<lambda>arm. arm) arms')"
    using assms(2) by (induction arms arms' rule: list_all2_induct) (auto intro!: steady_intros)
  with assms(1) show ?thesis
    unfolding extract_match_def by (intro steady_binds steady_simple(1))
qed

fun stmt_steady :: "StmtRef \<Rightarrow> StmtRef \<Rightarrow> bool" where
  "stmt_steady (Let_ref p m) (Let_ref p' m') \<longleftrightarrow> p = p' \<and> rel_option (steady U n) m m'"
| "stmt_steady (Expr_ref m) (Expr_ref m') \<longleftrightarrow> steady U n m m'"
| "stmt_steady _ _ \<longleftrightarrow> False"

lemma stmts_steady:
  "list_all2 stmt_steady sts sts' \<Longrightarrow> steady U n (extract_stmts be sts acc e) (extract_stmts be' sts' acc e)"
proof (induction sts sts' arbitrary: acc rule: list_all2_induct)
  case (Cons st sts st' sts')
  have bail: "steady U n (bail acc msg) (bail acc msg)" for msg
    unfolding bail_def by (intro steady_intros)
  show ?case
  proof (cases st)
    case (Let_ref p m)
    with Cons(1) obtain m' where st': "st' = Let_ref p m'" and m: "rel_option (steady U n) m m'"
      by (cases st') auto
    from m show ?thesis
      by (cases m; cases m') (auto simp: Let_ref st' same_context intro!: steady_intros steady_lift try_pattern_fuel
          bail Cons.IH split: sum.split)
  next
    case (Expr_ref m)
    with Cons(1) obtain m' where "st' = Expr_ref m'" "steady U n m m'"
      by (cases st') auto
    with Expr_ref Cons.IH show ?thesis
      by (auto intro!: steady_intros)
  qed
qed (simp add: steady_intros)

lemma block_steady:
  assumes "list_all2 stmt_steady sts sts'" and "rel_option (steady U n) e e'"
  shows "steady U n (extract_block be sts e) (extract_block be' sts' e')"
  unfolding extract_block_def using assms(2)
  by (intro steady_binds stmts_steady [OF assms(1)]; cases e; cases e') (auto intro: steady_intros)

text \<open>A match that looks like a conditional: its arms are the branches.\<close>

lemma two_arms_steady:
  assumes "steady U n c c'" and "list_all2 (steady U n) ms ms'"
  shows "steady U n
    (case ms of [thn, elze] \<Rightarrow> extract_if c thn (if has_elze then Some elze else None) | _ \<Rightarrow> panic e)
    (case ms' of [thn, elze] \<Rightarrow> extract_if c' thn (if has_elze then Some elze else None) | _ \<Rightarrow> panic e)"
  using assms
  by (auto simp: list_all2_Cons1 intro!: if_steady steady_intros split: list.split)

lemma match_kind_steady:
  assumes "steady U n (extract_expr be m) (extract_expr be' m)"
    and "list_all2 (steady U n) (map (arm_ref be) arms) (map (arm_ref be') arms)"
    and "list_all2 (steady U n) (map (\<lambda>arm. case arm of HArm _ _ body \<Rightarrow> extract_expr be body) arms)
      (map (\<lambda>arm. case arm of HArm _ _ body \<Rightarrow> extract_expr be' body) arms)"
  shows "steady U n (extract_expr be (HExpr ty (KMatch m arms))) (extract_expr be' (HExpr ty (KMatch m arms)))"
  unfolding extract_expr.simps HKind.case same_context
  by (intro steady_binds steady_lift looks_like_if_fuel steady_cases two_arms_steady match_steady assms)

lemma expr_steady:
  "b = be \<Longrightarrow> expr_adts e \<subseteq> U \<Longrightarrow> steady U n (extract_expr b e) (extract_expr be' e)"
  "b = be \<Longrightarrow> stmt_adts st \<subseteq> U \<Longrightarrow> stmt_steady (stmt_ref b st) (stmt_ref be' st)"
  "b = be \<Longrightarrow> arm_adts arm \<subseteq> U \<Longrightarrow> steady U n (arm_ref b arm) (arm_ref be' arm)"
proof (induction b e and b st and b arm rule: extract_expr_stmt_ref_arm_ref.induct)
  case (1 b ty kind)
  have b: "b = be"
    using 1 by simp
  show ?case
  proof (cases kind)
    case (KLiteral k)
    show ?thesis
      by (auto simp: KLiteral b same_context intro!: steady_intros steady_lift literal_fuel unsupported_steady
          split: option.split)
  next
    case (KTuple es)
    then show ?thesis
      using 1 by (auto intro!: tuple_steady simp: list_all2_map1 list_all2_map2 list_all2_same UN_subset_iff)
  next
    case (KCall fty es)
    then show ?thesis
      using 1 by (auto intro!: call_like_steady simp: list_all2_map1 list_all2_map2 list_all2_same UN_subset_iff)
  next
    case (KAdt d vi ss fs has_base)
    have "expr_adts e \<subseteq> U" if "(i, e) \<in> set fs" for i e
      using that 1 KAdt by force
    with KAdt show ?thesis
      using 1 by (auto intro!: adt_construction_steady)
  next
    case (KBlock block)
    then show ?thesis
      using 1 by (cases block; cases "hb_expr block")
        (auto intro!: block_steady unsupported_steady simp: list_all2_map1 list_all2_map2 list_all2_same UN_subset_iff)
  next
    case (KMatch m arms)
    have m: "steady U n (extract_expr be m) (extract_expr be' m)"
      using 1 KMatch by simp
    have arms: "list_all2 (steady U n) (map (arm_ref be) arms) (map (arm_ref be') arms)"
      using 1 KMatch by (auto simp: list_all2_map1 list_all2_map2 list_all2_same UN_subset_iff)
    have bodies: "list_all2 (steady U n) (map (\<lambda>arm. case arm of HArm _ _ body \<Rightarrow> extract_expr be body) arms)
        (map (\<lambda>arm. case arm of HArm _ _ body \<Rightarrow> extract_expr be' body) arms)"
      using 1 KMatch by (auto simp: list_all2_map1 list_all2_map2 list_all2_same UN_subset_iff split: HArm.split)
    from match_kind_steady [OF m arms bodies] show ?thesis
      by (simp only: KMatch b)
  next
    case (KVarRef h)
    show ?thesis
      by (auto simp: KVarRef b same_context intro!: steady_intros steady_lift)
  qed (use 1 in \<open>auto simp: same_context intro!: unary_steady binary_steady logical_steady field_steady unsupported_steady\<close>)
next
  case (2 b p init)
  then show ?case
    by (cases init) auto
next
  case (4 b p g body)
  then show ?case
    by (cases g) (auto intro!: arm_steady)
qed auto

end

interpretation bodies: steady_types "be\<lparr>be_fuel := Suc n\<rparr>" "be\<lparr>be_fuel := Suc n + k\<rparr>" "reach (be_env be) U" n
  for be n k U
  by unfold_locales (simp_all add: steady_ty [OF reach_closed(2), simplified] steady_adt [OF reach_closed(2), simplified])

end
