(* ===== verification/Krate_Fuel.thy ===== *)
theory Krate_Fuel
  imports Body_Fuel Krate_Results
begin

text \<open>
  The extraction of a crate ends: when the data types that the crate can reach lie in a
  finite set, fuel above the size of this set is enough for the whole crate, and more fuel
  does not change what is extracted.
\<close>

section \<open>The data types of a crate\<close>

definition item_adts :: "ItemLike list \<Rightarrow> DefId set" where
  "item_adts items = {item_def_id item |item. An_item item \<in> set items \<and> item_kind item \<in> {ItEnum, ItStruct}}"

definition body_within :: "DefId set \<Rightarrow> Body \<Rightarrow> bool" where
  "body_within U body \<longleftrightarrow> binders_within U body \<and> expr_adts (body_value body) \<subseteq> U"

text \<open>
  The set contains the data types of the items, and of every body, signature and predicate
  of the program; and the definitions nest to a finite depth.
\<close>

definition sigs_within :: "Env \<Rightarrow> DefId set \<Rightarrow> bool" where
  "sigs_within env U \<longleftrightarrow> (\<forall>d.
     (\<forall>ty \<in> set (snd (fn_sig (tcx env) d) # fst (fn_sig (tcx env) d)). adts_in ty \<subseteq> U) \<and>
     (\<forall>p \<in> set (predicates_of (tcx env) d). predicate_adts p \<subseteq> U) \<and>
     all_generic_params_of (tcx env) d \<noteq> None)"

definition crate_within :: "KrateEnv \<Rightarrow> DefId set \<Rightarrow> bool" where
  "crate_within ke U \<longleftrightarrow> finite U \<and> closed_adts (k_env ke) U \<and> item_adts (k_items ke) \<subseteq> U \<and>
     sigs_within (k_env ke) U \<and>
     (\<forall>h body. k_body ke h = Some body \<longrightarrow> body_within U body) \<and>
     (\<forall>h ty. k_output ke h = Some ty \<longrightarrow> adts_in ty \<subseteq> U)"

abbreviation more_fuel :: "nat \<Rightarrow> KrateEnv \<Rightarrow> KrateEnv" where
  "more_fuel k ke \<equiv> ke\<lparr>k_fuel := k_fuel ke + k\<rparr>"

lemma more_fuel_simps:
  "k_env (more_fuel k ke) = k_env ke" "k_fuel (more_fuel k ke) = k_fuel ke + k" "k_items (more_fuel k ke) = k_items ke"
  "k_body (more_fuel k ke) = k_body ke" "k_output (more_fuel k ke) = k_output ke"
  "values_order (more_fuel k ke) = values_order ke" "refs_order (more_fuel k ke) = refs_order ke"
  by simp_all

section \<open>Functions\<close>

lemma steady_enter_body:
  "(\<And>body. k_body ke h = Some body \<Longrightarrow> steady U n (f body DefContext_new) (f' body DefContext_new)) \<Longrightarrow>
    steady U n (enter_body ke h f) (enter_body (more_fuel k ke) h f')"
  by (auto simp: enter_body_def intro!: steady_intros split: option.split)

lemma steady_body_expr:
  assumes "crate_within ke U" and "k_fuel ke = Suc n" and "expr_adts e \<subseteq> U"
  shows "steady U n (extract_expr (body_env ke txtcx dcx) e) (extract_expr (body_env (more_fuel k ke) txtcx dcx) e)"
proof -
  have "reach (k_env ke) U = U"
    using assms(1) by (simp add: crate_within_def reach_def)
  with bodies.expr_steady(1) [OF refl, where be = "body_env ke txtcx dcx" and e = e and U = U and n = n and k = k] assms(2,3) show ?thesis
    by (simp add: body_env_def)
qed

lemma steady_add_vars: "steady U n (add_vars vs dcx) (add_vars vs dcx)"
  by (induction vs dcx rule: add_vars.induct) (auto intro!: steady_intros)

lemma steady_spec_context: "steady U n (spec_context body params rv dcx) (spec_context body params rv dcx)"
  unfolding spec_context_def Let_def by (intro steady_intros steady_add_vars)

lemma steady_correlate: "steady U n (correlate_tparams original ps) (correlate_tparams original ps)"
  unfolding correlate_tparams_def by (intro steady_intros)

lemma steady_with_measure: "steady U n (with_measure spec e) (with_measure spec e)"
  by (cases spec) (auto simp: with_measure_def intro!: steady_intros split: Expr.split)

lemma steady_extern_params:
  assumes "closed_adts env U"
  shows "\<forall>ty \<in> set tys. adts_in ty \<subseteq> U \<Longrightarrow>
    steady U n (extern_params env (Suc n) txtcx i tys) (extern_params env (Suc n + k) txtcx i tys)"
  by (induction tys arbitrary: i) (auto intro!: steady_intros steady_ty [OF assms, simplified])

lemma steady_crate_generics:
  assumes "crate_within ke U" and "k_fuel ke = Suc n"
  shows "steady U n (extract_generics (k_env ke) (k_fuel ke) d) (extract_generics (k_env ke) (k_fuel ke + k) d)"
  unfolding assms(2) using assms(1) by (intro steady_generics) (auto simp: crate_within_def sigs_within_def)

lemma steady_crate_ty:
  assumes "crate_within ke U" and "k_fuel ke = Suc n" and "adts_in ty \<subseteq> U"
  shows "steady U n (extract_ty (k_env ke) (k_fuel ke) txtcx ty) (extract_ty (k_env ke) (k_fuel ke + k) txtcx ty)"
  unfolding assms(2) using assms(1,3) by (intro steady_ty) (simp add: crate_within_def)

lemma steady_extern_fn:
  assumes "crate_within ke U" and "k_fuel ke = Suc n"
  shows "steady U n (extract_extern_fn ke d) (extract_extern_fn (more_fuel k ke) d)"
proof -
  have sig: "\<forall>ty \<in> set (fst (fn_sig (tcx (k_env ke)) d)). adts_in ty \<subseteq> U" "adts_in (snd (fn_sig (tcx (k_env ke)) d)) \<subseteq> U"
    and closed: "closed_adts (k_env ke) U"
    using assms(1) by (simp_all add: crate_within_def sigs_within_def)
  have params: "steady U n (extern_params (k_env ke) (k_fuel ke) txtcx 0 (fst (fn_sig (tcx (k_env ke)) d)))
      (extern_params (k_env ke) (k_fuel ke + k) txtcx 0 (fst (fn_sig (tcx (k_env ke)) d)))" for txtcx
    unfolding assms(2) by (rule steady_extern_params [OF closed sig(1)])
  show ?thesis
    unfolding extract_extern_fn_def Let_def more_fuel_simps
    by (intro steady_intros steady_crate_generics [OF assms] params steady_crate_ty [OF assms sig(2)])
qed

lemma steady_crate_populate:
  assumes "crate_within ke U" and "k_fuel ke = Suc n" and "k_body ke h = Some body"
  shows "steady U n (populate_def_context (k_env ke) (k_fuel ke) txtcx body fm dcx)
    (populate_def_context (k_env ke) (k_fuel ke + k) txtcx body fm dcx)"
  unfolding assms(2) using assms(1,3) by (intro steady_populate) (auto simp: crate_within_def body_within_def)

lemma crate_bodies:
  "crate_within ke U \<Longrightarrow> k_body ke h = Some body \<Longrightarrow> expr_adts (body_value body) \<subseteq> U"
  by (auto simp: crate_within_def body_within_def)

lemma steady_spec_fn:
  assumes "crate_within ke U" and "k_fuel ke = Suc n"
  shows "steady U n (extract_spec_fn ke otx params rv d) (extract_spec_fn (more_fuel k ke) otx params rv d)"
proof -
  have "all_generic_params_of (tcx (k_env ke)) d \<noteq> None"
    using assms(1) by (simp add: crate_within_def sigs_within_def)
  then show ?thesis
    unfolding extract_spec_fn_def Let_def more_fuel_simps
    by (clarsimp, intro steady_intros steady_correlate steady_enter_body steady_spec_context)
      (auto intro!: steady_intros steady_crate_populate [OF assms] steady_body_expr [OF assms] dest: crate_bodies [OF assms(1)])
qed

lemma steady_signature_and_body:
  assumes "crate_within ke U" and "k_fuel ke = Suc n"
  shows "steady U n (extract_signature_and_body ke h txtcx fm) (extract_signature_and_body (more_fuel k ke) h txtcx fm)"
proof -
  have out_ty: "adts_in ty \<subseteq> U" if "k_output ke h = Some ty" for ty
    using assms(1) that by (auto simp: crate_within_def)
  show ?thesis
    unfolding extract_signature_and_body_def more_fuel_simps
    by (intro steady_intros steady_enter_body steady_crate_populate [OF assms] steady_crate_ty [OF assms] out_ty
        steady_body_expr [OF assms] crate_bodies [OF assms(1)] steady_lift fetch_fuel)
qed

lemma steady_local_fn:
  assumes "crate_within ke U" and "k_fuel ke = Suc n"
  shows "steady U n (extract_local_fn ke d pres posts m) (extract_local_fn (more_fuel k ke) d pres posts m)"
  unfolding extract_local_fn_def Let_def more_fuel_simps
  by (intro steady_intros steady_crate_generics [OF assms] steady_signature_and_body [OF assms]
      steady_spec_fn [OF assms] steady_with_measure)

section \<open>Crates\<close>

lemma steady_results [steady_intros]:
  "steady U n (on_xtor (add_adt i adt)) (on_xtor (add_adt i adt))"
  "steady U n (on_xtor (add_function i fd)) (on_xtor (add_function i fd))"
  unfolding steady_def
  by (auto intro!: fuel_okI simp: approx_refl on_xtor_def add_adt_def add_function_def res_bind_def
      split: sum.splits if_splits)

lemma steady_process:
  assumes "crate_within ke U" and "k_fuel ke = Suc n"
  shows "steady U n (process_fn ke iv item) (process_fn (more_fuel k ke) iv item)"
    and "steady U n (process_extern ke d) (process_extern (more_fuel k ke) d)"
    and "d \<in> U \<Longrightarrow> steady U n (process_adt ke d) (process_adt (more_fuel k ke) d)"
proof -
  show "steady U n (process_fn ke iv item) (process_fn (more_fuel k ke) iv item)"
    unfolding process_fn_def Let_def case_prod_beta
    by (intro steady_intros steady_local_fn [OF assms])
  show "steady U n (process_extern ke d) (process_extern (more_fuel k ke) d)"
    unfolding process_extern_def by (intro steady_intros steady_extern_fn [OF assms])
  have "closed_adts (k_env ke) U"
    using assms(1) by (simp add: crate_within_def)
  then show "d \<in> U \<Longrightarrow> steady U n (process_adt ke d) (process_adt (more_fuel k ke) d)"
    unfolding process_adt_def more_fuel_simps by (intro steady_intros) (simp add: assms(2) steady_adt [simplified])
qed

lemma steady_visit_all: "steady U n (visit_all ke items iv) (visit_all (more_fuel k ke) items iv)"
proof (induction ke items iv rule: visit_all.induct)
  case (2 ke item rest iv)
  have "visit_item (more_fuel k ke) item = visit_item ke item"
    unfolding visit_item_def visit_impl_def more_fuel_simps ..
  moreover have "steady U n (visit_item ke item iv) (visit_item ke item iv)"
    by (auto simp: visit_item_def intro!: steady_intros split: ItemKind.split)
  ultimately show ?case
    using 2 by (auto intro: steady_binds)
qed (auto simp: visit_trait_item_def visit_impl_item_def intro!: steady_intros)

lemma visited_adts:
  "visit_all ke items iv s = Inr (iv', t) \<Longrightarrow> set (iv_adts iv') \<subseteq> set (iv_adts iv) \<union> item_adts items"
proof (induction ke items iv arbitrary: s rule: visit_all.induct)
  case (2 ke item rest iv)
  have fold: "iv_adts (fold f xs iv) = iv_adts iv" if "\<And>x iv. iv_adts (f x iv) = iv_adts iv" for f xs and iv :: ItemVisitor
    using that by (induction xs arbitrary: iv) auto
  have push: "iv_adts (push_spec d x iv) = iv_adts iv" for d x iv
    by (simp add: push_spec_def Let_def)
  have "iv_adts (visit_impl ke items iv) = iv_adts iv" for items iv
    by (simp add: visit_impl_def Let_def fold push split: option.split)
  moreover have "iv_adts (visit_fn env fi iv) = iv_adts iv" for env fi iv
    by (simp add: visit_fn_def push split: option.split)
  ultimately have "set (iv_adts iv1) \<subseteq> set (iv_adts iv) \<union> item_adts [An_item item]"
    if "visit_item ke item iv s = Inr (iv1, u)" for iv1 s u
    using that by (auto simp: visit_item_def item_adts_def bind_Inr_iff split: if_splits ItemKind.splits)
  moreover have "item_adts (An_item item # rest) = item_adts [An_item item] \<union> item_adts rest"
    by (auto simp: item_adts_def)
  ultimately show ?case
    using 2 by (fastforce simp: bind_Inr_iff)
qed (auto simp: visit_trait_item_def visit_impl_item_def item_adts_def bind_Inr_iff split: if_splits)

lemma steady_crate:
  assumes "crate_within ke U" and "k_fuel ke = Suc n"
  shows "steady U n (process_crate ke) (process_crate (more_fuel k ke))"
proof -
  let ?start = "\<lparr>iv_adts = [], iv_functions = [], iv_specs = Map.empty\<rparr>"
  have adts: "steady U n (map_steps (process_adt ke) (iv_adts iv)) (map_steps (process_adt (more_fuel k ke)) (iv_adts iv))"
    if "visit_all ke (k_items ke) ?start s = Inr (iv, t)" for iv s t
    using visited_adts [OF that] assms(1)
    by (intro steady_map_steps steady_process [OF assms]) (auto simp: crate_within_def)
  have external: "steady U n (\<lambda>s. Inr (external_functions ke s, s)) (\<lambda>s. Inr (external_functions (more_fuel k ke) s, s))"
    unfolding external_functions_def more_fuel_simps
    by (rule steady_same) (auto simp: runs_def intro: fuel_okI)
  show ?thesis
    unfolding process_crate_def more_fuel_simps
    by (rule steady_bind [OF steady_visit_all], rule steady_bind [OF adts], assumption)
      (intro steady_intros steady_process [OF assms] external)
qed

text \<open>The standard items are collected without fuel.\<close>

lemma scan_crate_fuel: "scan_crate cs cnum items index this \<noteq> Inl Out_of_fuel"
proof (induction cs cnum items index this rule: scan_crate.induct)
  case (1 cs cnum items index this)
  then show ?case
    by (subst scan_crate.simps) (auto simp: Let_def split: option.split)
qed

lemma collect_fuel: "StdItems_collect cs \<noteq> Inl Out_of_fuel"
  unfolding StdItems_collect_eq using scan_crate_fuel
  by (intro res_bind_fuel) (auto split: option.split)

section \<open>A crate with a recursive data type\<close>

text \<open>The crate \<open>m\<close> with the \<open>struct Node\<close>, compiled against a complete standard library.\<close>

definition node_krate :: KrateEnv where
  "node_krate = \<lparr>k_env = sample_env\<lparr>tcx := sample_tcx\<lparr>crates := crates sample_store,
       crate_name := crate_name sample_store, num_defs := num_defs sample_store, def_name := def_name sample_store,
       require_lang_item := require_lang_item sample_store\<rparr>\<rparr>, k_fuel = 3,
     k_items = [An_item \<lparr>item_ident = Ident_from_str ''Node'', item_kind = ItStruct, item_def_id = local_def 3,
       item_from_expansion = False\<rparr>],
     k_body = (\<lambda>_. None), k_output = (\<lambda>_. None), values_order = (\<lambda>fs. fs), refs_order = (\<lambda>_. [])\<rparr>"

lemma node_krate_items: "\<exists>items. StdItems_collect (crate_store.truncate (tcx (k_env node_krate))) = Inr items"
proof -
  have "crate_store.truncate (tcx (k_env node_krate)) = sample_store"
    by (simp add: node_krate_def crate_store.truncate_def)
  then show ?thesis
    using StdItems_collect_total [of sample_store] sample_places by simp
qed

lemma node_krate_within: "crate_within node_krate {box_def, local_def 3}"
  by (auto simp: crate_within_def node_krate_def closed_adts_def sigs_within_def item_adts_def node_fields_def
      all_generic_params_of_def generics_chain.simps)

section \<open>Properties\<close>

text \<open>
  C35: The extraction of a crate ends. If the data types that a crate can reach lie in a finite
  set, then fuel above the size of the set is enough for all the recursion through types,
  data types, bodies, specifications and external functions: the extraction returns or
  panics as the program does, and more fuel gives the same outcome.
\<close>

theorem enough_fuel_for_crates:
  assumes "crate_within ke U" and "card U < k_fuel ke"
  shows "extract_crate ke \<noteq> Inl Out_of_fuel \<and> extract_crate (ke\<lparr>k_fuel := k_fuel ke + extra\<rparr>) = extract_crate ke"
proof (cases "StdItems_collect (crate_store.truncate (tcx (k_env ke)))")
  case (Inl e)
  then show ?thesis
    using collect_fuel by (auto simp: extract_crate_def res_bind_def)
next
  case (Inr items)
  define ke' where "ke' = ke\<lparr>k_env := (k_env ke)\<lparr>std_items := items\<rparr>\<rparr>"
  obtain n where n: "k_fuel ke' = Suc n" "card U \<le> n"
    using assms(2) by (cases "k_fuel ke") (auto simp: ke'_def)
  have within: "crate_within ke' U"
    using assms(1) by (simp add: ke'_def crate_within_def sigs_within_def closed_adts_def)
  let ?s = "\<lparr>xtor = Extraction_new, diags = []\<rparr>"
  have "card (U - dom (did_ids ?s)) \<le> n"
    using n(2) by (simp add: Extraction_new_def)
  moreover have "finite U"
    using assms(1) by (simp add: crate_within_def)
  ultimately have "process_crate ke' ?s \<noteq> Inl Out_of_fuel"
    and "process_crate (more_fuel extra ke') ?s = process_crate ke' ?s"
    using steadyD [OF steady_crate [OF within n(1)]] by blast+
  moreover have "ke\<lparr>k_fuel := k_fuel ke + extra, k_env := (k_env ke)\<lparr>std_items := items\<rparr>\<rparr> = more_fuel extra ke'"
    by (simp add: ke'_def)
  ultimately show ?thesis
    unfolding extract_crate_def more_fuel_simps Inr res_bind_simps ke'_def [symmetric]
    by (auto simp: res_bind_def split: sum.split prod.split)
qed

lemma enough_fuel_for_crates_witness:
  "(\<exists>items. StdItems_collect (crate_store.truncate (tcx (k_env node_krate))) = Inr items) \<and>
   extract_crate node_krate \<noteq> Inl Out_of_fuel \<and>
   extract_crate (node_krate\<lparr>k_fuel := 10\<rparr>) = extract_crate node_krate"
proof -
  have "card {box_def, local_def 3} < k_fuel node_krate"
    by (simp add: node_krate_def)
  moreover have "k_fuel node_krate + 7 = 10"
    by (simp add: node_krate_def)
  ultimately show ?thesis
    using enough_fuel_for_crates [OF node_krate_within, of 7] node_krate_items by simp
qed

end
