(* ===== verification/Spec2Isabelle.thy ===== *)
theory Spec2Isabelle
  imports Ast_Limits Pretty Ast_Nodes Frontend Cargo Spec_Discovery Krate_Mirror Krate_Fuel
begin

text \<open>
  A verification development for \<open>rust-stainless\<close>, the Rust front end of the Stainless
  verifier.

  \<^bold>\<open>The program.\<close> The attribute macros of \<open>libstainless_macros\<close> turn the specifications of a
  function into sibling functions with telling names. \<open>cargo stainless\<close> asks cargo how the
  crate is compiled and runs \<open>rustc_to_stainless\<close> that way: the Rust compiler with a callback
  after the analysis. The callback extracts the crate (\<open>stainless_extraction\<close>): it translates
  types, data types, functions and their specifications to the syntax tree of Stainless
  (\<open>stainless_data\<close>) and reports what it cannot translate as compilation errors. When there
  are none, the symbol table is serialized and exported, or sent to the Stainless process
  (\<open>stainless_backend\<close>), whose report is printed.

  \<^bold>\<open>The theories.\<close> Each component imports the ones that it calls.
  \<^item> \<open>Prelude\<close>, \<open>Strings\<close>, \<open>Process\<close>: faults, results, strings, numerals and paths of the Rust
    standard library; computations that can end early.
  \<^item> \<open>Ser\<close>, \<open>Wire\<close>, \<open>Serializable\<close>: \<open>ser.rs\<close> and \<open>ser/serializable.rs\<close>, with the contract
    \<open>serializable\<close> of every encoding (appending only, prefix free up to a view).
  \<^item> \<open>Ast\<close>, \<open>Ast_Ser\<close>, \<open>Ast_Limits\<close>, \<open>Ast_Nodes\<close>, \<open>Pretty\<close>: \<open>ast.rs\<close>, \<open>ast/generated.rs\<close> and
    \<open>ast/pretty.rs\<close>. The trees that the front end builds are data with recursive functions;
    the other nodes of the generated file are given with the actions of their children.
  \<^item> \<open>Symbols\<close>: the symbol table and the order in which it is written.
  \<^item> \<open>Spec_Macros\<close>: \<open>libstainless_macros\<close> and \<open>spec.rs\<close>, the two ends of the naming scheme
    of specifications. \<open>Flags\<close>: \<open>flags.rs\<close>.
  \<^item> \<open>Extraction_State\<close>: the counters, mappings and results of \<open>lib.rs\<close> and \<open>utils.rs\<close>.
    \<open>Std_Items\<close>: \<open>std_items.rs\<close>. \<open>Session\<close>: the compiler's queries as the record \<open>TyCtxt\<close>,
    the state \<open>Session\<close> (extraction and diagnostics) and the steps over it.
  \<^item> \<open>Types\<close>, \<open>Type_Spec\<close>, \<open>Type_Fuel\<close>: \<open>ty.rs\<close> and the data types of \<open>krate.rs\<close>.
  \<^item> \<open>Literals\<close>, \<open>Hair\<close>, \<open>Bindings\<close>, \<open>Exprs\<close>, \<open>Triples\<close>, \<open>Expr_Spec\<close>, \<open>Body_Spec\<close>,
    \<open>Body_Shape\<close>: \<open>literal.rs\<close>, \<open>bindings.rs\<close> and \<open>expr.rs\<close>, the bodies of functions.
  \<^item> \<open>Krate\<close>, \<open>Krate_Spec\<close>, \<open>Krate_Results\<close>: the rest of \<open>krate.rs\<close>, from the discovery of
    the items to the symbol table (\<open>extract_crate\<close>). \<open>Spec_Discovery\<close>: how the specifications
    written with the macros reach the functions they are written on. \<open>Krate_Mirror\<close>: what
    extracted functions and sorts have of their items. \<open>Steady\<close>, \<open>Body_Fuel\<close>,
    \<open>Krate_Fuel\<close>: the fuel of bodies and of crates.
  \<^item> \<open>Backend\<close>: \<open>stainless_backend\<close>. \<open>Frontend\<close>: \<open>stainless_frontend/src/lib.rs\<close> and
    \<open>rustc_to_stainless.rs\<close>. \<open>Cargo\<close>: \<open>cargo-stainless.rs\<close>.

  \<^bold>\<open>Conventions.\<close> A panic (assertion, \<open>unwrap\<close>, \<open>expect\<close>, index, \<open>unreachable!\<close>) is a value,
  \<open>Inl (Panic msg)\<close> or \<open>Panics msg\<close>; so is the overflow of a counter when overflow checks are
  on. \<open>i32\<close> and the like are words. Shared references are the values they point to, since
  the syntax tree is never changed. A hash map is a list of entries or a map with an
  iteration order as a parameter; the theorems hold for every order. Spans are left out,
  and a diagnostic keeps its text up to debug output of compiler data.

  \<^bold>\<open>Parameters.\<close> Code outside the repository is never defined: the compiler (\<open>TyCtxt\<close>,
  \<open>KrateEnv\<close>, \<open>Compiler\<close>, the bodies as trees of \<open>Hair\<close>), the token parser \<open>syn\<close>,
  \<open>num_bigint\<close> (its two's complement bytes are injective: \<open>big_integers\<close>), \<open>char::is_numeric\<close>
  (documented on ASCII: \<open>numeric_strings\<close>), \<open>serde_json\<close>, \<open>tempfile\<close> (new files are new:
  \<open>temp_fresh\<close>), cargo and Stainless themselves.

  \<^bold>\<open>What is shown.\<close>
  \<^item> The wire format: the bytes of a symbol table determine it up to display names, whatever
    follows; they depend on no iteration order; serialization fails exactly for vectors
    that are too long; the first byte of a node tells its variant, but for one pair.
  \<^item> Names: the macros' names are read back by the extraction; all ids created in a run
    differ; registered ids distinguish their definitions; annotations and standard items
    are recognised.
  \<^item> Types and bodies: the extraction implements a translation without state; without
    reported errors nothing is missing in types, bodies and data types; variables are bound,
    called functions have one definition; blocks, patterns, conditionals, shifts and integer
    literals have the intended shape.
  \<^item> Crates and programs: sorts mirror the variants and fields of their data types, functions
    the parameters, types and contracts of their items; results are complete without errors, called functions are
    extracted or stubbed; every specification that is written reaches its function and speaks
    about the parameters of this function; the extraction of a crate ends; only complete
    programs leave the front end, and failing runs leave no files.

  \<^bold>\<open>Bounds.\<close> The recursion through data types has fuel, and \<open>Type_Fuel\<close> shows that the
  number of data types that can be reached and are not registered yet is enough for types.
  For a crate, \<open>Krate_Fuel\<close> shows that fuel above the number of data types that its items,
  bodies and signatures can reach is enough, and that more fuel changes nothing. Running out
  of fuel is the value \<open>Out_of_fuel\<close>, which is no outcome of the program. The walk up the parents of a
  definition is a \<open>partial_function\<close>: \<open>None\<close> stands for an infinite chain. Loops that have no
  bound in the source (the scan of a crate for standard items) are shown to end.
  \<open>wire_limit\<close> is \<open>2 ^ 32\<close>: the lengths of strings are written in 32 bits.

  \<^bold>\<open>Not modelled.\<close> Output to the error stream; the arena of \<open>Factory\<close>, whose functions are
  the constructors; \<open>Hash\<close> instances, which only choose iteration orders; the raw writes of
  floating-point numbers, which nothing calls; the formatting of durations; the parsing of
  the command line (\<open>clap\<close>); the program \<open>test-gen\<close>, which writes sample files for another
  repository; \<open>libstainless/lib.rs\<close>, whose bodies are all \<open>unimplemented!()\<close>; the tests, the
  demo crate and the scripts.
\<close>

end
